(* ===== verification/Prelude.thy ===== *)
theory Prelude
  imports Complex_Main "HOL-Library.List_Lexorder" "HOL-Library.Char_ord" "HOL-Library.Sublist"
    "HOL-Library.AList"
begin

text \<open>
  The ground shared by all components: exceptions as values, the two small monads the
  components are written in (\<open>res\<close> for pure checks that may raise, \<open>act\<close> for operations
  that also change a state), and the string methods of Python that the source uses.

  A Python \<open>str\<close> is a list of code points. The model keeps code points below 256, one
  \<^typ>\<open>char\<close> each, so \<open>length\<close> counts code points as \<open>len\<close> does.
\<close>

named_theorems res_simps \<open>inversion of the exception monad\<close>

section \<open>Exceptions\<close>

text \<open>
  \<open>GatewayError status code\<close> is the exception class of gateway.py (the message, which no
  control flow depends on, is the \<open>error_message\<close> of the theory \<open>Request\<close>); \<open>PyError cls\<close> is any other Python exception, by
  the name of its class: the handlers turn it into a 500 answer.
\<close>

datatype exn = GatewayError (status: nat) (code: string) | PyError (cls: string)

type_synonym 'a res = "exn + 'a"

definition bindE :: "'a res \<Rightarrow> ('a \<Rightarrow> 'b res) \<Rightarrow> 'b res" where
  "bindE m f = (case m of Inl e \<Rightarrow> Inl e | Inr x \<Rightarrow> f x)"

definition thenE :: "'a res \<Rightarrow> 'b res \<Rightarrow> 'b res" where
  "thenE m k = bindE m (\<lambda>_. k)"

definition raise_if :: "bool \<Rightarrow> exn \<Rightarrow> unit res" where
  "raise_if b e = (if b then Inl e else Inr ())"

fun mapE :: "('a \<Rightarrow> 'b res) \<Rightarrow> 'a list \<Rightarrow> 'b list res" where
  "mapE f [] = Inr []"
| "mapE f (x # xs) = bindE (f x) (\<lambda>y. bindE (mapE f xs) (\<lambda>ys. Inr (y # ys)))"

text \<open>\<open>for x in xs: f(x)\<close> where the body only raises.\<close>

fun forE :: "'a list \<Rightarrow> ('a \<Rightarrow> unit res) \<Rightarrow> unit res" where
  "forE [] f = Inr ()"
| "forE (x # xs) f = thenE (f x) (forE xs f)"

definition okE :: "'a res \<Rightarrow> bool" where
  "okE m = (\<exists>x. m = Inr x)"

lemma okE_simps [simp]: "okE (Inr x)" "\<not> okE (Inl e)"
  by (simp_all add: okE_def)

lemma bindE_simps [simp]: "bindE (Inl e) f = Inl e" "bindE (Inr x) f = f x"
  by (simp_all add: bindE_def)

lemma thenE_simps [simp]: "thenE (Inl e) k = Inl e" "thenE (Inr x) k = k"
  by (simp_all add: thenE_def)

lemma raise_if_simps [simp]: "raise_if True e = Inl e" "raise_if False e = Inr ()"
  by (simp_all add: raise_if_def)

lemma bindE_Inr [res_simps]: "bindE m f = Inr y \<longleftrightarrow> (\<exists>x. m = Inr x \<and> f x = Inr y)"
  by (cases m) auto

lemma bindE_Inl [res_simps]:
  "bindE m f = Inl e \<longleftrightarrow> m = Inl e \<or> (\<exists>x. m = Inr x \<and> f x = Inl e)"
  by (cases m) auto

lemma thenE_Inr [res_simps]: "thenE m k = Inr y \<longleftrightarrow> (\<exists>x. m = Inr x) \<and> k = Inr y"
  by (cases m) auto

lemma thenE_Inl [res_simps]:
  "thenE m k = Inl e \<longleftrightarrow> m = Inl e \<or> (\<exists>x. m = Inr x) \<and> k = Inl e"
  by (cases m) auto

lemma raise_if_Inr [res_simps]: "raise_if b e = Inr u \<longleftrightarrow> \<not> b"
  by (simp add: raise_if_def)

lemma raise_if_Inl [res_simps]: "raise_if b e = Inl e' \<longleftrightarrow> b \<and> e' = e"
  by (auto simp: raise_if_def)

lemma thenE_okE [simp]: "okE (thenE m k) \<longleftrightarrow> okE m \<and> okE k"
  by (cases m) auto

lemma okE_raise_if [simp]: "okE (raise_if b e) \<longleftrightarrow> \<not> b"
  by (simp add: raise_if_def)

lemma forE_Inr [res_simps]: "forE xs f = Inr u \<longleftrightarrow> (\<forall>x\<in>set xs. f x = Inr ())"
  by (induction xs) (auto simp: thenE_Inr)

lemma forE_Inl: "forE xs f = Inl e \<Longrightarrow> \<exists>x\<in>set xs. f x = Inl e"
  by (induction xs) (auto simp: thenE_Inl)

lemma mapE_Inr: "mapE f xs = Inr ys \<longleftrightarrow> list_all2 (\<lambda>x y. f x = Inr y) xs ys"
  by (induction xs arbitrary: ys) (auto simp: bindE_Inr list_all2_Cons1)

lemma mapE_cong [fundef_cong]:
  "xs = ys \<Longrightarrow> (\<And>x. x \<in> set ys \<Longrightarrow> f x = g x) \<Longrightarrow> mapE f xs = mapE g ys"
  by (induction xs arbitrary: ys) auto

lemma mapE_image: "mapE f xs = Inr ys \<Longrightarrow> x \<in> set xs \<Longrightarrow> \<exists>y\<in>set ys. f x = Inr y"
  by (induction xs arbitrary: ys) (auto simp: bindE_Inr)

lemma mapE_source: "mapE f xs = Inr ys \<Longrightarrow> y \<in> set ys \<Longrightarrow> \<exists>x\<in>set xs. f x = Inr y"
  by (induction xs arbitrary: ys) (auto simp: bindE_Inr)

lemma bindE_assoc: "bindE (bindE m f) g = bindE m (\<lambda>x. bindE (f x) g)"
  by (cases m) auto

section \<open>Operations on a state\<close>

text \<open>
  An operation returns or raises, and leaves a state behind in both cases: what was
  written before an exception stays written.
\<close>

type_synonym ('s, 'a) act = "'s \<Rightarrow> 'a res \<times> 's"

definition retA :: "'a \<Rightarrow> ('s, 'a) act" where
  "retA x = (\<lambda>s. (Inr x, s))"

definition liftA :: "'a res \<Rightarrow> ('s, 'a) act" where
  "liftA m = (\<lambda>s. (m, s))"

definition getsA :: "('s \<Rightarrow> 'a res) \<Rightarrow> ('s, 'a) act" where
  "getsA f = (\<lambda>s. (f s, s))"

definition modA :: "('s \<Rightarrow> 's) \<Rightarrow> ('s, unit) act" where
  "modA f = (\<lambda>s. (Inr (), f s))"

definition bindA :: "('s, 'a) act \<Rightarrow> ('a \<Rightarrow> ('s, 'b) act) \<Rightarrow> ('s, 'b) act" where
  "bindA m f = (\<lambda>s. case m s of (Inl e, t) \<Rightarrow> (Inl e, t) | (Inr x, t) \<Rightarrow> f x t)"

definition thenA :: "('s, 'a) act \<Rightarrow> ('s, 'b) act \<Rightarrow> ('s, 'b) act" where
  "thenA m k = bindA m (\<lambda>_. k)"

definition catchA :: "('s, 'a) act \<Rightarrow> (exn \<Rightarrow> ('s, 'a) act) \<Rightarrow> ('s, 'a) act" where
  "catchA m h = (\<lambda>s. case m s of (Inl e, t) \<Rightarrow> h e t | (Inr x, t) \<Rightarrow> (Inr x, t))"

lemma act_simps [simp]:
  "retA x s = (Inr x, s)" "liftA m s = (m, s)" "getsA f s = (f s, s)" "modA g s = (Inr (), g s)"
  by (simp_all add: retA_def liftA_def getsA_def modA_def)

lemma bindA_Inr [res_simps]:
  "bindA m f s = (Inr y, u) \<longleftrightarrow> (\<exists>x t. m s = (Inr x, t) \<and> f x t = (Inr y, u))"
  by (auto simp: bindA_def split: prod.splits sum.splits)

lemma bindA_Inl [res_simps]:
  "bindA m f s = (Inl e, u) \<longleftrightarrow>
     m s = (Inl e, u) \<or> (\<exists>x t. m s = (Inr x, t) \<and> f x t = (Inl e, u))"
  by (auto simp: bindA_def split: prod.splits sum.splits)

lemma thenA_Inr [res_simps]:
  "thenA m k s = (Inr y, u) \<longleftrightarrow> (\<exists>x t. m s = (Inr x, t) \<and> k t = (Inr y, u))"
  by (simp add: thenA_def bindA_Inr)

lemma thenA_Inl [res_simps]:
  "thenA m k s = (Inl e, u) \<longleftrightarrow>
     m s = (Inl e, u) \<or> (\<exists>x t. m s = (Inr x, t) \<and> k t = (Inl e, u))"
  by (simp add: thenA_def bindA_Inl)

lemma bindA_step [simp]: "m s = (Inr x, t) \<Longrightarrow> bindA m f s = f x t"
  "m s = (Inl e, t) \<Longrightarrow> bindA m f s = (Inl e, t)"
  by (simp_all add: bindA_def)

lemma thenA_step [simp]: "m s = (Inr x, t) \<Longrightarrow> thenA m k s = k t"
  "m s = (Inl e, t) \<Longrightarrow> thenA m k s = (Inl e, t)"
  by (simp_all add: thenA_def)

lemma catchA_step [simp]: "m s = (Inr x, t) \<Longrightarrow> catchA m h s = (Inr x, t)"
  "m s = (Inl e, t) \<Longrightarrow> catchA m h s = h e t"
  by (simp_all add: catchA_def)

text \<open>A relation between the states before and after that sequencing keeps.\<close>

definition stable :: "('s \<Rightarrow> 's \<Rightarrow> bool) \<Rightarrow> ('s, 'a) act \<Rightarrow> bool" where
  "stable R m \<longleftrightarrow> (\<forall>s. R s (snd (m s)))"

lemma stableD: "stable R m \<Longrightarrow> m s = (r, t) \<Longrightarrow> R s t"
  by (metis snd_conv stable_def)

lemma stable_pure [intro]:
  assumes "reflp R"
  shows "stable R (retA x)" "stable R (liftA m)" "stable R (getsA f)"
  using assms by (auto simp: stable_def reflp_def)

lemma stable_bindA [intro]:
  assumes "transp R" "stable R m" "\<And>x. stable R (f x)"
  shows "stable R (bindA m f)"
  unfolding stable_def
proof
  fix s
  obtain r t where m: "m s = (r, t)" by (cases "m s")
  show "R s (snd (bindA m f s))"
  proof (cases r)
    case (Inl e)
    with m assms(2) show ?thesis by (auto dest: stableD)
  next
    case (Inr x)
    from m assms(2) have "R s t" by (auto dest: stableD)
    moreover have "R t (snd (f x t))" using assms(3) by (simp add: stable_def)
    ultimately show ?thesis using m Inr assms(1) by (auto dest: transpD)
  qed
qed

lemma stable_thenA [intro]:
  "transp R \<Longrightarrow> stable R m \<Longrightarrow> stable R k \<Longrightarrow> stable R (thenA m k)"
  by (auto simp: thenA_def)

section \<open>Python strings\<close>

text \<open>Code points for which \<open>str.isspace\<close> holds (below 256).\<close>

definition py_isspace :: "char \<Rightarrow> bool" where
  "py_isspace c \<longleftrightarrow> c \<in> set [CHR 0x09, CHR 0x0A, CHR 0x0B, CHR 0x0C, CHR 0x0D, CHR 0x1C, CHR 0x1D,
     CHR 0x1E, CHR 0x1F, CHR '' '', CHR 0x85, CHR 0xA0]"

definition strip_by :: "(char \<Rightarrow> bool) \<Rightarrow> string \<Rightarrow> string" where
  "strip_by p s = rev (dropWhile p (rev (dropWhile p s)))"

definition py_strip :: "string \<Rightarrow> string" where
  "py_strip = strip_by py_isspace"

definition lower_char :: "char \<Rightarrow> char" where
  "lower_char c = (let n = (of_char c :: nat) in
     if 65 \<le> n \<and> n \<le> 90 \<or> 192 \<le> n \<and> n \<le> 222 \<and> n \<noteq> 215 then char_of (n + 32) else c)"

definition py_lower :: "string \<Rightarrow> string" where
  "py_lower = map lower_char"

fun py_join :: "string \<Rightarrow> string list \<Rightarrow> string" where
  "py_join sep [] = []"
| "py_join sep [s] = s"
| "py_join sep (s # ss) = s @ sep @ py_join sep ss"

text \<open>\<open>s.removeprefix(p)\<close>\<close>

definition removeprefix :: "string \<Rightarrow> string \<Rightarrow> string" where
  "removeprefix p s = (if prefix p s then drop (length p) s else s)"

text \<open>\<open>s.split(sep)\<close> and \<open>s.rsplit(sep, 1)\<close> for a separator of one character.\<close>

fun split_on :: "char \<Rightarrow> string \<Rightarrow> string list" where
  "split_on c [] = [[]]"
| "split_on c (x # xs) =
     (if x = c then [] # split_on c xs
      else case split_on c xs of [] \<Rightarrow> [[x]] | w # ws \<Rightarrow> (x # w) # ws)"

definition after_last :: "char \<Rightarrow> string \<Rightarrow> string" where
  \<comment> \<open>\<open>s.rsplit(c, 1)[-1]\<close>\<close>
  "after_last c s = rev (takeWhile (\<lambda>x. x \<noteq> c) (rev s))"

definition before_last :: "char \<Rightarrow> string \<Rightarrow> string" where
  \<comment> \<open>\<open>s.rsplit(c, 1)[0]\<close>\<close>
  "before_last c s = (if c \<in> set s then rev (drop 1 (dropWhile (\<lambda>x. x \<noteq> c) (rev s))) else s)"

text \<open>\<open>sub in s\<close>\<close>

definition substring :: "string \<Rightarrow> string \<Rightarrow> bool" where
  "substring = sublist"

lemma set_strip_by: "set (strip_by p s) \<subseteq> set s"
  unfolding strip_by_def by (metis (no_types, opaque_lifting) set_dropWhileD set_rev subsetI)

lemma strip_by_empty: "strip_by p s = [] \<longleftrightarrow> (\<forall>c\<in>set s. p c)"
proof
  assume "strip_by p s = []"
  then have "\<forall>c\<in>set (dropWhile p s). p c"
    by (simp add: strip_by_def)
  then show "\<forall>c\<in>set s. p c"
    by (metis hd_dropWhile hd_in_set dropWhile_eq_Nil_conv)
next
  assume "\<forall>c\<in>set s. p c"
  then have "dropWhile p s = []" by (simp add: dropWhile_eq_Nil_conv)
  then show "strip_by p s = []" by (simp add: strip_by_def del: dropWhile_eq_Nil_conv)
qed

lemma strip_by_idem [simp]: "strip_by p (strip_by p s) = strip_by p s"
proof (cases "strip_by p s = []")
  case True
  moreover have "strip_by p [] = []" by (simp add: strip_by_def)
  ultimately show ?thesis by simp
next
  case False
  define u where "u = dropWhile p s"
  define v where "v = dropWhile p (rev u)"
  have v: "strip_by p s = rev v" by (simp add: strip_by_def u_def v_def)
  with False have vne: "v \<noteq> []" by simp
  then have "\<not> p (hd v)" unfolding v_def by (rule hd_dropWhile)
  then have dv: "dropWhile p v = v" using vne by (cases v) auto
  have "hd (rev v) = hd u"
  proof -
    from v_def obtain w where "rev u = w @ v" by (metis takeWhile_dropWhile_id)
    then have "u = rev v @ rev w" by (metis rev_append rev_rev_ident)
    then show ?thesis using vne by simp
  qed
  moreover have "u \<noteq> []" using vne v_def by auto
  ultimately have "\<not> p (hd (rev v))" unfolding u_def by (simp add: hd_dropWhile)
  then have "dropWhile p (rev v) = rev v" using vne by (cases "rev v") auto
  then have "strip_by p (rev v) = rev v" by (simp add: strip_by_def dv)
  then show ?thesis by (simp only: v)
qed

lemma py_strip_idem [simp]: "py_strip (py_strip s) = py_strip s"
  by (simp add: py_strip_def)

lemma py_strip_Nil [simp]: "py_strip [] = []"
  by (simp add: py_strip_def strip_by_def)

lemma after_last_snoc [simp]: "c \<notin> set k \<Longrightarrow> after_last c (p @ c # k) = k"
  by (simp add: after_last_def takeWhile_append)

section \<open>Association lists that keep insertion order, as Python dictionaries do\<close>

lemma map_of_update [simp]: "map_of (AList.update k v d) = (map_of d)(k \<mapsto> v)"
  by (rule update_conv')

lemma map_of_delete [simp]: "map_of (AList.delete k d) = (map_of d)(k := None)"
  by (rule delete_conv')

lemma delete_update_fresh:
  "k \<notin> fst ` set d \<Longrightarrow> AList.delete k (AList.update k v d) = d"
  by (induction d) (auto simp: AList.delete_eq filter_id_conv)

end
