(* ===== verification/Pyvalue.thy ===== *)
theory Pyvalue
  imports Prelude "HOL-Library.Multiset"
begin

text \<open>
  The values the gateway computes with: what \<open>json.loads\<close> returns, with the Python
  operations the source applies to them (\<open>isinstance\<close>, truth value, \<open>get\<close>, \<open>str\<close>, \<open>int\<close>,
  \<open>or\<close>, iteration), each raising what Python raises. The record \<open>env\<close> collects the
  functions of libraries and of the process environment the program calls: hashing, the
  JSON reader and writer, date parsing, address matching. They are parameters; a property
  that relies on one names what it relies on.
\<close>

section \<open>JSON values\<close>

datatype pyfloat = Fin rat | PosInf | NegInf | NaN

datatype json =
    JNull
  | JBool bool
  | JInt int
  | JFloat pyfloat
  | JStr string
  | JList "json list"
  | JObj "(string \<times> json) list"

type_synonym dict = "(string \<times> json) list"

text \<open>A Python dictionary has distinct keys.\<close>

definition wf_dict :: "dict \<Rightarrow> bool" where
  "wf_dict d \<longleftrightarrow> distinct (map fst d)"

section \<open>The libraries the program calls\<close>

text \<open>What \<open>urllib.parse.urlsplit\<close> returns; \<open>u_host\<close> is \<open>hostname or ""\<close>.\<close>

record parsed_url =
  u_scheme :: string
  u_netloc :: string
  u_host :: string
  u_path :: string
  u_query :: string
  u_fragment :: string
  u_userinfo :: bool                               \<comment> \<open>whether \<open>username\<close> or \<open>password\<close> is non-empty\<close>
  u_port :: "int option option"                    \<comment> \<open>\<open>port\<close>; \<open>None\<close> is \<open>ValueError\<close>\<close>

text \<open>Regular expressions are named by the constant that holds them, or by their entry in a table.\<close>

record env =
  e_sha256 :: "string \<Rightarrow> string"                    \<comment> \<open>\<open>hashlib.sha256(s.encode()).hexdigest()\<close>\<close>
  e_hmac :: "string \<Rightarrow> string \<Rightarrow> string"           \<comment> \<open>\<open>hmac.new(key, msg, sha256).hexdigest()\<close>\<close>
  e_repr :: "json \<Rightarrow> string"                        \<comment> \<open>\<open>str\<close> of a float, list or dictionary\<close>
  e_render :: "json \<Rightarrow> string"                      \<comment> \<open>\<open>json.dumps(v, ensure_ascii=False)\<close>, keys in the order of the value\<close>
  e_canon :: "json \<Rightarrow> string"                       \<comment> \<open>the same with \<open>separators=(",", ":")\<close>\<close>
  e_ascii :: "json \<Rightarrow> string"                       \<comment> \<open>\<open>json.dumps(v)\<close>\<close>
  e_loads :: "string \<Rightarrow> json option"               \<comment> \<open>\<open>json.loads\<close>; \<open>None\<close> is \<open>JSONDecodeError\<close>\<close>
  e_pairs :: "string \<Rightarrow> json option"               \<comment> \<open>\<open>json.loads(s, object_pairs_hook=list)\<close> with every pair of every object; \<open>None\<close> is \<open>ValueError\<close>\<close>
  e_iso :: "string \<Rightarrow> (int \<times> int option) option"   \<comment> \<open>\<open>datetime.fromisoformat\<close>: local time and offset, in microseconds; \<open>None\<close> is \<open>ValueError\<close>\<close>
  e_isoformat :: "int \<Rightarrow> string"                   \<comment> \<open>\<open>isoformat()\<close> of a UTC time\<close>
  e_isosec :: "int \<Rightarrow> string"                      \<comment> \<open>\<open>isoformat(timespec="seconds")\<close> of a UTC time\<close>
  e_getenv :: "string \<Rightarrow> string"                   \<comment> \<open>\<open>os.environ.get(name, "")\<close>\<close>
  e_ip_in :: "string \<Rightarrow> string \<Rightarrow> bool option"     \<comment> \<open>\<open>ip in ip_network(cidr, strict=False)\<close>; \<open>None\<close> is \<open>ValueError\<close>\<close>
  e_is_ip :: "string \<Rightarrow> bool"                      \<comment> \<open>\<open>ipaddress.ip_address(s)\<close> does not raise\<close>
  e_nonpublic :: "string \<Rightarrow> bool"                  \<comment> \<open>the address is private, loopback, link-local, multicast or reserved\<close>
  e_finditer :: "string \<Rightarrow> string \<Rightarrow> (nat \<times> nat) list" \<comment> \<open>\<open>re.finditer\<close>: the start and end of each match\<close>
  e_urlsplit :: "string \<Rightarrow> parsed_url option"     \<comment> \<open>\<open>urllib.parse.urlsplit\<close>; \<open>None\<close> is \<open>ValueError\<close>\<close>
  e_urlunsplit :: "parsed_url \<Rightarrow> string"
  e_nfkc :: "string \<Rightarrow> string"                     \<comment> \<open>\<open>unicodedata.normalize("NFKC", s)\<close>\<close>
  e_b64 :: "string \<Rightarrow> string option"                \<comment> \<open>\<open>base64.b64decode(s, validate=True)\<close>, bytes as code points; \<open>None\<close> is an error\<close>
  e_utf8 :: "string \<Rightarrow> string option"               \<comment> \<open>\<open>bytes.decode("utf-8")\<close>; \<open>None\<close> is \<open>UnicodeDecodeError\<close>\<close>
  e_encode :: "string \<Rightarrow> string"                   \<comment> \<open>\<open>str.encode("utf-8")\<close>, bytes as code points\<close>
  e_sha_bytes :: "string \<Rightarrow> string"                \<comment> \<open>\<open>hashlib.sha256(b).hexdigest()\<close> of bytes\<close>
  e_ask :: "string \<Rightarrow> string \<Rightarrow> string \<Rightarrow> string"  \<comment> \<open>the verdict the model behind \<open>SnippetChecker.ask\<close> gives on a snippet, match and category\<close>
  e_inspect :: "string \<Rightarrow> (string \<times> int \<times> string) option" \<comment> \<open>the finding of the model behind \<open>LLMInspector.inspect\<close>\<close>

definition re_search :: "env \<Rightarrow> string \<Rightarrow> string \<Rightarrow> bool" where
  "re_search E pattern s \<longleftrightarrow> e_finditer E pattern s \<noteq> []"

definition slice :: "string \<Rightarrow> nat \<Rightarrow> nat \<Rightarrow> string" where
  \<comment> \<open>\<open>s[a:b]\<close>\<close>
  "slice s a b = take (b - a) (drop a s)"

definition py_take :: "int \<Rightarrow> 'a list \<Rightarrow> 'a list" where
  \<comment> \<open>\<open>s[:n]\<close>, counting from the end for a negative \<open>n\<close>\<close>
  "py_take n s = (if n < 0 then take (nat (int (length s) + n)) s else take (nat n) s)"

definition re_matches :: "env \<Rightarrow> string \<Rightarrow> string \<Rightarrow> string list" where
  \<comment> \<open>\<open>match.group(0)\<close> of each match\<close>
  "re_matches E pattern s = map (\<lambda>(a, b). slice s a b) (e_finditer E pattern s)"

section \<open>Python operations on values\<close>

fun is_dict :: "json \<Rightarrow> bool" where "is_dict (JObj d) = True" | "is_dict _ = False"
fun is_list :: "json \<Rightarrow> bool" where "is_list (JList l) = True" | "is_list _ = False"
fun is_str :: "json \<Rightarrow> bool" where "is_str (JStr s) = True" | "is_str _ = False"
fun is_bool :: "json \<Rightarrow> bool" where "is_bool (JBool b) = True" | "is_bool _ = False"
fun is_int :: "json \<Rightarrow> bool" where  \<comment> \<open>\<open>bool\<close> is a subclass of \<open>int\<close>\<close>
  "is_int (JInt i) = True" | "is_int (JBool b) = True" | "is_int _ = False"

fun truthy :: "json \<Rightarrow> bool" where
  "truthy JNull = False"
| "truthy (JBool b) = b"
| "truthy (JInt i) = (i \<noteq> 0)"
| "truthy (JFloat f) = (f \<noteq> Fin 0)"
| "truthy (JStr s) = (s \<noteq> [])"
| "truthy (JList l) = (l \<noteq> [])"
| "truthy (JObj d) = (d \<noteq> [])"

definition py_or :: "json \<Rightarrow> json \<Rightarrow> json" where
  "py_or a b = (if truthy a then a else b)"

text \<open>\<open>d.get(k, default)\<close> and \<open>d.get(k)\<close> on a dictionary, and on any value.\<close>

definition dget :: "dict \<Rightarrow> string \<Rightarrow> json \<Rightarrow> json" where
  "dget d k v = (case map_of d k of None \<Rightarrow> v | Some x \<Rightarrow> x)"

abbreviation dget0 :: "dict \<Rightarrow> string \<Rightarrow> json" where
  "dget0 d k \<equiv> dget d k JNull"

definition has_key :: "dict \<Rightarrow> string \<Rightarrow> bool" where
  "has_key d k \<longleftrightarrow> map_of d k \<noteq> None"

fun py_get :: "json \<Rightarrow> string \<Rightarrow> json \<Rightarrow> json res" where
  "py_get (JObj d) k v = Inr (dget d k v)"
| "py_get _ k v = Inl (PyError ''AttributeError'')"

text \<open>\<open>value.items()\<close>, and \<open>isinstance(value, dict)\<close> with the empty dictionary otherwise.\<close>

fun py_items :: "json \<Rightarrow> dict res" where
  "py_items (JObj d) = Inr d"
| "py_items _ = Inl (PyError ''AttributeError'')"

fun dict_or_empty :: "json \<Rightarrow> dict" where
  "dict_or_empty (JObj d) = d"
| "dict_or_empty _ = []"

text \<open>Iterating over a value: strings yield characters, dictionaries their keys.\<close>

fun py_iter :: "json \<Rightarrow> json list res" where
  "py_iter (JList l) = Inr l"
| "py_iter (JStr s) = Inr (map (\<lambda>c. JStr [c]) s)"
| "py_iter (JObj d) = Inr (map (JStr \<circ> fst) d)"
| "py_iter _ = Inl (PyError ''TypeError'')"

text \<open>Decimal text of an integer.\<close>

fun nat_digits :: "nat \<Rightarrow> string" where
  "nat_digits n = (if n < 10 then [char_of (48 + n)] else nat_digits (n div 10) @ [char_of (48 + n mod 10)])"

declare nat_digits.simps [simp del]

definition int_str :: "int \<Rightarrow> string" where
  "int_str i = (if i < 0 then CHR ''-'' # nat_digits (nat (- i)) else nat_digits (nat i))"

text \<open>\<open>str(value)\<close>\<close>

fun py_str :: "env \<Rightarrow> json \<Rightarrow> string" where
  "py_str E (JStr s) = s"
| "py_str E JNull = ''None''"
| "py_str E (JBool b) = (if b then ''True'' else ''False'')"
| "py_str E (JInt i) = int_str i"
| "py_str E j = e_repr E j"

text \<open>\<open>set(str(item) for item in value or [])\<close>, as a list.\<close>

definition str_items :: "env \<Rightarrow> json \<Rightarrow> string list res" where
  "str_items E j = bindE (py_iter (py_or j (JList []))) (\<lambda>xs. Inr (map (py_str E) xs))"

section \<open>\<open>int(value)\<close> and \<open>parse_int\<close>\<close>

definition is_digit :: "char \<Rightarrow> bool" where
  "is_digit c \<longleftrightarrow> CHR ''0'' \<le> c \<and> c \<le> CHR ''9''"

text \<open>Digits, with single underscores between them.\<close>

fun digits_ok :: "string \<Rightarrow> bool" where
  "digits_ok [] = False"
| "digits_ok [c] = is_digit c"
| "digits_ok (c # d # s) =
     (is_digit c \<and> (if d = CHR ''_'' then digits_ok s else digits_ok (d # s)))"

definition digits_val :: "string \<Rightarrow> int" where
  "digits_val s = foldl (\<lambda>a c. 10 * a + (int (of_char c) - 48)) 0 (filter is_digit s)"

text \<open>
  \<open>int\<close> of a string: surrounding white space, an optional sign, digits; more than 4300
  digits are refused (\<open>sys.int_info.default_max_str_digits\<close>).
\<close>

definition int_of_str :: "string \<Rightarrow> int res" where
  "int_of_str s =
     (let t = py_strip s;
          neg = prefix ''-'' t;
          u = (if prefix ''-'' t \<or> prefix ''+'' t then drop 1 t else t)
      in if digits_ok u \<and> length (filter is_digit u) \<le> 4300
         then Inr (if neg then - digits_val u else digits_val u)
         else Inl (PyError ''ValueError''))"

definition rat_trunc :: "rat \<Rightarrow> int" where
  "rat_trunc r = (if r < 0 then \<lceil>r\<rceil> else \<lfloor>r\<rfloor>)"

fun py_int :: "json \<Rightarrow> int res" where
  "py_int (JInt i) = Inr i"
| "py_int (JBool b) = Inr (if b then 1 else 0)"
| "py_int (JFloat (Fin r)) = Inr (rat_trunc r)"
| "py_int (JFloat NaN) = Inl (PyError ''ValueError'')"
| "py_int (JFloat _) = Inl (PyError ''OverflowError'')"
| "py_int (JStr s) = int_of_str s"
| "py_int _ = Inl (PyError ''TypeError'')"

text \<open>
  \<open>parse_int\<close> catches \<open>TypeError\<close> and \<open>ValueError\<close> only, so the \<open>OverflowError\<close> of an
  infinite float passes through it.
\<close>

definition parse_int :: "json \<Rightarrow> int \<Rightarrow> (int \<times> bool) res" where
  "parse_int v d = (case py_int v of
       Inr n \<Rightarrow> Inr (n, True)
     | Inl e \<Rightarrow> if e \<in> {PyError ''TypeError'', PyError ''ValueError''} then Inr (d, False) else Inl e)"

section \<open>Times\<close>

text \<open>
  \<open>parse_datetime\<close>: a trailing Z is rewritten to an offset, a time without offset is
  taken as UTC; the result is microseconds since the epoch in UTC. A time with an offset that
  leaves the years 1 to 9999 in UTC, on which \<open>astimezone\<close> raises \<open>OverflowError\<close>, is not modelled.
\<close>

definition parse_datetime :: "env \<Rightarrow> string \<Rightarrow> int res" where
  "parse_datetime E value =
     (let text = py_strip value;
          text = (if suffix ''Z'' text then butlast text @ ''+00:00'' else text)
      in case e_iso E text of
           None \<Rightarrow> Inl (PyError ''ValueError'')
         | Some (t, None) \<Rightarrow> Inr t
         | Some (t, Some off) \<Rightarrow> Inr (t - off))"

text \<open>\<open>json.dumps(value, sort_keys=True)\<close> renders the value with its keys sorted.\<close>

fun sort_keys :: "json \<Rightarrow> json" where
  "sort_keys (JList l) = JList (map sort_keys l)"
| "sort_keys (JObj d) = JObj (sort_key fst (map (\<lambda>(k, v). (k, sort_keys v)) d))"
| "sort_keys j = j"

text \<open>Values as Python holds them: no dictionary inside has a key twice.\<close>

fun wf_json :: "json \<Rightarrow> bool" where
  "wf_json (JList l) = (\<forall>j\<in>set l. wf_json j)"
| "wf_json (JObj d) = (distinct (map fst d) \<and> (\<forall>p\<in>set d. wf_json (snd p)))"
| "wf_json j = True"

section \<open>Lemmas\<close>

lemma dget_Some [simp]: "map_of d k = Some v \<Longrightarrow> dget d k w = v"
  by (simp add: dget_def)

lemma dget_None [simp]: "map_of d k = None \<Longrightarrow> dget d k w = w"
  by (simp add: dget_def)

lemma dget_update [simp]: "dget (AList.update k v d) k' w = (if k' = k then v else dget d k' w)"
  by (simp add: dget_def)

lemma dget_Nil [simp]: "dget [] k w = w"
  by (simp add: dget_def)

lemma dget_Cons [simp]: "dget ((k, v) # d) k' w = (if k' = k then v else dget d k' w)"
  by (simp add: dget_def)

lemma has_key_Nil [simp]: "\<not> has_key [] k"
  by (simp add: has_key_def)

lemma has_key_Cons [simp]: "has_key ((k, v) # d) k' \<longleftrightarrow> k' = k \<or> has_key d k'"
  by (simp add: has_key_def)

lemma py_get_Inr [res_simps]: "py_get j k v = Inr x \<longleftrightarrow> (\<exists>d. j = JObj d \<and> x = dget d k v)"
  by (cases j) auto

lemma py_items_Inr [res_simps]: "py_items j = Inr d \<longleftrightarrow> j = JObj d"
  by (cases j) auto

lemma is_dict_iff: "is_dict j \<longleftrightarrow> (\<exists>d. j = JObj d)" by (cases j) auto
lemma is_list_iff: "is_list j \<longleftrightarrow> (\<exists>l. j = JList l)" by (cases j) auto
lemma is_str_iff: "is_str j \<longleftrightarrow> (\<exists>s. j = JStr s)" by (cases j) auto
lemma is_bool_iff: "is_bool j \<longleftrightarrow> (\<exists>b. j = JBool b)" by (cases j) auto

lemmas py_type_iffs = is_dict_iff is_list_iff is_str_iff is_bool_iff

lemma wf_dict_Nil [simp]: "wf_dict []"
  by (simp add: wf_dict_def)

lemma wf_dict_update [simp]: "wf_dict d \<Longrightarrow> wf_dict (AList.update k v d)"
  by (simp add: wf_dict_def distinct_update)

lemma wf_dict_delete [simp]: "wf_dict d \<Longrightarrow> wf_dict (AList.delete k d)"
  by (simp add: wf_dict_def distinct_delete)

lemma parse_int_overflow: "parse_int (JFloat PosInf) d = Inl (PyError ''OverflowError'')"
  by (simp add: parse_int_def)

lemma parse_int_JInt [simp]: "parse_int (JInt i) d = Inr (i, True)"
  by (simp add: parse_int_def)

lemma int_str_zero: "int_str 0 = ''0''"
  by code_simp

lemma sort_keys_idem: "sort_keys (sort_keys j) = sort_keys j"
proof (induction j rule: sort_keys.induct)
  case (2 d)
  have eq: "map (\<lambda>(k, v). (k, sort_keys v)) (sort_key fst (map (\<lambda>(k, v). (k, sort_keys v)) d))
      = sort_key fst (map (\<lambda>(k, v). (k, sort_keys v)) d)"
    by (rule map_idI) (use 2 in \<open>fastforce simp: set_sort\<close>)
  show ?case
    by (simp add: eq sort_key_id_if_sorted)
qed auto

lemma distinct_fst_sort:
  assumes "distinct (map fst d)"
  shows "distinct (map fst (sort_key fst d))"
proof -
  have "mset (map fst (sort_key fst d)) = mset (map fst d)"
    by (metis mset_map mset_sort)
  then show ?thesis using assms by (metis mset_eq_imp_distinct_iff)
qed

lemma map_fst_sort_map: "map fst (map (\<lambda>(k, v). (k, g v)) d) = map fst d"
  by (induction d) auto

lemma wf_sort_keys: "wf_json j \<Longrightarrow> wf_json (sort_keys j)"
proof (induction j rule: sort_keys.induct)
  case (2 d)
  then have "distinct (map fst (map (\<lambda>(k, v). (k, sort_keys v)) d))"
    by (simp only: map_fst_sort_map wf_json.simps)
  then have "distinct (map fst (sort_key fst (map (\<lambda>(k, v). (k, sort_keys v)) d)))"
    by (rule distinct_fst_sort)
  with 2 show ?case by fastforce
qed auto

lemma map_of_sort_fst: "distinct (map fst d) \<Longrightarrow> map_of (sort_key fst d) = map_of d"
  by (rule map_of_inject_set[THEN iffD2]) (simp_all add: distinct_fst_sort)

lemma map_of_sorted_json:
  assumes "wf_json (JObj d)"
  shows "map_of (sort_key fst (map (\<lambda>(k, v). (k, sort_keys v)) d)) k = map_option sort_keys (map_of d k)"
proof -
  have "distinct (map fst (map (\<lambda>(k, v). (k, sort_keys v)) d))"
    using assms by (simp only: map_fst_sort_map wf_json.simps)
  then show ?thesis by (simp only: map_of_sort_fst) (simp add: map_of_map)
qed

lemma set_update_dict: "set (AList.update k v d) \<subseteq> insert (k, v) (set d)"
  by (induction d) auto

lemma wf_json_update:
  "wf_json (JObj d) \<Longrightarrow> wf_json v \<Longrightarrow> wf_json (JObj (AList.update k v d))"
  using set_update_dict[of k v d] by (auto simp: distinct_update)

lemma wf_json_dict: "wf_json (JObj d) \<Longrightarrow> wf_dict d"
  by (simp add: wf_dict_def)

end
