(* ===== verification/Jsonl.thy ===== *)
theory Jsonl
  imports Pyvalue "HOL-Library.Countable"
begin

text \<open>
  Append-only JSON-lines files: the run store, the approval store, the revocation file, the
  run warnings and the audit log. A file is absent (\<open>None\<close>) or holds a text, as text mode
  delivers it (line ends already translated to a line feed). The interface \<open>append_log\<close> is
  what the stores rely on; it is interpreted here on \<open>append_jsonl_record\<close>.
\<close>

type_synonym store = "string option"

abbreviation newline :: char where "newline \<equiv> CHR 0x0A"

section \<open>Lines\<close>

text \<open>
  \<open>lines_by p\<close> cuts a text after every character satisfying \<open>p\<close>. Iterating over a text file
  cuts after line feeds only; \<open>str.splitlines\<close> also cuts after other characters.
\<close>

fun lines_by :: "(char \<Rightarrow> bool) \<Rightarrow> string \<Rightarrow> string list" where
  "lines_by p [] = []"
| "lines_by p (c # s) =
     (if p c then [c] # lines_by p s
      else case lines_by p s of [] \<Rightarrow> [[c]] | l # ls \<Rightarrow> (c # l) # ls)"

definition file_lines :: "string \<Rightarrow> string list" where
  "file_lines = lines_by (\<lambda>c. c = newline)"

definition is_break :: "char \<Rightarrow> bool" where
  "is_break c \<longleftrightarrow> c \<in> set [CHR 0x0A, CHR 0x0B, CHR 0x0C, CHR 0x0D, CHR 0x1C, CHR 0x1D, CHR 0x1E, CHR 0x85]"

definition splitlines_keepends :: "string \<Rightarrow> string list" where
  "splitlines_keepends = lines_by is_break"

lemma concat_lines_by [simp]: "concat (lines_by p s) = s"
  by (induction s) (auto split: list.splits)

lemma lines_by_Nil_iff [simp]: "lines_by p s = [] \<longleftrightarrow> s = []"
  by (cases s) (auto split: list.splits)

lemma lines_by_append:
  "s = [] \<or> p (last s) \<Longrightarrow> lines_by p (s @ t) = lines_by p s @ lines_by p t"
proof (induction s)
  case (Cons c s)
  show ?case
  proof (cases "s = []")
    case True
    with Cons.prems show ?thesis by simp
  next
    case False
    with Cons have IH: "lines_by p (s @ t) = lines_by p s @ lines_by p t" by simp
    from False have "lines_by p s \<noteq> []" by simp
    with IH show ?thesis by (auto split: list.splits)
  qed
qed simp

lemma lines_by_single: "\<forall>c\<in>set s. \<not> p c \<Longrightarrow> p b \<Longrightarrow> lines_by p (s @ [b]) = [s @ [b]]"
  by (induction s) auto

lemma lines_by_cong: "\<forall>c\<in>set s. p c = q c \<Longrightarrow> lines_by p s = lines_by q s"
  by (induction s) (auto split: list.splits)

text \<open>Every line of a text that ends with a break ends with a break and has none inside.\<close>

lemma lines_by_shape:
  "s = [] \<or> p (last s) \<Longrightarrow> l \<in> set (lines_by p s) \<Longrightarrow>
     l \<noteq> [] \<and> p (last l) \<and> (\<forall>c\<in>set (butlast l). \<not> p c)"
proof (induction s arbitrary: l)
  case (Cons c s)
  show ?case
  proof (cases "p c")
    case True
    have "s = [] \<or> p (last s)" using Cons.prems(1) by (cases s) auto
    with Cons.IH Cons.prems(2) True show ?thesis by auto
  next
    case False
    with Cons.prems(1) have s: "s \<noteq> []" "p (last s)" by (auto split: if_splits)
    then obtain k ks where k: "lines_by p s = k # ks" by (cases "lines_by p s") auto
    from Cons.IH[of k] s k have "k \<noteq> [] \<and> p (last k) \<and> (\<forall>c\<in>set (butlast k). \<not> p c)" by simp
    moreover from Cons.IH s k have "\<And>m. m \<in> set ks \<Longrightarrow> m \<noteq> [] \<and> p (last m) \<and> (\<forall>c\<in>set (butlast m). \<not> p c)"
      by auto
    ultimately show ?thesis using Cons.prems(2) False k by auto
  qed
qed simp

lemma lines_by_concat:
  "(\<And>l. l \<in> set ls \<Longrightarrow> l \<noteq> [] \<and> p (last l) \<and> (\<forall>c\<in>set (butlast l). \<not> p c)) \<Longrightarrow>
     lines_by p (concat ls) = ls"
proof (induction ls)
  case (Cons l ls)
  from Cons.prems[of l] have l: "l \<noteq> []" "p (last l)" "\<forall>c\<in>set (butlast l). \<not> p c" by auto
  have "lines_by p l = [l]"
    using lines_by_single[of "butlast l" p "last l"] l by simp
  moreover have "lines_by p (concat ls) = ls"
    by (rule Cons.IH) (use Cons.prems in auto)
  ultimately show ?case using l by (simp add: lines_by_append)
qed simp

section \<open>Reading and appending records\<close>

text \<open>
  The loop every reader of these files has: skip blank lines, skip what \<open>json.loads\<close>
  refuses, keep the rest.
\<close>

definition line_records :: "env \<Rightarrow> string list \<Rightarrow> json list" where
  "line_records E ls = List.map_filter (e_loads E) (filter (\<lambda>l. py_strip l \<noteq> []) ls)"

definition jsonl_records :: "env \<Rightarrow> store \<Rightarrow> json list" where
  "jsonl_records E f = (case f of None \<Rightarrow> [] | Some t \<Rightarrow> line_records E (file_lines t))"

definition file_text :: "store \<Rightarrow> string" where
  "file_text f = (case f of None \<Rightarrow> [] | Some t \<Rightarrow> t)"

definition json_line :: "env \<Rightarrow> json \<Rightarrow> string" where
  "json_line E j = e_render E (sort_keys j) @ [newline]"

definition append_jsonl_record :: "env \<Rightarrow> json \<Rightarrow> store \<Rightarrow> store" where
  "append_jsonl_record E r f = Some (file_text f @ json_line E r)"

text \<open>
  What the stores rely on of \<open>json.dumps\<close> and \<open>json.loads\<close>: a dictionary is written as one
  line of text that does not start or end with white space and is read back as the
  dictionary with its keys sorted.
\<close>

definition json_line_ok :: "env \<Rightarrow> json \<Rightarrow> bool" where
  "json_line_ok E j \<longleftrightarrow>
     (let r = e_render E (sort_keys j) in
      newline \<notin> set r \<and> py_strip (r @ [newline]) = r \<and> r \<noteq> [] \<and>
      e_loads E r = Some (sort_keys j) \<and> e_loads E (r @ [newline]) = Some (sort_keys j))"

definition json_env :: "env \<Rightarrow> bool" where
  "json_env E \<longleftrightarrow> (\<forall>j. wf_json j \<longrightarrow> json_line_ok E j) \<and>
     (\<forall>s j. e_loads E s = Some j \<longrightarrow> wf_json j)"

definition jsonl_inv :: "store \<Rightarrow> bool" where
  "jsonl_inv f \<longleftrightarrow> file_text f = [] \<or> last (file_text f) = newline"

lemma line_records_simps [simp]:
  "line_records E [] = []"
  "line_records E (l # ls) =
     (if py_strip l = [] then line_records E ls
      else case e_loads E l of None \<Rightarrow> line_records E ls | Some j \<Rightarrow> j # line_records E ls)"
  by (auto simp: line_records_def List.map_filter_simps split: option.splits)

lemma line_records_append [simp]: "line_records E (xs @ ys) = line_records E xs @ line_records E ys"
  by (induction xs) (auto split: option.splits)

lemma jsonl_records_text: "jsonl_records E f = line_records E (file_lines (file_text f))"
  by (simp add: jsonl_records_def file_text_def file_lines_def split: option.splits)

lemma file_text_append [simp]:
  "file_text (append_jsonl_record E r f) = file_text f @ json_line E r"
  by (simp add: append_jsonl_record_def file_text_def)

lemma file_lines_json_line:
  "json_line_ok E r \<Longrightarrow> file_lines (json_line E r) = [json_line E r]"
  unfolding file_lines_def json_line_def
  by (rule lines_by_single) (auto simp: json_line_ok_def Let_def)

lemma file_lines_append:
  "t = [] \<or> last t = newline \<Longrightarrow> file_lines (t @ u) = file_lines t @ file_lines u"
  unfolding file_lines_def by (rule lines_by_append) simp

lemma jsonl_inv_append: "jsonl_inv (append_jsonl_record E r f)"
  by (simp add: jsonl_inv_def json_line_def)

lemma jsonl_records_append:
  assumes "jsonl_inv f" "json_line_ok E r"
  shows "jsonl_records E (append_jsonl_record E r f) = jsonl_records E f @ [sort_keys r]"
proof -
  have "file_lines (file_text f @ json_line E r) = file_lines (file_text f) @ [json_line E r]"
    using assms by (simp add: file_lines_append file_lines_json_line jsonl_inv_def)
  moreover have "py_strip (json_line E r) \<noteq> []" "e_loads E (json_line E r) = Some (sort_keys r)"
    using assms(2) by (simp_all add: json_line_ok_def json_line_def Let_def)
  ultimately show ?thesis by (simp add: jsonl_records_text)
qed

lemma jsonl_records_None [simp]: "jsonl_records E None = []"
  by (simp add: jsonl_records_def)

section \<open>The contract of an append-only log\<close>

text \<open>
  The clients only need that appending adds one record at the end. Every reader is then a
  function of the record list: the latest record that passes a check, or whether one does.
\<close>

locale append_log =
  fixes append :: "'r \<Rightarrow> 's \<Rightarrow> 's"
    and recs :: "'s \<Rightarrow> 'r list"
    and inv :: "'s \<Rightarrow> bool"
    and writable :: "'r \<Rightarrow> bool"
    and norm :: "'r \<Rightarrow> 'r"
  assumes recs_append: "inv s \<Longrightarrow> writable r \<Longrightarrow> recs (append r s) = recs s @ [norm r]"
    and inv_append: "inv s \<Longrightarrow> writable r \<Longrightarrow> inv (append r s)"
begin

lemma exists_append:
  "inv s \<Longrightarrow> writable r \<Longrightarrow>
     (\<exists>x\<in>set (recs (append r s)). P x) \<longleftrightarrow> P (norm r) \<or> (\<exists>x\<in>set (recs s). P x)"
  by (auto simp: recs_append)

lemma latest_append:
  "inv s \<Longrightarrow> writable r \<Longrightarrow>
     foldl (\<lambda>l x. case f x of None \<Rightarrow> l | Some y \<Rightarrow> Some y) a (recs (append r s)) =
     (case f (norm r) of
        None \<Rightarrow> foldl (\<lambda>l x. case f x of None \<Rightarrow> l | Some y \<Rightarrow> Some y) a (recs s)
      | Some y \<Rightarrow> Some y)"
  by (simp add: recs_append)

lemma fold_append:
  "inv s \<Longrightarrow> \<forall>r\<in>set rs. writable r \<Longrightarrow>
     inv (fold append rs s) \<and> recs (fold append rs s) = recs s @ map norm rs"
  by (induction rs arbitrary: s) (auto simp: recs_append inv_append)

end

interpretation jsonl: append_log "append_jsonl_record E" "jsonl_records E" jsonl_inv
    "json_line_ok E" sort_keys for E
  by unfold_locales (auto simp: jsonl_records_append jsonl_inv_append)

section \<open>An environment in which every law of the JSON library holds\<close>

text \<open>
  Used to instantiate hypotheses about the library functions: JSON values are countable, so
  there is a writer and a reader that invert each other on every value.
\<close>

instance pyfloat :: countable by countable_datatype
instance json :: countable by countable_datatype

definition demo_render :: "json \<Rightarrow> string" where
  "demo_render j = replicate (Suc (to_nat j)) CHR ''1''"

definition demo_loads :: "string \<Rightarrow> json option" where
  "demo_loads s = (let t = py_strip s; j = from_nat (length t - 1) in
     if t \<noteq> [] \<and> set t \<subseteq> {CHR ''1''} \<and> wf_json j then Some j else None)"

text \<open>A toy digest that is injective and lower case: two letters for each character.\<close>

definition hex_char :: "char \<Rightarrow> string" where
  "hex_char c = [char_of (97 + (of_char c :: nat) div 16), char_of (97 + (of_char c :: nat) mod 16)]"

definition demo_sha :: "string \<Rightarrow> string" where
  "demo_sha s = CHR ''h'' # concat (map hex_char s)"

definition demo_env :: env where
  "demo_env = \<lparr> e_sha256 = demo_sha, e_hmac = (\<lambda>k m. k @ CHR '':'' # m),
     e_repr = demo_render, e_render = demo_render, e_canon = demo_render, e_ascii = demo_render,
     e_loads = demo_loads, e_pairs = demo_loads,
     e_iso = (\<lambda>s. if length s = 25 then Some (int (length (takeWhile (\<lambda>c. c = CHR ''9'') s)), Some 0) else None),
     e_isoformat = (\<lambda>t. replicate (nat t) CHR ''9'' @ replicate (25 - nat t) CHR ''0''),
     e_isosec = (\<lambda>t. replicate (nat t) CHR ''9'' @ replicate (25 - nat t) CHR ''0''),
     e_getenv = (\<lambda>n. []), e_ip_in = (\<lambda>ip net. Some (ip = net)), e_is_ip = (\<lambda>ip. True),
     e_nonpublic = (\<lambda>ip. False), e_finditer = (\<lambda>p s. []), e_urlsplit = (\<lambda>u. None), e_urlunsplit = u_path,
     e_nfkc = (\<lambda>s. s), e_b64 = Some, e_utf8 = Some, e_encode = id, e_sha_bytes = (\<lambda>s. CHR ''h'' # s), e_ask = (\<lambda>s m c. ''unknown''), e_inspect = (\<lambda>s. None) \<rparr>"

lemma demo_env_simps [simp]:
  "e_sha256 demo_env = demo_sha" "e_hmac demo_env k m = k @ CHR '':'' # m"
  "e_repr demo_env = demo_render" "e_render demo_env = demo_render" "e_canon demo_env = demo_render"
  "e_loads demo_env = demo_loads" "e_getenv demo_env n = []"
  "e_ip_in demo_env a b = Some (a = b)" "e_is_ip demo_env a = True"
  "e_ascii demo_env = demo_render" "e_finditer demo_env p s = []" "e_b64 demo_env s = Some s"
  by (simp_all add: demo_env_def)

text \<open>
  An instance of the libraries that computes, for evaluating the model on concrete inputs:
  JSON text without escapes, digests that keep their argument, no pattern that matches.
\<close>

fun show_json :: "json \<Rightarrow> string" where
  "show_json JNull = ''null''"
| "show_json (JBool b) = (if b then ''true'' else ''false'')"
| "show_json (JInt i) = int_str i"
| "show_json (JFloat f) = ''0.5''"
| "show_json (JStr s) = ''\"'' @ s @ ''\"''"
| "show_json (JList l) = ''['' @ py_join '', '' (map show_json l) @ '']''"
| "show_json (JObj d) = ''{'' @ py_join '', '' (map (\<lambda>(k, v). ''\"'' @ k @ ''\": '' @ show_json v) d) @ ''}''"

definition calc_env :: env where
  "calc_env = \<lparr> e_sha256 = (\<lambda>s. CHR ''h'' # s), e_hmac = (\<lambda>k m. k @ CHR '':'' # m),
     e_repr = show_json, e_render = show_json, e_canon = show_json, e_ascii = show_json, e_loads = (\<lambda>s. None), e_pairs = (\<lambda>s. None),
     e_iso = (\<lambda>s. case int_of_str s of Inl e \<Rightarrow> None | Inr t \<Rightarrow> Some (t, Some 0)),
     e_isoformat = int_str, e_isosec = int_str,
     e_getenv = (\<lambda>n. []), e_ip_in = (\<lambda>ip net. Some (ip = net)), e_is_ip = (\<lambda>ip. False),
     e_nonpublic = (\<lambda>ip. False), e_finditer = (\<lambda>p s. []), e_urlsplit = (\<lambda>u. None), e_urlunsplit = u_path,
     e_nfkc = (\<lambda>s. s), e_b64 = Some, e_utf8 = Some, e_encode = id, e_sha_bytes = (\<lambda>s. CHR ''h'' # s), e_ask = (\<lambda>s m c. ''unknown''), e_inspect = (\<lambda>s. None) \<rparr>"

text \<open>The matches of a literal text.\<close>

definition find_all :: "string \<Rightarrow> string \<Rightarrow> (nat \<times> nat) list" where
  "find_all p s = map (\<lambda>i. (i, i + length p)) (filter (\<lambda>i. prefix p (drop i s)) [0..<length s])"

lemma strip_replicate_1:
  "py_strip (replicate (Suc n) CHR ''1'' @ [newline]) = replicate (Suc n) CHR ''1''"
  "py_strip (replicate (Suc n) CHR ''1'') = replicate (Suc n) CHR ''1''"
proof -
  have ns: "\<not> py_isspace CHR ''1''" and nl: "py_isspace newline" by (simp_all add: py_isspace_def)
  have d: "\<And>s. dropWhile py_isspace (CHR ''1'' # s) = CHR ''1'' # s" using ns by simp
  have r: "rev (replicate (Suc n) CHR ''1'') = replicate (Suc n) CHR ''1''" by (rule rev_replicate)
  show "py_strip (replicate (Suc n) CHR ''1'' @ [newline]) = replicate (Suc n) CHR ''1''"
    using r nl d by (simp add: py_strip_def strip_by_def replicate_append_same)
  show "py_strip (replicate (Suc n) CHR ''1'') = replicate (Suc n) CHR ''1''"
    using r d by (simp add: py_strip_def strip_by_def replicate_append_same)
qed

lemma demo_json_line_ok: "wf_json j \<Longrightarrow> json_line_ok demo_env j"
proof -
  assume "wf_json j"
  then have wf: "wf_json (sort_keys j)" by (rule wf_sort_keys)
  have "demo_loads (demo_render (sort_keys j)) = Some (sort_keys j)"
    "demo_loads (demo_render (sort_keys j) @ [newline]) = Some (sort_keys j)"
    unfolding demo_loads_def demo_render_def strip_replicate_1 Let_def
    using wf by (auto simp del: replicate.simps)
  moreover have "newline \<notin> set (demo_render (sort_keys j))" by (auto simp: demo_render_def)
  moreover have "py_strip (demo_render (sort_keys j) @ [newline]) = demo_render (sort_keys j)"
    unfolding demo_render_def by (rule strip_replicate_1)
  moreover have "demo_render (sort_keys j) \<noteq> []" by (simp add: demo_render_def)
  ultimately show ?thesis by (simp add: json_line_ok_def)
qed

lemma demo_json_env: "json_env demo_env"
  by (auto simp: json_env_def demo_json_line_ok demo_loads_def Let_def split: if_splits)

lemma demo_sha_lower:
  "c \<in> set (demo_sha s) \<Longrightarrow> 97 \<le> (of_char c :: nat) \<and> (of_char c :: nat) \<le> 112"
proof -
  have d: "of_char c div 16 < (16::nat)" for c :: char
    using nat_of_char_less_256[of c] by (simp add: less_mult_imp_div_less)
  have "of_char c div 16 \<le> (15::nat)" for c :: char
    using d[of c] by linarith
  moreover have "(97 + of_char c div 16) mod 256 = 97 + of_char c div (16::nat)" for c :: char
    by (rule mod_less) (use d[of c] in linarith)
  ultimately show "c \<in> set (demo_sha s) \<Longrightarrow> 97 \<le> (of_char c :: nat) \<and> (of_char c :: nat) \<le> 112"
    by (auto simp: demo_sha_def hex_char_def less_Suc_eq_le)
qed

lemma demo_sha_neq: "demo_sha s \<noteq> []" "CHR ''h'' \<noteq> c \<Longrightarrow> demo_sha s \<noteq> c # t"
  by (simp_all add: demo_sha_def)

lemma hex_char_inj: "hex_char a = hex_char b \<Longrightarrow> a = b"
proof -
  assume h: "hex_char a = hex_char b"
  have b: "of_char c div 16 < (16::nat)" "of_char c mod 16 < (16::nat)" for c :: char
    using nat_of_char_less_256[of c] by (simp_all add: less_mult_imp_div_less)
  have "(97 + of_char c div 16) mod 256 = 97 + of_char c div (16::nat)" for c :: char
    by (rule mod_less) (use b[of c] in linarith)
  moreover have "(97 + of_char c mod 16) mod 256 = 97 + of_char c mod (16::nat)" for c :: char
    by (rule mod_less) (use b[of c] in linarith)
  ultimately have d: "(97 + of_char c div 16) mod 256 = 97 + of_char c div (16::nat)"
    "(97 + of_char c mod 16) mod 256 = 97 + of_char c mod (16::nat)" for c :: char by auto
  from h have "of_char a div 16 = of_char b div (16::nat)" "of_char a mod 16 = of_char b mod (16::nat)"
    by (simp_all add: hex_char_def char_of_eq_iff d take_bit_eq_mod)
  then have "of_char a = (of_char b :: nat)" by (metis div_mult_mod_eq)
  then show "a = b" by simp
qed

lemma hex_char_len: "length (hex_char a) = length (hex_char b)"
  by (simp add: hex_char_def)

lemma demo_sha_inj: "demo_sha s = demo_sha t \<longleftrightarrow> s = t"
proof -
  have "concat (map hex_char s) = concat (map hex_char t) \<Longrightarrow> s = t"
  proof (induction s arbitrary: t)
    case Nil
    then show ?case by (cases t) (auto simp: hex_char_def)
  next
    case (Cons c s)
    then obtain d t' where t: "t = d # t'" by (cases t) (auto simp: hex_char_def)
    with Cons.prems have "hex_char c = hex_char d" "concat (map hex_char s) = concat (map hex_char t')"
      by (simp_all add: append_eq_append_conv hex_char_len)
    with Cons.IH t hex_char_inj show ?case by auto
  qed
  then show ?thesis by (auto simp: demo_sha_def)
qed

lemma demo_loads_render: "wf_json j \<Longrightarrow> demo_loads (demo_render j) = Some j"
  unfolding demo_loads_def demo_render_def strip_replicate_1 Let_def by (auto simp del: replicate.simps)

lemma demo_render_chars: "set (demo_render j) = {CHR ''1''}"
  by (auto simp: demo_render_def)

lemma demo_render_inj: "demo_render a = demo_render b \<longleftrightarrow> a = b"
  unfolding demo_render_def by (metis length_replicate nat.inject from_nat_to_nat)

end
