(* ===== verification/Audit_Log.thy ===== *)
theory Audit_Log
  imports Jsonl
begin

text \<open>
  The hash-chained audit log: \<open>AuditLogger\<close> and \<open>verify_audit_log\<close> of proxy.py, and the
  anchor check of \<open>verify_audit_cli\<close> in gateway.py. The state is the log file. Writing
  happens under the thread lock and the file lock, so a write is one atomic step.
\<close>

definition zero_hash :: string where
  "zero_hash = replicate 64 CHR ''0''"

section \<open>Writing\<close>

text \<open>
  \<open>AuditLogger._last_hash\<close>: the \<open>event_hash\<close> of the last line that is not blank. A last
  line that is JSON but no object makes \<open>.get\<close> raise.
\<close>

definition audit_lines :: "store \<Rightarrow> string list" where
  "audit_lines f = filter (\<lambda>s. s \<noteq> []) (map py_strip (file_lines (file_text f)))"

lemma no_audit_lines: "audit_lines None = []"
  by code_simp

definition last_hash :: "env \<Rightarrow> store \<Rightarrow> string res" where
  "last_hash E f =
     (if audit_lines f = [] then Inr zero_hash
      else case e_loads E (last (audit_lines f)) of
          None \<Rightarrow> Inr zero_hash
        | Some j \<Rightarrow> bindE (py_get j ''event_hash'' JNull)
                          (\<lambda>h. Inr (py_str E (py_or h (JStr zero_hash)))))"

definition canonical_hash :: "env \<Rightarrow> dict \<Rightarrow> string" where
  "canonical_hash E ev = e_sha256 E (e_canon E (sort_keys (JObj ev)))"

text \<open>\<open>AuditLogger.write\<close>; \<open>now\<close> is the text \<open>utc_now()\<close> returns.\<close>

definition audit_write :: "env \<Rightarrow> string \<Rightarrow> dict \<Rightarrow> (store, dict) act" where
  "audit_write E now event = (\<lambda>f.
     case last_hash E f of
       Inl e \<Rightarrow> (Inl e, f)
     | Inr prev \<Rightarrow>
         let ev = (if has_key event ''timestamp'' then event else AList.update ''timestamp'' (JStr now) event);
             ev = AList.update ''prev_hash'' (JStr prev) ev;
             ev' = AList.update ''event_hash'' (JStr (canonical_hash E ev)) ev
         in (Inr ev', append_jsonl_record E (JObj ev') f))"

section \<open>Verifying\<close>

datatype audit_error =
    InvalidJson nat
  | PrevHashMismatch nat string string
  | EventHashMismatch nat string string

record audit_report =
  ar_ok :: bool
  ar_events :: nat
  ar_latest :: string
  ar_errors :: "audit_error list"

definition ev_hash :: "env \<Rightarrow> dict \<Rightarrow> string" where
  "ev_hash E ev = py_str E (dget ev ''event_hash'' (JStr []))"

definition ev_prev :: "env \<Rightarrow> dict \<Rightarrow> string" where
  "ev_prev E ev = py_str E (dget ev ''prev_hash'' (JStr []))"

definition ev_expected :: "env \<Rightarrow> dict \<Rightarrow> string" where
  "ev_expected E ev = canonical_hash E (AList.delete ''event_hash'' ev)"

text \<open>The two checks on one event.\<close>

definition event_errors :: "env \<Rightarrow> nat \<Rightarrow> string \<Rightarrow> dict \<Rightarrow> audit_error list" where
  "event_errors E i prev ev =
     (if ev_prev E ev \<noteq> prev then [PrevHashMismatch i prev (ev_prev E ev)] else []) @
     (if ev_hash E ev \<noteq> ev_expected E ev
      then [EventHashMismatch i (ev_expected E ev) (ev_hash E ev)] else [])"

text \<open>The loop of \<open>verify_audit_log\<close>: line number, previous hash, events, errors.\<close>

fun verify_loop :: "env \<Rightarrow> nat \<Rightarrow> string list \<Rightarrow> string \<Rightarrow> nat \<Rightarrow> audit_error list \<Rightarrow>
    (string \<times> nat \<times> audit_error list) res" where
  "verify_loop E i [] prev n errs = Inr (prev, n, errs)"
| "verify_loop E i (line # ls) prev n errs =
     (let stripped = py_strip line in
      if stripped = [] then verify_loop E (Suc i) ls prev n errs
      else case e_loads E stripped of
          None \<Rightarrow> verify_loop E (Suc i) ls prev (Suc n) (errs @ [InvalidJson i])
        | Some (JObj ev) \<Rightarrow>
            let next = (if ev_hash E ev = [] then ev_expected E ev else ev_hash E ev)
            in verify_loop E (Suc i) ls next (Suc n) (errs @ event_errors E i prev ev)
        | Some _ \<Rightarrow> Inl (PyError ''AttributeError''))"

definition verify_audit_log :: "env \<Rightarrow> store \<Rightarrow> audit_report res" where
  "verify_audit_log E f = (case f of
       None \<Rightarrow> Inr \<lparr>ar_ok = True, ar_events = 0, ar_latest = zero_hash, ar_errors = []\<rparr>
     | Some t \<Rightarrow> bindE (verify_loop E 1 (file_lines t) zero_hash 0 [])
         (\<lambda>(prev, n, errs). Inr \<lparr>ar_ok = (errs = []), ar_events = n, ar_latest = prev, ar_errors = errs\<rparr>))"

text \<open>\<open>verify_audit_cli\<close> with \<open>--expect-anchor\<close>: the exit status is success only if this is \<open>True\<close>.\<close>

definition verify_audit_cli :: "env \<Rightarrow> store \<Rightarrow> string option \<Rightarrow> bool res" where
  "verify_audit_cli E f anchor = bindE (verify_audit_log E f) (\<lambda>r.
     case anchor of None \<Rightarrow> Inr (ar_ok r)
     | Some a \<Rightarrow> Inr (ar_ok r \<and> py_lower (py_strip a) = py_lower (ar_latest r)))"

text \<open>\<open>export_audit_anchor_cli\<close>: the hash and line count of a log that verifies, \<open>SystemExit\<close> otherwise.\<close>

definition export_audit_anchor :: "env \<Rightarrow> store \<Rightarrow> (string \<times> nat) res" where
  "export_audit_anchor E f = bindE (verify_audit_log E f) (\<lambda>r.
     if ar_ok r then Inr (ar_latest r, ar_events r) else Inl (PyError ''SystemExit''))"

section \<open>The chain as a specification\<close>

text \<open>
  A sequence of events is a chain from \<open>prev\<close> if each names the hash of the one before
  and its own hash is the hash of the rest of its content.
\<close>

fun chained :: "env \<Rightarrow> string \<Rightarrow> dict list \<Rightarrow> bool" where
  "chained E prev [] = True"
| "chained E prev (ev # evs) =
     (ev_prev E ev = prev \<and> ev_hash E ev = ev_expected E ev \<and> chained E (ev_expected E ev) evs)"

fun chain_end :: "env \<Rightarrow> string \<Rightarrow> dict list \<Rightarrow> string" where
  "chain_end E prev [] = prev"
| "chain_end E prev (ev # evs) = chain_end E (ev_expected E ev) evs"

text \<open>The events of a log none of whose lines is refused.\<close>

fun log_events :: "env \<Rightarrow> string list \<Rightarrow> dict list option" where
  "log_events E [] = Some []"
| "log_events E (s # ss) = (case e_loads E s of
       Some (JObj ev) \<Rightarrow> map_option (Cons ev) (log_events E ss)
     | _ \<Rightarrow> None)"

lemma chained_append [simp]:
  "chained E prev (xs @ ys) \<longleftrightarrow> chained E prev xs \<and> chained E (chain_end E prev xs) ys"
  by (induction xs arbitrary: prev) auto

lemma chain_end_append [simp]:
  "chain_end E prev (xs @ ys) = chain_end E (chain_end E prev xs) ys"
  by (induction xs arbitrary: prev) auto

lemma log_events_append:
  "log_events E (xs @ ys) = (case log_events E xs of None \<Rightarrow> None
     | Some a \<Rightarrow> map_option ((@) a) (log_events E ys))"
  by (cases "log_events E ys"; induction xs) (auto split: option.splits json.splits)

lemma event_errors_Nil:
  "event_errors E i prev ev = [] \<longleftrightarrow> ev_prev E ev = prev \<and> ev_hash E ev = ev_expected E ev"
  by (simp add: event_errors_def)

lemma verify_loop_prefix:
  "verify_loop E i ls prev n errs = Inr (h, m, es) \<Longrightarrow> prefix errs es"
proof (induction ls arbitrary: i prev n errs)
  case (Cons line ls)
  show ?case
  proof (cases "py_strip line = []")
    case True
    with Cons show ?thesis by simp
  next
    case False
    with Cons.prems show ?thesis
      by (auto simp: Let_def split: option.splits json.splits
               dest!: Cons.IH dest: append_prefixD)
  qed
qed simp

lemma verify_loop_mono:
  "verify_loop E i ls prev n errs = Inr (h, m, []) \<Longrightarrow> errs = []"
  by (drule verify_loop_prefix) simp

text \<open>The loop finds no error exactly on a chain, and then returns its end and its length.\<close>

lemma verify_loop_iff:
  "verify_loop E i ls prev n [] = Inr (h, m, []) \<longleftrightarrow>
     (\<exists>evs. log_events E (filter (\<lambda>s. s \<noteq> []) (map py_strip ls)) = Some evs \<and>
            chained E prev evs \<and> h = chain_end E prev evs \<and> m = n + length evs)"
proof (induction ls arbitrary: i prev n)
  case (Cons line ls)
  show ?case
  proof (cases "py_strip line = []")
    case True
    then show ?thesis using Cons.IH by simp
  next
    case ne: False
    show ?thesis
    proof (cases "e_loads E (py_strip line)")
      case None
      then show ?thesis using ne by (auto dest: verify_loop_mono)
    next
      case (Some j)
      show ?thesis
      proof (cases "\<exists>ev. j = JObj ev")
        case False
        then show ?thesis using ne Some by (cases j) auto
      next
        case True
        then obtain ev where j: "j = JObj ev" by blast
        show ?thesis
        proof (cases "ev_prev E ev = prev \<and> ev_hash E ev = ev_expected E ev")
          case False
          then have "\<not> chained E prev (ev # evs)" for evs by auto
          moreover have "verify_loop E i (line # ls) prev n [] \<noteq> Inr (h, m, [])"
            using False ne Some j
            by (auto simp: Let_def event_errors_Nil dest!: verify_loop_mono)
          ultimately show ?thesis using ne Some j by auto
        next
          case True
          then have "verify_loop E i (line # ls) prev n [] =
              verify_loop E (Suc i) ls (ev_expected E ev) (Suc n) []"
            using ne Some j by (auto simp: Let_def event_errors_def)
          then show ?thesis using True ne Some j Cons.IH by auto
        qed
      qed
    qed
  qed
qed auto

definition verifies :: "env \<Rightarrow> store \<Rightarrow> nat \<Rightarrow> string \<Rightarrow> bool" where
  "verifies E f n h \<longleftrightarrow> (\<exists>r. verify_audit_log E f = Inr r \<and> ar_ok r \<and> ar_events r = n \<and> ar_latest r = h)"

lemma verifies_iff:
  "verifies E f n h \<longleftrightarrow> (\<exists>evs. log_events E (audit_lines f) = Some evs \<and> chained E zero_hash evs \<and>
     h = chain_end E zero_hash evs \<and> n = length evs)"
proof (cases f)
  case None
  then show ?thesis
    by (auto simp: verifies_def verify_audit_log_def audit_lines_def file_text_def file_lines_def)
next
  case (Some t)
  have "verifies E f n h \<longleftrightarrow> verify_loop E 1 (file_lines t) zero_hash 0 [] = Inr (h, n, [])"
    using Some by (auto simp: verifies_def verify_audit_log_def bindE_Inr)
  then show ?thesis
    by (simp add: verify_loop_iff Some audit_lines_def file_text_def)
qed

lemma audit_lines_append:
  assumes "jsonl_inv f" "json_line_ok E r"
  shows "audit_lines (append_jsonl_record E r f) = audit_lines f @ [e_render E (sort_keys r)]"
proof -
  have l: "py_strip (json_line E r) = e_render E (sort_keys r)" "e_render E (sort_keys r) \<noteq> []"
    using assms(2) by (simp_all add: json_line_ok_def json_line_def Let_def)
  have "file_lines (file_text f @ json_line E r) = file_lines (file_text f) @ [json_line E r]"
    using assms by (simp add: file_lines_append file_lines_json_line jsonl_inv_def)
  then show ?thesis using l by (simp add: audit_lines_def)
qed

text \<open>Sorting the keys does not change what a lookup finds, nor the canonical text.\<close>

lemma map_of_sort_keys:
  assumes "distinct (map fst d)"
  shows "map_of (sort_key fst (map (\<lambda>(k, v). (k, g v)) d)) k = map_option g (map_of d k)"
proof -
  let ?m = "map (\<lambda>(k, v). (k, g v)) d"
  have fm: "map fst ?m = map fst d" by (induction d) auto
  have "distinct (map fst (sort_key fst ?m))"
  proof -
    have "mset (map fst (sort_key fst ?m)) = mset (map fst d)"
      by (metis fm mset_map mset_sort)
    then show ?thesis using assms by (metis mset_eq_imp_distinct_iff)
  qed
  moreover have "distinct (map fst ?m)" using assms by (simp only: fm)
  moreover have "set (sort_key fst ?m) = set ?m" by simp
  ultimately have "map_of (sort_key fst ?m) = map_of ?m" by (simp only: map_of_inject_set)
  then show ?thesis by (simp only: map_of_map comp_def)
qed

abbreviation sort_dict :: "dict \<Rightarrow> dict" where
  "sort_dict d \<equiv> sort_key fst (map (\<lambda>(k, v). (k, sort_keys v)) d)"

lemma dget_sort_dict_str:
  "wf_dict d \<Longrightarrow> map_of d k = Some (JStr s) \<Longrightarrow> dget (sort_dict d) k w = JStr s"
  by (simp add: dget_def wf_dict_def map_of_sort_keys)

lemma sort_dict_idem: "map (\<lambda>(k, v). (k, sort_keys v)) (sort_dict d) = sort_dict d"
  using sort_keys_idem[of "JObj d"]
  by (intro map_idI) (fastforce simp: sort_keys_idem)

lemma delete_sort_dict: "sort_dict (AList.delete k (sort_dict d)) = sort_dict (AList.delete k d)"
proof -
  have "map (\<lambda>(k, v). (k, sort_keys v)) (AList.delete k (sort_dict d)) = AList.delete k (sort_dict d)"
    using sort_keys_idem by (intro map_idI) (fastforce simp: AList.delete_eq)
  moreover have "AList.delete k (sort_dict d) = sort_key fst (map (\<lambda>(k, v). (k, sort_keys v)) (AList.delete k d))"
    by (simp add: AList.delete_eq filter_sort filter_map comp_def split_def)
  ultimately show ?thesis by (simp add: sort_key_id_if_sorted)
qed

section \<open>What the log relies on\<close>

text \<open>
  A digest is lower-case hexadecimal: it has no white space and no upper-case letter, is no
  \<open>str\<close> of an empty or zero value, and is not the placeholder of 64 zeros. Canonical JSON
  determines the value it was written from, and the text of a float, list or dictionary
  has a character no digest has.
\<close>

definition digest_env :: "env \<Rightarrow> bool" where
  "digest_env E \<longleftrightarrow>
     (\<forall>s. py_lower (e_sha256 E s) = e_sha256 E s \<and> py_strip (e_sha256 E s) = e_sha256 E s \<and>
          e_sha256 E s \<noteq> zero_hash) \<and>
     (\<forall>s j. py_str E j = e_sha256 E s \<longrightarrow> truthy j) \<and>
     (\<forall>s j. e_repr E j \<noteq> e_sha256 E s \<and> e_repr E j \<noteq> zero_hash)"

definition canon_env :: "env \<Rightarrow> bool" where
  "canon_env E \<longleftrightarrow>
     (\<forall>a b. e_canon E (sort_keys a) = e_canon E (sort_keys b) \<longrightarrow> sort_keys a = sort_keys b)"

lemma last_hash_verified:
  assumes "digest_env E" "verifies E f n h"
  shows "last_hash E f = Inr h"
proof -
  from assms(2) obtain evs where evs: "log_events E (audit_lines f) = Some evs"
    "chained E zero_hash evs" "h = chain_end E zero_hash evs"
    by (auto simp: verifies_iff)
  show ?thesis
  proof (cases "audit_lines f" rule: rev_cases)
    case Nil
    with evs show ?thesis by (simp add: last_hash_def)
  next
    case (snoc ls l)
    with evs(1) obtain es ev where e: "evs = es @ [ev]" "e_loads E l = Some (JObj ev)"
      by (auto simp: log_events_append split: option.splits json.splits)
    with evs have h: "h = ev_expected E ev" "ev_hash E ev = ev_expected E ev" by auto
    have tr: "truthy j" if "py_str E j = ev_expected E ev" for j
      using that assms(1) by (auto simp: digest_env_def ev_expected_def canonical_hash_def)
    have "truthy (dget ev ''event_hash'' (JStr []))"
      using tr h(2) by (simp add: ev_hash_def)
    then obtain v where "map_of ev ''event_hash'' = Some v" by (auto simp: dget_def split: option.splits)
    with h tr show ?thesis
      using snoc e by (simp add: last_hash_def ev_hash_def py_or_def)
  qed
qed

lemma audit_write_step:
  assumes env: "digest_env E" "json_env E"
    and log: "jsonl_inv f" "verifies E f n h"
    and event: "wf_json (JObj ev)" "\<not> has_key ev ''event_hash''"
  shows "\<exists>ev' f'. audit_write E now ev f = (Inr ev', f') \<and> jsonl_inv f' \<and>
           verifies E f' (Suc n) (ev_hash E ev') \<and> ev_prev E ev' = h"
proof -
  define e1 where "e1 = (if has_key ev ''timestamp'' then ev else AList.update ''timestamp'' (JStr now) ev)"
  define e2 where "e2 = AList.update ''prev_hash'' (JStr h) e1"
  define e3 where "e3 = AList.update ''event_hash'' (JStr (canonical_hash E e2)) e2"
  have wfj: "wf_json (JObj e3)"
  proof -
    have "wf_json (JObj e1)"
      using event(1) wf_json_update[of ev "JStr now"] by (simp add: e1_def)
    then have "wf_json (JObj e2)" unfolding e2_def by (rule wf_json_update) simp
    then show ?thesis unfolding e3_def by (rule wf_json_update) simp
  qed
  then have wf: "wf_dict e3" by (rule wf_json_dict)
  have line: "json_line_ok E (JObj e3)" using env(2) wfj by (simp add: json_env_def)
  have fresh: "''event_hash'' \<notin> fst ` set e2"
    using event(2) by (auto simp: e2_def e1_def dom_update has_key_def map_of_eq_None_iff)
  have w: "audit_write E now ev f = (Inr e3, append_jsonl_record E (JObj e3) f)"
    by (simp add: audit_write_def last_hash_verified[OF env(1) log(2)] e1_def e2_def e3_def Let_def)
  have m: "map_of e3 ''event_hash'' = Some (JStr (canonical_hash E e2))"
    "map_of e3 ''prev_hash'' = Some (JStr h)"
    by (simp_all add: e3_def e2_def)
  have s3: "ev_hash E (sort_dict e3) = canonical_hash E e2" "ev_prev E (sort_dict e3) = h"
    using m wf by (simp_all add: ev_hash_def ev_prev_def dget_sort_dict_str)
  have "sort_dict (AList.delete ''event_hash'' e3) = sort_dict e2"
    using fresh by (simp add: e3_def delete_update_fresh)
  then have x3: "ev_expected E (sort_dict e3) = canonical_hash E e2"
    using delete_sort_dict[of "''event_hash''" e3] by (simp add: ev_expected_def canonical_hash_def)
  from log(2) obtain evs where "log_events E (audit_lines f) = Some evs" "chained E zero_hash evs"
    "h = chain_end E zero_hash evs" "n = length evs"
    by (auto simp: verifies_iff)
  moreover have "e_loads E (e_render E (sort_keys (JObj e3))) = Some (sort_keys (JObj e3))"
    using line by (simp add: json_line_ok_def Let_def)
  ultimately have "verifies E (append_jsonl_record E (JObj e3) f) (Suc n) (canonical_hash E e2)"
    unfolding verifies_iff
    using s3 x3 audit_lines_append[OF log(1) line] by (auto simp: log_events_append)
  moreover have "ev_hash E e3 = canonical_hash E e2" "ev_prev E e3 = h"
    using m by (simp_all add: ev_hash_def ev_prev_def)
  ultimately show ?thesis using w by (auto intro!: jsonl_inv_append exI[of _ e3])
qed

fun audit_writes :: "env \<Rightarrow> (string \<times> dict) list \<Rightarrow> (store, unit) act" where
  "audit_writes E [] = retA ()"
| "audit_writes E ((now, ev) # evs) = thenA (audit_write E now ev) (audit_writes E evs)"

lemma audit_writes_verify_from:
  assumes env: "digest_env E" "json_env E"
    and "\<forall>(now, ev)\<in>set evs. wf_json (JObj ev) \<and> \<not> has_key ev ''event_hash''"
    and "jsonl_inv f" "verifies E f n h"
  shows "\<exists>f' h'. audit_writes E evs f = (Inr (), f') \<and> jsonl_inv f' \<and> verifies E f' (n + length evs) h'"
  using assms(3-5)
proof (induction evs arbitrary: f n h)
  case (Cons p evs)
  obtain now ev where p: "p = (now, ev)" by (cases p)
  with Cons.prems(1) have ev: "wf_json (JObj ev)" "\<not> has_key ev ''event_hash''" by auto
  from audit_write_step[OF env Cons.prems(2,3) ev] obtain ev' f1 h1
    where w: "audit_write E now ev f = (Inr ev', f1)" "jsonl_inv f1" "verifies E f1 (Suc n) h1" by blast
  with Cons.IH[OF _ w(2,3)] Cons.prems(1) p show ?case by auto
qed auto

lemma audit_writes_append: "audit_writes E (xs @ ys) f = thenA (audit_writes E xs) (audit_writes E ys) f"
  by (induction xs arbitrary: f) (auto simp: thenA_def bindA_def split: prod.split sum.split)

section \<open>What the last hash determines\<close>

definition event_body :: "dict \<Rightarrow> json" where
  "event_body ev = sort_keys (JObj (AList.delete ''event_hash'' ev))"

definition event_text :: "env \<Rightarrow> dict \<Rightarrow> string" where
  "event_text E ev = e_canon E (event_body ev)"

lemma ev_expected_text: "ev_expected E ev = e_sha256 E (event_text E ev)"
  by (simp add: ev_expected_def canonical_hash_def event_text_def event_body_def)

lemma map_of_event_body:
  assumes "event_body a = event_body b" "wf_dict a" "wf_dict b" "k \<noteq> ''event_hash''"
  shows "map_option sort_keys (map_of a k) = map_option sort_keys (map_of b k)"
proof -
  have "sort_dict (AList.delete ''event_hash'' a) = sort_dict (AList.delete ''event_hash'' b)"
    using assms(1) by (simp add: event_body_def)
  then have "map_of (sort_dict (AList.delete ''event_hash'' a)) k =
      map_of (sort_dict (AList.delete ''event_hash'' b)) k" by simp
  then show ?thesis
    using assms(2-4) by (simp add: map_of_sort_keys wf_dict_def distinct_delete)
qed

lemma py_str_sort_keys:
  "sort_keys v = sort_keys w \<Longrightarrow> \<forall>j. py_str E v \<noteq> e_repr E j \<Longrightarrow>
     \<forall>j. py_str E w \<noteq> e_repr E j \<Longrightarrow> py_str E v = py_str E w"
  by (cases v; cases w) auto

lemma ev_prev_body:
  assumes "event_body a = event_body b" "wf_dict a" "wf_dict b"
    and "\<forall>j. ev_prev E a \<noteq> e_repr E j" "\<forall>j. ev_prev E b \<noteq> e_repr E j"
  shows "ev_prev E a = ev_prev E b"
proof -
  have "sort_keys (dget a ''prev_hash'' (JStr [])) = sort_keys (dget b ''prev_hash'' (JStr []))"
    using map_of_event_body[OF assms(1-3), of "''prev_hash''"]
    by (auto simp: dget_def split: option.splits)
  then show ?thesis
    using assms(4,5) unfolding ev_prev_def by (rule py_str_sort_keys)
qed

lemma chain_end_digest:
  "\<exists>x. chain_end E zero_hash evs = zero_hash \<and> evs = [] \<or> chain_end E zero_hash evs = e_sha256 E x \<and> evs \<noteq> []"
proof (cases evs rule: rev_cases)
  case (snoc es ev)
  then show ?thesis by (auto simp: ev_expected_text)
qed simp

lemma chain_end_no_repr:
  "digest_env E \<Longrightarrow> e_repr E j \<noteq> chain_end E zero_hash evs"
  using chain_end_digest[of E evs] by (auto simp: digest_env_def)

lemma chain_end_inj:
  assumes env: "digest_env E" "canon_env E"
    and "chained E zero_hash es" "chained E zero_hash fs"
    and "\<forall>ev\<in>set es \<union> set fs. wf_dict ev"
    and "\<forall>a\<in>set es. \<forall>b\<in>set fs. e_sha256 E (event_text E a) = e_sha256 E (event_text E b)
          \<longrightarrow> event_text E a = event_text E b"
    and "chain_end E zero_hash es = chain_end E zero_hash fs"
  shows "map event_body es = map event_body fs"
  using assms(3-7)
proof (induction es arbitrary: fs rule: rev_induct)
  case Nil
  then have "chain_end E zero_hash fs = zero_hash" by simp
  moreover have "zero_hash \<noteq> e_sha256 E x" for x
    using env(1) unfolding digest_env_def by metis
  ultimately show ?case using chain_end_digest[of E fs] by auto
next
  case (snoc a es)
  have "fs \<noteq> []"
    using snoc.prems(5) env(1) by (auto simp: digest_env_def ev_expected_text)
  then obtain gs b where fs: "fs = gs @ [b]" by (cases fs rule: rev_cases) auto
  have "event_text E a = event_text E b"
    using snoc.prems(4,5) fs by (simp add: ev_expected_text)
  then have ab: "event_body a = event_body b"
    using env(2) unfolding event_text_def event_body_def canon_env_def by blast
  have pa: "ev_prev E a = chain_end E zero_hash es" and pb: "ev_prev E b = chain_end E zero_hash gs"
    using snoc.prems(1,2) fs by auto
  have "ev_prev E a = ev_prev E b"
    using ab snoc.prems(3) fs pa pb chain_end_no_repr[OF env(1)] by (intro ev_prev_body) (auto, metis+)
  then have "map event_body es = map event_body gs"
    using snoc.prems fs pa pb by (intro snoc.IH) auto
  then show ?case using ab fs by simp
qed

lemma log_events_wf:
  "json_env E \<Longrightarrow> log_events E ls = Some evs \<Longrightarrow> ev \<in> set evs \<Longrightarrow> wf_dict ev"
proof (induction ls arbitrary: evs)
  case (Cons l ls)
  then show ?case
    by (auto simp: json_env_def wf_dict_def split: option.splits json.splits) fastforce
qed auto

text \<open>The bodies of the events of a log: everything but their own hashes.\<close>

definition log_bodies :: "env \<Rightarrow> store \<Rightarrow> json list" where
  "log_bodies E f = map event_body (case log_events E (audit_lines f) of None \<Rightarrow> [] | Some evs \<Rightarrow> evs)"

definition collision_free :: "env \<Rightarrow> json list \<Rightarrow> json list \<Rightarrow> bool" where
  "collision_free E as bs \<longleftrightarrow> (\<forall>a\<in>set as. \<forall>b\<in>set bs.
     e_sha256 E (e_canon E a) = e_sha256 E (e_canon E b) \<longrightarrow> e_canon E a = e_canon E b)"

lemma verified_bodies_unique:
  assumes "digest_env E" "canon_env E" "json_env E"
    and "verifies E f n h" "verifies E g m h"
    and "collision_free E (log_bodies E f) (log_bodies E g)"
  shows "log_bodies E f = log_bodies E g"
proof -
  from assms(4,5) obtain es fs where
    "log_events E (audit_lines f) = Some es" "chained E zero_hash es" "h = chain_end E zero_hash es"
    "log_events E (audit_lines g) = Some fs" "chained E zero_hash fs" "h = chain_end E zero_hash fs"
    by (auto simp: verifies_iff)
  with assms chain_end_inj[of E es fs] show ?thesis
    by (auto simp: log_bodies_def collision_free_def event_text_def dest: log_events_wf)
qed

lemma verified_prefix:
  assumes "jsonl_inv (Some t)" "verifies E (Some (t @ u)) n h"
  shows "\<exists>m k. verifies E (Some t) m k \<and> m \<le> n \<and> length (log_bodies E (Some t)) = m"
proof -
  from assms(1) have "audit_lines (Some (t @ u)) = audit_lines (Some t) @ filter (\<lambda>s. s \<noteq> []) (map py_strip (file_lines u))"
    by (simp add: audit_lines_def file_text_def jsonl_inv_def file_lines_append)
  with assms(2) show ?thesis
    by (auto simp: verifies_iff log_events_append log_bodies_def split: option.splits)
qed

lemma verifies_length: "verifies E f n h \<Longrightarrow> length (log_bodies E f) = n"
  by (auto simp: verifies_iff log_bodies_def)

section \<open>The demonstration environment\<close>

lemma demo_digest_env: "digest_env demo_env"
proof -
  have low: "lower_char c = c \<and> \<not> py_isspace c" if "c \<in> set (demo_sha s)" for c s
  proof -
    have c: "97 \<le> (of_char c :: nat)" "(of_char c :: nat) \<le> 112" using demo_sha_lower[OF that] by auto
    then have "\<not> py_isspace c" by (auto simp: py_isspace_def)
    with c show ?thesis by (simp add: lower_char_def Let_def)
  qed
  then have "py_lower (demo_sha s) = demo_sha s" for s
    unfolding py_lower_def by (intro map_idI) auto
  moreover have "py_strip (demo_sha s) = demo_sha s" for s
  proof -
    have k: "dropWhile py_isspace xs = xs" if "\<forall>c\<in>set xs. \<not> py_isspace c" for xs
      using that by (cases xs) auto
    show ?thesis unfolding py_strip_def strip_by_def using low by (subst k | subst rev_rev_ident | simp)+
  qed
  moreover have "demo_render j \<noteq> demo_sha s" "demo_render j \<noteq> zero_hash" "demo_sha s \<noteq> zero_hash" for j s
    by (simp_all add: demo_render_def demo_sha_def zero_hash_def numeral_eq_Suc)
  moreover have "truthy j" if "py_str demo_env j = demo_sha s" for j s
  proof (rule ccontr)
    assume f: "\<not> truthy j"
    show False
    proof (cases "\<exists>x. py_str demo_env j = demo_render x")
      case True
      with that calculation(3) show False by metis
    next
      case False
      with f have "j = JNull \<or> j = JBool False \<or> j = JInt 0 \<or> j = JStr []" by (cases j) auto
      with that show False
        by (auto simp: demo_sha_def int_str_zero)
    qed
  qed
  ultimately show ?thesis by (simp add: digest_env_def)
qed

lemma demo_canon_env: "canon_env demo_env"
  by (simp add: canon_env_def demo_render_inj)

lemma demo_collision_free: "collision_free demo_env as bs"
  by (simp add: collision_free_def demo_sha_inj)

lemma demo_log: "\<exists>f h. jsonl_inv f \<and> verifies demo_env f 1 h"
proof -
  have "jsonl_inv None" "verifies demo_env None 0 zero_hash"
    by (simp_all add: jsonl_inv_def file_text_def verifies_def verify_audit_log_def)
  from audit_write_step[OF demo_digest_env demo_json_env this, of "[(''event'', JStr ''deny'')]" "''t''"]
  obtain f h where "jsonl_inv f" "verifies demo_env f (Suc 0) h" by auto
  then show ?thesis by auto
qed

lemma verifies_text: "verifies E f n h \<longleftrightarrow> verifies E (Some (file_text f)) n h"
  by (simp add: verifies_iff audit_lines_def file_text_def split: option.splits)

lemma audit_lines_blank: "audit_lines (Some (newline # t)) = audit_lines (Some t)"
proof -
  have "py_strip [newline] = []" by code_simp
  then show ?thesis by (simp add: audit_lines_def file_text_def file_lines_def)
qed

lemma audit_lines_non_object:
  "audit_lines (append_jsonl_record demo_env (JList []) None) = [demo_render (JList [])]"
  using audit_lines_append[of None demo_env "JList []"]
  by (simp add: demo_json_line_ok jsonl_inv_def file_text_def audit_lines_def file_lines_def)

lemma demo_loads_non_object: "demo_loads (demo_render (JList [])) = Some (JList [])"
  using demo_json_line_ok[of "JList []"] by (simp add: json_line_ok_def Let_def)

section \<open>Properties\<close>

text \<open>A hash that ends a verified log compares as it is.\<close>

lemma verifies_hash_text:
  assumes "digest_env E" "verifies E f n h"
  shows "py_lower h = h \<and> py_strip h = h"
proof -
  from assms(2) obtain evs where h: "h = chain_end E zero_hash evs" by (auto simp: verifies_iff)
  have "py_lower zero_hash = zero_hash" "py_strip zero_hash = zero_hash" by code_simp+
  then show ?thesis using chain_end_digest[of E evs] assms(1) by (auto simp: h digest_env_def)
qed

text \<open>C9: starting from no log file, any sequence of audit writes (of well-formed events that
  do not bring their own event_hash) succeeds and leaves a log that verify_audit_log accepts,
  with one verified event for each write; the latest hash it reports is the one of the event that
  the last write returned (64 zeros when there was none), and the command-line verification
  against this hash as anchor succeeds.\<close>

theorem audit_writes_verify:
  assumes "digest_env E" "json_env E"
    and "\<forall>(now, ev)\<in>set evs. wf_json (JObj ev) \<and> \<not> has_key ev ''event_hash''"
  shows "\<exists>f r. audit_writes E evs None = (Inr (), f) \<and> verify_audit_log E f = Inr r \<and>
           ar_ok r \<and> ar_events r = length evs \<and>
           (evs = [] \<longrightarrow> ar_latest r = zero_hash) \<and>
           (\<forall>evs0 now ev. evs = evs0 @ [(now, ev)] \<longrightarrow>
             (\<exists>f0 ev'. audit_writes E evs0 None = (Inr (), f0) \<and> audit_write E now ev f0 = (Inr ev', f) \<and>
                ar_latest r = ev_hash E ev')) \<and>
           verify_audit_cli E f (Some (ar_latest r)) = Inr True"
proof -
  have start: "jsonl_inv None" "verifies E None 0 zero_hash"
    by (simp_all add: jsonl_inv_def file_text_def verifies_def verify_audit_log_def)
  have anchored: "verify_audit_cli E f (Some (ar_latest r)) = Inr True"
    if "verify_audit_log E f = Inr r" "ar_ok r" "verifies E f n (ar_latest r)" for f r n
    using verifies_hash_text[OF assms(1) that(3)] that(1,2) by (simp add: verify_audit_cli_def)
  show ?thesis
  proof (cases evs rule: rev_cases)
    case Nil
    obtain r where "verify_audit_log E None = Inr r" "ar_ok r" "ar_events r = 0" "ar_latest r = zero_hash"
      using start(2) by (auto simp: verifies_def)
    then show ?thesis using Nil start(2) anchored[of None r 0] by simp
  next
    case (snoc evs0 p)
    obtain now ev where p: "p = (now, ev)" by fastforce
    have "\<forall>(now, ev)\<in>set evs0. wf_json (JObj ev) \<and> \<not> has_key ev ''event_hash''" using assms(3) snoc by simp
    from audit_writes_verify_from[OF assms(1,2) this start] obtain f0 h where
      f0: "audit_writes E evs0 None = (Inr (), f0)" "jsonl_inv f0" "verifies E f0 (length evs0) h" by auto
    have "wf_json (JObj ev)" "\<not> has_key ev ''event_hash''" using assms(3) snoc p by auto
    from audit_write_step[OF assms(1,2) f0(2,3) this, of now] obtain ev' f where
      f: "audit_write E now ev f0 = (Inr ev', f)" "verifies E f (Suc (length evs0)) (ev_hash E ev')" by blast
    obtain r where r: "verify_audit_log E f = Inr r" "ar_ok r" "ar_events r = Suc (length evs0)" "ar_latest r = ev_hash E ev'"
      using f(2) by (auto simp: verifies_def)
    have "audit_writes E evs None = (Inr (), f)" using f0(1) f(1) by (simp add: snoc p audit_writes_append)
    moreover have "verify_audit_cli E f (Some (ar_latest r)) = Inr True" by (rule anchored[OF r(1,2)]) (use r(4) f(2) in simp)
    ultimately show ?thesis using r f0(1) f(1) by (intro exI[of _ f] exI[of _ r]) (simp add: snoc p)
  qed
qed

theorem audit_writes_verify_witness:
  "\<exists>f r. audit_writes demo_env [(''t0'', [(''event'', JStr ''deny'')]), (''t1'', [(''event'', JStr ''allow'')])] None
      = (Inr (), f) \<and> verify_audit_log demo_env f = Inr r \<and> ar_ok r \<and> ar_events r = 2 \<and>
      verify_audit_cli demo_env f (Some (ar_latest r)) = Inr True"
proof -
  have "\<forall>(now, ev)\<in>set [(''t0'', [(''event'', JStr ''deny'')]), (''t1'', [(''event'', JStr ''allow'')])].
      wf_json (JObj ev) \<and> \<not> has_key ev ''event_hash''" by simp
  from audit_writes_verify[OF demo_digest_env demo_json_env this] show ?thesis by (elim exE conjE) (intro exI conjI; simp)
qed

text \<open>C8: the latest hash pins the whole history: two logs that both verify and have the same
  latest hash hold the same events in the same order, unless two of their events are a
  collision of the hash function.\<close>

theorem audit_log_tamper_evident:
  assumes "digest_env E" "canon_env E" "json_env E"
    and "verify_audit_log E f = Inr r" "ar_ok r" "verify_audit_log E g = Inr q" "ar_ok q"
    and "ar_latest r = ar_latest q"
    and "collision_free E (log_bodies E f) (log_bodies E g)"
  shows "log_bodies E f = log_bodies E g \<and> ar_events r = ar_events q"
proof -
  have v: "verifies E f (ar_events r) (ar_latest r)" "verifies E g (ar_events q) (ar_latest r)"
    using assms(4-8) by (auto simp: verifies_def)
  have "log_bodies E f = log_bodies E g"
    by (rule verified_bodies_unique[OF assms(1-3) v assms(9)])
  with v show ?thesis by (metis verifies_length)
qed

theorem audit_log_tamper_evident_witness:
  "\<exists>f g r q. f \<noteq> g \<and> verify_audit_log demo_env f = Inr r \<and> verify_audit_log demo_env g = Inr q \<and>
     ar_events r = 1 \<and> log_bodies demo_env f = log_bodies demo_env g \<and> ar_events r = ar_events q"
proof -
  obtain f h where "verifies demo_env f 1 h" using demo_log by blast
  then have f: "verifies demo_env (Some (file_text f)) 1 h" by (simp only: verifies_text[symmetric])
  then have g: "verifies demo_env (Some (newline # file_text f)) 1 h"
    by (simp add: verifies_iff audit_lines_blank)
  from f g obtain r q where rq: "verify_audit_log demo_env (Some (file_text f)) = Inr r" "ar_ok r"
    "verify_audit_log demo_env (Some (newline # file_text f)) = Inr q" "ar_ok q"
    "ar_latest r = ar_latest q" "ar_events r = 1"
    by (auto simp: verifies_def)
  from audit_log_tamper_evident[OF demo_digest_env demo_canon_env demo_json_env rq(1-5) demo_collision_free] rq
  show ?thesis by (intro exI[of _ "Some (file_text f)"] exI[of _ "Some (newline # file_text f)"]) auto
qed

text \<open>Cutting a verified log after any line leaves a log that still verifies, so the chain
  alone does not show it; the check against the exported anchor of the whole log fails as
  soon as an event was cut off.\<close>

theorem audit_truncation_needs_anchor:
  assumes "digest_env E" "canon_env E" "json_env E"
    and "verify_audit_log E (Some (t @ u)) = Inr r" "ar_ok r"
    and "t = [] \<or> last t = newline"
    and "log_bodies E (Some t) \<noteq> log_bodies E (Some (t @ u))"
    and "collision_free E (log_bodies E (Some t)) (log_bodies E (Some (t @ u)))"
  shows "verify_audit_cli E (Some t) None = Inr True \<and>
         verify_audit_cli E (Some t) (Some (ar_latest r)) = Inr False"
proof -
  have v: "verifies E (Some (t @ u)) (ar_events r) (ar_latest r)" using assms(4,5) by (auto simp: verifies_def)
  have "jsonl_inv (Some t)" using assms(6) by (simp add: jsonl_inv_def file_text_def)
  from verified_prefix[OF this v] obtain m h where w: "verifies E (Some t) m h" by blast
  have "h \<noteq> ar_latest r"
    using verified_bodies_unique[OF assms(1-3) w _ assms(8)] v assms(7) by blast
  moreover have "py_lower h = h" "py_lower (py_strip (ar_latest r)) = ar_latest r"
    using verifies_hash_text[OF assms(1) w] verifies_hash_text[OF assms(1) v] by simp_all
  moreover obtain r' where "verify_audit_log E (Some t) = Inr r'" "ar_ok r'" "ar_latest r' = h"
    using w by (auto simp: verifies_def)
  ultimately show ?thesis by (simp add: verify_audit_cli_def)
qed

theorem audit_truncation_needs_anchor_witness:
  "\<exists>t u r. verify_audit_log demo_env (Some (t @ u)) = Inr r \<and>
     verify_audit_cli demo_env (Some t) None = Inr True \<and>
     verify_audit_cli demo_env (Some t) (Some (ar_latest r)) = Inr False"
proof -
  obtain f h where "verifies demo_env f 1 h" using demo_log by blast
  then have f: "verifies demo_env (Some ([] @ file_text f)) 1 h" by (simp only: verifies_text[symmetric] append_Nil)
  then have "length (log_bodies demo_env (Some ([] @ file_text f))) = 1" by (rule verifies_length)
  then have ne: "log_bodies demo_env (Some []) \<noteq> log_bodies demo_env (Some ([] @ file_text f))"
    by (auto simp: log_bodies_def audit_lines_def file_text_def file_lines_def)
  from f obtain r where r: "verify_audit_log demo_env (Some ([] @ file_text f)) = Inr r" "ar_ok r"
    by (auto simp: verifies_def)
  from audit_truncation_needs_anchor[OF demo_digest_env demo_canon_env demo_json_env r _ ne demo_collision_free] r
  show ?thesis by (intro exI[of _ "[]"] exI[of _ "file_text f"]) auto
qed

text \<open>A log whose last line is JSON but no object stops the audit: the write raises
  AttributeError and changes nothing, so no later event is recorded, and verify_audit_log
  raises as well instead of reporting the line.\<close>

theorem audit_non_object_line_raises:
  assumes "audit_lines f \<noteq> []" "e_loads E (last (audit_lines f)) = Some j" "\<not> is_dict j"
  shows "audit_write E now ev f = (Inl (PyError ''AttributeError''), f) \<and>
         verify_audit_log E f = Inl (PyError ''AttributeError'')"
proof -
  have g: "py_get j k v = Inl (PyError ''AttributeError'')" for k v using assms(3) by (cases j) auto
  have "verify_loop E i ls prev n errs = Inl (PyError ''AttributeError'')"
    if "filter (\<lambda>s. s \<noteq> []) (map py_strip ls) \<noteq> []"
      "e_loads E (last (filter (\<lambda>s. s \<noteq> []) (map py_strip ls))) = Some j" for i ls prev n errs
    using that
  proof (induction ls arbitrary: i prev n errs)
    case (Cons l ls)
    show ?case
    proof (cases "filter (\<lambda>s. s \<noteq> []) (map py_strip ls) = []")
      case True
      with Cons.prems assms(3) show ?thesis by (cases j) (auto split: if_splits)
    next
      case False
      with Cons.prems(2) have last: "e_loads E (last (filter (\<lambda>s. s \<noteq> []) (map py_strip ls))) = Some j"
        by (auto split: if_splits)
      from Cons.IH[OF False last] show ?thesis
        by (auto simp: Let_def split: option.split json.split)
    qed
  qed simp
  from this[of "file_lines (file_text f)"] assms(1,2)
  have "verify_loop E 1 (file_lines (file_text f)) zero_hash 0 [] = Inl (PyError ''AttributeError'')"
    by (simp add: audit_lines_def)
  moreover have "f \<noteq> None" using assms(1)
    by (cases f) (simp_all add: audit_lines_def file_text_def file_lines_def)
  ultimately show ?thesis
    using g assms(1,2) by (auto simp: audit_write_def last_hash_def verify_audit_log_def file_text_def)
qed

theorem audit_non_object_line_raises_witness:
  "audit_write demo_env ''t'' [] (append_jsonl_record demo_env (JList []) None)
     = (Inl (PyError ''AttributeError''), append_jsonl_record demo_env (JList []) None) \<and>
   verify_audit_log demo_env (append_jsonl_record demo_env (JList []) None) = Inl (PyError ''AttributeError'')"
  by (rule audit_non_object_line_raises[of _ _ "JList []"])
     (simp_all add: audit_lines_non_object demo_loads_non_object)

end
