(* ===== verification/Rate_Limiter.thy ===== *)
theory Rate_Limiter
  imports Pyvalue
begin

text \<open>
  The sliding-window rate limiter of proxy.py (\<open>RateLimiter\<close>), the one table shared by the
  per-agent admission (\<open>admit_agent\<close>) and the receipt limit
  (\<open>check_report_receipt_rate_limit\<close>) of gateway.py. Times are \<open>time.monotonic()\<close> values,
  taken as rationals. A check reads the clock before it takes the lock; \<open>check_locked\<close> is the part
  under the lock, and the last section lets threads interleave between the two.
\<close>

section \<open>The table\<close>

record limiter =
  rl_events :: "(string \<times> rat list) list"
  rl_expires :: "(string \<times> rat) list"

definition limiter_reset :: limiter where
  "limiter_reset = \<lparr>rl_events = [], rl_expires = []\<rparr>"

definition max_buckets :: nat where
  "max_buckets = 4096"

text \<open>Buckets whose deadline has passed are dropped, from both dictionaries.\<close>

definition purge :: "rat \<Rightarrow> limiter \<Rightarrow> limiter" where
  "purge now L =
     (let dead = map fst (filter (\<lambda>(k, deadline). deadline \<le> now) (rl_expires L))
      in \<lparr>rl_events = filter (\<lambda>(k, ev). k \<notin> set dead) (rl_events L),
          rl_expires = filter (\<lambda>(k, d). k \<notin> set dead) (rl_expires L)\<rparr>)"

text \<open>The part of \<open>RateLimiter.check\<close> under the lock, for a positive window and limit.\<close>

definition check_locked :: "string \<Rightarrow> rat \<Rightarrow> int \<Rightarrow> rat \<Rightarrow> limiter \<Rightarrow> (bool \<times> int) \<times> limiter" where
  "check_locked key window max_requests now L =
     (let cutoff = now - window;
          L = purge now L
      in if map_of (rl_events L) key = None \<and> max_buckets \<le> length (rl_events L)
         then ((False, max 1 (rat_trunc window)), L)
         else let events = filter (\<lambda>t. cutoff \<le> t)
                             (case map_of (rl_events L) key of None \<Rightarrow> [] | Some ev \<Rightarrow> ev)
           in if max_requests \<le> int (length events)
              then ((False, max 1 (rat_trunc (hd events + window - now) + 1)),
                    L\<lparr>rl_events := AList.update key events (rl_events L)\<rparr>)
              else ((True, 0),
                    L\<lparr>rl_events := AList.update key (events @ [now]) (rl_events L),
                      rl_expires := AList.update key (now + window) (rl_expires L)\<rparr>))"

text \<open>
  \<open>RateLimiter.check\<close>: the options of the configuration, overridden by \<open>override\<close>; a
  disabled limiter or an empty window admits everything, a limit of zero nothing. A window
  is a finite number (\<open>float\<close> of a string and infinite windows are not modelled).
\<close>

definition rate_options :: "dict \<Rightarrow> dict \<Rightarrow> dict" where
  "rate_options cfg override =
     foldl (\<lambda>d (k, v). AList.update k v d) (dict_or_empty (dget cfg ''rate_limit'' (JObj []))) override"

fun window_of :: "json \<Rightarrow> rat res" where
  "window_of (JInt i) = Inr (of_int i)"
| "window_of (JBool b) = Inr (if b then 1 else 0)"
| "window_of (JFloat (Fin r)) = Inr r"
| "window_of _ = Inl (PyError ''TypeError'')"

definition rate_check :: "string \<Rightarrow> dict \<Rightarrow> dict \<Rightarrow> rat \<Rightarrow> (limiter, bool \<times> int) act" where
  "rate_check key cfg override now = (\<lambda>L.
     let options = rate_options cfg override in
     if \<not> truthy (dget options ''enabled'' (JBool True)) then (Inr (True, 0), L)
     else case window_of (dget options ''window_seconds'' (JInt 60)) of
       Inl e \<Rightarrow> (Inl e, L)
     | Inr window \<Rightarrow>
         (case py_int (dget options ''max_requests'' (JInt 120)) of
            Inl e \<Rightarrow> (Inl e, L)
          | Inr max_requests \<Rightarrow>
              if window \<le> 0 then (Inr (True, 0), L)
              else if max_requests \<le> 0 then (Inr (False, max 1 (rat_trunc window)), L)
              else let (r, L') = check_locked key window max_requests now L in (Inr r, L')))"

section \<open>The table invariant\<close>

definition limiter_inv :: "limiter \<Rightarrow> bool" where
  "limiter_inv L \<longleftrightarrow> distinct (map fst (rl_events L)) \<and> distinct (map fst (rl_expires L)) \<and>
     fst ` set (rl_events L) = fst ` set (rl_expires L) \<and> length (rl_events L) \<le> max_buckets"

lemma length_update_alist:
  "length (AList.update k v d) = (if k \<in> fst ` set d then length d else Suc (length d))"
  by (induction d) auto

lemma map_of_filter_key:
  "map_of (filter (\<lambda>(k, v). P k) d) key = (if P key then map_of d key else None)"
  by (induction d) auto

lemma limiter_inv_reset: "limiter_inv limiter_reset"
  by (simp add: limiter_inv_def limiter_reset_def)

lemma distinct_map_filter_fst: "distinct (map fst d) \<Longrightarrow> distinct (map fst (filter P d))"
  by (induction d) auto

lemma fst_filter_key: "fst ` set (filter (\<lambda>(k, v). P k) d) = {k \<in> fst ` set d. P k}"
  by force

lemma limiter_inv_purge: "limiter_inv L \<Longrightarrow> limiter_inv (purge now L)"
  unfolding limiter_inv_def purge_def Let_def limiter.simps fst_filter_key
  by (auto simp: distinct_map_filter_fst simp del: set_filter intro: le_trans[OF length_filter_le])

text \<open>A check keeps the invariant: the two dictionaries have the same keys, at most 4096.\<close>

lemma limiter_inv_check:
  assumes "limiter_inv L" "0 < max_requests"
  shows "limiter_inv (snd (check_locked key window max_requests now L))"
proof -
  let ?L = "purge now L"
  have p: "limiter_inv ?L" using assms(1) by (rule limiter_inv_purge)
  have k: "map_of (rl_events ?L) key = None \<longleftrightarrow> key \<notin> fst ` set (rl_events ?L)"
    by (simp add: map_of_eq_None_iff)
  show ?thesis
    using p assms(2) k
    by (auto simp: check_locked_def Let_def limiter_inv_def distinct_update dom_update
        length_update_alist split: option.splits)
qed

section \<open>The sliding window\<close>

definition bucket :: "limiter \<Rightarrow> string \<Rightarrow> rat list" where
  "bucket L k = (case map_of (rl_events L) k of None \<Rightarrow> [] | Some ev \<Rightarrow> ev)"

text \<open>
  A sequence of checks: each names a key and a time, keys have their own window and limit.
  The result lists which were admitted.
\<close>

fun limiter_run :: "(string \<Rightarrow> rat) \<Rightarrow> (string \<Rightarrow> int) \<Rightarrow> (string \<times> rat) list \<Rightarrow> limiter \<Rightarrow>
    (string \<times> rat \<times> bool) list" where
  "limiter_run win cap [] L = []"
| "limiter_run win cap ((k, t) # cs) L =
     (let (r, L') = check_locked k (win k) (cap k) t L
      in (k, t, fst r) # limiter_run win cap cs L')"

definition admitted :: "string \<Rightarrow> (string \<times> rat \<times> bool) list \<Rightarrow> rat list" where
  "admitted k tr = map (fst \<circ> snd) (filter (\<lambda>(k', t, ok). k' = k \<and> ok) tr)"

text \<open>
  What the table remembers of a key whose admissions so far are \<open>A\<close>, when the readings of the
  clock so far are at most \<open>hi\<close> and the next ones may lag behind them by \<open>d\<close>: every admission a
  later check still counts, a deadline for the last one; and the admissions so far respect the
  limit.
\<close>

definition in_window :: "rat \<Rightarrow> rat \<Rightarrow> rat list \<Rightarrow> nat" where
  "in_window w t A = length (filter (\<lambda>a. t - w < a \<and> a \<le> t) A)"

definition remembers :: "rat \<Rightarrow> rat \<Rightarrow> int \<Rightarrow> string \<Rightarrow> rat \<Rightarrow> limiter \<Rightarrow> rat list \<Rightarrow> bool" where
  "remembers d w m k hi L A \<longleftrightarrow>
     (\<forall>a\<in>set A. a \<le> hi) \<and>
     (\<forall>t\<ge>hi - d. filter (\<lambda>a. t - (w - 2 * d) < a) A = filter (\<lambda>a. t - (w - 2 * d) < a) (bucket L k)) \<and>
     (\<forall>e. map_of (rl_expires L) k = Some e \<longrightarrow> (\<forall>a\<in>set A. a + w \<le> e + d)) \<and>
     (\<forall>t. int (in_window (w - 2 * d) t A) \<le> m)"

lemma map_of_purge:
  assumes "limiter_inv L"
  shows "map_of (rl_expires (purge now L)) k =
           (case map_of (rl_expires L) k of None \<Rightarrow> None | Some d \<Rightarrow> if d \<le> now then None else Some d)"
    and "map_of (rl_events (purge now L)) k =
           (case map_of (rl_expires L) k of None \<Rightarrow> None | Some d \<Rightarrow> if d \<le> now then None else map_of (rl_events L) k)"
proof -
  have i: "distinct (map fst (rl_expires L))" "fst ` set (rl_events L) = fst ` set (rl_expires L)"
    using assms by (auto simp: limiter_inv_def)
  have dead: "k \<in> fst ` set (filter (\<lambda>(k, d). d \<le> now) (rl_expires L)) \<longleftrightarrow>
      (\<exists>d. map_of (rl_expires L) k = Some d \<and> d \<le> now)"
    using i(1) by (force simp: map_of_eq_Some_iff image_iff)
  have ev: "map_of (rl_expires L) k = None \<Longrightarrow> map_of (rl_events L) k = None"
    using i(2) by (simp add: map_of_eq_None_iff)
  show "map_of (rl_expires (purge now L)) k =
           (case map_of (rl_expires L) k of None \<Rightarrow> None | Some d \<Rightarrow> if d \<le> now then None else Some d)"
    using dead by (auto simp: purge_def Let_def map_of_filter_key split: option.splits)
  show "map_of (rl_events (purge now L)) k =
           (case map_of (rl_expires L) k of None \<Rightarrow> None | Some d \<Rightarrow> if d \<le> now then None else map_of (rl_events L) k)"
    using dead ev by (auto simp: purge_def Let_def map_of_filter_key split: option.splits)
qed

lemma remembers_purge:
  assumes "limiter_inv L" "remembers d w m k hi L A" "hi - d \<le> now" "0 \<le> d"
  shows "remembers d w m k (max hi now) (purge now L) A"
proof -
  let ?f = "\<lambda>t a. t - (w - 2 * d) < a"
  have r: "\<forall>a\<in>set A. a \<le> hi" "\<forall>t\<ge>hi - d. filter (?f t) A = filter (?f t) (bucket L k)"
    "\<forall>e. map_of (rl_expires L) k = Some e \<longrightarrow> (\<forall>a\<in>set A. a + w \<le> e + d)" "\<forall>t. int (in_window (w - 2 * d) t A) \<le> m"
    using assms(2) by (auto simp: remembers_def)
  have "filter (?f t) A = filter (?f t) (bucket (purge now L) k)" if t: "max hi now - d \<le> t" for t
  proof (cases "\<exists>e. map_of (rl_expires L) k = Some e \<and> e \<le> now")
    case True
    then have "\<forall>a\<in>set A. \<not> ?f t a" using r(3) t by force
    then have "filter (?f t) A = []" by (simp add: filter_empty_conv)
    moreover have "bucket (purge now L) k = []"
      using True by (auto simp: bucket_def map_of_purge[OF assms(1)])
    ultimately show ?thesis by simp
  next
    case False
    have "map_of (rl_expires L) k = None \<Longrightarrow> map_of (rl_events L) k = None"
      using assms(1) by (simp add: limiter_inv_def map_of_eq_None_iff)
    with False have "bucket (purge now L) k = bucket L k"
      by (auto simp: bucket_def map_of_purge[OF assms(1)] split: option.splits)
    with r(2) t show ?thesis by simp
  qed
  moreover have "\<forall>e. map_of (rl_expires (purge now L)) k = Some e \<longrightarrow> (\<forall>a\<in>set A. a + w \<le> e + d)"
    using r(3) by (auto simp: map_of_purge[OF assms(1)] split: option.splits if_splits)
  ultimately show ?thesis using r(1,4) by (auto simp: remembers_def)
qed

text \<open>One locked section: an admission is added to the history of its key, everything else stays.\<close>

lemma remembers_check:
  assumes "limiter_inv L" "remembers d w m k hi L A" "hi - d \<le> now" "0 \<le> d"
    and "k' = k \<Longrightarrow> w' = w \<and> m' = m" "0 < w" "0 < m"
    and "check_locked k' w' m' now L = (r, L')"
  shows "remembers d w m k (max hi now) L' (if k' = k \<and> fst r then A @ [now] else A)"
proof -
  let ?P = "purge now L" and ?h = "max hi now" and ?f = "\<lambda>t a. t - (w - 2 * d) < a"
  have p: "remembers d w m k ?h ?P A" by (rule remembers_purge[OF assms(1-4)])
  have r: "\<forall>a\<in>set A. a \<le> ?h" "\<forall>t\<ge>?h - d. filter (?f t) A = filter (?f t) (bucket ?P k)"
    "\<forall>e. map_of (rl_expires ?P) k = Some e \<longrightarrow> (\<forall>a\<in>set A. a + w \<le> e + d)" "\<forall>t. int (in_window (w - 2 * d) t A) \<le> m"
    using p by (auto simp: remembers_def)
  have low: "?h - d \<le> now" using assms(3,4) by simp
  show ?thesis
  proof (cases "k' = k")
    case False
    with assms(8) have "bucket L' k = bucket ?P k" "map_of (rl_expires L') k = map_of (rl_expires ?P) k"
      by (auto simp: check_locked_def Let_def bucket_def split: if_splits)
    with p False show ?thesis by (simp add: remembers_def)
  next
    case True
    with assms(5) have wm: "w' = w" "m' = m" by auto
    define evs where "evs = filter (\<lambda>t. now - w \<le> t) (bucket ?P k)"
    have fe: "filter (?f t) evs = filter (?f t) A" if "?h - d \<le> t" for t
      using r(2) that assms(4) by (auto simp: evs_def intro!: filter_cong)
    consider (full) "r = (False, max 1 (rat_trunc w))" "L' = ?P"
      | (deny) "\<not> fst r" "L' = ?P\<lparr>rl_events := AList.update k evs (rl_events ?P)\<rparr>"
      | (admit) "fst r" "int (length evs) < m"
          "L' = ?P\<lparr>rl_events := AList.update k (evs @ [now]) (rl_events ?P),
                  rl_expires := AList.update k (now + w) (rl_expires ?P)\<rparr>"
      using assms(8) True wm
      by (auto simp: check_locked_def Let_def bucket_def evs_def split: if_splits option.splits)
    then show ?thesis
    proof cases
      case full
      with p show ?thesis by simp
    next
      case deny
      with p fe show ?thesis by (simp add: remembers_def bucket_def)
    next
      case admit
      have c: "in_window (w - 2 * d) t (A @ [now]) \<le> (if now \<le> t then Suc (length evs) else in_window (w - 2 * d) t A)" for t
      proof (cases "now \<le> t")
        case True
        have "length (filter (\<lambda>a. t - (w - 2 * d) < a \<and> a \<le> t) A) \<le> length (filter (?f t) A)"
          by (induction A) auto
        also have "\<dots> \<le> length evs" using fe[of t] low True length_filter_le[of "?f t" evs] by simp
        finally show ?thesis using True by (simp add: in_window_def)
      qed (simp add: in_window_def)
      have "int (in_window (w - 2 * d) t (A @ [now])) \<le> m" for t
        using c[of t] r(4) admit(2) by (smt (verit, best) of_nat_Suc of_nat_le_iff)
      moreover have "\<forall>a\<in>set A. a \<le> now + d" using r(1) low by fastforce
      ultimately show ?thesis using admit True r(1) fe assms(4) by (auto simp: remembers_def bucket_def)
    qed
  qed
qed

text \<open>Readings of the clock that lag behind an earlier one by at most \<open>d\<close>, none below \<open>hi - d\<close>.\<close>

fun lag_behind :: "rat \<Rightarrow> rat \<Rightarrow> rat list \<Rightarrow> bool" where
  "lag_behind d hi [] = True"
| "lag_behind d hi (t # ts) \<longleftrightarrow> hi - d \<le> t \<and> lag_behind d (max hi t) ts"

lemma limiter_run_remembers:
  assumes "limiter_inv L" "remembers d (win k) (cap k) k hi L A"
    and "lag_behind d hi (map snd cs)" "\<forall>k. 0 < win k \<and> 0 < cap k" "0 \<le> d"
  shows "int (in_window (win k - 2 * d) t (A @ admitted k (limiter_run win cap cs L))) \<le> cap k"
  using assms(1-3)
proof (induction cs arbitrary: L A hi)
  case Nil
  then show ?case by (simp add: admitted_def remembers_def)
next
  case (Cons c cs)
  obtain k' now where c: "c = (k', now)" by (cases c)
  obtain r L' where step: "check_locked k' (win k') (cap k') now L = (r, L')"
    by (cases "check_locked k' (win k') (cap k') now L")
  let ?A = "if k' = k \<and> fst r then A @ [now] else A"
  have pos: "0 < win k" "0 < cap k" "0 < cap k'" "k' = k \<Longrightarrow> win k' = win k \<and> cap k' = cap k"
    using assms(4) by auto
  have "remembers d (win k) (cap k) k (max hi now) L' ?A"
    by (rule remembers_check[OF Cons.prems(1,2) _ assms(5) pos(4,1,2) step]) (use Cons.prems(3) c in auto)
  moreover have "limiter_inv L'"
    using limiter_inv_check[OF Cons.prems(1) pos(3), of k' "win k'" now] step by simp
  ultimately have "int (in_window (win k - 2 * d) t (?A @ admitted k (limiter_run win cap cs L'))) \<le> cap k"
    using Cons.IH[where L = L' and A = ?A and hi = "max hi now"] Cons.prems(3) c by auto
  then show ?case using c step by (auto simp: admitted_def)
qed

lemma limiter_run_bounded:
  assumes "lag_behind d hi (map snd cs)" "\<forall>k. 0 < win k \<and> 0 < cap k" "0 \<le> d"
  shows "int (in_window (win k - 2 * d) t (admitted k (limiter_run win cap cs limiter_reset))) \<le> cap k"
proof -
  have "remembers d (win k) (cap k) k hi limiter_reset []"
    using assms(2) by (simp add: remembers_def bucket_def limiter_reset_def in_window_def order_less_imp_le)
  from limiter_run_remembers[OF limiter_inv_reset this assms, of t] show ?thesis by simp
qed

section \<open>Threads\<close>

text \<open>
  \<open>check\<close> reads \<open>time.monotonic()\<close> and only then takes the lock, so the locked sections of several
  threads need not come in the order of their readings. The steps of the threads in the order in
  which they happen, each with the time: a thread reads the clock for a key, or runs its locked section.
\<close>

datatype limiter_step = Reads nat string | Locks nat

fun locked :: "(rat \<times> limiter_step) list \<Rightarrow> (nat \<times> string \<times> rat) list \<Rightarrow> (string \<times> rat) list" where
  "locked [] R = []"
| "locked ((u, Reads i k) # st) R = locked st (AList.update i (k, u) R)"
| "locked ((u, Locks i) # st) R = (case map_of R i of
       None \<Rightarrow> locked st R
     | Some c \<Rightarrow> c # locked st (AList.delete i R))"

fun threads_run :: "(string \<Rightarrow> rat) \<Rightarrow> (string \<Rightarrow> int) \<Rightarrow> (rat \<times> limiter_step) list \<Rightarrow> (nat \<times> string \<times> rat) list \<Rightarrow> limiter \<Rightarrow>
    (string \<times> rat \<times> bool) list" where
  "threads_run win cap [] R L = []"
| "threads_run win cap ((u, Reads i k) # st) R L = threads_run win cap st (AList.update i (k, u) R) L"
| "threads_run win cap ((u, Locks i) # st) R L = (case map_of R i of
       None \<Rightarrow> threads_run win cap st R L
     | Some (k, now) \<Rightarrow>
         let (r, L') = check_locked k (win k) (cap k) now L
         in (k, now, fst r) # threads_run win cap st (AList.delete i R) L')"

lemma threads_run_locked: "threads_run win cap st R L = limiter_run win cap (locked st R) L"
  by (induction win cap st R L rule: threads_run.induct) (auto split: option.split prod.split)

text \<open>No thread waits longer than \<open>d\<close> between its reading and its locked section.\<close>

fun waits_at_most :: "rat \<Rightarrow> (rat \<times> limiter_step) list \<Rightarrow> (nat \<times> string \<times> rat) list \<Rightarrow> bool" where
  "waits_at_most d [] R = True"
| "waits_at_most d ((u, Reads i k) # st) R = waits_at_most d st (AList.update i (k, u) R)"
| "waits_at_most d ((u, Locks i) # st) R = (case map_of R i of
       None \<Rightarrow> waits_at_most d st R
     | Some (k, t) \<Rightarrow> u - d \<le> t \<and> waits_at_most d st (AList.delete i R))"

lemma locked_lag:
  assumes "waits_at_most d st R" "sorted (map fst st)" "\<forall>(i, k, t)\<in>set R. \<forall>s\<in>set st. t \<le> fst s" "\<forall>s\<in>set st. hi \<le> fst s"
  shows "lag_behind d hi (map snd (locked st R))"
  using assms
proof (induction d st R arbitrary: hi rule: waits_at_most.induct)
  case (2 d u i k st R)
  have "set (AList.update i (k, u) R) \<subseteq> insert (i, k, u) (set R)" by (induction R) auto
  with 2 show ?case by fastforce
next
  case (3 d u i st R)
  show ?case
  proof (cases "map_of R i")
    case None
    with 3 show ?thesis by fastforce
  next
    case (Some kt)
    obtain k t where kt: "kt = (k, t)" by fastforce
    have m: "(i, k, t) \<in> set R" using Some kt by (auto dest: map_of_SomeD)
    have "set (AList.delete i R) \<subseteq> set R" by (auto simp: AList.delete_eq)
    moreover have "t \<le> fst s" if "s \<in> set st" for s using m 3(5) that by fastforce
    ultimately have "lag_behind d (max hi t) (map snd (locked st (AList.delete i R)))"
      using 3 Some kt by (intro 3(2)) (fastforce+)
    then show ?thesis using Some kt 3 by fastforce
  qed
qed simp

lemma sorted_no_lag: "sorted (hi # ts) \<Longrightarrow> lag_behind 0 hi ts"
  by (induction ts arbitrary: hi) (auto simp: max_def)

text \<open>C11: over any interleaving of the checks of any threads and keys, from an empty table, the
  number of admissions of a key whose clock readings lie inside any window of the configured length
  never exceeds the configured limit as long as the threads take the lock in the order of their
  readings. In any order, when no thread waits longer than \<open>d\<close> for the lock, the limit holds for
  every window shorter than the configured one by \<open>2 * d\<close>. Purging and the bound of the table lose
  no admission that still counts.\<close>

theorem rate_limit_sliding_window:
  assumes "sorted (map fst st)" "\<forall>k. 0 < win k \<and> 0 < cap k"
  shows "(sorted (map snd (locked st [])) \<longrightarrow>
      int (in_window (win k) t (admitted k (threads_run win cap st [] limiter_reset))) \<le> cap k) \<and>
    (0 \<le> d \<and> waits_at_most d st [] \<longrightarrow>
      int (in_window (win k - 2 * d) t (admitted k (threads_run win cap st [] limiter_reset))) \<le> cap k)"
proof (intro conjI impI)
  assume s: "sorted (map snd (locked st []))"
  have "lag_behind 0 (if locked st [] = [] then 0 else snd (hd (locked st []))) (map snd (locked st []))"
    by (rule sorted_no_lag) (use s in \<open>cases "locked st []"; auto\<close>)
  then show "int (in_window (win k) t (admitted k (threads_run win cap st [] limiter_reset))) \<le> cap k"
    using limiter_run_bounded[OF _ assms(2), of 0] by (simp add: threads_run_locked)
next
  assume w: "0 \<le> d \<and> waits_at_most d st []"
  have "lag_behind d (if st = [] then 0 else fst (hd st)) (map snd (locked st []))"
    by (rule locked_lag) (use w assms(1) in \<open>cases st; auto\<close>)+
  then show "int (in_window (win k - 2 * d) t (admitted k (threads_run win cap st [] limiter_reset))) \<le> cap k"
    using limiter_run_bounded[OF _ assms(2)] w by (simp add: threads_run_locked)
qed

theorem rate_limit_sliding_window_witness:
  "int (in_window 60 61 (admitted ''a'' (threads_run (\<lambda>_. 60) (\<lambda>_. 2)
     [(0, Reads 1 ''a''), (0, Locks 1), (2, Reads 2 ''a''), (3, Reads 1 ''a''), (4, Locks 2), (5, Locks 1)] [] limiter_reset))) \<le> 2"
  using rate_limit_sliding_window[of "[(0, Reads 1 ''a''), (0, Locks 1), (2, Reads 2 ''a''), (3, Reads 1 ''a''), (4, Locks 2), (5, Locks 1)]"
      "\<lambda>_. 60" "\<lambda>_. 2" "''a''" 61 0]
  by simp

text \<open>
  The order of the readings matters: at a limit of three in sixty seconds (times in hundredths of
  a second), a thread that reads 5999 and gets the lock after one that read 6015 is admitted as the
  fourth of its window.
\<close>

lemma late_lock_exceeds_window:
  "in_window 6000 5999 (admitted ''a'' (threads_run (\<lambda>_. 6000) (\<lambda>_. 3)
     [(0, Reads 1 ''a''), (0, Locks 1), (10, Reads 1 ''a''), (10, Locks 1), (20, Reads 1 ''a''), (20, Locks 1),
      (5999, Reads 2 ''a''), (6015, Reads 3 ''a''), (6015, Locks 3), (6015, Locks 2)] [] limiter_reset)) = 4"
proof -
  have c: "check_locked ''a'' 6000 3 0 limiter_reset = ((True, 0), \<lparr>rl_events = [(''a'', [0])], rl_expires = [(''a'', 6000)]\<rparr>)"
    "check_locked ''a'' 6000 3 10 \<lparr>rl_events = [(''a'', [0])], rl_expires = [(''a'', 6000)]\<rparr> =
       ((True, 0), \<lparr>rl_events = [(''a'', [0, 10])], rl_expires = [(''a'', 6010)]\<rparr>)"
    "check_locked ''a'' 6000 3 20 \<lparr>rl_events = [(''a'', [0, 10])], rl_expires = [(''a'', 6010)]\<rparr> =
       ((True, 0), \<lparr>rl_events = [(''a'', [0, 10, 20])], rl_expires = [(''a'', 6020)]\<rparr>)"
    "check_locked ''a'' 6000 3 6015 \<lparr>rl_events = [(''a'', [0, 10, 20])], rl_expires = [(''a'', 6020)]\<rparr> =
       ((True, 0), \<lparr>rl_events = [(''a'', [20, 6015])], rl_expires = [(''a'', 12015)]\<rparr>)"
    "check_locked ''a'' 6000 3 5999 \<lparr>rl_events = [(''a'', [20, 6015])], rl_expires = [(''a'', 12015)]\<rparr> =
       ((True, 0), \<lparr>rl_events = [(''a'', [20, 6015, 5999])], rl_expires = [(''a'', 11999)]\<rparr>)"
    by (simp_all add: check_locked_def purge_def limiter_reset_def max_buckets_def Let_def)
  show ?thesis by (simp add: c admitted_def in_window_def)
qed

text \<open>C12: a check keeps the table at 4096 buckets or fewer with a deadline for each, never drops
  the bucket of another key before its deadline has passed (a key that is new to a full table
  is refused instead), and admits a key it already holds exactly when fewer than the limit of
  its requests are inside the window.\<close>

theorem rate_table_bounded_no_live_eviction:
  assumes "limiter_inv L" "0 < max_requests"
    and "check_locked key window max_requests now L = (r, L')"
  shows "limiter_inv L' \<and>
    (\<forall>k d. k \<noteq> key \<and> map_of (rl_expires L) k = Some d \<and> now < d \<longrightarrow>
       map_of (rl_events L') k = map_of (rl_events L) k \<and> map_of (rl_expires L') k = Some d) \<and>
    (\<forall>d. map_of (rl_expires L) key = Some d \<and> now < d \<longrightarrow>
       (fst r \<longleftrightarrow> int (length (filter (\<lambda>t. now - window \<le> t) (bucket L key))) < max_requests))"
proof (intro conjI allI impI)
  show "limiter_inv L'" using limiter_inv_check[OF assms(1,2), of key window now] assms(3) by simp
next
  fix k d assume k: "k \<noteq> key \<and> map_of (rl_expires L) k = Some d \<and> now < d"
  then have "map_of (rl_events (purge now L)) k = map_of (rl_events L) k"
    "map_of (rl_expires (purge now L)) k = Some d"
    using map_of_purge[OF assms(1)] by simp_all
  with k assms(3)
  show "map_of (rl_events L') k = map_of (rl_events L) k" "map_of (rl_expires L') k = Some d"
    by (auto simp: check_locked_def Let_def split: if_splits)
next
  fix d assume d: "map_of (rl_expires L) key = Some d \<and> now < d"
  have "map_of (rl_events (purge now L)) key = map_of (rl_events L) key"
    using map_of_purge(2)[OF assms(1), of now key] d by simp
  moreover have "map_of (rl_events L) key \<noteq> None"
    using assms(1) d by (metis limiter_inv_def map_of_eq_None_iff option.distinct(1))
  ultimately show "fst r \<longleftrightarrow> int (length (filter (\<lambda>t. now - window \<le> t) (bucket L key))) < max_requests"
    using assms(3) by (auto simp: check_locked_def Let_def bucket_def split: if_splits)
qed

theorem rate_table_bounded_no_live_eviction_witness:
  "fst (fst (check_locked ''a'' 60 2 9 \<lparr>rl_events = [(''a'', [8])], rl_expires = [(''a'', 68)]\<rparr>))"
proof -
  let ?L = "\<lparr>rl_events = [(''a'', [8])], rl_expires = [(''a'', 68)]\<rparr> :: limiter"
  have i: "limiter_inv ?L" by (simp add: limiter_inv_def max_buckets_def)
  obtain r L' where c: "check_locked ''a'' 60 2 9 ?L = (r, L')" by fastforce
  have "map_of (rl_expires ?L) ''a'' = Some 68 \<and> 9 < (68 :: rat)" by simp
  then have "fst r \<longleftrightarrow> int (length (filter (\<lambda>t. 9 - 60 \<le> t) (bucket ?L ''a''))) < 2"
    using rate_table_bounded_no_live_eviction[OF i _ c] by simp
  then show ?thesis using c by (simp add: bucket_def)
qed

end
