(* ===== verification/Decision.thy ===== *)
theory Decision
  imports Pyvalue
begin

text \<open>
  The two records every handler of gateway.py passes along: the caller that was
  authenticated (\<open>VerifiedAgent\<close>) and the route that was chosen (\<open>RouteDecision\<close>), and the
  accessors of a request they are computed from. HTTP headers are a list of name-value
  pairs, looked up without regard to case as \<open>email.message.Message.get\<close> does.
\<close>

record verified_agent =
  va_agent_id :: string
  va_agent :: dict
  va_principal :: string
  va_bound_run_id :: string

definition role :: "verified_agent \<Rightarrow> string" where
  "role v = (if va_principal v \<noteq> [] then va_principal v else va_agent_id v)"

record route_decision =
  rd_route_id :: string
  rd_route :: dict
  rd_capability :: string
  rd_run_id :: "string option"
  rd_task_id :: "string option"
  rd_taint :: "string list"
  rd_warnings :: "string list"

type_synonym headers = "(string \<times> string) list"

definition header_get :: "headers \<Rightarrow> string \<Rightarrow> string" where
  \<comment> \<open>\<open>headers.get(name, "")\<close>\<close>
  "header_get hs name = (case find (\<lambda>(n, v). py_lower n = py_lower name) hs of
       None \<Rightarrow> [] | Some (n, v) \<Rightarrow> v)"

definition header_value :: "headers \<Rightarrow> string \<Rightarrow> string" where
  "header_value hs name = py_strip (header_get hs name)"

definition metadata :: "dict \<Rightarrow> dict" where
  "metadata payload = dict_or_empty (dget payload ''metadata'' (JObj []))"

section \<open>Identifier patterns\<close>

text \<open>
  \<open>RUN_ID_PATTERN.fullmatch\<close> and \<open>SHA256_HEX_PATTERN.fullmatch\<close>. \<open>fullmatch\<close> on a pattern
  that ends in \<open>$\<close> does not accept a trailing line feed.
\<close>

definition code_in :: "nat \<Rightarrow> nat \<Rightarrow> char \<Rightarrow> bool" where
  "code_in m n c \<longleftrightarrow> m \<le> of_char c \<and> of_char c \<le> n"

definition is_alnum :: "char \<Rightarrow> bool" where
  "is_alnum c \<longleftrightarrow> is_digit c \<or> code_in 65 90 c \<or> code_in 97 122 c"

definition run_id_ok :: "string \<Rightarrow> bool" where
  "run_id_ok s \<longleftrightarrow> 1 \<le> length s \<and> length s \<le> 128 \<and>
     list_all (\<lambda>c. is_alnum c \<or> c = CHR ''.'' \<or> c = CHR ''_'' \<or> c = CHR ''-'') s"

definition is_lower_hex :: "char \<Rightarrow> bool" where
  "is_lower_hex c \<longleftrightarrow> is_digit c \<or> code_in 97 102 c"

definition sha256_hex_ok :: "string \<Rightarrow> bool" where
  "sha256_hex_ok s \<longleftrightarrow> length s = 64 \<and> list_all is_lower_hex s"

lemma run_id_ok_no_at: "run_id_ok s \<Longrightarrow> CHR ''@'' \<notin> set s"
  by (auto simp: run_id_ok_def is_alnum_def is_digit_def code_in_def list_all_iff less_eq_char_def)

lemma run_id_ok_nonempty: "run_id_ok s \<Longrightarrow> s \<noteq> []"
  by (auto simp: run_id_ok_def)

end
