(* ===== verification/Model_Quota.thy ===== *)
theory Model_Quota
  imports Decision Rate_Limiter
begin

text \<open>
  The per-run quota of model calls of gateway.py: \<open>run_model_quota_settings\<close>,
  \<open>enforce_run_model_quota\<close>, \<open>record_run_model_call\<close>. The check and the count are two
  critical sections, with the guards of the request between them, so a step relation
  interleaves them; the interface \<open>call_counter\<close> is what the bound on the overshoot needs.
\<close>

section \<open>The two tables\<close>

record quota =
  q_calls :: "(string \<times> int) list"       \<comment> \<open>\<open>RUN_MODEL_CALLS\<close>\<close>
  q_seen :: "(string \<times> rat) list"        \<comment> \<open>\<open>RUN_MODEL_CALL_LAST_SEEN\<close>\<close>

definition quota_max_keys :: nat where
  "quota_max_keys = 4096"

definition quota_ttl :: rat where
  "quota_ttl = 604800"

definition run_model_quota_settings :: "dict \<Rightarrow> int option res" where
  "run_model_quota_settings cfg =
     (case dget0 cfg ''run_model_quota'' of
        JObj q \<Rightarrow>
          if dget0 q ''enabled'' \<noteq> JBool True then Inr None
          else bindE (parse_int (dget q ''max_model_calls_per_run'' (JInt 200)) 200) (\<lambda>(max_calls, ok).
            Inr (if \<not> ok \<or> max_calls \<le> 0 then None else Some max_calls))
      | _ \<Rightarrow> Inr None)"

definition route_is_model_call :: "route_decision \<Rightarrow> bool" where
  "route_is_model_call d \<longleftrightarrow>
     dget0 (rd_route d) ''kind'' = JStr ''openai_chat_completions'' \<and> rd_run_id d \<notin> {None, Some []}"

definition calls_of :: "quota \<Rightarrow> string \<Rightarrow> int" where
  "calls_of q r = (case map_of (q_calls q) r of None \<Rightarrow> 0 | Some n \<Rightarrow> n)"

definition enforce_run_model_quota :: "dict \<Rightarrow> route_decision \<Rightarrow> quota \<Rightarrow> unit res" where
  "enforce_run_model_quota cfg d q =
     (if \<not> route_is_model_call d then Inr ()
      else bindE (run_model_quota_settings cfg) (\<lambda>settings. case settings of
          None \<Rightarrow> Inr ()
        | Some max_calls \<Rightarrow>
            raise_if (max_calls \<le> calls_of q (the (rd_run_id d)))
              (GatewayError 429 ''run_model_quota_exceeded'')))"

text \<open>\<open>min(seen, key=seen.get)\<close>: the first key with the least time.\<close>

fun oldest_key :: "(string \<times> rat) list \<Rightarrow> (string \<times> rat) option" where
  "oldest_key [] = None"
| "oldest_key ((k, t) # rest) = (case oldest_key rest of
       None \<Rightarrow> Some (k, t) | Some (k', t') \<Rightarrow> if t \<le> t' then Some (k, t) else Some (k', t'))"

definition forget :: "string \<Rightarrow> quota \<Rightarrow> quota" where
  "forget r q = \<lparr>q_calls = AList.delete r (q_calls q), q_seen = AList.delete r (q_seen q)\<rparr>"

lemma oldest_key_in: "oldest_key d = Some (k, t) \<Longrightarrow> (k, t) \<in> set d"
  by (induction d arbitrary: k t rule: oldest_key.induct) (auto split: option.splits if_splits prod.splits)

lemma oldest_key_None [simp]: "oldest_key d = None \<longleftrightarrow> d = []"
  by (cases d rule: oldest_key.cases) (auto split: option.splits)

lemma oldest_key_le: "oldest_key d = Some (k, t) \<Longrightarrow> (k', t') \<in> set d \<Longrightarrow> t \<le> t'"
  by (induction d arbitrary: k t k' t' rule: oldest_key.induct) (force split: option.splits if_splits prod.splits)+

text \<open>The loop \<open>while len(RUN_MODEL_CALLS) >= RUN_MODEL_CALLS_MAX_KEYS\<close>.\<close>

function evict :: "quota \<Rightarrow> quota" where
  "evict q = (if quota_max_keys \<le> length (q_calls q)
     then (case oldest_key (q_seen q) of None \<Rightarrow> q | Some (r, t) \<Rightarrow> evict (forget r q))
     else q)"
  by pat_completeness auto

termination
proof (relation "measure (\<lambda>q. length (q_seen q))")
  fix q :: quota and x r and t :: rat
  assume "oldest_key (q_seen q) = Some x" "(r, t) = x"
  then have "(r, t) \<in> set (q_seen q)" using oldest_key_in by metis
  then have "length (AList.delete r (q_seen q)) < length (q_seen q)"
    unfolding AList.delete_eq by (intro length_filter_less) auto
  then show "(forget r q, q) \<in> measure (\<lambda>q. length (q_seen q))"
    by (simp add: forget_def)
qed simp

declare evict.simps [simp del]

definition drop_stale :: "rat \<Rightarrow> quota \<Rightarrow> quota" where
  "drop_stale now q = foldl (\<lambda>q r. forget r q) q
     (map fst (filter (\<lambda>(r, seen). seen < now - quota_ttl) (q_seen q)))"

definition count_call :: "string \<Rightarrow> rat \<Rightarrow> quota \<Rightarrow> quota" where
  "count_call r now q =
     (let q = (if quota_max_keys \<le> length (q_calls q) \<and> map_of (q_calls q) r = None
               then evict (drop_stale now q) else q)
      in \<lparr>q_calls = AList.update r (calls_of q r + 1) (q_calls q),
          q_seen = AList.update r now (q_seen q)\<rparr>)"

definition record_run_model_call :: "route_decision \<Rightarrow> rat \<Rightarrow> quota \<Rightarrow> quota" where
  "record_run_model_call d now q =
     (if \<not> route_is_model_call d then q else count_call (the (rd_run_id d)) now q)"

section \<open>The table invariant\<close>

definition quota_inv :: "quota \<Rightarrow> bool" where
  "quota_inv q \<longleftrightarrow> distinct (map fst (q_calls q)) \<and> distinct (map fst (q_seen q)) \<and>
     fst ` set (q_calls q) = fst ` set (q_seen q) \<and>
     length (q_calls q) \<le> quota_max_keys \<and> (\<forall>n\<in>snd ` set (q_calls q). 1 \<le> n)"

lemma length_delete_le: "length (AList.delete k d) \<le> length d"
  by (simp add: AList.delete_eq)

lemma keys_delete: "fst ` set (AList.delete r d) = fst ` set d - {r}"
  by (induction d) (auto simp: AList.delete_eq)

lemma values_delete: "snd ` set (AList.delete r d) \<subseteq> snd ` set d"
  by (auto simp: AList.delete_eq)

lemma quota_inv_forget:
  assumes "quota_inv q"
  shows "quota_inv (forget r q)"
proof -
  have "length (AList.delete r (q_calls q)) \<le> quota_max_keys"
    using assms length_delete_le[of r "q_calls q"] unfolding quota_inv_def by (meson le_trans)
  moreover have "\<forall>n\<in>snd ` set (AList.delete r (q_calls q)). 1 \<le> n"
    using assms values_delete[of r "q_calls q"] unfolding quota_inv_def by blast
  ultimately show ?thesis
    using assms unfolding quota_inv_def forget_def quota.simps keys_delete
    by (intro conjI distinct_delete) simp_all
qed

lemma quota_inv_drop_stale: "quota_inv q \<Longrightarrow> quota_inv (drop_stale now q)"
proof -
  have "quota_inv q \<Longrightarrow> quota_inv (foldl (\<lambda>q r. forget r q) q rs)" for rs
    by (induction rs arbitrary: q) (auto intro: quota_inv_forget)
  then show "quota_inv q \<Longrightarrow> quota_inv (drop_stale now q)" by (simp add: drop_stale_def)
qed

text \<open>The eviction loop makes room: it ends with fewer than 4096 runs.\<close>

lemma quota_inv_evict: "quota_inv q \<Longrightarrow> quota_inv (evict q) \<and> length (q_calls (evict q)) < quota_max_keys"
proof (induction q rule: evict.induct)
  case (1 q)
  show ?case
  proof (cases "quota_max_keys \<le> length (q_calls q)")
    case True
    then have "fst ` set (q_seen q) \<noteq> {}" using 1(2) by (auto simp: quota_inv_def quota_max_keys_def)
    then obtain r t where o: "oldest_key (q_seen q) = Some (r, t)"
      by (cases "oldest_key (q_seen q)") auto
    with True 1(1)[OF True o] quota_inv_forget[OF 1(2)] show ?thesis
      by (subst (1 2) evict.simps) simp
  next
    case False
    with 1(2) show ?thesis by (subst (1 2) evict.simps) simp
  qed
qed

lemma keys_update: "fst ` set (AList.update r v d) = insert r (fst ` set d)"
  by (induction d) auto

lemma values_update: "snd ` set (AList.update r v d) \<subseteq> insert v (snd ` set d)"
  by (induction d) auto

lemma calls_nonneg: "quota_inv q \<Longrightarrow> 0 \<le> calls_of q r"
  by (force simp: quota_inv_def calls_of_def dest: map_of_SomeD split: option.splits)

lemma quota_inv_count_call:
  assumes "quota_inv q"
  shows "quota_inv (count_call r now q)"
proof -
  define p where "p = (if quota_max_keys \<le> length (q_calls q) \<and> map_of (q_calls q) r = None
                       then evict (drop_stale now q) else q)"
  have p: "quota_inv p" "r \<notin> fst ` set (q_calls p) \<Longrightarrow> length (q_calls p) < quota_max_keys"
    using assms quota_inv_evict[OF quota_inv_drop_stale[OF assms], of now]
    by (simp_all add: p_def map_of_eq_None_iff not_le split: if_splits)
  have "length (AList.update r (calls_of p r + 1) (q_calls p)) \<le> quota_max_keys"
    using p by (auto simp: length_update_alist quota_inv_def)
  moreover have "\<forall>n\<in>snd ` set (AList.update r (calls_of p r + 1) (q_calls p)). 1 \<le> n"
    using p(1) calls_nonneg[OF p(1), of r] values_update[of r "calls_of p r + 1" "q_calls p"]
    unfolding quota_inv_def by force
  moreover have "count_call r now q = \<lparr>q_calls = AList.update r (calls_of p r + 1) (q_calls p),
      q_seen = AList.update r now (q_seen p)\<rparr>"
    unfolding count_call_def Let_def p_def[symmetric] ..
  ultimately show ?thesis
    using p(1) unfolding quota_inv_def by (simp add: keys_update distinct_update)
qed

section \<open>What a counter must promise for the bound\<close>

text \<open>
  Calls of a key between its check and its count are \<open>pend\<close>; at most \<open>n\<close> of them at a
  time. A counter that counts the tracked keys exactly can then be overshot by \<open>n - 1\<close>.
\<close>

locale call_counter =
  fixes good :: "'s \<Rightarrow> bool" and used :: "'s \<Rightarrow> 'k \<Rightarrow> int" and tick :: "'k \<Rightarrow> 't \<Rightarrow> 's \<Rightarrow> 's"
    and tracked :: "'k set"
  assumes good_tick: "good s \<Longrightarrow> k \<in> tracked \<Longrightarrow> good (tick k t s)"
    and used_tick: "good s \<Longrightarrow> k \<in> tracked \<Longrightarrow> used (tick k t s) k' = used s k' + (if k' = k then 1 else 0)"
begin

definition budget :: "int \<Rightarrow> nat \<Rightarrow> 's \<Rightarrow> ('k \<Rightarrow> nat) \<Rightarrow> bool" where
  "budget cap n s pend \<longleftrightarrow> good s \<and> (\<forall>k. used s k + int (pend k) \<le> cap + int n - 1)"

lemma budget_admit:
  "budget cap n s pend \<Longrightarrow> used s k < cap \<Longrightarrow> pend k < n \<Longrightarrow> budget cap n s (pend(k := Suc (pend k)))"
  by (force simp: budget_def)

lemma budget_count:
  "budget cap n s pend \<Longrightarrow> k \<in> tracked \<Longrightarrow> 0 < pend k \<Longrightarrow> budget cap n (tick k t s) (pend(k := pend k - 1))"
  by (auto simp: budget_def good_tick used_tick)

lemma budget_drop: "budget cap n s pend \<Longrightarrow> budget cap n s (pend(k := pend k - 1))"
  by (auto simp: budget_def) (smt (verit) diff_le_self of_nat_mono)

lemma budget_used: "budget cap n s pend \<Longrightarrow> used s k \<le> cap + int n - 1"
  by (simp add: budget_def) (smt (verit) of_nat_0_le_iff)

end

text \<open>The quota tables are such a counter as long as no more than 4096 runs make calls.\<close>

definition quota_within :: "string set \<Rightarrow> quota \<Rightarrow> bool" where
  "quota_within R q \<longleftrightarrow> quota_inv q \<and> finite R \<and> card R \<le> quota_max_keys \<and> fst ` set (q_calls q) \<subseteq> R"

lemma quota_within_no_evict:
  assumes "quota_within R q" "r \<in> R" "map_of (q_calls q) r = None"
  shows "length (q_calls q) < quota_max_keys"
proof -
  have "insert r (fst ` set (q_calls q)) \<subseteq> R" "r \<notin> fst ` set (q_calls q)"
    using assms by (auto simp: quota_within_def map_of_eq_None_iff)
  then have "Suc (card (fst ` set (q_calls q))) \<le> card R"
    using assms(1) by (metis card_insert_disjoint card_mono finite_imageI finite_set quota_within_def)
  moreover have "card (fst ` set (q_calls q)) = length (q_calls q)"
    using assms(1) by (metis distinct_card length_map quota_inv_def quota_within_def list.set_map)
  ultimately show ?thesis using assms(1) by (simp add: quota_within_def)
qed

lemma count_call_within:
  assumes "quota_within R q" "r \<in> R"
  shows "count_call r now q = \<lparr>q_calls = AList.update r (calls_of q r + 1) (q_calls q),
     q_seen = AList.update r now (q_seen q)\<rparr>"
  using quota_within_no_evict[OF assms] by (auto simp: count_call_def Let_def)

interpretation run_counter: call_counter "quota_within R" calls_of count_call R for R
proof unfold_locales
  fix s k and t :: rat
  assume a: "quota_within R s" "k \<in> R"
  then show "quota_within R (count_call k t s)"
    using quota_inv_count_call[of s k t] by (auto simp: quota_within_def count_call_within[OF a] keys_update)
  show "calls_of (count_call k t s) k' = calls_of s k' + (if k' = k then 1 else 0)" for k'
    by (simp add: count_call_within[OF a]) (simp add: calls_of_def)
qed

section \<open>Requests in flight\<close>

record quota_world =
  w_quota :: quota
  w_pending :: "string \<Rightarrow> nat"     \<comment> \<open>calls of a run that passed the check and are not counted yet\<close>
  w_done :: "string \<Rightarrow> nat"        \<comment> \<open>calls of a run that were counted and forwarded\<close>
  w_notices :: "string \<Rightarrow> nat"     \<comment> \<open>notices of blocked requests, model calls that are not counted\<close>

definition quota_start :: quota_world where
  "quota_start = \<lparr>w_quota = \<lparr>q_calls = [], q_seen = []\<rparr>, w_pending = (\<lambda>_. 0), w_done = (\<lambda>_. 0), w_notices = (\<lambda>_. 0)\<rparr>"

text \<open>
  \<open>n\<close> bounds the requests of one run in flight (\<open>max_concurrent_requests\<close>), \<open>R\<close> is the set
  of runs: a request passes the check, is counted and forwarded, or is refused by a guard
  in between; the notice of a refused request (\<open>maybe_deliver_block_receipt\<close>) goes to the same
  backend, a model call that \<open>record_run_model_call\<close> never sees.
\<close>

inductive quota_step :: "dict \<Rightarrow> string set \<Rightarrow> nat \<Rightarrow> quota_world \<Rightarrow> quota_world \<Rightarrow> bool" for cfg R n where
  admit: "route_is_model_call d \<Longrightarrow> rd_run_id d = Some r \<Longrightarrow> r \<in> R \<Longrightarrow>
     enforce_run_model_quota cfg d (w_quota W) = Inr () \<Longrightarrow> w_pending W r < n \<Longrightarrow>
     quota_step cfg R n W (W\<lparr>w_pending := (w_pending W)(r := Suc (w_pending W r))\<rparr>)"
| count: "route_is_model_call d \<Longrightarrow> rd_run_id d = Some r \<Longrightarrow> r \<in> R \<Longrightarrow> 0 < w_pending W r \<Longrightarrow>
     quota_step cfg R n W (W\<lparr>w_quota := record_run_model_call d now (w_quota W),
       w_pending := (w_pending W)(r := w_pending W r - 1),
       w_done := (w_done W)(r := Suc (w_done W r))\<rparr>)"
| refuse: "0 < w_pending W r \<Longrightarrow>
     quota_step cfg R n W (W\<lparr>w_pending := (w_pending W)(r := w_pending W r - 1)\<rparr>)"
| notify: "0 < w_pending W r \<Longrightarrow>
     quota_step cfg R n W (W\<lparr>w_pending := (w_pending W)(r := w_pending W r - 1),
       w_notices := (w_notices W)(r := Suc (w_notices W r))\<rparr>)"

inductive_cases quota_stepE: "quota_step cfg R n W W'"

lemma enforce_quota_iff:
  assumes "run_model_quota_settings cfg = Inr (Some cap)" "route_is_model_call d" "rd_run_id d = Some r"
  shows "enforce_run_model_quota cfg d q = Inr () \<longleftrightarrow> calls_of q r < cap"
  using assms by (auto simp: enforce_run_model_quota_def raise_if_def)

lemma quota_step_budget:
  assumes "run_model_quota_settings cfg = Inr (Some cap)" "quota_step cfg R n W W'"
    and "run_counter.budget R cap n (w_quota W) (w_pending W)" "\<forall>r. calls_of (w_quota W) r = int (w_done W r)"
  shows "run_counter.budget R cap n (w_quota W') (w_pending W') \<and>
    (\<forall>r. calls_of (w_quota W') r = int (w_done W' r))"
  using assms(2)
proof cases
  case (admit d r)
  then show ?thesis
    using enforce_quota_iff[OF assms(1) admit(2,3)] run_counter.budget_admit[OF assms(3)] assms(4) by simp
next
  case (count d r now)
  have "quota_within R (w_quota W)" using assms(3) by (simp add: run_counter.budget_def)
  then have "calls_of (count_call r now (w_quota W)) k = int (w_done W k) + (if k = r then 1 else 0)" for k
    using run_counter.used_tick[of R "w_quota W" r now k] count(4) assms(4) by simp
  then show ?thesis
    using run_counter.budget_count[OF assms(3) count(4,5), of now] count
    by (simp add: record_run_model_call_def)
next
  case (refuse r)
  then show ?thesis using run_counter.budget_drop[OF assms(3)] assms(4) by simp
next
  case (notify r)
  then show ?thesis using run_counter.budget_drop[OF assms(3)] assms(4) by simp
qed

lemma quota_steps_budget:
  assumes "run_model_quota_settings cfg = Inr (Some cap)" "(quota_step cfg R n)\<^sup>*\<^sup>* quota_start W"
    and "finite R" "card R \<le> quota_max_keys" "0 < cap" "0 < n"
  shows "run_counter.budget R cap n (w_quota W) (w_pending W) \<and>
    (\<forall>r. calls_of (w_quota W) r = int (w_done W r))"
  using assms(2)
proof (induction rule: rtranclp_induct)
  case base
  show ?case
    using assms unfolding run_counter.budget_def
    by (simp add: quota_start_def calls_of_def quota_within_def quota_inv_def)
next
  case (step W W')
  then show ?case using quota_step_budget[OF assms(1) step(2)] by blast
qed

text \<open>Once its quota is used up, no request of a run is admitted, and only those in flight still make calls.\<close>

definition spent :: "quota_world \<Rightarrow> string \<Rightarrow> nat" where
  "spent W r = w_done W r + w_notices W r"

lemma exhausted_step:
  assumes "run_model_quota_settings cfg = Inr (Some cap)" "quota_step cfg R n W W'"
    and "\<forall>r. calls_of (w_quota W) r = int (w_done W r)" "cap \<le> int (w_done W r)"
  shows "cap \<le> int (w_done W' r) \<and> spent W' r + w_pending W' r \<le> spent W r + w_pending W r"
  using assms(2)
proof cases
  case (admit d r')
  then have "r' \<noteq> r" using enforce_quota_iff[OF assms(1) admit(2,3), of "w_quota W"] assms(3,4) by auto
  then show ?thesis using admit(1) assms(4) by (simp add: spent_def)
qed (use assms(4) in \<open>auto simp: spent_def\<close>)

lemma exhausted_steps:
  assumes "run_model_quota_settings cfg = Inr (Some cap)" "(quota_step cfg R n)\<^sup>*\<^sup>* W W'"
    and "run_counter.budget R cap n (w_quota W) (w_pending W) \<and> (\<forall>r. calls_of (w_quota W) r = int (w_done W r))"
    and "cap \<le> int (w_done W r)"
  shows "spent W' r + w_pending W' r \<le> spent W r + w_pending W r"
proof -
  have "run_counter.budget R cap n (w_quota W') (w_pending W') \<and> (\<forall>r. calls_of (w_quota W') r = int (w_done W' r)) \<and>
      cap \<le> int (w_done W' r) \<and> spent W' r + w_pending W' r \<le> spent W r + w_pending W r"
    using assms(2)
  proof (induction rule: rtranclp_induct)
    case base
    then show ?case using assms(3,4) by simp
  next
    case (step U U')
    then show ?case
      using quota_step_budget[OF assms(1) step(2)] exhausted_step[OF assms(1) step(2), of r] by fastforce
  qed
  then show ?thesis by simp
qed

text \<open>C10: when no more than 4096 runs make model calls, the calls counted for a run never exceed its
  quota by more than the number of its requests in flight less one: the quota is exact for a run
  whose requests come one at a time, and \<open>max_concurrent_requests\<close> bounds the overshoot. The notices
  of blocked requests are model calls that no quota counts; but from the moment the quota is used up,
  fewer calls of either kind are still made for the run than requests can be in flight.\<close>

theorem quota_overshoot_bound:
  assumes "run_model_quota_settings cfg = Inr (Some cap)" "0 < cap" "0 < n"
    and "finite R" "card R \<le> quota_max_keys"
    and "(quota_step cfg R n)\<^sup>*\<^sup>* quota_start W"
  shows "int (w_done W r) \<le> cap + int n - 1 \<and>
    (\<forall>W'. cap \<le> int (w_done W r) \<and> (quota_step cfg R n)\<^sup>*\<^sup>* W W' \<longrightarrow>
       w_done W' r + w_notices W' r < w_done W r + w_notices W r + n)"
proof -
  note b = quota_steps_budget[OF assms(1,6,4,5,2,3)]
  then have p: "int (w_done W r) + int (w_pending W r) \<le> cap + int n - 1"
    unfolding run_counter.budget_def by metis
  moreover have "w_done W' r + w_notices W' r < w_done W r + w_notices W r + n"
    if "cap \<le> int (w_done W r)" "(quota_step cfg R n)\<^sup>*\<^sup>* W W'" for W'
    using exhausted_steps[OF assms(1) that(2) b that(1)] p that(1) assms(3) by (simp add: spent_def)
  ultimately show ?thesis by simp
qed

definition demo_quota_cfg :: dict where
  "demo_quota_cfg = [(''run_model_quota'', JObj [(''enabled'', JBool True), (''max_model_calls_per_run'', JInt 1)])]"

definition demo_model_call :: "string \<Rightarrow> route_decision" where
  "demo_model_call r = \<lparr>rd_route_id = ''llm'', rd_route = [(''kind'', JStr ''openai_chat_completions'')],
     rd_capability = [], rd_run_id = Some r, rd_task_id = None, rd_taint = [], rd_warnings = []\<rparr>"

lemma demo_model_call_ok: "r \<noteq> [] \<Longrightarrow> route_is_model_call (demo_model_call r) \<and> rd_run_id (demo_model_call r) = Some r"
  by (simp add: demo_model_call_def route_is_model_call_def)

lemma demo_quota_settings: "run_model_quota_settings demo_quota_cfg = Inr (Some 1)"
  by (simp add: run_model_quota_settings_def demo_quota_cfg_def)

text \<open>Runs of the step relation that fill the quota, pass the check together, and count.\<close>

lemma quota_admit_many:
  assumes "run_model_quota_settings cfg = Inr (Some cap)" "r \<noteq> []" "r \<in> R"
    and "calls_of (w_quota W) r < cap" "w_pending W = (\<lambda>_. 0)" "j \<le> n"
  shows "(quota_step cfg R n)\<^sup>*\<^sup>* W (W\<lparr>w_pending := (\<lambda>_. 0)(r := j)\<rparr>)"
  using assms(6)
proof (induction j)
  case 0
  have "W\<lparr>w_pending := (\<lambda>_. 0)(r := 0)\<rparr> = W" using assms(5) by (simp add: fun_upd_idem)
  then show ?case by (simp only: rtranclp.rtrancl_refl)
next
  case (Suc j)
  let ?W = "W\<lparr>w_pending := (\<lambda>_. 0)(r := j)\<rparr>"
  have "quota_step cfg R n ?W (?W\<lparr>w_pending := (w_pending ?W)(r := Suc (w_pending ?W r))\<rparr>)"
    using demo_model_call_ok[OF assms(2)] assms(3,4) Suc.prems
      enforce_quota_iff[OF assms(1), of "demo_model_call r" r "w_quota W"]
    by (intro quota_step.admit[of "demo_model_call r"]) auto
  then have "quota_step cfg R n ?W (W\<lparr>w_pending := (\<lambda>_. 0)(r := Suc j)\<rparr>)" by simp
  moreover have "(quota_step cfg R n)\<^sup>*\<^sup>* W ?W" using Suc.prems by (intro Suc.IH) linarith
  ultimately show ?case by (rule rtranclp.rtrancl_into_rtrancl[rotated])
qed

lemma quota_count_many:
  assumes "run_model_quota_settings cfg = Inr (Some cap)" "r \<noteq> []" "r \<in> R"
    and "w_pending W = (\<lambda>_. 0)(r := j)"
  shows "\<exists>W'. (quota_step cfg R n)\<^sup>*\<^sup>* W W' \<and> w_pending W' = (\<lambda>_. 0) \<and> w_done W' r = w_done W r + j"
  using assms(4)
proof (induction j arbitrary: W)
  case 0
  then show ?case by (intro exI[of _ W]) (simp add: fun_upd_idem)
next
  case (Suc j)
  let ?W = "W\<lparr>w_quota := record_run_model_call (demo_model_call r) 0 (w_quota W),
       w_pending := (w_pending W)(r := w_pending W r - 1), w_done := (w_done W)(r := Suc (w_done W r))\<rparr>"
  have "quota_step cfg R n W ?W"
    using demo_model_call_ok[OF assms(2)] assms(3) Suc.prems by (intro quota_step.count) auto
  moreover have "\<exists>W'. (quota_step cfg R n)\<^sup>*\<^sup>* ?W W' \<and> w_pending W' = (\<lambda>_. 0) \<and> w_done W' r = w_done ?W r + j"
    by (rule Suc.IH) (simp add: Suc.prems fun_eq_iff)
  ultimately show ?case by (auto intro: converse_rtranclp_into_rtranclp)
qed

lemma quota_fill:
  assumes "run_model_quota_settings cfg = Inr (Some cap)" "r \<noteq> []" "r \<in> R" "0 < n" "0 < cap"
    and "finite R" "card R \<le> quota_max_keys" "int m \<le> cap"
  shows "\<exists>W. (quota_step cfg R n)\<^sup>*\<^sup>* quota_start W \<and> w_pending W = (\<lambda>_. 0) \<and> w_done W r = m"
  using assms(8)
proof (induction m)
  case 0
  show ?case by (intro exI[of _ quota_start]) (simp add: quota_start_def)
next
  case (Suc m)
  then obtain W where W: "(quota_step cfg R n)\<^sup>*\<^sup>* quota_start W" "w_pending W = (\<lambda>_. 0)" "w_done W r = m"
    by auto
  then have "calls_of (w_quota W) r < cap"
    using quota_steps_budget[OF assms(1) W(1) assms(6,7,5,4)] Suc.prems by simp
  then have "(quota_step cfg R n)\<^sup>*\<^sup>* W (W\<lparr>w_pending := (\<lambda>_. 0)(r := 1)\<rparr>)"
    using quota_admit_many[OF assms(1-3) _ W(2), of 1 n] assms(4) by simp
  moreover obtain W' where "(quota_step cfg R n)\<^sup>*\<^sup>* (W\<lparr>w_pending := (\<lambda>_. 0)(r := 1)\<rparr>) W'"
      "w_pending W' = (\<lambda>_. 0)" "w_done W' r = Suc m"
    using quota_count_many[OF assms(1-3), of "W\<lparr>w_pending := (\<lambda>_. 0)(r := 1)\<rparr>" 1 n] W(3) by auto
  ultimately show ?case using W(1) by (meson rtranclp_trans)
qed

theorem quota_overshoot_bound_witness: "\<exists>W. (quota_step demo_quota_cfg {''r''} 1)\<^sup>*\<^sup>* quota_start W \<and>
   w_done W ''r'' = 1 \<and> int (w_done W ''r'') \<le> 1"
proof -
  obtain W where W: "(quota_step demo_quota_cfg {''r''} 1)\<^sup>*\<^sup>* quota_start W" "w_done W ''r'' = 1"
    using quota_fill[OF demo_quota_settings, of "''r''" "{''r''}" 1 1] by (auto simp: quota_max_keys_def)
  moreover have "int (w_done W ''r'') \<le> 1 + int 1 - 1"
    using quota_overshoot_bound[OF demo_quota_settings _ _ _ _ W(1), of "''r''"] by (simp add: quota_max_keys_def)
  ultimately show ?thesis by auto
qed

text \<open>The bound is reached: with \<open>n\<close> requests of a run in flight, its quota can be exceeded
  by \<open>n - 1\<close> calls, since the check and the count are two critical sections.\<close>

theorem quota_overshoot_reached:
  assumes "run_model_quota_settings cfg = Inr (Some cap)" "0 < cap" "0 < n"
    and "finite R" "card R \<le> quota_max_keys" "r \<in> R" "r \<noteq> []"
  shows "\<exists>W. (quota_step cfg R n)\<^sup>*\<^sup>* quota_start W \<and> int (w_done W r) = cap + int n - 1"
proof -
  obtain W where W: "(quota_step cfg R n)\<^sup>*\<^sup>* quota_start W" "w_pending W = (\<lambda>_. 0)" "int (w_done W r) = cap - 1"
    using quota_fill[OF assms(1,7,6,3,2,4,5), of "nat (cap - 1)"] assms(2) by auto
  then have "calls_of (w_quota W) r < cap"
    using quota_steps_budget[OF assms(1) W(1) assms(4,5,2,3)] by simp
  then have "(quota_step cfg R n)\<^sup>*\<^sup>* W (W\<lparr>w_pending := (\<lambda>_. 0)(r := n)\<rparr>)"
    using quota_admit_many[OF assms(1,7,6) _ W(2), of n n] by simp
  moreover obtain W' where "(quota_step cfg R n)\<^sup>*\<^sup>* (W\<lparr>w_pending := (\<lambda>_. 0)(r := n)\<rparr>) W'"
      "w_done W' r = w_done W r + n"
    using quota_count_many[OF assms(1,7,6), of "W\<lparr>w_pending := (\<lambda>_. 0)(r := n)\<rparr>" n n] by auto
  ultimately show ?thesis using W(1,3) by (intro exI[of _ W']) (auto intro: rtranclp_trans)
qed

theorem quota_overshoot_reached_witness:
  "\<exists>W. (quota_step demo_quota_cfg {''r''} 32)\<^sup>*\<^sup>* quota_start W \<and> int (w_done W ''r'') = 32"
  using quota_overshoot_reached[OF demo_quota_settings, of 32 "{''r''}" "''r''"] by (simp add: quota_max_keys_def)

text \<open>The tables hold at most 4096 runs, the same ones, with a count of one or more each;
  counting a call keeps that and, when the tables have room or hold the run, adds one to the
  count of that run and changes no other.\<close>

theorem quota_tables_invariant:
  assumes "quota_inv q"
  shows "quota_inv (record_run_model_call d now q) \<and>
    (\<forall>r. route_is_model_call d \<and> rd_run_id d = Some r \<and>
        (length (q_calls q) < quota_max_keys \<or> map_of (q_calls q) r \<noteq> None) \<longrightarrow>
      (\<forall>r'. calls_of (record_run_model_call d now q) r' = calls_of q r' + (if r' = r then 1 else 0)))"
  using quota_inv_count_call[OF assms]
  by (auto simp: record_run_model_call_def assms count_call_def Let_def calls_of_def not_le)

theorem quota_tables_invariant_witness:
  "quota_inv (record_run_model_call (demo_model_call ''r'') 5 \<lparr>q_calls = [(''r'', 3)], q_seen = [(''r'', 1)]\<rparr>)"
  using quota_tables_invariant[of "\<lparr>q_calls = [(''r'', 3)], q_seen = [(''r'', 1)]\<rparr>" "demo_model_call ''r''" 5]
  by (simp add: quota_inv_def quota_max_keys_def)

section \<open>Eviction forgets an exhausted run\<close>

lemma drop_stale_none: "\<forall>(r, t)\<in>set (q_seen q). now - quota_ttl \<le> t \<Longrightarrow> drop_stale now q = q"
proof -
  assume "\<forall>(r, t)\<in>set (q_seen q). now - quota_ttl \<le> t"
  then have "filter (\<lambda>(r, seen). seen < now - quota_ttl) (q_seen q) = []"
    by (auto simp: filter_empty_conv)
  then show ?thesis by (simp add: drop_stale_def)
qed

lemma evict_once:
  assumes "length (q_calls q) = quota_max_keys" "oldest_key (q_seen q) = Some (r, t)"
    and "r \<in> fst ` set (q_calls q)"
  shows "evict q = forget r q"
proof -
  obtain n where "(r, n) \<in> set (q_calls q)" using assms(3) by auto
  then have "length (AList.delete r (q_calls q)) < length (q_calls q)"
    unfolding AList.delete_eq by (intro length_filter_less[of "(r, n)"]) auto
  then have "evict (forget r q) = forget r q"
    using assms(1) by (subst evict.simps) (simp add: forget_def)
  with assms(1,2) show ?thesis by (subst evict.simps) simp
qed

text \<open>The cap of a run does not survive the table bound: when the tables are full and no
  entry is older than the retention time, counting a call of a new run drops the count of the
  run seen least recently, so that run, even one that has exhausted its quota, passes the
  check again.\<close>

theorem quota_eviction_resets_count:
  assumes "quota_inv q" "length (q_calls q) = quota_max_keys"
    and "\<forall>(r, t)\<in>set (q_seen q). now - quota_ttl \<le> t"
    and "oldest_key (q_seen q) = Some (r, t)"
    and "route_is_model_call d" "rd_run_id d = Some r'" "map_of (q_calls q) r' = None"
    and "run_model_quota_settings cfg = Inr (Some cap)" "0 < cap"
    and "route_is_model_call e" "rd_run_id e = Some r"
  shows "enforce_run_model_quota cfg e (record_run_model_call d now q) = Inr ()"
proof -
  have r: "r \<in> fst ` set (q_calls q)"
    using assms(1) imageI[OF oldest_key_in[OF assms(4)], of fst] unfolding quota_inv_def fst_conv by blast
  then have "r' \<noteq> r" using assms(7) unfolding map_of_eq_None_iff by metis
  then have "calls_of (record_run_model_call d now q) r = 0"
    using assms(2,5,6,7) r
    by (simp add: record_run_model_call_def count_call_def drop_stale_none[OF assms(3)]
        evict_once[OF assms(2,4)] calls_of_def forget_def)
  then show ?thesis using enforce_quota_iff[OF assms(8,10,11)] assms(9) by simp
qed

definition full_quota :: quota where
  "full_quota = \<lparr>q_calls = map (\<lambda>i. (replicate (Suc i) CHR ''a'', 1)) [0..<4096],
     q_seen = map (\<lambda>i. (replicate (Suc i) CHR ''a'', of_nat i)) [0..<4096]\<rparr>"

lemma oldest_key_upt: "m < n \<Longrightarrow> oldest_key (map (\<lambda>i. (f i, of_nat i)) [m..<n]) = Some (f m, of_nat m)"
proof (induction "n - m" arbitrary: m)
  case (Suc k)
  then have u: "[m..<n] = m # [Suc m..<n]" by (simp add: upt_rec)
  show ?case
  proof (cases "Suc m < n")
    case True
    with Suc.hyps(1)[of "Suc m"] Suc.hyps(2) u show ?thesis by simp
  qed (simp add: u)
qed simp

lemma full_quota_inv: "quota_inv full_quota"
proof -
  have d: "distinct (map (\<lambda>i. replicate (Suc i) CHR ''a'') [0..<4096])"
    by (simp add: distinct_map inj_on_def del: upt_rec_numeral)
  show ?thesis
    using d by (simp add: quota_inv_def full_quota_def quota_max_keys_def comp_def image_image del: upt_rec_numeral replicate_Suc)
qed

theorem quota_eviction_resets_count_witness:
  "calls_of full_quota ''a'' = 1 \<and>
   enforce_run_model_quota demo_quota_cfg (demo_model_call ''a'')
     (record_run_model_call (demo_model_call ''b'') 5000 full_quota) = Inr ()"
proof
  have c: "q_calls full_quota = (''a'', 1) # map (\<lambda>i. (replicate (Suc i) CHR ''a'', 1)) [1..<4096]"
    unfolding full_quota_def by (subst upt_conv_Cons) (simp_all del: upt_rec_numeral)
  then show "calls_of full_quota ''a'' = 1" by (simp add: calls_of_def del: upt_rec_numeral)
  have "hd k = CHR ''a''" if "k \<in> fst ` set (q_calls full_quota)" for k
    using that unfolding full_quota_def by (auto simp del: upt_rec_numeral)
  then have "''b'' \<notin> fst ` set (q_calls full_quota)" by fastforce
  then have "map_of (q_calls full_quota) ''b'' = None" by (simp only: map_of_eq_None_iff not_False_eq_True)
  moreover have "oldest_key (q_seen full_quota) = Some (''a'', 0)"
    using oldest_key_upt[of 0 4096 "\<lambda>i. replicate (Suc i) CHR ''a''"] by (simp add: full_quota_def del: upt_rec_numeral)
  moreover have "\<forall>(r, t)\<in>set (q_seen full_quota). 5000 - quota_ttl \<le> t"
    by (auto simp: full_quota_def quota_ttl_def simp del: upt_rec_numeral)
  moreover have "length (q_calls full_quota) = quota_max_keys" by (simp add: full_quota_def quota_max_keys_def)
  ultimately show "enforce_run_model_quota demo_quota_cfg (demo_model_call ''a'')
     (record_run_model_call (demo_model_call ''b'') 5000 full_quota) = Inr ()"
    using quota_eviction_resets_count[OF full_quota_inv, of 5000 "''a''" 0 "demo_model_call ''b''" "''b''"
        demo_quota_cfg 1 "demo_model_call ''a''"] demo_model_call_ok demo_quota_settings by simp
qed

end
