(* ===== verification/Run_Store.thy ===== *)
theory Run_Store
  imports Jsonl Audit_Log Decision
begin

text \<open>
  The dynamic run store of gateway.py: registration records appended to a JSON-lines file,
  of which the latest valid one counts (\<open>normalize_dynamic_run_record\<close>,
  \<open>latest_dynamic_run_record\<close>, \<open>resolve_run_scope_record\<close>), and its garbage collection
  (\<open>split_run_store_for_gc\<close>, \<open>gc_runs\<close>). A revocation is a registration with a short
  lifetime, so what garbage collection must never do is make an older record count again.
\<close>

section \<open>Validated arrays\<close>

definition bad_request :: exn where
  "bad_request = GatewayError 400 ''invalid_json''"

definition string_item :: "json \<Rightarrow> string res" where
  "string_item item = (case item of
       JStr s \<Rightarrow> if py_strip s = [] then Inl bad_request else Inr (py_strip s)
     | _ \<Rightarrow> Inl bad_request)"

definition string_array :: "json \<Rightarrow> bool \<Rightarrow> string list res" where
  "string_array value allow_empty = (case value of
       JList items \<Rightarrow> if items = [] \<and> \<not> allow_empty then Inl bad_request else mapE string_item items
     | _ \<Rightarrow> Inl bad_request)"

text \<open>\<open>cfg.get("routes") or {}\<close>; \<open>validate_config\<close> has made it an object.\<close>

definition cfg_routes :: "dict \<Rightarrow> dict" where
  "cfg_routes cfg = dict_or_empty (dget0 cfg ''routes'')"

definition route_array :: "json \<Rightarrow> bool \<Rightarrow> dict \<Rightarrow> string list res" where
  "route_array value allow_empty cfg =
     bindE (string_array value allow_empty) (\<lambda>values.
       if filter (\<lambda>r. \<not> has_key (cfg_routes cfg) r) values \<noteq> [] then Inl bad_request else Inr values)"

lemma string_item_Inr: "string_item j = Inr s \<longleftrightarrow> (\<exists>t. j = JStr t \<and> s = py_strip t \<and> s \<noteq> [])"
  by (auto simp: string_item_def split: json.splits)

lemma mapE_string_item: "\<forall>s\<in>set ss. s \<noteq> [] \<and> py_strip s = s \<Longrightarrow> mapE string_item (map JStr ss) = Inr ss"
  by (induction ss) (auto simp: string_item_def)

lemma string_array_strip: "string_array v e = Inr ss \<Longrightarrow> \<forall>s\<in>set ss. s \<noteq> [] \<and> py_strip s = s"
  by (fastforce simp: string_array_def mapE_Inr string_item_Inr in_set_conv_nth list_all2_conv_all_nth
      split: json.splits if_splits)

lemma route_array_known:
  "route_array v e cfg = Inr ss \<Longrightarrow> \<forall>s\<in>set ss. has_key (cfg_routes cfg) s"
  by (auto simp: route_array_def bindE_Inr filter_empty_conv split: if_splits)

section \<open>Reading the store\<close>

definition set_fields :: "dict \<Rightarrow> dict \<Rightarrow> dict" where
  \<comment> \<open>\<open>d.update(new)\<close>\<close>
  "set_fields d new = foldl (\<lambda>d (k, v). AList.update k v d) d new"

definition normalize_dynamic_run_record :: "env \<Rightarrow> dict \<Rightarrow> string option \<Rightarrow> dict \<Rightarrow> dict option" where
  "normalize_dynamic_run_record E cfg expected record = (case dget0 record ''run_id'' of
       JStr run_id \<Rightarrow>
         if \<not> run_id_ok run_id \<or> (expected \<noteq> None \<and> expected \<noteq> Some run_id) then None
         else (case
           bindE (route_array (dget0 record ''allowed_routes'') False cfg) (\<lambda>allowed_routes.
           bindE (route_array (dget record ''denied_routes'' (JList [])) True cfg) (\<lambda>denied_routes.
           bindE (string_array (dget record ''allowed_callers'' (JList [])) True) (\<lambda>allowed_callers.
           bindE (parse_datetime E (py_str E (dget0 record ''expires_at''))) (\<lambda>expires_at.
             Inr (set_fields record [(''run_id'', JStr run_id),
               (''allowed_routes'', JList (map JStr allowed_routes)),
               (''denied_routes'', JList (map JStr denied_routes)),
               (''allowed_callers'', JList (map JStr allowed_callers)),
               (''expires_at'', JStr (e_isoformat E expires_at))])))))
           of Inl _ \<Rightarrow> None | Inr n \<Rightarrow> Some n)
     | _ \<Rightarrow> None)"

definition latest_of :: "('a \<Rightarrow> 'b option) \<Rightarrow> 'a list \<Rightarrow> 'b option" where
  "latest_of f xs = foldl (\<lambda>l x. case f x of None \<Rightarrow> l | Some y \<Rightarrow> Some y) None xs"

definition record_for :: "env \<Rightarrow> dict \<Rightarrow> string \<Rightarrow> json \<Rightarrow> dict option" where
  "record_for E cfg run_id j = (case j of
       JObj record \<Rightarrow> normalize_dynamic_run_record E cfg (Some run_id) record | _ \<Rightarrow> None)"

definition latest_dynamic_run_record :: "env \<Rightarrow> dict \<Rightarrow> store \<Rightarrow> string \<Rightarrow> dict option" where
  "latest_dynamic_run_record E cfg f run_id =
     (if \<not> run_id_ok run_id then None else latest_of (record_for E cfg run_id) (jsonl_records E f))"

definition resolve_run_scope_record :: "env \<Rightarrow> dict \<Rightarrow> store \<Rightarrow> string \<Rightarrow> (json \<times> string) option" where
  "resolve_run_scope_record E cfg f run_id =
     (let runs = dict_or_empty (py_or (dget0 cfg ''runs'') (JObj [])) in
      case map_of runs run_id of
        Some record \<Rightarrow> Some (record, ''static'')
      | None \<Rightarrow> (case latest_dynamic_run_record E cfg f run_id of
            Some record \<Rightarrow> Some (JObj record, ''dynamic'')
          | None \<Rightarrow> None))"

definition run_record_expired :: "env \<Rightarrow> json \<Rightarrow> int \<Rightarrow> bool \<times> string" where
  "run_record_expired E record now = (case record of
       JObj r \<Rightarrow> (case parse_datetime E (py_str E (dget0 r ''expires_at'')) of
           Inl _ \<Rightarrow> (False, [])
         | Inr expires_at \<Rightarrow> (expires_at < now,
             case dget0 r ''run_id'' of JStr run_id \<Rightarrow> run_id | _ \<Rightarrow> []))
     | _ \<Rightarrow> (False, []))"

section \<open>Garbage collection\<close>

record gc_counts =
  scanned_records :: nat
  expired_records :: nat
  skipped_records :: nat
  expired_run_ids :: "string list"

text \<open>A line, as the loop keeps it: the record in it, if it holds an object.\<close>

definition parse_gc_line :: "env \<Rightarrow> string \<Rightarrow> dict option" where
  "parse_gc_line E line = (if py_strip line = [] then None else case e_loads E line of
       Some (JObj record) \<Rightarrow> Some record | _ \<Rightarrow> None)"

fun latest_by_run :: "env \<Rightarrow> dict \<Rightarrow> dict list \<Rightarrow> (string \<times> dict) list \<Rightarrow> (string \<times> dict) list" where
  "latest_by_run E cfg [] latest = latest"
| "latest_by_run E cfg (record # rs) latest = latest_by_run E cfg rs
     (case normalize_dynamic_run_record E cfg None record of
        None \<Rightarrow> latest
      | Some n \<Rightarrow> (case dget0 n ''run_id'' of JStr r \<Rightarrow> AList.update r n latest | _ \<Rightarrow> latest))"

definition belongs_to :: "string list \<Rightarrow> dict \<Rightarrow> bool" where
  "belongs_to dead record = (case dget0 record ''run_id'' of JStr r \<Rightarrow> r \<in> set dead | _ \<Rightarrow> False)"

definition end_line :: "string \<Rightarrow> string" where
  "end_line line = (if suffix [newline] line then line else line @ [newline])"

definition split_run_store_for_gc :: "env \<Rightarrow> dict \<Rightarrow> int \<Rightarrow> store \<Rightarrow> string list \<times> gc_counts" where
  "split_run_store_for_gc E cfg now f = (case f of
       None \<Rightarrow> ([], \<lparr>scanned_records = 0, expired_records = 0, skipped_records = 0, expired_run_ids = []\<rparr>)
     | Some text \<Rightarrow>
         let lines = splitlines_keepends text;
             full = filter (\<lambda>l. py_strip l \<noteq> []) lines;
             latest = latest_by_run E cfg (List.map_filter (parse_gc_line E) lines) [];
             dead = map fst (filter (\<lambda>(r, n). fst (run_record_expired E (JObj n) now)) latest);
             expired = (\<lambda>l. case parse_gc_line E l of None \<Rightarrow> False | Some r \<Rightarrow> belongs_to dead r)
         in (map end_line (filter (\<lambda>l. \<not> expired l) lines),
             \<lparr>scanned_records = length full, expired_records = length (filter expired lines),
              skipped_records = length (filter (\<lambda>l. e_loads E l = None) full),
              expired_run_ids = sort (remdups dead)\<rparr>))"

definition gc_summary :: "env \<Rightarrow> bool \<Rightarrow> int \<Rightarrow> gc_counts \<Rightarrow> dict" where
  "gc_summary E dry_run now c = [(''ok'', JBool True), (''dry_run'', JBool dry_run),
     (''now'', JStr (e_isoformat E now)),
     (''scanned_records'', JInt (int (scanned_records c))),
     (''expired_records'', JInt (int (expired_records c))),
     (''deleted_records'', JInt (if dry_run then 0 else int (expired_records c))),
     (''kept_records'', JInt (int (scanned_records c) - int (expired_records c))),
     (''skipped_records'', JInt (int (skipped_records c))),
     (''expired_run_ids'', JList (map JStr (expired_run_ids c)))]"

text \<open>
  \<open>gc_runs\<close>, over the run store and the audit log; the summary without the path of the store.
\<close>

definition gc_runs :: "env \<Rightarrow> dict \<Rightarrow> bool \<Rightarrow> int \<Rightarrow> string \<Rightarrow> (store \<times> store, dict) act" where
  "gc_runs E cfg dry_run now stamp = (\<lambda>(runs, audit).
     let (kept, c) = split_run_store_for_gc E cfg now runs;
         summary = gc_summary E dry_run now c
     in if dry_run then (Inr summary, (runs, audit))
        else (case audit_write E stamp (summary @ [(''event'', JStr ''run_gc''), (''decision'', JStr ''completed'')]) audit of
           (Inl e, audit') \<Rightarrow> (Inl e, (Some (concat kept), audit'))
         | (Inr _, audit') \<Rightarrow> (Inr summary, (Some (concat kept), audit'))))"

section \<open>The latest record of a run\<close>

lemma latest_of_Nil [simp]: "latest_of f [] = None"
  by (simp add: latest_of_def)

lemma latest_of_snoc [simp]:
  "latest_of f (xs @ [x]) = (case f x of None \<Rightarrow> latest_of f xs | Some y \<Rightarrow> Some y)"
  by (simp add: latest_of_def split: option.split)

lemma latest_of_append:
  "latest_of f (xs @ ys) = (case latest_of f ys of None \<Rightarrow> latest_of f xs | Some y \<Rightarrow> Some y)"
  by (induction ys rule: rev_induct) (auto simp flip: append_assoc split: option.splits)

lemma latest_of_Cons [simp]:
  "latest_of f (x # xs) = (case latest_of f xs of None \<Rightarrow> f x | Some y \<Rightarrow> Some y)"
  using latest_of_append[of f "[x]" xs] by (simp add: latest_of_def split: option.splits)

lemma latest_of_mem: "latest_of f xs = Some y \<Longrightarrow> \<exists>x\<in>set xs. f x = Some y"
  by (induction xs) (auto split: option.splits)

lemma latest_of_None: "(\<And>x. x \<in> set xs \<Longrightarrow> f x = None) \<Longrightarrow> latest_of f xs = None"
  by (induction xs) auto

lemma latest_of_filter:
  "(\<And>x. x \<in> set xs \<Longrightarrow> f x \<noteq> None \<Longrightarrow> P x) \<Longrightarrow> latest_of f (filter P xs) = latest_of f xs"
proof (induction xs)
  case (Cons a xs)
  then have "latest_of f (filter P xs) = latest_of f xs" by simp
  with Cons.prems[of a] show ?case by (cases "f a") (auto split: option.splits)
qed simp

lemma latest_of_cong: "(\<And>x. x \<in> set xs \<Longrightarrow> f x = g x) \<Longrightarrow> latest_of f xs = latest_of g xs"
  by (induction xs) (auto split: option.splits)

lemma set_fields_Nil [simp]: "set_fields d [] = d"
  by (simp add: set_fields_def)

lemma set_fields_Cons [simp]: "set_fields d ((k, v) # new) = set_fields (AList.update k v d) new"
  by (simp add: set_fields_def)

text \<open>The checked run id only filters; the normalised record keeps the id.\<close>

lemma normalize_expected:
  "normalize_dynamic_run_record E cfg (Some r) record =
     (if dget0 record ''run_id'' = JStr r then normalize_dynamic_run_record E cfg None record else None)"
  by (auto simp: normalize_dynamic_run_record_def split: json.splits)

lemma normalize_run_id:
  "normalize_dynamic_run_record E cfg x record = Some n \<Longrightarrow>
     \<exists>r. dget0 record ''run_id'' = JStr r \<and> dget0 n ''run_id'' = JStr r \<and> run_id_ok r"
  by (auto simp: normalize_dynamic_run_record_def bindE_Inr split: json.splits if_splits sum.splits)

lemma latest_records_eq:
  "latest_of (record_for E cfg r) (line_records E ls) =
     latest_of (normalize_dynamic_run_record E cfg (Some r)) (List.map_filter (parse_gc_line E) ls)"
  by (induction ls) (auto simp: List.map_filter_simps parse_gc_line_def record_for_def
      split: option.splits json.splits)

lemma map_of_latest_by_run:
  "map_of (latest_by_run E cfg recs latest) r =
     (case latest_of (normalize_dynamic_run_record E cfg (Some r)) recs of
        None \<Rightarrow> map_of latest r | Some n \<Rightarrow> Some n)"
proof (induction recs arbitrary: latest)
  case (Cons x recs)
  show ?case
  proof (cases "normalize_dynamic_run_record E cfg None x")
    case None
    then show ?thesis using Cons by (simp add: normalize_expected split: option.splits)
  next
    case (Some n)
    with normalize_run_id[OF Some] show ?thesis
      using Cons by (auto simp: normalize_expected split: option.splits)
  qed
qed simp

lemma distinct_latest_by_run:
  "distinct (map fst latest) \<Longrightarrow> distinct (map fst (latest_by_run E cfg recs latest))"
  by (induction recs arbitrary: latest) (auto simp: distinct_update split: option.splits json.splits)

lemma map_filter_filter: "List.map_filter f (filter (\<lambda>x. case f x of None \<Rightarrow> True | Some y \<Rightarrow> P y) xs) =
    filter P (List.map_filter f xs)"
  by (induction xs) (auto simp: List.map_filter_simps split: option.splits)

text \<open>What garbage collection does to the records, when it sees the same lines as the readers.\<close>

lemma gc_keeps_live:
  fixes E cfg recs now
  defines "latest \<equiv> latest_by_run E cfg recs []"
  defines "dead \<equiv> map fst (filter (\<lambda>(r, n). fst (run_record_expired E (JObj n) now)) latest)"
  defines "f r \<equiv> normalize_dynamic_run_record E cfg (Some r)"
  shows "latest_of (f r) (filter (\<lambda>x. \<not> belongs_to dead x) recs) =
    (case latest_of (f r) recs of None \<Rightarrow> None
     | Some n \<Rightarrow> if fst (run_record_expired E (JObj n) now) then None else Some n)"
proof -
  have l: "map_of latest r = latest_of (f r) recs"
    by (simp add: latest_def f_def map_of_latest_by_run split: option.splits)
  have d: "distinct (map fst latest)" by (simp add: latest_def distinct_latest_by_run)
  have dead: "r \<in> set dead \<longleftrightarrow> (\<exists>n. latest_of (f r) recs = Some n \<and> fst (run_record_expired E (JObj n) now))"
    unfolding l[symmetric] dead_def using d by (force simp: map_of_eq_Some_iff)
  have fr: "dget0 x ''run_id'' = JStr r" if "f r x \<noteq> None" for x
    using that by (auto simp: f_def normalize_expected split: if_splits)
  show ?thesis
  proof (cases "r \<in> set dead")
    case True
    have "latest_of (f r) (filter (\<lambda>x. \<not> belongs_to dead x) recs) = None"
      by (rule latest_of_None) (use True fr in \<open>force simp: belongs_to_def\<close>)
    with True dead show ?thesis by auto
  next
    case False
    have "latest_of (f r) (filter (\<lambda>x. \<not> belongs_to dead x) recs) = latest_of (f r) recs"
      by (rule latest_of_filter) (use False fr in \<open>force simp: belongs_to_def\<close>)
    with False dead show ?thesis by (auto split: option.splits)
  qed
qed

text \<open>The new file has the kept lines as its lines.\<close>

lemma file_lines_shape:
  "jsonl_inv (Some t) \<Longrightarrow> l \<in> set (file_lines t) \<Longrightarrow>
     l \<noteq> [] \<and> last l = newline \<and> (\<forall>c\<in>set (butlast l). c \<noteq> newline)"
  unfolding jsonl_inv_def file_text_def file_lines_def option.case
  by (drule lines_by_shape[where p = "\<lambda>c. c = newline", rotated]) assumption+

lemma file_lines_kept:
  assumes "jsonl_inv (Some t)"
  shows "file_lines (concat (map end_line (filter P (file_lines t)))) = filter P (file_lines t)"
proof -
  have e: "end_line l = l" if "l \<in> set (file_lines t)" for l
    using file_lines_shape[OF assms that] append_butlast_last_id[of l] suffixI[of l "butlast l" "[newline]"]
    by (simp add: end_line_def)
  then have m: "map end_line (filter P (file_lines t)) = filter P (file_lines t)"
    by (intro map_idI) simp
  have "lines_by (\<lambda>c. c = newline) (concat (filter P (file_lines t))) = filter P (file_lines t)"
    by (rule lines_by_concat) (use file_lines_shape[OF assms] in auto)
  then show ?thesis unfolding m by (simp add: file_lines_def)
qed

lemma gc_runs_latest:
  assumes "jsonl_inv f" "\<forall>c\<in>set (file_text f). is_break c \<longrightarrow> c = newline"
    and "gc_runs E cfg False now stamp (f, a) = (res, (f', a'))"
  shows "latest_dynamic_run_record E cfg f' run_id = (case latest_dynamic_run_record E cfg f run_id of
     None \<Rightarrow> None | Some n \<Rightarrow> if fst (run_record_expired E (JObj n) now) then None else Some n)"
proof -
  have f': "f' = Some (concat (fst (split_run_store_for_gc E cfg now f)))"
    using assms(3) by (auto simp: gc_runs_def Let_def split: prod.splits sum.splits)
  show ?thesis
  proof (cases f)
    case None
    then show ?thesis
      using f' by (simp add: split_run_store_for_gc_def latest_dynamic_run_record_def jsonl_records_def file_lines_def)
  next
    case (Some t)
    have br: "is_break newline" by (simp add: is_break_def)
    have sp: "splitlines_keepends t = file_lines t"
      unfolding splitlines_keepends_def file_lines_def
      by (rule lines_by_cong) (use assms(2) Some br in \<open>auto simp: file_text_def\<close>)
    define recs where "recs = List.map_filter (parse_gc_line E) (file_lines t)"
    define dead where "dead = map fst (filter (\<lambda>(r, n). fst (run_record_expired E (JObj n) now)) (latest_by_run E cfg recs []))"
    define kept where "kept = filter (\<lambda>l. case parse_gc_line E l of None \<Rightarrow> True | Some r \<Rightarrow> \<not> belongs_to dead r) (file_lines t)"
    have "f' = Some (concat (map end_line kept))"
      unfolding f' Some split_run_store_for_gc_def option.case sp Let_def fst_conv
        recs_def[symmetric] dead_def[symmetric] kept_def
      by (intro arg_cong[of _ _ Some] arg_cong[of _ _ concat] arg_cong[of _ _ "map end_line"] filter_cong)
        (auto split: option.splits)
    moreover have "file_lines (concat (map end_line kept)) = kept"
      using assms(1) Some unfolding kept_def by (intro file_lines_kept) simp
    ultimately have "jsonl_records E f' = line_records E kept"
      by (simp add: jsonl_records_def)
    moreover have "List.map_filter (parse_gc_line E) kept = filter (\<lambda>x. \<not> belongs_to dead x) recs"
      unfolding kept_def recs_def by (rule map_filter_filter)
    moreover have "jsonl_records E f = line_records E (file_lines t)" by (simp add: Some jsonl_records_def)
    ultimately show ?thesis
      using gc_keeps_live[of E cfg run_id now recs]
      by (simp add: latest_dynamic_run_record_def latest_records_eq recs_def[symmetric] dead_def)
  qed
qed

section \<open>Properties\<close>

text \<open>C5: garbage collection of the run store never changes which record of a run counts, except
  that a run whose latest record is expired has no record left: no older registration comes
  back, and no live run is lost. The store must end with a line feed, as every writer leaves
  it, and hold no other character at which \<open>str.splitlines\<close> cuts.\<close>

theorem gc_runs_keeps_latest:
  assumes "jsonl_inv f" "\<forall>c\<in>set (file_text f). is_break c \<longrightarrow> c = newline"
    and "gc_runs E cfg False now stamp (f, a) = (res, (f', a'))"
  shows "latest_dynamic_run_record E cfg f' run_id = (case latest_dynamic_run_record E cfg f run_id of
     None \<Rightarrow> None | Some n \<Rightarrow> if fst (run_record_expired E (JObj n) now) then None else Some n)"
  by (rule gc_runs_latest[OF assms])

text \<open>
  A store as \<open>json.dumps\<close> writes it, and the library functions on the texts that occur in it:
  a registration of run r1 until 2030, and a later one until 2026, the revocation, whose free
  text \<open>reason\<close> is given (\<open>json.dumps\<close> with \<open>ensure_ascii=False\<close> leaves U+0085 as it is).
\<close>

definition old_line :: string where
  \<open>old_line = ''{"allowed_routes": ["a"], "expires_at": "2030-01-01T00:00:00+00:00", "run_id": "r1"}'' @ [newline]\<close>

definition revocation_line :: "string \<Rightarrow> string" where
  \<open>revocation_line reason = ''{"allowed_routes": ["a"], "expires_at": "2026-01-01T00:00:00+00:00", "reason": "''
     @ reason @ ''", "run_id": "r1"}'' @ [newline]\<close>

definition run_record :: "string \<Rightarrow> dict \<Rightarrow> dict" where
  "run_record expires extra = [(''allowed_routes'', JList [JStr ''a'']), (''expires_at'', JStr expires)] @ extra
     @ [(''run_id'', JStr ''r1'')]"

definition gc_env :: "string \<Rightarrow> env" where
  "gc_env reason = demo_env\<lparr>
     e_loads := (\<lambda>s.
       if s = old_line then Some (JObj (run_record ''2030-01-01T00:00:00+00:00'' []))
       else if s = revocation_line reason
         then Some (JObj (run_record ''2026-01-01T00:00:00+00:00'' [(''reason'', JStr reason)]))
       else None),
     e_iso := (\<lambda>s. if s = ''2030-01-01T00:00:00+00:00'' then Some (1893456000000000, Some 0)
       else if s = ''2026-01-01T00:00:00+00:00'' then Some (1767225600000000, Some 0) else None),
     e_isoformat := (\<lambda>t. if t = 1893456000000000 then ''2030-01-01T00:00:00+00:00'' else ''2026-01-01T00:00:00+00:00'')\<rparr>"

definition gc_cfg :: dict where
  "gc_cfg = [(''routes'', JObj [(''a'', JObj [])])]"

definition gc_store :: "string \<Rightarrow> store" where
  "gc_store reason = Some (old_line @ revocation_line reason)"

text \<open>1 July 2026.\<close>

definition gc_now :: int where
  "gc_now = 1782864000000000"

lemma gc_runs_store:
  "fst (snd (gc_runs E cfg False now stamp (f, a))) = Some (concat (fst (split_run_store_for_gc E cfg now f)))"
  by (simp add: gc_runs_def Let_def split: prod.splits sum.splits)

definition live_after_gc :: "string \<Rightarrow> bool" where
  "live_after_gc reason = (case latest_dynamic_run_record (gc_env reason) gc_cfg
       (Some (concat (fst (split_run_store_for_gc (gc_env reason) gc_cfg gc_now (gc_store reason))))) ''r1'' of
     None \<Rightarrow> False | Some n \<Rightarrow> \<not> fst (run_record_expired (gc_env reason) (JObj n) gc_now))"

definition live_before_gc :: "string \<Rightarrow> bool" where
  "live_before_gc reason = (case latest_dynamic_run_record (gc_env reason) gc_cfg (gc_store reason) ''r1'' of
     None \<Rightarrow> False | Some n \<Rightarrow> \<not> fst (run_record_expired (gc_env reason) (JObj n) gc_now))"

theorem gc_runs_keeps_latest_witness:
  "latest_dynamic_run_record (gc_env ''done'') gc_cfg
     (fst (snd (gc_runs (gc_env ''done'') gc_cfg False gc_now ''t'' (gc_store ''done'', None)))) ''r1'' = None"
proof -
  obtain res f' a' where g: "gc_runs (gc_env ''done'') gc_cfg False gc_now ''t'' (gc_store ''done'', None) = (res, (f', a'))"
    by (metis prod.exhaust)
  have i: "jsonl_inv (gc_store ''done'')" by code_simp
  have b: "\<forall>c\<in>set (file_text (gc_store ''done'')). is_break c \<longrightarrow> c = newline" by code_simp
  have "case latest_dynamic_run_record (gc_env ''done'') gc_cfg (gc_store ''done'') ''r1'' of
     None \<Rightarrow> False | Some n \<Rightarrow> fst (run_record_expired (gc_env ''done'') (JObj n) gc_now)" by code_simp
  then have "latest_dynamic_run_record (gc_env ''done'') gc_cfg f' ''r1'' = None"
    using gc_runs_keeps_latest[OF i b g] by (auto split: option.splits)
  then show ?thesis by (simp add: g)
qed

lemma latest_after_append:
  assumes "jsonl_inv f" "json_line_ok E (JObj record)" "wf_json (JObj record)"
  shows "latest_dynamic_run_record E cfg (append_jsonl_record E (JObj record) f) run_id =
    (if run_id_ok run_id \<and> dget0 record ''run_id'' = JStr run_id
     then (case record_for E cfg run_id (sort_keys (JObj record)) of
             None \<Rightarrow> latest_dynamic_run_record E cfg f run_id | Some n \<Rightarrow> Some n)
     else latest_dynamic_run_record E cfg f run_id)"
proof -
  have id: "dget0 (sort_key fst (map (\<lambda>(k, v). (k, sort_keys v)) record)) ''run_id'' = JStr run_id \<longleftrightarrow>
      dget0 record ''run_id'' = JStr run_id"
    unfolding dget_def map_of_sorted_json[OF assms(3)]
    by (cases "map_of record ''run_id''"; cases "the (map_of record ''run_id'')") auto
  have "latest_of (record_for E cfg run_id) (jsonl_records E (append_jsonl_record E (JObj record) f)) =
    (case record_for E cfg run_id (sort_keys (JObj record)) of
       None \<Rightarrow> latest_of (record_for E cfg run_id) (jsonl_records E f) | Some n \<Rightarrow> Some n)"
    unfolding latest_of_def by (rule jsonl.latest_append[OF assms(1,2)])
  moreover have "record_for E cfg run_id (sort_keys (JObj record)) = None" if "dget0 record ''run_id'' \<noteq> JStr run_id"
    using that id by (simp add: record_for_def normalize_expected)
  ultimately show ?thesis
    by (auto simp: latest_dynamic_run_record_def split: option.split)
qed

text \<open>Without the condition on the text, garbage collection revives a revoked run: a U+0085
  in the reason of the revocation, which registration accepts, cuts that line in two for
  \<open>str.splitlines\<close> but not for the readers. The run is dead before the collection; after it
  the revocation cannot be parsed and the older registration counts again.\<close>

theorem gc_runs_revives_revoked_run:
  "\<exists>reason. \<not> live_before_gc reason \<and> live_after_gc reason \<and>
     (case latest_dynamic_run_record (gc_env reason) gc_cfg
         (fst (snd (gc_runs (gc_env reason) gc_cfg False gc_now stamp (gc_store reason, a)))) ''r1'' of
        None \<Rightarrow> False | Some n \<Rightarrow> \<not> fst (run_record_expired (gc_env reason) (JObj n) gc_now))"
proof -
  have "\<not> live_before_gc [CHR ''x'', CHR 0x85, CHR ''y'']" by code_simp
  moreover have l: "live_after_gc [CHR ''x'', CHR 0x85, CHR ''y'']" by code_simp
  ultimately show ?thesis unfolding gc_runs_store live_after_gc_def[symmetric] by blast
qed

text \<open>Appending a registration makes it the one that counts for its run if it is valid, and
  changes nothing for any other run; an invalid one changes nothing. Revocation by
  re-registration with a short lifetime rests on this.\<close>

theorem run_store_latest_wins:
  assumes "jsonl_inv f" "json_line_ok E (JObj record)" "wf_json (JObj record)"
  shows "latest_dynamic_run_record E cfg (append_jsonl_record E (JObj record) f) run_id =
    (if run_id_ok run_id \<and> dget0 record ''run_id'' = JStr run_id
     then (case record_for E cfg run_id (sort_keys (JObj record)) of
             None \<Rightarrow> latest_dynamic_run_record E cfg f run_id | Some n \<Rightarrow> Some n)
     else latest_dynamic_run_record E cfg f run_id)"
  by (rule latest_after_append[OF assms])

theorem run_store_latest_wins_witness:
  "latest_dynamic_run_record demo_env gc_cfg
     (append_jsonl_record demo_env (JObj (run_record ''2026'' [])) None) ''r2'' = None"
  using run_store_latest_wins[of None demo_env "run_record ''2026'' []" gc_cfg "''r2''"]
  by (simp add: jsonl_inv_def file_text_def demo_json_line_ok run_record_def latest_dynamic_run_record_def)

end
