(* ===== verification/Canary.thy ===== *)
theory Canary
  imports Jsonl Decision
begin

text \<open>
  Canary detection and revocation: the module canary.py. Detection extracts candidate
  tokens from every string of a value and looks their HMAC up in the registry; a trip
  appends a revocation to a JSON-lines file of which the last record per agent counts.
  The registry is cached by modification time.
\<close>

section \<open>Settings\<close>

definition canary_settings :: "dict \<Rightarrow> dict" where
  "canary_settings cfg = dict_or_empty (dget0 cfg ''canary'')"

definition canary_enabled :: "dict \<Rightarrow> bool" where
  "canary_enabled cfg = truthy (dget0 (canary_settings cfg) ''enabled'')"

definition canary_error :: exn where
  "canary_error = PyError ''CanaryError''"

definition hmac_key :: "env \<Rightarrow> dict \<Rightarrow> string res" where
  "hmac_key E cfg =
     (let key = e_getenv E (py_str E (dget (canary_settings cfg) ''hmac_key_env'' (JStr ''ASG_CANARY_HMAC_KEY'')))
      in if length key < 32 \<or> list_ex py_isspace key then Inl canary_error else Inr key)"

section \<open>The registry\<close>

text \<open>\<open>ID_RE.match\<close> and \<open>KIND_RE.match\<close>: \<open>$\<close> also matches before a final line feed.\<close>

definition drop_final_newline :: "string \<Rightarrow> string" where
  "drop_final_newline s = (if suffix [newline] s then butlast s else s)"

definition canary_id_ok :: "string \<Rightarrow> bool" where
  "canary_id_ok s = (case drop_final_newline s of
       [] \<Rightarrow> False
     | c # t \<Rightarrow> is_alnum c \<and> 1 \<le> length t \<and> length t \<le> 63 \<and>
         list_all (\<lambda>c. is_alnum c \<or> c \<in> set ''._-'') t)"

definition canary_kind_ok :: "string \<Rightarrow> bool" where
  "canary_kind_ok s = (let t = drop_final_newline s in
     1 \<le> length t \<and> length t \<le> 32 \<and>
     list_all (\<lambda>c. is_digit c \<or> code_in 97 122 c \<or> c = CHR ''_'') t)"

record canary_entry =
  ce_id :: json
  ce_kind :: string

type_synonym registry = "(json \<times> canary_entry) list"

definition make_entry :: "env \<Rightarrow> string \<Rightarrow> string \<Rightarrow> string \<Rightarrow> string \<Rightarrow> dict res" where
  "make_entry E key value canary_id kind =
     thenE (raise_if (\<not> canary_id_ok canary_id \<or> \<not> canary_kind_ok kind) canary_error)
    (thenE (raise_if (length value < 12) canary_error)
    (Inr [(''id'', JStr canary_id), (''kind'', JStr kind), (''hmac'', JStr (e_hmac E key value))]))"

text \<open>\<open>str.splitlines()\<close>\<close>

definition splitlines :: "string \<Rightarrow> string list" where
  "splitlines t = map (\<lambda>l. if l \<noteq> [] \<and> is_break (last l) then butlast l else l) (splitlines_keepends t)"

fun registry_lines :: "env \<Rightarrow> string list \<Rightarrow> registry \<Rightarrow> registry res" where
  "registry_lines E [] entries = Inr entries"
| "registry_lines E (line # ls) entries =
     (if py_strip line = [] then registry_lines E ls entries
      else case e_loads E line of
          None \<Rightarrow> Inl canary_error
        | Some (JObj item) \<Rightarrow> registry_lines E ls
            (if sha256_hex_ok (py_str E (dget item ''hmac'' (JStr []))) \<and> canary_id_ok (py_str E (dget item ''id'' (JStr [])))
             then AList.update (dget0 item ''hmac'')
                    \<lparr>ce_id = dget0 item ''id'', ce_kind = py_str E (dget item ''kind'' (JStr ''unknown''))\<rparr> entries
             else entries)
        | Some _ \<Rightarrow> registry_lines E ls entries)"

text \<open>
  The registry file with its modification time, and the module's cache of the parsed
  registry (for the one configured path).
\<close>

type_synonym registry_file = "(rat \<times> string) option"

definition load_registry :: "env \<Rightarrow> registry_file \<Rightarrow> ((rat \<times> registry) option, registry) act" where
  "load_registry E f cache = (case f of
       None \<Rightarrow> (Inl canary_error, cache)
     | Some (mtime, text) \<Rightarrow>
         (case cache of
            Some (m, entries) \<Rightarrow>
              if m = mtime then (Inr entries, cache)
              else (case registry_lines E (splitlines text) [] of
                  Inl e \<Rightarrow> (Inl e, cache) | Inr entries \<Rightarrow> (Inr entries, Some (mtime, entries)))
          | None \<Rightarrow> (case registry_lines E (splitlines text) [] of
                  Inl e \<Rightarrow> (Inl e, cache) | Inr entries \<Rightarrow> (Inr entries, Some (mtime, entries)))))"

section \<open>Candidate tokens\<close>

definition is_token_char :: "char \<Rightarrow> bool" where
  "is_token_char c \<longleftrightarrow> is_alnum c \<or> c \<in> set ''_-./+=:@~%''"

definition is_separator :: "char \<Rightarrow> bool" where
  "is_separator c \<longleftrightarrow> c \<in> set ''/:=@%''"

text \<open>
  \<open>CANDIDATE_RE.finditer\<close>: each run of token characters gives its first 512, then the next
  512 and so on, a rest of fewer than 12 is not matched.
\<close>

function token_runs :: "string \<Rightarrow> string list" where
  "token_runs s = (case dropWhile (\<lambda>c. \<not> is_token_char c) s of
       [] \<Rightarrow> []
     | t \<Rightarrow> let run = takeWhile is_token_char t; m = take 512 run in
            if length run < 12 then token_runs (drop (length run) t)
            else m # token_runs (drop (length m) t))"
  by pat_completeness auto

termination
proof (relation "measure length")
  fix s t :: string and c run m
  assume a: "dropWhile (\<lambda>c. \<not> is_token_char c) s = c # t" "run = takeWhile is_token_char (c # t)"
  have l: "length (c # t) \<le> length s" using a(1) length_dropWhile_le by metis
  have "is_token_char c" using a(1) by (metis hd_dropWhile list.distinct(1) list.sel(1))
  then have r: "0 < length run" using a(2) by simp
  then show "(drop (length run) (c # t), s) \<in> measure length" using l by (simp; linarith)
  show "(drop (length m) (c # t), s) \<in> measure length" if "m = take 512 run"
  proof -
    have "0 < length m" using r that by simp
    then show ?thesis using l by (simp; linarith)
  qed
qed simp

declare token_runs.simps [simp del]

text \<open>\<open>SPLIT_RE.split\<close>, as far as its parts of 12 or more characters go.\<close>

fun pieces :: "string \<Rightarrow> string list" where
  "pieces [] = [[]]"
| "pieces (c # s) = (if is_separator c then [] # pieces s
     else case pieces s of [] \<Rightarrow> [[c]] | p # ps \<Rightarrow> (c # p) # ps)"

definition run_candidates :: "string \<Rightarrow> string list" where
  "run_candidates run = (let token = strip_by (\<lambda>c. c \<in> set ''.,;:'') run in
     token # filter (\<lambda>p. 12 \<le> length p) (pieces token))"

definition max_candidates :: nat where
  "max_candidates = 20000"

fun candidates_loop :: "string list \<Rightarrow> nat \<Rightarrow> string list" where
  "candidates_loop [] n = []"
| "candidates_loop (run # runs) n =
     (let cs = run_candidates run; n' = n + length cs in
      cs @ (if max_candidates < n' then [] else candidates_loop runs n'))"

definition candidates :: "string \<Rightarrow> string list" where
  "candidates text = candidates_loop (token_runs text) 0"

section \<open>All strings of a value\<close>

text \<open>The generator \<open>strings_in\<close> with its shared budget threaded through.\<close>

fun strings_in :: "json \<Rightarrow> nat \<Rightarrow> nat \<Rightarrow> string list \<times> nat"
and strings_in_list :: "json list \<Rightarrow> nat \<Rightarrow> nat \<Rightarrow> string list \<times> nat"
and strings_in_items :: "(string \<times> json) list \<Rightarrow> nat \<Rightarrow> nat \<Rightarrow> string list \<times> nat" where
  "strings_in node depth budget =
     (if 24 < depth \<or> budget = 0 then ([], budget)
      else case node of
          JStr s \<Rightarrow> ([s], budget - 1)
        | JObj d \<Rightarrow> strings_in_items d depth budget
        | JList l \<Rightarrow> strings_in_list l depth budget
        | _ \<Rightarrow> ([], budget))"
| "strings_in_list [] depth budget = ([], budget)"
| "strings_in_list (item # l) depth budget =
     (let (a, budget) = strings_in item (depth + 1) budget;
          (b, budget) = strings_in_list l depth budget in (a @ b, budget))"
| "strings_in_items [] depth budget = ([], budget)"
| "strings_in_items ((key, value) # d) depth budget =
     (let (a, budget) = (if 24 < depth + 1 \<or> budget = 0 then ([], budget) else ([key], budget - 1));
          (b, budget) = strings_in value (depth + 1) budget;
          (c, budget) = strings_in_items d depth budget in (a @ b @ c, budget))"

declare strings_in.simps [simp del]

definition max_strings :: nat where
  "max_strings = 5000"

section \<open>Finding canaries\<close>

definition hit_entry :: "env \<Rightarrow> string \<Rightarrow> registry \<Rightarrow> string \<Rightarrow> canary_entry option" where
  "hit_entry E key reg token = map_of reg (JStr (e_hmac E key token))"

text \<open>
  The hits by id, the last one for an id stays, in the order of their ids (registries hold
  string ids: \<open>make_entry\<close> writes no others).
\<close>

definition collect_hits :: "env \<Rightarrow> string \<Rightarrow> registry \<Rightarrow> string list \<Rightarrow> (json \<times> canary_entry) list" where
  "collect_hits E key reg tokens =
     foldl (\<lambda>hits e. AList.update (ce_id e) e hits) [] (List.map_filter (hit_entry E key reg) tokens)"

definition canary_find :: "env \<Rightarrow> dict \<Rightarrow> registry_file \<Rightarrow> json \<Rightarrow> ((rat \<times> registry) option, canary_entry list) act" where
  "canary_find E cfg f node =
     (if \<not> canary_enabled cfg then retA []
      else bindA (liftA (hmac_key E cfg)) (\<lambda>key.
           bindA (load_registry E f) (\<lambda>reg.
             if reg = [] then retA []
             else retA (map snd (sort_key (\<lambda>(i, e). py_str E i)
               (collect_hits E key reg (concat (map candidates (fst (strings_in node 0 max_strings))))))))))"

section \<open>Revocation\<close>

definition ascii_line :: "env \<Rightarrow> json \<Rightarrow> string" where
  "ascii_line E j = e_ascii E (sort_keys j) @ [newline]"

definition canary_append :: "env \<Rightarrow> json \<Rightarrow> store \<Rightarrow> store" where
  "canary_append E r f = Some (file_text f @ ascii_line E r)"

text \<open>The records of the file, in order: every line that parses.\<close>

definition canary_records :: "env \<Rightarrow> store \<Rightarrow> json list" where
  "canary_records E f = List.map_filter (e_loads E) (splitlines (file_text f))"

fun revocation_step :: "(string \<times> dict) list \<Rightarrow> json \<Rightarrow> (string \<times> dict) list" where
  "revocation_step state (JObj item) = (case dget0 item ''agent_id'' of
       JStr agent \<Rightarrow> AList.update agent item state | _ \<Rightarrow> state)"
| "revocation_step state _ = state"

definition revocations :: "env \<Rightarrow> store \<Rightarrow> (string \<times> dict) list" where
  "revocations E f = foldl revocation_step [] (canary_records E f)"

definition is_revoked :: "env \<Rightarrow> dict \<Rightarrow> store \<Rightarrow> string \<Rightarrow> bool" where
  "is_revoked E cfg f agent \<longleftrightarrow> canary_enabled cfg \<and>
     (case map_of (revocations E f) agent of
        None \<Rightarrow> False | Some item \<Rightarrow> dget0 item ''action'' = JStr ''revoke'')"

definition revoke :: "env \<Rightarrow> string \<Rightarrow> string \<Rightarrow> string \<Rightarrow> json list \<Rightarrow> store \<Rightarrow> store" where
  "revoke E stamp agent reason canary_ids = canary_append E (JObj
     [(''action'', JStr ''revoke''), (''agent_id'', JStr agent), (''reason'', JStr reason),
      (''canary_ids'', JList canary_ids), (''at'', JStr stamp)])"

definition release :: "env \<Rightarrow> string \<Rightarrow> string \<Rightarrow> string \<Rightarrow> store \<Rightarrow> store" where
  "release E stamp agent note = canary_append E (JObj
     [(''action'', JStr ''release''), (''agent_id'', JStr agent), (''note'', JStr note), (''at'', JStr stamp)])"

text \<open>\<open>apply_trip\<close>: the revocation file and whether the kill switch file exists.\<close>

definition apply_trip :: "env \<Rightarrow> string \<Rightarrow> dict \<Rightarrow> string option \<Rightarrow> json list \<Rightarrow> string \<Rightarrow>
    store \<times> bool \<Rightarrow> (string option \<times> bool) \<times> (store \<times> bool)" where
  "apply_trip E stamp cfg agent canary_ids source = (\<lambda>(revoked, kill).
     let on_trip = dict_or_empty (dget0 (canary_settings cfg) ''on_trip'');
         do_revoke = (agent \<notin> {None, Some []} \<and> truthy (dget on_trip ''revoke_agent'' (JBool True)));
         do_kill = truthy (dget on_trip ''kill_switch'' (JBool False))
     in ((if do_revoke then agent else None, do_kill),
         (if do_revoke then revoke E stamp (the agent) (''canary:'' @ source) canary_ids revoked else revoked,
          kill \<or> do_kill)))"

section \<open>Every delimited token is a candidate\<close>

lemma pieces_nonempty [simp]: "pieces s \<noteq> []"
  by (induction s) (auto split: list.splits)

lemma pieces_head: "\<forall>c\<in>set v. \<not> is_separator c \<Longrightarrow> b = [] \<or> is_separator (hd b) \<Longrightarrow> v \<in> set (pieces (v @ b))"
proof -
  assume v: "\<forall>c\<in>set v. \<not> is_separator c" and b: "b = [] \<or> is_separator (hd b)"
  have "\<exists>ps. pieces (v @ b) = v # ps"
    using v
  proof (induction v)
    case Nil
    then show ?case using b by (cases b) auto
  qed auto
  then show ?thesis by auto
qed

lemma pieces_tail: "a = [] \<or> is_separator (last a) \<Longrightarrow> set (pieces x) \<subseteq> set (pieces (a @ x))"
proof (induction a)
  case (Cons c a)
  show ?case
  proof (cases "a = []")
    case True
    with Cons.prems show ?thesis by auto
  next
    case False
    with Cons have i: "set (pieces x) \<subseteq> set (pieces (a @ x))" by simp
    show ?thesis
    proof (cases "is_separator c")
      case True
      with i show ?thesis by auto
    next
      case n: False
      \<comment> \<open>the first piece of the tail ends before its first separator, so it is not one of \<open>x\<close>'s\<close>
      have "\<exists>p ps. pieces (a @ x) = p # ps \<and> set (pieces x) \<subseteq> set ps"
        using False Cons.prems
      proof (induction a)
        case (Cons d a)
        show ?case
        proof (cases "a = []")
          case True
          with Cons.prems show ?thesis by auto
        next
          case False
          with Cons obtain p ps where "pieces (a @ x) = p # ps" "set (pieces x) \<subseteq> set ps" by auto
          then show ?thesis by auto
        qed
      qed simp
      then show ?thesis using n by auto
    qed
  qed
qed simp

lemma pieces_delimited:
  assumes "a = [] \<or> is_separator (last a)" "\<forall>c\<in>set v. \<not> is_separator c" "b = [] \<or> is_separator (hd b)"
  shows "v \<in> set (pieces (a @ v @ b))"
  using pieces_tail[OF assms(1), of "v @ b"] pieces_head[OF assms(2,3)] by blast

lemma strip_by_middle:
  assumes "\<forall>c\<in>set p. P c" "\<forall>c\<in>set q. P c" "x \<noteq> []" "\<not> P (hd x)" "\<not> P (last x)"
  shows "strip_by P (p @ x @ q) = x"
proof -
  have "dropWhile P (p @ x @ q) = x @ q"
    using assms by (subst dropWhile_append2) (auto, cases x, auto)
  moreover have "dropWhile P (rev q @ rev x) = rev x"
    using assms by (subst dropWhile_append2) (auto, cases "rev x", auto simp: last_rev hd_rev[symmetric])
  ultimately show ?thesis by (simp add: strip_by_def)
qed

lemma token_runs_at:
  assumes "dropWhile (\<lambda>c. \<not> is_token_char c) s = t" "t \<noteq> []"
  shows "token_runs s = (let run = takeWhile is_token_char t; m = take 512 run in
     if length run < 12 then token_runs (drop (length run) t) else m # token_runs (drop (length m) t))"
  using assms by (subst token_runs.simps) (cases t, simp_all add: Let_def)

lemma token_runs_complete:
  assumes "\<forall>c\<in>set r. is_token_char c" "12 \<le> length r" "length r \<le> 512"
    and "post = [] \<or> \<not> is_token_char (hd post)"
  shows "pre = [] \<or> \<not> is_token_char (last pre) \<Longrightarrow> r \<in> set (token_runs (pre @ r @ post))"
proof (induction "pre @ r @ post" arbitrary: pre rule: token_runs.induct)
  case 1
  let ?N = "\<lambda>c. \<not> is_token_char c"
  have rne: "r \<noteq> []" using assms(2) by auto
  have hr: "is_token_char (hd r)" using assms(1) rne by simp
  have tr: "takeWhile is_token_char (r @ post) = r"
    using assms(1,4) by (cases post) (auto simp: takeWhile_append2)
  show ?case
  proof (cases "\<forall>c\<in>set pre. ?N c")
    case True
    then have t: "dropWhile ?N (pre @ r @ post) = r @ post"
      using hr rne by (subst dropWhile_append2) (auto simp: dropWhile_eq_self_iff)
    have "token_runs (pre @ r @ post) = take 512 r # token_runs (drop (length (take 512 r)) (r @ post))"
      using tr assms(2) token_runs_at[OF t] rne by (simp add: Let_def del: length_take drop_append)
    then show ?thesis using assms(3) by simp
  next
    case False
    define p where "p = dropWhile ?N pre"
    have pne: "p \<noteq> []" using False by (auto simp: p_def)
    have pl: "?N (last p)"
    proof -
      obtain u where "pre = u @ p" unfolding p_def by (metis takeWhile_dropWhile_id)
      then show ?thesis using 1(3) pne by auto
    qed
    have t: "dropWhile ?N (pre @ r @ post) = p @ r @ post"
      using False by (auto simp: p_def dropWhile_append)
    define run where "run = takeWhile is_token_char p"
    have run: "takeWhile is_token_char (p @ r @ post) = run"
      using pl pne unfolding run_def by (metis last_in_set takeWhile_append1)
    have nrun: "length run < length p"
      using pl pne unfolding run_def
      by (metis last_in_set length_takeWhile_le nat_less_le takeWhile_eq_all_conv takeWhile_eq_take take_all_iff)
    have dl: "drop k p \<noteq> [] \<and> ?N (last (drop k p))" if "k \<le> length run" for k
      using that nrun pl by simp
    obtain c s where cs: "p @ r @ post = c # s" using pne by (cases "p @ r @ post") auto
    have eq: "token_runs (pre @ r @ post) =
      (if length run < 12 then token_runs (drop (length run) p @ r @ post)
       else take 512 run # token_runs (drop (length (take 512 run)) p @ r @ post))"
      using run nrun pne token_runs_at[OF t] by (simp add: Let_def)
    have cs': "dropWhile ?N (pre @ r @ post) = c # s" using t cs by simp
    have d: "drop k (c # s) = drop k p @ r @ post" if "k \<le> length run" for k
      using that nrun by (simp flip: cs)
    show ?thesis
    proof (cases "length run < 12")
      case True
      have "r \<in> set (token_runs (drop (length run) p @ r @ post))"
        by (rule 1(1)[OF cs' refl refl]) (use True run cs d dl in auto)
      with True eq show ?thesis by simp
    next
      case False
      have "r \<in> set (token_runs (drop (length (take 512 run)) p @ r @ post))"
        by (rule 1(2)[OF cs' refl refl]) (use False run cs d dl in auto)
      with False eq show ?thesis by simp
    qed
  qed
qed

lemma candidates_loop_all:
  "n + length (concat (map run_candidates runs)) \<le> max_candidates \<Longrightarrow>
     candidates_loop runs n = concat (map run_candidates runs)"
  by (induction runs arbitrary: n) (auto simp: Let_def)

section \<open>Every string is visited, up to the limits\<close>

fun json_strings :: "json \<Rightarrow> string list" where
  "json_strings (JStr s) = [s]"
| "json_strings (JList l) = concat (map json_strings l)"
| "json_strings (JObj d) = concat (map (\<lambda>(k, v). k # json_strings v) d)"
| "json_strings _ = []"

text \<open>How deep a string or key lies.\<close>

fun string_depth :: "json \<Rightarrow> nat" where
  "string_depth (JList l) = foldr (\<lambda>j m. max (Suc (string_depth j)) m) l 0"
| "string_depth (JObj d) = foldr (\<lambda>(k, v) m. max (Suc (string_depth v)) m) d 0"
| "string_depth _ = 0"

lemma strings_in_all:
  "depth + string_depth node \<le> 24 \<Longrightarrow> length (json_strings node) \<le> budget \<Longrightarrow>
     strings_in node depth budget = (json_strings node, budget - length (json_strings node))"
  "depth + string_depth (JList l) \<le> 24 \<Longrightarrow> length (json_strings (JList l)) \<le> budget \<Longrightarrow>
     strings_in_list l depth budget = (json_strings (JList l), budget - length (json_strings (JList l)))"
  "depth + string_depth (JObj d) \<le> 24 \<Longrightarrow> length (json_strings (JObj d)) \<le> budget \<Longrightarrow>
     strings_in_items d depth budget = (json_strings (JObj d), budget - length (json_strings (JObj d)))"
proof (induction node depth budget and l depth budget and d depth budget rule: strings_in_strings_in_list_strings_in_items.induct)
  case (1 node depth budget)
  then show ?case by (subst strings_in.simps) (cases node, auto)
next
  case (3 item l depth budget)
  then show ?case by simp
next
  case (5 key v d depth budget)
  then have "depth \<le> 23" by simp
  with 5 show ?case by simp
qed simp_all

lemma strings_in_list_subset:
  "(\<And>j d b. j \<in> set l \<Longrightarrow> set (fst (strings_in j d b)) \<subseteq> set (json_strings j)) \<Longrightarrow>
     set (fst (strings_in_list l depth budget)) \<subseteq> set (json_strings (JList l))"
proof (induction l arbitrary: budget)
  case (Cons j l)
  obtain a c where a: "strings_in j (depth + 1) budget = (a, c)" by fastforce
  obtain b e where b: "strings_in_list l depth c = (b, e)" by fastforce
  have "set a \<subseteq> set (json_strings j)" using Cons.prems[of j "depth + 1" budget] a by simp
  moreover have "set b \<subseteq> set (json_strings (JList l))" using Cons.IH[of c] Cons.prems b by simp
  ultimately show ?case using a b by auto
qed simp

lemma strings_in_items_subset:
  "(\<And>k j d b. (k, j) \<in> set kvs \<Longrightarrow> set (fst (strings_in j d b)) \<subseteq> set (json_strings j)) \<Longrightarrow>
     set (fst (strings_in_items kvs depth budget)) \<subseteq> set (json_strings (JObj kvs))"
proof (induction kvs arbitrary: budget)
  case (Cons p kvs)
  obtain k j where p: "p = (k, j)" by fastforce
  obtain x f where x: "(if 24 < depth + 1 \<or> budget = 0 then ([], budget) else ([k], budget - 1)) = (x, f)" by fastforce
  then have "set x \<subseteq> {k}" by (auto split: if_splits)
  moreover obtain a c where a: "strings_in j (depth + 1) f = (a, c)" by fastforce
  moreover obtain b e where b: "strings_in_items kvs depth c = (b, e)" by fastforce
  moreover have "set a \<subseteq> set (json_strings j)" using Cons.prems[of k j "depth + 1" f] a p by simp
  moreover have "set b \<subseteq> set (json_strings (JObj kvs))"
    using Cons.IH[of c] Cons.prems b by (metis fst_conv list.set_intros(2))
  ultimately show ?case using p x by auto
qed simp

lemma strings_in_subset: "set (fst (strings_in node depth budget)) \<subseteq> set (json_strings node)"
proof (induction node arbitrary: depth budget)
  case (JList l)
  then show ?case using strings_in_list_subset[of l depth budget] by (subst strings_in.simps) simp
next
  case (JObj d)
  have "set (fst (strings_in_items d depth budget)) \<subseteq> set (json_strings (JObj d))"
    by (rule strings_in_items_subset) (use JObj in auto)
  then show ?case by (subst strings_in.simps) simp
qed (subst strings_in.simps, simp)+

text \<open>A value of 25 nested lists is not looked into.\<close>

definition nest :: "nat \<Rightarrow> json \<Rightarrow> json" where
  "nest n j = ((\<lambda>x. JList [x]) ^^ n) j"

lemma strings_in_nest: "24 < depth + n \<Longrightarrow> fst (strings_in (nest n j) depth budget) = []"
proof (induction n arbitrary: depth)
  case (Suc n)
  then have "fst (strings_in (nest n j) (depth + 1) budget) = []" by simp
  then show ?case by (subst strings_in.simps) (simp add: nest_def split: prod.splits)
qed (simp add: strings_in.simps)

section \<open>What a find returns\<close>

lemma set_update_pairs: "set (AList.update k v d) \<subseteq> insert (k, v) (set d)"
  by (induction d) auto

lemma collect_hits_sound:
  "(i, e) \<in> set (collect_hits E key reg tokens) \<Longrightarrow> i = ce_id e \<and> (\<exists>t\<in>set tokens. hit_entry E key reg t = Some e)"
proof -
  have "(i, e) \<in> set (foldl (\<lambda>hits e. AList.update (ce_id e) e hits) h es) \<Longrightarrow>
      (i, e) \<in> set h \<or> e \<in> set es \<and> i = ce_id e" for h es
  proof (induction es arbitrary: h)
    case (Cons x es)
    then show ?case using set_update_pairs[of "ce_id x" x h] by fastforce
  qed simp
  moreover have "e \<in> set (List.map_filter (hit_entry E key reg) tokens) \<Longrightarrow> \<exists>t\<in>set tokens. hit_entry E key reg t = Some e"
    by (induction tokens) (auto simp: List.map_filter_simps split: option.splits)
  ultimately show "(i, e) \<in> set (collect_hits E key reg tokens) \<Longrightarrow> i = ce_id e \<and> (\<exists>t\<in>set tokens. hit_entry E key reg t = Some e)"
    by (fastforce simp: collect_hits_def)
qed

lemma collect_hits_complete:
  assumes "t \<in> set tokens" "hit_entry E key reg t = Some e"
  shows "ce_id e \<in> fst ` set (collect_hits E key reg tokens)"
proof -
  have k: "fst ` set (foldl (\<lambda>hits e. AList.update (ce_id e) e hits) h es) = fst ` set h \<union> ce_id ` set es" for h es
  proof (induction es arbitrary: h)
    case (Cons x es)
    have "fst ` set (AList.update (ce_id x) x h) = insert (ce_id x) (fst ` set h)" by (induction h) auto
    with Cons show ?case by simp
  qed simp
  have "e \<in> set (List.map_filter (hit_entry E key reg) tokens)"
    using assms by (induction tokens) (auto simp: List.map_filter_simps split: option.splits)
  then show ?thesis by (auto simp: collect_hits_def k)
qed

lemma candidates_sub:
  assumes "c \<in> set (candidates text)"
  shows "sublist c text"
proof -
  have runs: "r \<in> set (token_runs t) \<Longrightarrow> sublist r t" for r t
  proof (induction t rule: token_runs.induct)
    case (1 s)
    show ?case
    proof (cases "dropWhile (\<lambda>c. \<not> is_token_char c) s")
      case Nil
      then have "token_runs s = []" by (subst token_runs.simps) (simp only: list.case)
      with 1(3) show ?thesis by simp
    next
      case (Cons c u)
      have sx: "sublist x s" if "sublist x (c # u)" for x
        using that Cons by (metis sublist_order.order_trans suffix_dropWhile suffix_imp_sublist)
      let ?run = "takeWhile is_token_char (c # u)"
      have dr: "sublist x (c # u)" if "sublist x (drop k (c # u))" for x k
        using that by (metis sublist_order.order_trans suffix_drop suffix_imp_sublist)
      have "sublist (take 512 ?run) (c # u)"
        by (meson prefix_imp_sublist prefix_order.order_trans take_is_prefix takeWhile_is_prefix)
      then show ?thesis
        using 1(1)[OF Cons refl refl] 1(2)[OF Cons refl refl] 1(3) token_runs_at[OF Cons] sx dr
        by (simp add: Let_def del: takeWhile.simps drop_Cons' take_Cons' split: if_splits) blast
    qed
  qed
  have pc: "p \<in> set (pieces x) \<Longrightarrow> sublist p x" for p x
  proof -
    have "\<exists>q qs. pieces x = q # qs \<and> prefix q x \<and> (\<forall>p\<in>set qs. sublist p x)"
      by (induction x) (auto simp: sublist_Cons_right)
    then show "p \<in> set (pieces x) \<Longrightarrow> sublist p x" by auto
  qed
  have st: "sublist (strip_by P x) x" for P x
  proof -
    have "prefix (strip_by P x) (dropWhile P x)"
      unfolding strip_by_def by (metis suffix_dropWhile suffix_to_prefix rev_rev_ident)
    then show ?thesis by (metis prefix_imp_sublist sublist_order.order_trans suffix_dropWhile suffix_imp_sublist)
  qed
  have lp: "c \<in> set (candidates_loop rs n) \<Longrightarrow> \<exists>r\<in>set rs. c \<in> set (run_candidates r)" for rs n
    by (induction rs arbitrary: n) (auto simp: Let_def split: if_splits)
  obtain r where "r \<in> set (token_runs text)" "c \<in> set (run_candidates r)"
    using lp assms unfolding candidates_def by blast
  moreover define tk where "tk = strip_by (\<lambda>c. c \<in> set ''.,;:'') r"
  ultimately have "c = tk \<or> c \<in> set (pieces tk)" and r: "sublist r text"
    using runs by (auto simp: run_candidates_def Let_def)
  moreover have "sublist tk text" using st r sublist_order.order_trans unfolding tk_def by blast
  ultimately have "sublist tk text" "c = tk \<or> c \<in> set (pieces tk)" by auto
  then show ?thesis using pc sublist_order.order_trans by blast
qed

section \<open>Detection\<close>

lemma canary_find_run:
  assumes "canary_enabled cfg" "hmac_key E cfg = Inr key" "load_registry E f cache = (Inr reg, cache')"
  shows "canary_find E cfg f node cache =
    (Inr (map snd (sort_key (\<lambda>(i, e). py_str E i)
       (collect_hits E key reg (concat (map candidates (fst (strings_in node 0 max_strings))))))), cache')"
  using assms by (auto simp: canary_find_def bindA_def collect_hits_def hit_entry_def List.map_filter_simps
      List.map_filter_def)

text \<open>
  A text holds a value as a delimited token: in a run of at most 512 token characters, the
  value stands between separators or the ends of the run (punctuation aside).
\<close>

definition occurs_as_token :: "string \<Rightarrow> string \<Rightarrow> bool" where
  "occurs_as_token v text \<longleftrightarrow> (\<exists>pre p a b q post. text = pre @ (p @ a @ v @ b @ q) @ post \<and>
     (pre = [] \<or> \<not> is_token_char (last pre)) \<and> (post = [] \<or> \<not> is_token_char (hd post)) \<and>
     (\<forall>c\<in>set (p @ a @ v @ b @ q). is_token_char c) \<and> length (p @ a @ v @ b @ q) \<le> 512 \<and>
     set p \<subseteq> set ''.,;:'' \<and> set q \<subseteq> set ''.,;:'' \<and>
     hd (a @ v @ b) \<notin> set ''.,;:'' \<and> last (a @ v @ b) \<notin> set ''.,;:'' \<and>
     12 \<le> length v \<and> (\<forall>c\<in>set v. \<not> is_separator c) \<and>
     (a = [] \<or> is_separator (last a)) \<and> (b = [] \<or> is_separator (hd b)))"

definition all_candidates :: "string \<Rightarrow> string list" where
  "all_candidates text = concat (map run_candidates (token_runs text))"

lemma occurs_candidate:
  assumes "occurs_as_token v text" "length (all_candidates text) \<le> max_candidates"
  shows "v \<in> set (candidates text)"
proof -
  obtain pre p a b q post where t: "text = pre @ (p @ a @ v @ b @ q) @ post"
    "pre = [] \<or> \<not> is_token_char (last pre)" "post = [] \<or> \<not> is_token_char (hd post)"
    "\<forall>c\<in>set (p @ a @ v @ b @ q). is_token_char c" "length (p @ a @ v @ b @ q) \<le> 512"
    "set p \<subseteq> set ''.,;:''" "set q \<subseteq> set ''.,;:''"
    "hd (a @ v @ b) \<notin> set ''.,;:''" "last (a @ v @ b) \<notin> set ''.,;:''"
    "12 \<le> length v" "\<forall>c\<in>set v. \<not> is_separator c"
    "a = [] \<or> is_separator (last a)" "b = [] \<or> is_separator (hd b)"
    using assms(1) unfolding occurs_as_token_def by blast
  define r where "r = p @ (a @ v @ b) @ q"
  have "r \<in> set (token_runs (pre @ r @ post))"
    by (rule token_runs_complete) (use t in \<open>auto simp: r_def\<close>)
  then have "r \<in> set (token_runs text)" using t(1) by (simp add: r_def)
  moreover have "strip_by (\<lambda>c. c \<in> set ''.,;:'') r = a @ v @ b"
    unfolding r_def by (rule strip_by_middle) (use t(6-10) in auto)
  moreover have "v \<in> set (pieces (a @ v @ b))" by (rule pieces_delimited) (use t in auto)
  ultimately have "v \<in> set (all_candidates text)"
    using t(10) unfolding all_candidates_def by (force simp: run_candidates_def Let_def)
  moreover have "candidates text = all_candidates text"
    unfolding candidates_def all_candidates_def
    by (rule candidates_loop_all) (use assms(2) in \<open>simp add: all_candidates_def\<close>)
  ultimately show ?thesis by simp
qed

lemma canary_finds_planted:
  assumes "canary_enabled cfg" "hmac_key E cfg = Inr key" "load_registry E f cache = (Inr reg, cache')"
    and "hit_entry E key reg v = Some e"
    and "string_depth node \<le> 24" "length (json_strings node) \<le> max_strings"
    and "text \<in> set (json_strings node)" "occurs_as_token v text"
    and "length (all_candidates text) \<le> max_candidates"
  shows "\<exists>hits. canary_find E cfg f node cache = (Inr hits, cache') \<and> ce_id e \<in> ce_id ` set hits"
proof -
  let ?ts = "concat (map candidates (fst (strings_in node 0 max_strings)))"
  have "strings_in node 0 max_strings = (json_strings node, max_strings - length (json_strings node))"
    using strings_in_all(1)[of 0 node max_strings] assms(5,6) by simp
  then have "v \<in> set ?ts" using occurs_candidate[OF assms(8,9)] assms(7) by auto
  then obtain e' where e': "(ce_id e, e') \<in> set (collect_hits E key reg ?ts)"
    using collect_hits_complete[OF _ assms(4)] by fastforce
  then have "ce_id e' = ce_id e" using collect_hits_sound by metis
  then have "ce_id e \<in> ce_id ` set (map snd (sort_key (\<lambda>(i, e). py_str E i) (collect_hits E key reg ?ts)))"
    using imageI[OF e', of snd] by (intro rev_image_eqI[of e']) simp_all
  then show ?thesis unfolding canary_find_run[OF assms(1-3)] by blast
qed

lemma canary_hits_registered:
  assumes "canary_enabled cfg" "hmac_key E cfg = Inr key" "load_registry E f cache = (Inr reg, cache')"
    and "canary_find E cfg f node cache = (Inr hits, c)" "e \<in> set hits"
  shows "e \<in> snd ` set reg"
proof -
  obtain i t where "(i, e) \<in> set (collect_hits E key reg t)"
    using assms(4,5) canary_find_run[OF assms(1-3), of node] by auto
  then obtain v where "hit_entry E key reg v = Some e" using collect_hits_sound by blast
  then show ?thesis by (force simp: hit_entry_def dest: map_of_SomeD split: if_splits)
qed

text \<open>C4: a planted value is found: when detection is on and configured, a value whose HMAC is in
  the registry and that stands as a delimited token in any string or key of a request, within
  24 levels of nesting, 5000 strings and 20000 candidates, is reported.\<close>

theorem canary_find_complete:
  assumes "canary_enabled cfg" "hmac_key E cfg = Inr key" "load_registry E f cache = (Inr reg, cache')"
    and "hit_entry E key reg v = Some e"
    and "string_depth node \<le> 24" "length (json_strings node) \<le> max_strings"
    and "text \<in> set (json_strings node)" "occurs_as_token v text"
    and "length (all_candidates text) \<le> max_candidates"
  shows "\<exists>hits. canary_find E cfg f node cache = (Inr hits, cache') \<and> ce_id e \<in> ce_id ` set hits"
  by (rule canary_finds_planted[OF assms])

definition demo_mac :: string where
  "demo_mac = replicate 64 CHR ''a''"

definition demo_key :: string where
  "demo_key = replicate 32 CHR ''k''"

definition demo_canary_cfg :: dict where
  "demo_canary_cfg = [(''canary'', JObj [(''enabled'', JBool True)])]"

definition demo_canary_env :: env where
  "demo_canary_env = demo_env\<lparr>e_getenv := (\<lambda>n. demo_key), e_hmac := (\<lambda>k m. demo_mac),
     e_loads := (\<lambda>s. Some (JObj [(''id'', JStr ''c1''), (''kind'', JStr ''token''), (''hmac'', JStr demo_mac)]))\<rparr>"

lemma demo_canary_run:
  "canary_enabled demo_canary_cfg" "hmac_key demo_canary_env demo_canary_cfg = Inr demo_key"
  "load_registry demo_canary_env (Some (1, ''entry'')) None =
     (Inr [(JStr demo_mac, \<lparr>ce_id = JStr ''c1'', ce_kind = ''token''\<rparr>)],
      Some (1, [(JStr demo_mac, \<lparr>ce_id = JStr ''c1'', ce_kind = ''token''\<rparr>)]))"
proof -
  show "canary_enabled demo_canary_cfg" by code_simp
  show "hmac_key demo_canary_env demo_canary_cfg = Inr demo_key" by code_simp
  have "registry_lines demo_canary_env (splitlines ''entry'') [] =
     Inr [(JStr demo_mac, \<lparr>ce_id = JStr ''c1'', ce_kind = ''token''\<rparr>)]" by code_simp
  then show "load_registry demo_canary_env (Some (1, ''entry'')) None =
     (Inr [(JStr demo_mac, \<lparr>ce_id = JStr ''c1'', ce_kind = ''token''\<rparr>)],
      Some (1, [(JStr demo_mac, \<lparr>ce_id = JStr ''c1'', ce_kind = ''token''\<rparr>)]))"
    by (simp add: load_registry_def)
qed

theorem canary_find_complete_witness:
  "\<exists>hits c. canary_find demo_canary_env demo_canary_cfg (Some (1, ''entry'')) (JObj [(''text'', JStr ''key=AKIA12345678, see'')]) None
     = (Inr hits, c) \<and> JStr ''c1'' \<in> ce_id ` set hits"
proof -
  let ?e = "\<lparr>ce_id = JStr ''c1'', ce_kind = ''token''\<rparr>"
  have o: "occurs_as_token ''AKIA12345678'' ''key=AKIA12345678, see''"
  proof -
    have "''key=AKIA12345678, see'' = [] @ ([] @ ''key='' @ ''AKIA12345678'' @ [] @ []) @ '', see''" by simp
    moreover have "\<forall>c\<in>set ([] @ ''key='' @ ''AKIA12345678'' @ [] @ []). is_token_char c" by code_simp
    moreover have "\<not> is_token_char (hd '', see'')" "\<forall>c\<in>set ''AKIA12345678''. \<not> is_separator c"
      "is_separator (last ''key='')" by code_simp+
    ultimately show ?thesis unfolding occurs_as_token_def
      by (intro exI[of _ "[]"] exI[of _ "''key=''"] exI[of _ "'', see''"] conjI) (assumption | simp)+
  qed
  have h: "hit_entry demo_canary_env demo_key [(JStr demo_mac, ?e)] ''AKIA12345678'' = Some ?e"
    by (simp add: hit_entry_def demo_canary_env_def demo_canary_env_def)
  have "all_candidates ''key=AKIA12345678, see'' = [''key=AKIA12345678'', ''AKIA12345678'']" by code_simp
  then have l: "length (all_candidates ''key=AKIA12345678, see'') \<le> max_candidates" by (simp add: max_candidates_def)
  show ?thesis
    using canary_find_complete[OF demo_canary_run h _ _ _ o l, of "JObj [(''text'', JStr ''key=AKIA12345678, see'')]"]
    by (auto simp: max_strings_def)
qed

text \<open>Nothing else is reported: each reported canary is an entry the registry holds under the
  HMAC of a piece of text that occurs in some string or key of the request.\<close>

theorem canary_find_sound:
  assumes "canary_enabled cfg" "hmac_key E cfg = Inr key" "load_registry E f cache = (Inr reg, cache')"
    and "canary_find E cfg f node cache = (Inr hits, c)" "e \<in> set hits"
  shows "\<exists>text v. text \<in> set (json_strings node) \<and> sublist v text \<and> map_of reg (JStr (e_hmac E key v)) = Some e"
proof -
  let ?ts = "concat (map candidates (fst (strings_in node 0 max_strings)))"
  have "hits = map snd (sort_key (\<lambda>(i, e). py_str E i) (collect_hits E key reg ?ts))"
    using assms(4) canary_find_run[OF assms(1-3), of node] by simp
  then obtain i where "(i, e) \<in> set (collect_hits E key reg ?ts)" using assms(5) by auto
  then obtain v where v: "v \<in> set ?ts" "hit_entry E key reg v = Some e" using collect_hits_sound by blast
  then obtain s where "s \<in> set (json_strings node)" "v \<in> set (candidates s)"
    using strings_in_subset[of node 0 max_strings] by auto
  then show ?thesis using candidates_sub v(2) by (auto simp: hit_entry_def)
qed

theorem canary_find_sound_witness:
  "case fst (canary_find demo_canary_env demo_canary_cfg (Some (1, ''entry'')) (JStr ''AKIA12345678'') None) of
     Inl _ \<Rightarrow> True | Inr hits \<Rightarrow> list_all (\<lambda>e. e = \<lparr>ce_id = JStr ''c1'', ce_kind = ''token''\<rparr>) hits"
proof (cases "canary_find demo_canary_env demo_canary_cfg (Some (1, ''entry'')) (JStr ''AKIA12345678'') None")
  case (Pair r c)
  have "e = \<lparr>ce_id = JStr ''c1'', ce_kind = ''token''\<rparr>" if "r = Inr hits" "e \<in> set hits" for hits e
    using canary_find_sound[OF demo_canary_run Pair[unfolded that(1)] that(2)] by (auto split: if_splits)
  with Pair show ?thesis by (auto simp: list_all_iff split: sum.split)
qed

text \<open>A canary inside 25 nested lists is not seen, whatever the registry holds: the search is
  not of every place in the value.\<close>

theorem canary_deep_nesting_missed:
  assumes "canary_enabled cfg" "hmac_key E cfg = Inr key" "load_registry E f cache = (Inr reg, cache')"
  shows "canary_find E cfg f (nest 25 node) cache = (Inr [], cache')"
  using strings_in_nest[of 0 25 node max_strings]
  by (simp add: canary_find_run[OF assms] collect_hits_def List.map_filter_simps)

theorem canary_deep_nesting_missed_witness:
  "fst (canary_find demo_canary_env demo_canary_cfg (Some (1, ''entry'')) (nest 25 (JStr ''AKIA12345678'')) None) = Inr []"
  by (simp add: canary_deep_nesting_missed[OF demo_canary_run])

section \<open>The revocation file\<close>

text \<open>
  What the file relies on of \<open>json.dumps\<close> with ASCII output: the text has no line break of any
  kind and is read back.
\<close>

definition ascii_ok :: "env \<Rightarrow> json \<Rightarrow> bool" where
  "ascii_ok E j \<longleftrightarrow> e_ascii E (sort_keys j) \<noteq> [] \<and>
     (\<forall>c\<in>set (e_ascii E (sort_keys j)). \<not> is_break c) \<and> e_loads E (e_ascii E (sort_keys j)) = Some (sort_keys j)"

definition ascii_env :: "env \<Rightarrow> bool" where
  "ascii_env E \<longleftrightarrow> (\<forall>j. wf_json j \<longrightarrow> ascii_ok E j)"

lemma demo_ascii_env: "ascii_env demo_env"
proof -
  have "\<not> is_break CHR ''1''" by (simp add: is_break_def)
  moreover have "demo_render j \<noteq> []" for j by (simp add: demo_render_def)
  ultimately show ?thesis
    by (simp add: ascii_env_def ascii_ok_def demo_render_chars demo_loads_render wf_sort_keys)
qed

lemma canary_records_append:
  assumes "jsonl_inv f" "ascii_ok E r"
  shows "canary_records E (canary_append E r f) = canary_records E f @ [sort_keys r]"
proof -
  have n: "is_break newline" by (simp add: is_break_def)
  have "file_text f = [] \<or> is_break (last (file_text f))" using assms(1) n by (auto simp: jsonl_inv_def)
  then have "lines_by is_break (file_text f @ ascii_line E r) =
      lines_by is_break (file_text f) @ [e_ascii E (sort_keys r) @ [newline]]"
    using assms(2) n by (simp add: lines_by_append ascii_line_def lines_by_single ascii_ok_def)
  then show ?thesis
    using assms(2) n
    by (simp add: canary_records_def canary_append_def file_text_def splitlines_def splitlines_keepends_def
        List.map_filter_def ascii_ok_def)
qed

interpretation canary_log: append_log "canary_append E" "canary_records E" jsonl_inv "ascii_ok E" sort_keys for E
proof unfold_locales
  fix s r assume "jsonl_inv s" "ascii_ok E r"
  then show "canary_records E (canary_append E r s) = canary_records E s @ [sort_keys r]"
    by (rule canary_records_append)
  show "jsonl_inv (canary_append E r s)"
    by (simp add: jsonl_inv_def canary_append_def ascii_line_def file_text_def)
qed

text \<open>What the gateway and a human do to the file.\<close>

datatype canary_op =
    Revoke (op_agent: string) string "json list"
  | Release (op_agent: string) string

fun canary_apply :: "env \<Rightarrow> string \<Rightarrow> canary_op \<Rightarrow> store \<Rightarrow> store" where
  "canary_apply E stamp (Revoke agent reason ids) = revoke E stamp agent reason ids"
| "canary_apply E stamp (Release agent note) = release E stamp agent note"

fun op_wf :: "canary_op \<Rightarrow> bool" where
  "op_wf (Revoke agent reason ids) = (\<forall>j\<in>set ids. wf_json j)"
| "op_wf (Release agent note) = True"

fun op_revokes :: "canary_op \<Rightarrow> bool" where
  "op_revokes (Revoke _ _ _) = True"
| "op_revokes (Release _ _) = False"

lemma revocations_append:
  assumes "jsonl_inv f" "ascii_ok E r"
  shows "revocations E (canary_append E r f) = revocation_step (revocations E f) (sort_keys r)"
  by (simp add: revocations_def canary_log.recs_append[OF assms])

lemma canary_apply_revoked:
  assumes "ascii_env E" "jsonl_inv f" "op_wf op1" "canary_enabled cfg"
  shows "jsonl_inv (canary_apply E stamp op1 f)"
    and "is_revoked E cfg (canary_apply E stamp op1 f) a \<longleftrightarrow>
      (if op_agent op1 = a then op_revokes op1 else is_revoked E cfg f a)"
proof -
  have k: "map_of (sort_key fst (map (\<lambda>(k, v). (k, sort_keys v)) d)) k = map_option sort_keys (map_of d k)"
    if "wf_json (JObj d)" for d k by (rule map_of_sorted_json[OF that])
  have step: "jsonl_inv (canary_append E (JObj d) f) \<and>
      (is_revoked E cfg (canary_append E (JObj d) f) a \<longleftrightarrow>
        (if b = a then act = ''revoke'' else is_revoked E cfg f a))"
    if "wf_json (JObj d)" "map_of d ''agent_id'' = Some (JStr b)" "map_of d ''action'' = Some (JStr act)" for d b act
  proof -
    have ok: "ascii_ok E (JObj d)" using assms(1) that(1) by (simp add: ascii_env_def)
    have "jsonl_inv (canary_append E (JObj d) f)" by (rule canary_log.inv_append[OF assms(2) ok])
    moreover have "revocations E (canary_append E (JObj d) f) =
        AList.update b (sort_key fst (map (\<lambda>(k, v). (k, sort_keys v)) d)) (revocations E f)"
      using that(2) k[OF that(1)] by (simp add: revocations_append[OF assms(2) ok])
    ultimately show ?thesis
      using that(3) k[OF that(1)] assms(4) by (simp add: is_revoked_def)
  qed
  show "jsonl_inv (canary_apply E stamp op1 f)"
    "is_revoked E cfg (canary_apply E stamp op1 f) a \<longleftrightarrow>
      (if op_agent op1 = a then op_revokes op1 else is_revoked E cfg f a)"
    using assms(3) step by (cases op1; simp add: revoke_def release_def)+
qed

text \<open>C7: revocation is one-way for agents: after any sequence of revocations and releases, an
  agent is revoked exactly when the last operation that named it was a revocation (or, when
  none did, when it was revoked before); operations on other agents change nothing, and only
  a release, which the gateway never performs, restores an agent.\<close>

theorem revocation_is_last_operation:
  assumes "ascii_env E" "jsonl_inv f" "\<forall>x\<in>set ops. op_wf x" "canary_enabled cfg"
  shows "is_revoked E cfg (fold (canary_apply E stamp) ops f) a \<longleftrightarrow>
    (case filter (\<lambda>x. op_agent x = a) ops of
       [] \<Rightarrow> is_revoked E cfg f a
     | mine \<Rightarrow> op_revokes (last mine))"
  using assms(2,3)
proof (induction ops arbitrary: f)
  case (Cons x ops)
  note s = canary_apply_revoked[OF assms(1) Cons.prems(1) _ assms(4), of x stamp]
  have "is_revoked E cfg (fold (canary_apply E stamp) ops (canary_apply E stamp x f)) a \<longleftrightarrow>
    (case filter (\<lambda>x. op_agent x = a) ops of
       [] \<Rightarrow> is_revoked E cfg (canary_apply E stamp x f) a
     | mine \<Rightarrow> op_revokes (last mine))"
    by (rule Cons.IH) (use s Cons.prems in auto)
  then show ?case using s(2)[of a] Cons.prems(2) by (auto split: list.splits)
qed simp

theorem revocation_is_last_operation_witness:
  "is_revoked demo_env demo_canary_cfg (fold (canary_apply demo_env ''now'')
     [Revoke ''a'' ''canary:input'' [], Release ''b'' ''ok'', Revoke ''b'' ''canary:input'' []] None) ''a''"
  using revocation_is_last_operation[OF demo_ascii_env, of None
      "[Revoke ''a'' ''canary:input'' [], Release ''b'' ''ok'', Revoke ''b'' ''canary:input'' []]"
      demo_canary_cfg "''now''" "''a''"] demo_canary_run(1)
  by (simp add: jsonl_inv_def file_text_def)

text \<open>A trip revokes the calling agent unless the configuration turns that off, raises the kill
  switch exactly when it is configured, never lowers it, and reports what it did.\<close>

theorem apply_trip_effects:
  assumes "ascii_env E" "jsonl_inv f" "canary_enabled cfg" "\<forall>j\<in>set ids. wf_json j"
    and "apply_trip E stamp cfg (Some agent) ids source (f, kill) = ((revoked, raised), (f', kill'))"
  shows "(kill' \<longleftrightarrow> kill \<or> raised) \<and> (kill \<longrightarrow> kill') \<and>
    (revoked = Some agent \<longrightarrow> is_revoked E cfg f' agent) \<and>
    (revoked = Some agent \<longleftrightarrow> agent \<noteq> [] \<and>
       truthy (dget (dict_or_empty (dget0 (canary_settings cfg) ''on_trip'')) ''revoke_agent'' (JBool True))) \<and>
    (\<forall>b. b \<noteq> agent \<longrightarrow> is_revoked E cfg f' b = is_revoked E cfg f b)"
proof -
  note s = canary_apply_revoked(2)[OF assms(1,2) _ assms(3), of "Revoke agent (''canary:'' @ source) ids" stamp]
  show ?thesis using assms(4,5) s by (auto simp: apply_trip_def Let_def split: if_splits)
qed

theorem apply_trip_effects_witness:
  "snd (fst (apply_trip demo_env ''now'' demo_canary_cfg (Some ''a'') [JStr ''c1''] ''input'' (None, False))) = False \<and>
   is_revoked demo_env demo_canary_cfg (fst (snd (apply_trip demo_env ''now'' demo_canary_cfg (Some ''a'') [JStr ''c1''] ''input'' (None, False)))) ''a''"
proof -
  obtain revoked raised f' kill' where t:
    "apply_trip demo_env ''now'' demo_canary_cfg (Some ''a'') [JStr ''c1''] ''input'' (None, False) = ((revoked, raised), (f', kill'))"
    by (metis prod.exhaust)
  have "jsonl_inv None" by (simp add: jsonl_inv_def file_text_def)
  from apply_trip_effects[OF demo_ascii_env this demo_canary_run(1) _ t] t show ?thesis
    by (auto simp: apply_trip_def canary_settings_def demo_canary_cfg_def)
qed

end
