(* ===== verification/World.thy ===== *)
theory World
  imports Audit_Log Run_Store Canary Model_Quota
begin

text \<open>
  The state of one gateway process and its files, and the two operations almost every
  handler performs on it: appending an audit event (\<open>write_audit\<close>) and the canary check
  (\<open>enforce_canary\<close>). Wall-clock time is a parameter, in microseconds; a request reads it
  once (the source reads it a few times in a request).
\<close>

text \<open>
  The artifact store: its files by their path below the root. A JSON file is kept as the value
  it parses to, any other file as its bytes.
\<close>

datatype afile = JsonFile json | RawFile string

type_synonym apath = "string list"
type_synonym astore = "(apath \<times> afile) list"

record world =
  g_audit :: store                              \<comment> \<open>\<open>audit_log\<close>\<close>
  g_runs :: store                               \<comment> \<open>\<open>run_store.path\<close>\<close>
  g_approvals :: store                          \<comment> \<open>\<open>approval_store\<close>\<close>
  g_warnings :: store                           \<comment> \<open>run-warnings.jsonl\<close>
  g_revoked :: store                            \<comment> \<open>\<open>canary.revoked_file\<close>\<close>
  g_registry :: registry_file                   \<comment> \<open>\<open>canary.registry_file\<close>\<close>
  g_cache :: "(rat \<times> registry) option"         \<comment> \<open>the module cache of canary.py\<close>
  g_kill :: bool                                \<comment> \<open>whether \<open>kill_switch_file\<close> exists\<close>
  g_limiter :: limiter                          \<comment> \<open>\<open>RATE_LIMITER\<close>\<close>
  g_evidence :: store                           \<comment> \<open>\<open>test_modes.input_guard_log_only.evidence_file\<close>\<close>
  g_artifacts :: astore
  g_quota :: quota                              \<comment> \<open>\<open>RUN_MODEL_CALLS\<close> and \<open>RUN_MODEL_CALL_LAST_SEEN\<close>\<close>

definition write_audit :: "env \<Rightarrow> int \<Rightarrow> dict \<Rightarrow> (world, dict) act" where
  "write_audit E now event = (\<lambda>w.
     case audit_write E (e_isosec E now) event (g_audit w) of (r, a) \<Rightarrow> (r, w\<lparr>g_audit := a\<rparr>))"

definition raiseA :: "exn \<Rightarrow> ('s, 'a) act" where
  "raiseA e = liftA (Inl e)"

lemma raiseA_simp [simp]: "raiseA e s = (Inl e, s)"
  by (simp add: raiseA_def)

definition opt_json :: "string option \<Rightarrow> json" where
  "opt_json x = (case x of None \<Rightarrow> JNull | Some s \<Rightarrow> JStr s)"

text \<open>What a canary trip leaves in the audit log names the canaries by id, never a value.\<close>

definition canary_event :: "string \<Rightarrow> string option \<Rightarrow> string \<Rightarrow> canary_entry list \<Rightarrow> string option \<times> bool \<Rightarrow> dict" where
  "canary_event source agent_id client_ip hits actions =
     [(''event'', JStr ''canary_trip''), (''source'', JStr source), (''agent_id'', opt_json agent_id),
      (''client_ip'', JStr client_ip), (''canary_ids'', JList (map ce_id hits)),
      (''canary_kinds'', JList (map JStr (sort (remdups (map ce_kind hits))))),
      (''actions'', JObj [(''revoked_agent'', opt_json (fst actions)), (''kill_switch'', JBool (snd actions))])]"

definition enforce_canary :: "env \<Rightarrow> int \<Rightarrow> dict \<Rightarrow> json \<Rightarrow> string option \<Rightarrow> string \<Rightarrow> string \<Rightarrow> (world, unit) act" where
  "enforce_canary E now cfg node agent_id client_ip source = (\<lambda>w.
     if \<not> canary_enabled cfg then (Inr (), w)
     else case canary_find E cfg (g_registry w) node (g_cache w) of
       (Inl e, c) \<Rightarrow>
         if e = canary_error
         then thenA (write_audit E now [(''event'', JStr ''deny''), (''reason'', JStr ''canary_unavailable''),
                      (''source'', JStr source), (''client_ip'', JStr client_ip)])
                    (raiseA (GatewayError 503 ''canary_unavailable'')) (w\<lparr>g_cache := c\<rparr>)
         else (Inl e, w\<lparr>g_cache := c\<rparr>)
     | (Inr hits, c) \<Rightarrow>
         if hits = [] then (Inr (), w\<lparr>g_cache := c\<rparr>)
         else let (actions, (revoked, kill)) =
                    apply_trip E (e_isosec E now) cfg agent_id (map ce_id hits) source (g_revoked w, g_kill w)
              in thenA (write_audit E now (canary_event source agent_id client_ip hits actions))
                       (raiseA (GatewayError 403 ''blocked_by_canary''))
                       (w\<lparr>g_cache := c, g_revoked := revoked, g_kill := kill\<rparr>))"

lemma write_audit_frame [simp]:
  "write_audit E now event w = (r, w') \<Longrightarrow> \<exists>a. w' = w\<lparr>g_audit := a\<rparr>"
  by (auto simp: write_audit_def split: prod.splits)

end
