(* ===== verification/Auth.thy ===== *)
theory Auth
  imports World
begin

text \<open>
  Who is calling: \<open>client_allowed\<close>, \<open>verify_agent\<close>, \<open>verify_run_scoped_agent\<close>, and the
  registration of per-run identities, \<open>run_agents_from_payload\<close> (gateway.py). A per-run
  identity is the template agent's name and the run id joined by an at sign.
\<close>

text \<open>The agents of a configuration that \<open>validate_config\<close> accepted, which are an object.\<close>

definition cfg_agents :: "dict \<Rightarrow> dict" where
  "cfg_agents cfg = dict_or_empty (py_or (dget0 cfg ''agents'') (JObj []))"

definition client_allowed :: "env \<Rightarrow> string \<Rightarrow> dict \<Rightarrow> bool res" where
  "client_allowed E client_ip agent =
     (let allowed = py_or (dget0 agent ''allowed_client_cidrs'') (JList []) in
      if \<not> truthy allowed then Inr True
      else if \<not> e_is_ip E client_ip then Inr False
      else bindE (py_iter allowed) (\<lambda>cidrs.
        Inr (list_ex (\<lambda>cidr. e_ip_in E client_ip (py_str E cidr) = Some True) cidrs)))"

text \<open>\<open>hmac.compare_digest\<close> of two strings, which must be ASCII.\<close>

definition compare_digest :: "string \<Rightarrow> string \<Rightarrow> bool res" where
  "compare_digest a b =
     (if list_all (\<lambda>c. of_char c < (128 :: nat)) (a @ b) then Inr (a = b) else Inl (PyError ''TypeError''))"

fun verify_static :: "env \<Rightarrow> dict \<Rightarrow> store \<Rightarrow> string \<Rightarrow> string \<Rightarrow> dict \<Rightarrow> verified_agent option res" where
  "verify_static E cfg revoked client_ip token_hash [] = Inr None"
| "verify_static E cfg revoked client_ip token_hash ((agent_id, agent_json) # agents) =
     (case agent_json of
        JObj agent \<Rightarrow>
          let configured = py_str E (dget agent ''token_sha256'' (JStr [])) in
          bindE (if configured = [] then Inr False else compare_digest configured token_hash) (\<lambda>match.
            if match then
              thenE (raise_if (is_revoked E cfg revoked agent_id) (GatewayError 403 ''agent_revoked''))
             (bindE (client_allowed E client_ip agent) (\<lambda>ok.
              thenE (raise_if (\<not> ok) (GatewayError 403 ''client_ip_denied''))
              (Inr (Some \<lparr>va_agent_id = agent_id, va_agent = agent, va_principal = [], va_bound_run_id = []\<rparr>))))
            else verify_static E cfg revoked client_ip token_hash agents)
      | _ \<Rightarrow> verify_static E cfg revoked client_ip token_hash agents)"

definition scoped_identity :: "string \<Rightarrow> string \<Rightarrow> string" where
  "scoped_identity template_id run_id = template_id @ ''@'' @ run_id"

fun verify_scoped :: "env \<Rightarrow> dict \<Rightarrow> store \<Rightarrow> int \<Rightarrow> string \<Rightarrow> string \<Rightarrow> string \<Rightarrow> json \<Rightarrow> dict \<Rightarrow> verified_agent option res" where
  "verify_scoped E cfg revoked now client_ip token_hash run_id expires [] = Inr None"
| "verify_scoped E cfg revoked now client_ip token_hash run_id expires ((template_id, configured) # run_agents) =
     (case configured of
        JStr h \<Rightarrow> bindE (compare_digest h token_hash) (\<lambda>match.
          if \<not> match then verify_scoped E cfg revoked now client_ip token_hash run_id expires run_agents
          else case dget0 (cfg_agents cfg) template_id of
            JObj template \<Rightarrow>
              if dget0 template ''run_scoped'' \<noteq> JBool True then Inr None
              else bindE (parse_datetime E (py_str E expires)) (\<lambda>expires_at.
                thenE (raise_if (expires_at < now) (GatewayError 403 ''run_expired''))
               (thenE (raise_if (is_revoked E cfg revoked (scoped_identity template_id run_id) \<or>
                                 is_revoked E cfg revoked template_id) (GatewayError 403 ''agent_revoked''))
               (bindE (client_allowed E client_ip template) (\<lambda>ok.
                thenE (raise_if (\<not> ok) (GatewayError 403 ''client_ip_denied''))
                (Inr (Some \<lparr>va_agent_id = scoped_identity template_id run_id, va_agent = template,
                            va_principal = template_id, va_bound_run_id = run_id\<rparr>))))))
          | _ \<Rightarrow> Inr None)
      | _ \<Rightarrow> verify_scoped E cfg revoked now client_ip token_hash run_id expires run_agents)"

definition verify_run_scoped_agent :: "env \<Rightarrow> dict \<Rightarrow> store \<Rightarrow> store \<Rightarrow> int \<Rightarrow> headers \<Rightarrow> string \<Rightarrow> string \<Rightarrow> verified_agent option res" where
  "verify_run_scoped_agent E cfg runs revoked now hs client_ip token_hash =
     (let run_id = header_get hs ''X-ASG-Run-Id'' in
      if \<not> run_id_ok run_id then Inr None
      else case latest_dynamic_run_record E cfg runs run_id of
        None \<Rightarrow> Inr None
      | Some record \<Rightarrow> (case dget0 record ''run_agents'' of
            JObj run_agents \<Rightarrow> verify_scoped E cfg revoked now client_ip token_hash run_id (dget0 record ''expires_at'') run_agents
          | _ \<Rightarrow> Inr None))"

definition bearer_token :: "headers \<Rightarrow> string res" where
  "bearer_token hs = (let auth = header_get hs ''Authorization'' in
     if prefix ''Bearer '' auth then Inr (py_strip (removeprefix ''Bearer '' auth))
     else Inl (GatewayError 401 ''unauthorized''))"

definition verify_agent :: "env \<Rightarrow> dict \<Rightarrow> store \<Rightarrow> store \<Rightarrow> int \<Rightarrow> headers \<Rightarrow> string \<Rightarrow> verified_agent res" where
  "verify_agent E cfg runs revoked now hs client_ip =
     bindE (bearer_token hs) (\<lambda>token. let token_hash = e_sha256 E token in
     bindE (verify_static E cfg revoked client_ip token_hash (cfg_agents cfg)) (\<lambda>static_agent.
     case static_agent of
       Some v \<Rightarrow> Inr v
     | None \<Rightarrow>
         bindE (verify_run_scoped_agent E cfg runs revoked now hs client_ip token_hash) (\<lambda>scoped.
         case scoped of Some v \<Rightarrow> Inr v | None \<Rightarrow> Inl (GatewayError 401 ''unauthorized''))))"

section \<open>Registering per-run identities\<close>

definition static_hashes :: "env \<Rightarrow> dict \<Rightarrow> string list" where
  "static_hashes E cfg = List.map_filter (\<lambda>(n, a). case a of
       JObj agent \<Rightarrow> Some (py_lower (py_str E (dget agent ''token_sha256'' (JStr []))))
     | _ \<Rightarrow> None) (cfg_agents cfg)"

definition run_agent_entry :: "env \<Rightarrow> dict \<Rightarrow> string list \<Rightarrow> string \<times> json \<Rightarrow> (string \<times> json) res" where
  "run_agent_entry E cfg allowed_callers p = (case p of (template_id, token_hash) \<Rightarrow>
     thenE (case dget0 (cfg_agents cfg) template_id of
         JObj template \<Rightarrow> raise_if (dget0 template ''run_scoped'' \<noteq> JBool True) (GatewayError 403 ''input_policy_denied'')
       | _ \<Rightarrow> Inl (GatewayError 403 ''input_policy_denied''))
    (thenE (raise_if (template_id \<notin> set allowed_callers) bad_request)
    (case token_hash of
       JStr h \<Rightarrow> thenE (raise_if (\<not> sha256_hex_ok h \<or> h \<in> set (static_hashes E cfg)) bad_request)
                  (Inr (template_id, JStr h))
     | _ \<Rightarrow> Inl bad_request)))"

definition max_run_agents :: nat where
  "max_run_agents = 4"

definition run_agents_from_payload :: "env \<Rightarrow> dict \<Rightarrow> dict \<Rightarrow> string list \<Rightarrow> dict res" where
  "run_agents_from_payload E payload cfg allowed_callers = (case dget0 payload ''run_agents'' of
       JNull \<Rightarrow> Inr []
     | JObj raw \<Rightarrow>
         thenE (raise_if (raw = [] \<or> max_run_agents < length raw) bad_request)
         (mapE (run_agent_entry E cfg allowed_callers) raw)
     | _ \<Rightarrow> Inl bad_request)"

section \<open>What an authenticated caller has shown\<close>

lemma compare_digest_Inr: "compare_digest a b = Inr m \<Longrightarrow> m \<longleftrightarrow> a = b"
  by (auto simp: compare_digest_def split: if_splits)

lemma verify_static_sound:
  "verify_static E cfg revoked ip h agents = Inr (Some v) \<Longrightarrow>
     va_principal v = [] \<and> va_bound_run_id v = [] \<and> (va_agent_id v, JObj (va_agent v)) \<in> set agents \<and>
     py_str E (dget (va_agent v) ''token_sha256'' (JStr [])) = h \<and> h \<noteq> [] \<and>
     \<not> is_revoked E cfg revoked (va_agent_id v) \<and> client_allowed E ip (va_agent v) = Inr True"
proof (induction agents)
  case (Cons p agents)
  obtain i j where p: "p = (i, j)" by fastforce
  show ?case
  proof (cases "\<exists>d. j = JObj d")
    case False
    then show ?thesis using Cons p by (cases j) auto
  next
    case True
    then obtain d where j: "j = JObj d" by blast
    show ?thesis
      using Cons p j by (auto simp: bindE_Inr thenE_Inr raise_if_Inr Let_def dest!: compare_digest_Inr split: if_splits)
  qed
qed simp

lemma verify_scoped_sound:
  "verify_scoped E cfg revoked now ip h r ex ra = Inr (Some v) \<Longrightarrow>
     va_bound_run_id v = r \<and> va_agent_id v = scoped_identity (va_principal v) r \<and>
     (va_principal v, JStr h) \<in> set ra \<and> dget0 (cfg_agents cfg) (va_principal v) = JObj (va_agent v) \<and>
     dget0 (va_agent v) ''run_scoped'' = JBool True \<and>
     (\<exists>t. parse_datetime E (py_str E ex) = Inr t \<and> now \<le> t) \<and>
     \<not> is_revoked E cfg revoked (va_agent_id v) \<and> \<not> is_revoked E cfg revoked (va_principal v) \<and>
     client_allowed E ip (va_agent v) = Inr True"
proof (induction ra)
  case (Cons p ra)
  obtain i j where p: "p = (i, j)" by fastforce
  show ?case
  proof (cases "\<exists>c. j = JStr c")
    case False
    then show ?thesis using Cons p by (cases j) auto
  next
    case True
    then obtain c where j: "j = JStr c" by blast
    obtain m where m: "compare_digest c h = Inr m" using Cons.prems p j by (auto simp: bindE_Inr)
    show ?thesis
    proof (cases m)
      case False
      then have "verify_scoped E cfg revoked now ip h r ex ra = Inr (Some v)" using Cons.prems p j m by simp
      from Cons.IH[OF this] show ?thesis using p by (metis list.set_intros(2))
    next
      case t: True
      have "c = h" using compare_digest_Inr[OF m] t by simp
      with Cons.prems p j m t show ?thesis
        by (auto simp: bindE_Inr thenE_Inr raise_if_Inr split: json.splits if_splits)
    qed
  qed
qed simp

lemma verify_agent_cases:
  assumes "verify_agent E cfg runs revoked now hs ip = Inr v"
  obtains token where "bearer_token hs = Inr token"
    "verify_static E cfg revoked ip (e_sha256 E token) (cfg_agents cfg) = Inr (Some v) \<or>
     verify_run_scoped_agent E cfg runs revoked now hs ip (e_sha256 E token) = Inr (Some v)"
  using assms by (auto simp: verify_agent_def bindE_Inr Let_def split: option.splits)

lemma verify_agent_not_revoked:
  "verify_agent E cfg runs revoked now hs ip = Inr v \<Longrightarrow> \<not> is_revoked E cfg revoked (va_agent_id v)"
  by (elim verify_agent_cases) (auto simp: verify_run_scoped_agent_def Let_def split: if_splits option.splits json.splits
      dest: verify_static_sound verify_scoped_sound)

text \<open>C2: an authenticated caller has presented the token of a configured agent, or of a per-run
  identity of the latest unexpired record of the run named in its own header whose template
  is configured as run-scoped; it is not revoked, nor is its template, and its address is
  allowed.\<close>

theorem verify_agent_sound:
  assumes "verify_agent E cfg runs revoked now hs ip = Inr v"
  shows "\<exists>token. bearer_token hs = Inr token \<and> \<not> is_revoked E cfg revoked (va_agent_id v) \<and>
    client_allowed E ip (va_agent v) = Inr True \<and>
    (va_principal v = [] \<and> va_bound_run_id v = [] \<and> (va_agent_id v, JObj (va_agent v)) \<in> set (cfg_agents cfg) \<and>
       py_str E (dget (va_agent v) ''token_sha256'' (JStr [])) = e_sha256 E token \<or>
     va_bound_run_id v = header_get hs ''X-ASG-Run-Id'' \<and> run_id_ok (va_bound_run_id v) \<and>
       va_agent_id v = scoped_identity (va_principal v) (va_bound_run_id v) \<and>
       dget0 (cfg_agents cfg) (va_principal v) = JObj (va_agent v) \<and>
       dget0 (va_agent v) ''run_scoped'' = JBool True \<and> \<not> is_revoked E cfg revoked (va_principal v) \<and>
       (\<exists>record t. latest_dynamic_run_record E cfg runs (va_bound_run_id v) = Some record \<and>
          (va_principal v, JStr (e_sha256 E token)) \<in> set (dict_or_empty (dget0 record ''run_agents'')) \<and>
          parse_datetime E (py_str E (dget0 record ''expires_at'')) = Inr t \<and> now \<le> t))"
  using assms
proof (elim verify_agent_cases disjE)
  fix token assume "bearer_token hs = Inr token"
    "verify_static E cfg revoked ip (e_sha256 E token) (cfg_agents cfg) = Inr (Some v)"
  then show ?thesis using verify_static_sound by blast
next
  fix token assume b: "bearer_token hs = Inr token"
    and s: "verify_run_scoped_agent E cfg runs revoked now hs ip (e_sha256 E token) = Inr (Some v)"
  from s obtain rcd ra where r: "run_id_ok (header_get hs ''X-ASG-Run-Id'')"
    "latest_dynamic_run_record E cfg runs (header_get hs ''X-ASG-Run-Id'') = Some rcd"
    "dget0 rcd ''run_agents'' = JObj ra"
    "verify_scoped E cfg revoked now ip (e_sha256 E token) (header_get hs ''X-ASG-Run-Id'') (dget0 rcd ''expires_at'') ra = Inr (Some v)"
    by (auto simp: verify_run_scoped_agent_def Let_def split: if_splits option.splits json.splits)
  from verify_scoped_sound[OF r(4)] b r(1-3) show ?thesis by auto
qed

definition demo_auth_cfg :: dict where
  "demo_auth_cfg = [(''agents'', JObj [(''a'', JObj [(''token_sha256'', JStr (demo_sha ''tok''))])])]"

definition demo_headers :: headers where
  "demo_headers = [(''authorization'', ''Bearer tok'')]"

theorem verify_agent_sound_witness:
  "verify_agent demo_env demo_auth_cfg None None 0 demo_headers ''10.0.0.1'' = Inr
     \<lparr>va_agent_id = ''a'', va_agent = [(''token_sha256'', JStr (demo_sha ''tok''))], va_principal = [], va_bound_run_id = []\<rparr> \<and>
   (\<exists>token. bearer_token demo_headers = Inr token \<and> \<not> is_revoked demo_env demo_auth_cfg None ''a'')"
proof -
  have v: "verify_agent demo_env demo_auth_cfg None None 0 demo_headers ''10.0.0.1'' = Inr
     \<lparr>va_agent_id = ''a'', va_agent = [(''token_sha256'', JStr (demo_sha ''tok''))], va_principal = [], va_bound_run_id = []\<rparr>"
    by code_simp
  from verify_agent_sound[OF v] v show ?thesis by auto
qed

section \<open>Per-run identities do not collide\<close>

lemma scoped_identity_inj:
  assumes "run_id_ok r" "run_id_ok r'"
  shows "scoped_identity t r = scoped_identity t' r' \<longleftrightarrow> t = t' \<and> r = r'"
proof
  assume e: "scoped_identity t r = scoped_identity t' r'"
  have "after_last CHR ''@'' (scoped_identity t r) = r" "after_last CHR ''@'' (scoped_identity t' r') = r'"
    using run_id_ok_no_at assms by (simp_all add: scoped_identity_def)
  then have "r = r'" using e by simp
  then show "t = t' \<and> r = r'" using e by (simp add: scoped_identity_def)
qed simp

text \<open>C6: revoking a per-run identity locks out that identity and nothing else: not the identity
  of any other run or template, nor the template itself (agent names have no at sign).\<close>

theorem run_scoped_revocation_isolated:
  assumes "ascii_env E" "jsonl_inv f" "canary_enabled cfg" "\<forall>j\<in>set ids. wf_json j" "run_id_ok r"
    and "f' = revoke E stamp (scoped_identity t r) reason ids f"
  shows "(\<forall>v. verify_agent E cfg runs f' now hs ip = Inr v \<longrightarrow> va_agent_id v \<noteq> scoped_identity t r) \<and>
    (\<forall>t' r'. run_id_ok r' \<and> (t', r') \<noteq> (t, r) \<longrightarrow>
       is_revoked E cfg f' (scoped_identity t' r') = is_revoked E cfg f (scoped_identity t' r')) \<and>
    (\<forall>a. CHR ''@'' \<notin> set a \<longrightarrow> is_revoked E cfg f' a = is_revoked E cfg f a)"
proof -
  have s: "is_revoked E cfg f' a \<longleftrightarrow> (if scoped_identity t r = a then True else is_revoked E cfg f a)" for a
    using canary_apply_revoked(2)[OF assms(1,2) _ assms(3), of "Revoke (scoped_identity t r) reason ids" stamp a]
      assms(4,6) by simp
  have "scoped_identity t r \<noteq> a" if "CHR ''@'' \<notin> set a" for a
    using that by (auto simp: scoped_identity_def)
  then show ?thesis
    using s verify_agent_not_revoked[of E cfg runs f' now hs ip] scoped_identity_inj[OF assms(5)] by auto
qed

theorem run_scoped_revocation_isolated_witness:
  "\<not> is_revoked demo_env demo_canary_cfg (revoke demo_env ''now'' (scoped_identity ''a'' ''r1'') ''x'' [] None)
      (scoped_identity ''a'' ''r2'')"
proof -
  have ok: "run_id_ok ''r1''" "run_id_ok ''r2''" by code_simp+
  have i: "jsonl_inv None" by (simp add: jsonl_inv_def file_text_def)
  have n: "\<not> is_revoked demo_env demo_canary_cfg None (scoped_identity ''a'' ''r2'')"
    by (simp add: is_revoked_def revocations_def canary_records_def file_text_def splitlines_def splitlines_keepends_def
        List.map_filter_simps)
  show ?thesis
    using run_scoped_revocation_isolated[OF demo_ascii_env i demo_canary_run(1) _ ok(1) refl, of "[]"] ok(2) n by auto
qed

lemma lower_hex: "is_lower_hex c \<Longrightarrow> lower_char c = c"
  by (auto simp: is_lower_hex_def is_digit_def code_in_def lower_char_def less_eq_char_def Let_def)

lemma py_lower_hex: "sha256_hex_ok h \<Longrightarrow> py_lower h = h"
  by (auto simp: sha256_hex_ok_def py_lower_def list_all_iff lower_hex intro!: map_idI)

text \<open>The per-run identities a registration accepts are at most four, belong to run-scoped
  templates that the run also allows as callers, and carry digests that are no configured
  agent's, in any case of letters: a per-run token never authenticates as a static agent.\<close>

theorem run_agents_fresh:
  assumes "run_agents_from_payload E payload cfg callers = Inr ra"
  shows "length ra \<le> max_run_agents \<and> (\<forall>(t, j)\<in>set ra. \<exists>h template. j = JStr h \<and> sha256_hex_ok h \<and>
    t \<in> set callers \<and> dget0 (cfg_agents cfg) t = JObj template \<and> dget0 template ''run_scoped'' = JBool True \<and>
    (\<forall>(a, x)\<in>set (cfg_agents cfg). \<forall>agent. x = JObj agent \<longrightarrow>
       py_lower (py_str E (dget agent ''token_sha256'' (JStr []))) \<noteq> h \<and> py_str E (dget agent ''token_sha256'' (JStr [])) \<noteq> h))"
proof (cases "ra = []")
  case False
  then obtain raw where raw: "length raw \<le> max_run_agents" "mapE (run_agent_entry E cfg callers) raw = Inr ra"
    using assms by (auto simp: run_agents_from_payload_def thenE_Inr raise_if_Inr not_less split: json.splits)
  have entry: "\<exists>h template. j = JStr h \<and> sha256_hex_ok h \<and> t \<in> set callers \<and>
      dget0 (cfg_agents cfg) t = JObj template \<and> dget0 template ''run_scoped'' = JBool True \<and> h \<notin> set (static_hashes E cfg)"
    if "run_agent_entry E cfg callers p = Inr (t, j)" for p t j
    using that by (auto simp: run_agent_entry_def thenE_Inr raise_if_Inr split: prod.splits json.splits)
  have static: "py_lower (py_str E (dget agent ''token_sha256'' (JStr []))) \<in> set (static_hashes E cfg)"
    if "(a, JObj agent) \<in> set (cfg_agents cfg)" for a agent
    using that by (force simp: static_hashes_def List.map_filter_def image_iff)
  have "(\<exists>p. run_agent_entry E cfg callers p = Inr q)" if "q \<in> set ra" for q
    using mapE_source[OF raw(2) that] by blast
  then have e: "\<exists>h template. j = JStr h \<and> sha256_hex_ok h \<and> t \<in> set callers \<and>
      dget0 (cfg_agents cfg) t = JObj template \<and> dget0 template ''run_scoped'' = JBool True \<and> h \<notin> set (static_hashes E cfg)"
    if "(t, j) \<in> set ra" for t j
    using entry that by blast
  have d: "py_lower (py_str E (dget agent ''token_sha256'' (JStr []))) \<noteq> h \<and> py_str E (dget agent ''token_sha256'' (JStr [])) \<noteq> h"
    if "sha256_hex_ok h" "h \<notin> set (static_hashes E cfg)" "(a, JObj agent) \<in> set (cfg_agents cfg)" for h a agent
    using static[OF that(3)] that(2) py_lower_hex[OF that(1)] by auto
  have "length ra \<le> max_run_agents"
    using raw unfolding mapE_Inr by (metis list_all2_lengthD)
  moreover have "\<exists>h template. j = JStr h \<and> sha256_hex_ok h \<and> t \<in> set callers \<and>
      dget0 (cfg_agents cfg) t = JObj template \<and> dget0 template ''run_scoped'' = JBool True \<and>
      (\<forall>(a, x)\<in>set (cfg_agents cfg). \<forall>agent. x = JObj agent \<longrightarrow>
         py_lower (py_str E (dget agent ''token_sha256'' (JStr []))) \<noteq> h \<and> py_str E (dget agent ''token_sha256'' (JStr [])) \<noteq> h)"
    if m: "(t, j) \<in> set ra" for t j
  proof -
    obtain h template where h: "j = JStr h" "sha256_hex_ok h" "t \<in> set callers" "dget0 (cfg_agents cfg) t = JObj template"
      "dget0 template ''run_scoped'' = JBool True" "h \<notin> set (static_hashes E cfg)"
      using e[OF m] by blast
    have "\<forall>(a, x)\<in>set (cfg_agents cfg). \<forall>agent. x = JObj agent \<longrightarrow>
         py_lower (py_str E (dget agent ''token_sha256'' (JStr []))) \<noteq> h \<and> py_str E (dget agent ''token_sha256'' (JStr [])) \<noteq> h"
      using d[OF h(2,6)] by blast
    with h show ?thesis by blast
  qed
  ultimately show ?thesis by (simp only: case_prod_unfold) (metis prod.collapse)
qed simp

definition demo_scoped_cfg :: dict where
  "demo_scoped_cfg = [(''agents'', JObj [(''w'', JObj [(''run_scoped'', JBool True), (''token_sha256'', JStr ''AB'')])])]"

theorem run_agents_fresh_witness:
  "run_agents_from_payload demo_env [(''run_agents'', JObj [(''w'', JStr demo_mac)])] demo_scoped_cfg [''w''] = Inr [(''w'', JStr demo_mac)] \<and>
   sha256_hex_ok demo_mac"
proof -
  have r: "run_agents_from_payload demo_env [(''run_agents'', JObj [(''w'', JStr demo_mac)])] demo_scoped_cfg [''w''] = Inr [(''w'', JStr demo_mac)]"
    by code_simp
  from run_agents_fresh[OF r] r show ?thesis by auto
qed

section \<open>A trip locks the caller out\<close>

lemma enforce_canary_hits:
  assumes "canary_enabled cfg" "agent \<noteq> []"
    and "canary_find E cfg (g_registry w) node (g_cache w) = (Inr hits, c)" "hits \<noteq> []"
    and "enforce_canary E now cfg node (Some agent) ip source w = (res, w')"
  shows "\<exists>e. res = Inl e" "truthy (dget (dict_or_empty (dget0 (canary_settings cfg) ''on_trip'')) ''revoke_agent'' (JBool True)) \<Longrightarrow>
    g_revoked w' = revoke E (e_isosec E now) agent (''canary:'' @ source) (map ce_id hits) (g_revoked w)"
proof -
  obtain actions f' k' where a: "apply_trip E (e_isosec E now) cfg (Some agent) (map ce_id hits) source (g_revoked w, g_kill w) = (actions, (f', k'))"
    by (metis prod.exhaust)
  define w0 where "w0 = w\<lparr>g_cache := c, g_revoked := f', g_kill := k'\<rparr>"
  have e: "(res, w') = thenA (write_audit E now (canary_event source (Some agent) ip hits actions))
      (raiseA (GatewayError 403 ''blocked_by_canary'')) w0"
    using assms(1,3,4,5) a by (simp add: enforce_canary_def w0_def)
  obtain q u where q: "write_audit E now (canary_event source (Some agent) ip hits actions) w0 = (q, u)" by fastforce
  then have "g_revoked u = f'" by (auto simp: w0_def dest!: write_audit_frame)
  moreover have u: "w' = u \<and> (\<exists>e. res = Inl e)" using e q by (cases q) auto
  ultimately show "\<exists>e. res = Inl e" "truthy (dget (dict_or_empty (dget0 (canary_settings cfg) ''on_trip'')) ''revoke_agent'' (JBool True)) \<Longrightarrow>
    g_revoked w' = revoke E (e_isosec E now) agent (''canary:'' @ source) (map ce_id hits) (g_revoked w)"
    using a assms(2) by (auto simp: apply_trip_def Let_def split: if_splits)
qed

text \<open>C3: with detection on and configured, a request of a named agent in which a registered canary
  stands as a delimited token of some string or key, within 24 levels of nesting, 5000 strings and
  20000 candidates, never passes: the check raises whatever the trip settings are. When the setting
  \<open>on_trip.revoke_agent\<close> is on, which is its default, the agent can afterwards authenticate from
  nowhere and under no token at all.\<close>

theorem canary_trip_locks_out:
  assumes "ascii_env E" "jsonl_inv (g_revoked w)" "agent \<noteq> []"
    and "canary_enabled cfg" "hmac_key E cfg = Inr key" "load_registry E (g_registry w) (g_cache w) = (Inr reg, cache')"
    and "hit_entry E key reg v = Some entry" "\<forall>e\<in>snd ` set reg. wf_json (ce_id e)"
    and "string_depth node \<le> 24" "length (json_strings node) \<le> max_strings"
    and "text \<in> set (json_strings node)" "occurs_as_token v text" "length (all_candidates text) \<le> max_candidates"
    and "enforce_canary E now cfg node (Some agent) ip source w = (res, w')"
  shows "(\<exists>e. res = Inl e) \<and>
    (truthy (dget (dict_or_empty (dget0 (canary_settings cfg) ''on_trip'')) ''revoke_agent'' (JBool True)) \<longrightarrow>
      (\<forall>t hs ip' v. verify_agent E cfg (g_runs w') (g_revoked w') t hs ip' = Inr v \<longrightarrow> va_agent_id v \<noteq> agent))"
proof -
  obtain hits where h: "canary_find E cfg (g_registry w) node (g_cache w) = (Inr hits, cache')" "ce_id entry \<in> ce_id ` set hits"
    using canary_finds_planted[OF assms(4-7,9-13)] by blast
  have wf: "\<forall>e\<in>set hits. wf_json (ce_id e)"
    using canary_hits_registered[OF assms(4-6) h(1)] assms(8) by blast
  have ne: "hits \<noteq> []" using h(2) by auto
  note trip = enforce_canary_hits[OF assms(4,3) h(1) ne assms(14)]
  have "is_revoked E cfg (revoke E (e_isosec E now) agent (''canary:'' @ source) (map ce_id hits) (g_revoked w)) agent"
    using canary_apply_revoked(2)[OF assms(1,2) _ assms(4), of "Revoke agent (''canary:'' @ source) (map ce_id hits)" "e_isosec E now" agent]
      wf by simp
  then show ?thesis using trip verify_agent_not_revoked by metis
qed

definition demo_entry :: dict where
  "demo_entry = [(''hmac'', JStr demo_mac), (''id'', JStr ''c1''), (''kind'', JStr ''token'')]"

definition demo_trip_env :: env where
  "demo_trip_env = demo_env\<lparr>e_getenv := (\<lambda>n. demo_key), e_hmac := (\<lambda>k m. demo_mac)\<rparr>"

definition demo_trip_world :: world where
  "demo_trip_world = \<lparr>g_audit = None, g_runs = None, g_approvals = None, g_warnings = None, g_revoked = None,
     g_registry = Some (1, demo_render (JObj demo_entry)), g_cache = None, g_kill = False, g_limiter = limiter_reset, g_evidence = None, g_artifacts = [],
     g_quota = \<lparr>q_calls = [], q_seen = []\<rparr>\<rparr>"

lemma lines_by_one: "\<forall>c\<in>set s. \<not> p c \<Longrightarrow> s \<noteq> [] \<Longrightarrow> lines_by p s = [s]"
proof (induction s)
  case (Cons c s)
  then show ?case by (cases "s = []") auto
qed simp

lemma demo_trip_registry:
  "registry_lines demo_trip_env (splitlines (demo_render (JObj demo_entry))) [] =
     Inr [(JStr demo_mac, \<lparr>ce_id = JStr ''c1'', ce_kind = ''token''\<rparr>)]"
proof -
  have b: "\<not> is_break CHR ''1''" by (simp add: is_break_def)
  have ne: "demo_render (JObj demo_entry) \<noteq> []" by (simp add: demo_render_def)
  then have l: "last (demo_render (JObj demo_entry)) = CHR ''1''"
    using last_in_set demo_render_chars by blast
  have "lines_by is_break (demo_render (JObj demo_entry)) = [demo_render (JObj demo_entry)]"
    by (rule lines_by_one) (use b ne in \<open>simp_all add: demo_render_chars\<close>)
  then have s: "splitlines (demo_render (JObj demo_entry)) = [demo_render (JObj demo_entry)]"
    using b l by (simp add: splitlines_def splitlines_keepends_def)
  have "py_strip (demo_render (JObj demo_entry)) \<noteq> []"
    unfolding demo_render_def strip_replicate_1 by simp
  moreover have "wf_json (JObj demo_entry)" by (simp add: demo_entry_def)
  moreover have "sha256_hex_ok demo_mac" "canary_id_ok ''c1''" by code_simp+
  ultimately show ?thesis
    by (simp add: s demo_trip_env_def demo_loads_render) (simp add: demo_entry_def)
qed

theorem canary_trip_locks_out_witness:
  "case enforce_canary demo_trip_env 0 demo_canary_cfg (JStr ''AKIA12345678'') (Some ''a'') ''10.0.0.1'' ''input'' demo_trip_world of (res, w') \<Rightarrow>
     (\<exists>e. res = Inl e) \<and> (\<forall>t hs ip' v. verify_agent demo_trip_env demo_canary_cfg (g_runs w') (g_revoked w') t hs ip' = Inr v
      \<longrightarrow> va_agent_id v \<noteq> ''a'')"
proof -
  let ?e = "\<lparr>ce_id = JStr ''c1'', ce_kind = ''token''\<rparr>" and ?reg = "[(JStr demo_mac, \<lparr>ce_id = JStr ''c1'', ce_kind = ''token''\<rparr>)]"
  have k: "hmac_key demo_trip_env demo_canary_cfg = Inr demo_key" by code_simp
  have l: "load_registry demo_trip_env (g_registry demo_trip_world) (g_cache demo_trip_world) = (Inr ?reg, Some (1, ?reg))"
    by (simp add: load_registry_def demo_trip_world_def demo_trip_registry)
  have o: "occurs_as_token ''AKIA12345678'' ''AKIA12345678''"
  proof -
    have "\<forall>c\<in>set ([] @ [] @ ''AKIA12345678'' @ [] @ []). is_token_char c" "\<forall>c\<in>set ''AKIA12345678''. \<not> is_separator c"
      by code_simp+
    then show ?thesis unfolding occurs_as_token_def
      by (intro exI[of _ "[]"] conjI) (assumption | simp)+
  qed
  have h: "hit_entry demo_trip_env demo_key ?reg ''AKIA12345678'' = Some ?e"
    by (simp add: hit_entry_def demo_trip_env_def)
  have "all_candidates ''AKIA12345678'' = [''AKIA12345678'', ''AKIA12345678'']" by code_simp
  then have m: "length (all_candidates ''AKIA12345678'') \<le> max_candidates" by (simp add: max_candidates_def)
  have a: "ascii_env demo_trip_env" using demo_ascii_env by (simp add: ascii_env_def ascii_ok_def demo_trip_env_def)
  have i: "jsonl_inv (g_revoked demo_trip_world)" by (simp add: demo_trip_world_def jsonl_inv_def file_text_def)
  have t: "truthy (dget (dict_or_empty (dget0 (canary_settings demo_canary_cfg) ''on_trip'')) ''revoke_agent'' (JBool True))"
    by code_simp
  obtain res w' where e: "enforce_canary demo_trip_env 0 demo_canary_cfg (JStr ''AKIA12345678'') (Some ''a'') ''10.0.0.1'' ''input'' demo_trip_world = (res, w')"
    by fastforce
  have "(\<exists>e. res = Inl e) \<and> (\<forall>t hs ip' v. verify_agent demo_trip_env demo_canary_cfg (g_runs w') (g_revoked w') t hs ip' = Inr v
      \<longrightarrow> va_agent_id v \<noteq> ''a'')"
    using canary_trip_locks_out[OF a i _ demo_canary_run(1) k l h _ _ _ _ o m e] t by (auto simp: max_strings_def)
  then show ?thesis using e by simp
qed

end
