(* ===== verification/Route_Policy.thy ===== *)
theory Route_Policy
  imports Auth
begin

text \<open>
  Which route a request names, with which capability, run, task and taint
  (\<open>resolve_route_decision\<close> and its helpers), and whether the caller may use it
  (\<open>enforce_route_policy\<close>, \<open>enforce_run_scope\<close>, \<open>enforce_taint_policy\<close>), from gateway.py.
\<close>

section \<open>Resolving\<close>

definition route_dict :: "dict \<Rightarrow> string \<Rightarrow> dict" where
  "route_dict cfg route_id = dict_or_empty (dget0 (cfg_routes cfg) route_id)"

definition route_aliases :: "env \<Rightarrow> string \<times> json \<Rightarrow> (string \<times> string) list res" where
  "route_aliases E = (\<lambda>(route_id, route).
     bindE (py_get route ''aliases'' JNull) (\<lambda>aliases.
     bindE (str_items E aliases) (\<lambda>names. Inr (map (\<lambda>n. (n, route_id)) names))))"

definition route_alias_map :: "env \<Rightarrow> dict \<Rightarrow> (string \<times> string) list res" where
  "route_alias_map E cfg = bindE (mapE (route_aliases E) (cfg_routes cfg)) (\<lambda>l.
     Inr (foldl (\<lambda>d (k, v). AList.update k v d) [] (concat l)))"

fun str_or_blank :: "json \<Rightarrow> string" where
  "str_or_blank (JStr s) = s"
| "str_or_blank _ = []"

definition resolve_capability :: "headers \<Rightarrow> dict \<Rightarrow> bool \<Rightarrow> string res" where
  "resolve_capability hs payload inspect_default =
     (let c0 = header_value hs ''X-Agent-Capability'';
          c1 = (if c0 = [] then py_strip (str_or_blank (dget0 (metadata payload) ''capability'')) else c0);
          c2 = (if c1 = [] then py_strip (str_or_blank (dget0 payload ''capability'')) else c1);
          c3 = (if c2 = [] \<and> inspect_default then ''inspect'' else c2)
      in if c3 = [] then Inl (GatewayError 400 ''capability_required'') else Inr c3)"

definition header_all :: "headers \<Rightarrow> string \<Rightarrow> string list" where
  \<comment> \<open>\<open>headers.get_all(name, [])\<close>\<close>
  "header_all hs name = map snd (filter (\<lambda>(n, v). py_lower n = py_lower name) hs)"

definition id_value :: "json \<Rightarrow> string option res" where
  "id_value v = (if v = JNull \<or> v = JStr [] then Inr None
     else case v of JStr s \<Rightarrow> if run_id_ok s then Inr (Some s) else Inl (GatewayError 400 ''invalid_identifier'')
        | _ \<Rightarrow> Inl (GatewayError 400 ''invalid_identifier''))"

definition resolve_optional_id :: "headers \<Rightarrow> dict \<Rightarrow> string \<Rightarrow> string \<Rightarrow> string option res" where
  "resolve_optional_id hs payload header_name metadata_name =
     bindE (mapE id_value (map JStr (header_all hs header_name) @
              [dget0 (metadata payload) metadata_name, dget0 payload metadata_name])) (\<lambda>vs.
       let present = List.map_filter id vs in
       if 1 < length (remdups present) then Inl (GatewayError 400 ''scope_conflict'')
       else Inr (case present of [] \<Rightarrow> None | v # _ \<Rightarrow> Some v))"

fun taint_items :: "json list \<Rightarrow> string list option" where
  "taint_items [] = Some []"
| "taint_items (JStr s # items) =
     (if py_strip s = [] then None else map_option (Cons s) (taint_items items))"
| "taint_items (_ # items) = None"

definition resolve_taint :: "dict \<Rightarrow> string list res" where
  "resolve_taint payload =
     (let v0 = dget0 (metadata payload) ''taint'';
          v1 = (if v0 = JNull then dget0 payload ''taint'' else v0)
      in if v1 = JNull then Inr []
         else let v2 = (case v1 of JStr s \<Rightarrow> JList [JStr s] | _ \<Rightarrow> v1)
         in case v2 of
            JList items \<Rightarrow> (case taint_items items of
                None \<Rightarrow> Inl (GatewayError 400 ''taint_denied'')
              | Some ss \<Rightarrow> Inr (foldl (\<lambda>r s. if s \<in> set r then r else r @ [py_strip s]) [] ss))
          | _ \<Rightarrow> Inl (GatewayError 400 ''taint_denied''))"

fun adjacent_differ :: "string list \<Rightarrow> bool" where
  "adjacent_differ (a # b # l) = (a \<noteq> b \<or> adjacent_differ (b # l))"
| "adjacent_differ _ = False"

definition explicit_routes :: "headers \<Rightarrow> dict \<Rightarrow> string list" where
  "explicit_routes hs payload = filter (\<lambda>s. s \<noteq> []) (map py_strip
     [header_value hs ''X-ASG-Route'', str_or_blank (dget0 (metadata payload) ''route_id''),
      str_or_blank (dget0 payload ''route_id'')])"

definition route_from_sources :: "env \<Rightarrow> headers \<Rightarrow> dict \<Rightarrow> dict \<Rightarrow> (string \<times> string list) res" where
  "route_from_sources E hs payload cfg =
     bindE (route_alias_map E cfg) (\<lambda>aliases.
     let explicit = explicit_routes hs payload;
         model = str_or_blank (dget0 payload ''model'') in
     thenE (raise_if (adjacent_differ explicit) (GatewayError 400 ''route_conflict''))
    (let explicit_route = (case explicit of [] \<Rightarrow> [] | r # _ \<Rightarrow> r) in
     bindE (if model = [] then Inr []
            else case map_of aliases model of
                Some r \<Rightarrow> Inr r
              | None \<Rightarrow> if prefix ''asg/'' model then Inl (GatewayError 400 ''unknown_route_alias'') else Inr []) (\<lambda>alias_route.
     thenE (raise_if (explicit_route \<noteq> [] \<and> alias_route \<noteq> [] \<and> explicit_route \<noteq> alias_route) (GatewayError 400 ''route_conflict''))
    (let route_id = (if explicit_route \<noteq> [] then explicit_route else alias_route) in
     thenE (raise_if (route_id = []) (GatewayError 400 ''route_required''))
    (thenE (raise_if (\<not> has_key (cfg_routes cfg) route_id) (GatewayError 404 ''unknown_route''))
    (Inr (route_id, if model \<noteq> [] \<and> alias_route = [] \<and> explicit_route \<noteq> []
                    then [''model_not_used_for_routing''] else [])))))))"

definition resolve_route_decision :: "env \<Rightarrow> headers \<Rightarrow> dict \<Rightarrow> dict \<Rightarrow> route_decision res" where
  "resolve_route_decision E hs payload cfg =
     bindE (resolve_capability hs payload False) (\<lambda>capability.
     bindE (route_from_sources E hs payload cfg) (\<lambda>(route_id, warnings).
     bindE (resolve_optional_id hs payload ''X-ASG-Run-Id'' ''run_id'') (\<lambda>run_id.
     bindE (resolve_optional_id hs payload ''X-ASG-Task-Id'' ''task_id'') (\<lambda>task_id.
     bindE (resolve_taint payload) (\<lambda>taint.
       Inr \<lparr>rd_route_id = route_id, rd_route = route_dict cfg route_id, rd_capability = capability,
            rd_run_id = run_id, rd_task_id = task_id, rd_taint = taint, rd_warnings = warnings\<rparr>)))))"

section \<open>Enforcing\<close>

definition warn :: "string \<Rightarrow> route_decision \<Rightarrow> route_decision" where
  "warn msg d = d\<lparr>rd_warnings := rd_warnings d @ [msg]\<rparr>"

definition scope_denied :: exn where
  "scope_denied = GatewayError 403 ''run_scope_denied''"

definition enforce_run_scope :: "env \<Rightarrow> store \<Rightarrow> int \<Rightarrow> dict \<Rightarrow> route_decision \<Rightarrow> string \<Rightarrow> route_decision res" where
  "enforce_run_scope E runs now cfg d agent_id =
     (if truthy (dget0 (rd_route d) ''require_run_id'') \<and> rd_run_id d \<in> {None, Some []} then Inl scope_denied
      else if rd_run_id d \<in> {None, Some []} then Inr d
      else case map_option fst (resolve_run_scope_record E cfg runs (the (rd_run_id d))) of
        None \<Rightarrow> (if truthy (dget0 cfg ''require_known_run_id'') then Inl scope_denied
                 else Inr (warn ''unknown_run_id_allowed'' d))
      | Some JNull \<Rightarrow> (if truthy (dget0 cfg ''require_known_run_id'') then Inl scope_denied
                       else Inr (warn ''unknown_run_id_allowed'' d))
      | Some (JObj run) \<Rightarrow>
          thenE (if has_key run ''expires_at''
                 then (case parse_datetime E (py_str E (dget0 run ''expires_at'')) of
                         Inl _ \<Rightarrow> Inl scope_denied
                       | Inr t \<Rightarrow> raise_if (t < now) (GatewayError 403 ''run_expired''))
                 else Inr ())
         (bindE (str_items E (dget0 run ''denied_routes'')) (\<lambda>denied.
          thenE (raise_if (rd_route_id d \<in> set denied) scope_denied)
         (bindE (str_items E (dget0 run ''allowed_routes'')) (\<lambda>allowed.
          thenE (raise_if (allowed \<noteq> [] \<and> rd_route_id d \<notin> set allowed) scope_denied)
         (bindE (str_items E (dget0 run ''allowed_callers'')) (\<lambda>callers.
          thenE (raise_if (callers \<noteq> [] \<and> agent_id \<notin> set callers) scope_denied)
         (Inr d)))))))
      | Some _ \<Rightarrow> Inl scope_denied)"

definition taint_denied :: exn where
  "taint_denied = GatewayError 403 ''taint_denied''"

definition enforce_taint_policy :: "env \<Rightarrow> route_decision \<Rightarrow> unit res" where
  "enforce_taint_policy E d = (case dget (rd_route d) ''input_policy'' (JObj []) of
       JObj policy \<Rightarrow>
         if rd_taint d = [] then raise_if (\<not> truthy (dget0 policy ''allow_missing_taint'')) taint_denied
         else bindE (str_items E (dget0 policy ''accepted_taint'')) (\<lambda>accepted.
           raise_if (filter (\<lambda>t. t \<notin> set accepted) (rd_taint d) \<noteq> []) taint_denied)
     | _ \<Rightarrow> Inl taint_denied)"

definition decoy_hit :: "string \<Rightarrow> canary_entry" where
  "decoy_hit route_id = \<lparr>ce_id = JStr (''route:'' @ route_id), ce_kind = ''route''\<rparr>"

definition trip_decoy :: "env \<Rightarrow> int \<Rightarrow> dict \<Rightarrow> string \<Rightarrow> string \<Rightarrow> (world, 'a) act" where
  "trip_decoy E now cfg agent_id route_id = (\<lambda>w.
     let (actions, (revoked, kill)) = apply_trip E (e_isosec E now) cfg (Some agent_id)
           [JStr (''route:'' @ route_id)] ''decoy_route'' (g_revoked w, g_kill w)
     in thenA (write_audit E now (canary_event ''decoy_route'' (Some agent_id) ''-'' [decoy_hit route_id] actions))
              (raiseA (GatewayError 403 ''blocked_by_canary''))
              (w\<lparr>g_revoked := revoked, g_kill := kill\<rparr>))"

text \<open>The checks of \<open>enforce_route_policy\<close> after the decoy test, up to the run scope.\<close>

definition caller_checks :: "env \<Rightarrow> verified_agent \<Rightarrow> route_decision \<Rightarrow> unit res" where
  "caller_checks E v d =
     bindE (str_items E (dget0 (va_agent v) ''allowed_capabilities'')) (\<lambda>capabilities.
     thenE (raise_if (rd_capability d \<notin> set capabilities) (GatewayError 403 ''capability_denied''))
    (bindE (str_items E (dget0 (va_agent v) ''allowed_routes'')) (\<lambda>routes.
     thenE (raise_if (rd_route_id d \<notin> set routes) (GatewayError 403 ''route_denied''))
    (bindE (str_items E (dget0 (rd_route d) ''allowed_callers'')) (\<lambda>callers.
     thenE (raise_if (''*'' \<notin> set callers \<and> role v \<notin> set callers) (GatewayError 403 ''caller_not_allowed''))
    (thenE (raise_if (va_bound_run_id v \<noteq> [] \<and> rd_run_id d \<noteq> Some (va_bound_run_id v)) scope_denied)
    (bindE (str_items E (dget0 (rd_route d) ''allowed_capabilities'')) (\<lambda>route_caps.
     raise_if (rd_capability d \<noteq> py_str E (dget (rd_route d) ''required_capability'' (JStr [])) \<and>
               rd_capability d \<notin> set route_caps) (GatewayError 403 ''capability_denied'')))))))))"

definition enforce_route_policy :: "env \<Rightarrow> int \<Rightarrow> dict \<Rightarrow> verified_agent \<Rightarrow> route_decision \<Rightarrow> (world, route_decision) act" where
  "enforce_route_policy E now cfg v d =
     (if dget0 (rd_route d) ''kind'' = JStr ''canary'' then trip_decoy E now cfg (va_agent_id v) (rd_route_id d)
      else thenA (liftA (caller_checks E v d))
          (bindA (getsA (\<lambda>w. enforce_run_scope E (g_runs w) now cfg d (role v))) (\<lambda>d'.
           thenA (liftA (enforce_taint_policy E d')) (retA d'))))"

section \<open>What an accepted request satisfies\<close>

text \<open>The record of a run permits a route to a caller.\<close>

definition run_permits :: "env \<Rightarrow> store \<Rightarrow> int \<Rightarrow> dict \<Rightarrow> string \<Rightarrow> string \<Rightarrow> string \<Rightarrow> bool" where
  "run_permits E runs now cfg r route_id agent_id \<longleftrightarrow> (\<exists>run denied allowed callers.
     map_option fst (resolve_run_scope_record E cfg runs r) = Some (JObj run) \<and>
     (has_key run ''expires_at'' \<longrightarrow> (\<exists>t. parse_datetime E (py_str E (dget0 run ''expires_at'')) = Inr t \<and> now \<le> t)) \<and>
     str_items E (dget0 run ''denied_routes'') = Inr denied \<and> route_id \<notin> set denied \<and>
     str_items E (dget0 run ''allowed_routes'') = Inr allowed \<and> (allowed = [] \<or> route_id \<in> set allowed) \<and>
     str_items E (dget0 run ''allowed_callers'') = Inr callers \<and> (callers = [] \<or> agent_id \<in> set callers))"

definition run_unknown :: "env \<Rightarrow> store \<Rightarrow> dict \<Rightarrow> string \<Rightarrow> bool" where
  "run_unknown E runs cfg r \<longleftrightarrow> map_option fst (resolve_run_scope_record E cfg runs r) \<in> {None, Some JNull}"

lemma enforce_run_scope_Inr:
  "enforce_run_scope E runs now cfg d agent = Inr d' \<longleftrightarrow>
     (if rd_run_id d \<in> {None, Some []} then \<not> truthy (dget0 (rd_route d) ''require_run_id'') \<and> d' = d
      else if run_unknown E runs cfg (the (rd_run_id d))
        then \<not> truthy (dget0 cfg ''require_known_run_id'') \<and> d' = warn ''unknown_run_id_allowed'' d
        else run_permits E runs now cfg (the (rd_run_id d)) (rd_route_id d) agent \<and> d' = d)"
proof (cases "rd_run_id d \<in> {None, Some []}")
  case False
  define m where "m = map_option fst (resolve_run_scope_record E cfg runs (the (rd_run_id d)))"
  have ex: "(if has_key run ''expires_at'' then (case parse_datetime E (py_str E (dget0 run ''expires_at'')) of
       Inl _ \<Rightarrow> Inl scope_denied | Inr t \<Rightarrow> raise_if (t < now) (GatewayError 403 ''run_expired'')) else Inr ()) = Inr () \<longleftrightarrow>
     (has_key run ''expires_at'' \<longrightarrow> (\<exists>t. parse_datetime E (py_str E (dget0 run ''expires_at'')) = Inr t \<and> now \<le> t))" for run
    by (auto simp: raise_if_Inr split: sum.splits)
  show ?thesis
  proof (cases "\<exists>run. m = Some (JObj run)")
    case True
    then obtain run where m: "m = Some (JObj run)" by blast
    with False show ?thesis
      unfolding enforce_run_scope_def run_unknown_def run_permits_def m_def[symmetric]
      by (auto simp: thenE_Inr bindE_Inr raise_if_Inr ex)
  next
    case c: False
    then have "\<not> run_permits E runs now cfg (the (rd_run_id d)) (rd_route_id d) agent"
      unfolding run_permits_def m_def by blast
    with False c show ?thesis
      unfolding enforce_run_scope_def run_unknown_def m_def[symmetric]
      by (cases m; cases "the m") auto
  qed
qed (auto simp: enforce_run_scope_def)

text \<open>C1: a request passes the route policy exactly when the route is no decoy, the agent may use
  the capability and the route, the route admits the caller's role and asks for or allows the
  capability, a per-run identity uses its own run, the run (if one is named) permits the
  route to the role or is unknown and unknown runs are allowed, and every taint is accepted
  or missing taint is; passing changes nothing but a warning.\<close>

theorem route_policy_exact:
  "enforce_route_policy E now cfg v d w = (Inr d', w') \<longleftrightarrow>
     w' = w \<and> dget0 (rd_route d) ''kind'' \<noteq> JStr ''canary'' \<and>
     (\<exists>capabilities routes callers route_caps.
        str_items E (dget0 (va_agent v) ''allowed_capabilities'') = Inr capabilities \<and> rd_capability d \<in> set capabilities \<and>
        str_items E (dget0 (va_agent v) ''allowed_routes'') = Inr routes \<and> rd_route_id d \<in> set routes \<and>
        str_items E (dget0 (rd_route d) ''allowed_callers'') = Inr callers \<and> (''*'' \<in> set callers \<or> role v \<in> set callers) \<and>
        (va_bound_run_id v = [] \<or> rd_run_id d = Some (va_bound_run_id v)) \<and>
        str_items E (dget0 (rd_route d) ''allowed_capabilities'') = Inr route_caps \<and>
        (rd_capability d = py_str E (dget (rd_route d) ''required_capability'' (JStr [])) \<or> rd_capability d \<in> set route_caps)) \<and>
     (if rd_run_id d \<in> {None, Some []} then \<not> truthy (dget0 (rd_route d) ''require_run_id'') \<and> d' = d
      else if run_unknown E (g_runs w) cfg (the (rd_run_id d))
        then \<not> truthy (dget0 cfg ''require_known_run_id'') \<and> d' = warn ''unknown_run_id_allowed'' d
        else run_permits E (g_runs w) now cfg (the (rd_run_id d)) (rd_route_id d) (role v) \<and> d' = d) \<and>
     (\<exists>policy. dget (rd_route d) ''input_policy'' (JObj []) = JObj policy \<and>
        (if rd_taint d = [] then truthy (dget0 policy ''allow_missing_taint'')
         else \<exists>accepted. str_items E (dget0 policy ''accepted_taint'') = Inr accepted \<and> set (rd_taint d) \<subseteq> set accepted))"
proof -
  have t: "enforce_taint_policy E x = Inr u \<longleftrightarrow> (\<exists>policy. dget (rd_route x) ''input_policy'' (JObj []) = JObj policy \<and>
        (if rd_taint x = [] then truthy (dget0 policy ''allow_missing_taint'')
         else \<exists>accepted. str_items E (dget0 policy ''accepted_taint'') = Inr accepted \<and> set (rd_taint x) \<subseteq> set accepted))" for x u
    by (cases "dget (rd_route x) ''input_policy'' (JObj [])")
      (auto simp: enforce_taint_policy_def bindE_Inr raise_if_Inr filter_empty_conv subset_iff)
  have c: "caller_checks E v d = Inr u \<longleftrightarrow> (\<exists>capabilities routes callers route_caps.
        str_items E (dget0 (va_agent v) ''allowed_capabilities'') = Inr capabilities \<and> rd_capability d \<in> set capabilities \<and>
        str_items E (dget0 (va_agent v) ''allowed_routes'') = Inr routes \<and> rd_route_id d \<in> set routes \<and>
        str_items E (dget0 (rd_route d) ''allowed_callers'') = Inr callers \<and> (''*'' \<in> set callers \<or> role v \<in> set callers) \<and>
        (va_bound_run_id v = [] \<or> rd_run_id d = Some (va_bound_run_id v)) \<and>
        str_items E (dget0 (rd_route d) ''allowed_capabilities'') = Inr route_caps \<and>
        (rd_capability d = py_str E (dget (rd_route d) ''required_capability'' (JStr [])) \<or> rd_capability d \<in> set route_caps))" for u
    unfolding caller_checks_def bindE_Inr thenE_Inr raise_if_Inr by auto
  have w: "rd_taint (warn m x) = rd_taint x" "rd_route (warn m x) = rd_route x" for m x
    by (simp_all add: warn_def)
  have p: "trip_decoy E now cfg a r w \<noteq> (Inr x, w')" for a r and x :: route_decision
    by (auto simp: trip_decoy_def thenA_Inr split: prod.splits)
  show ?thesis
  proof (cases "dget0 (rd_route d) ''kind'' = JStr ''canary''")
    case True
    then show ?thesis using p by (simp add: enforce_route_policy_def)
  next
    case False
    have "enforce_route_policy E now cfg v d w = (Inr d', w') \<longleftrightarrow>
       w' = w \<and> caller_checks E v d = Inr () \<and> enforce_run_scope E (g_runs w) now cfg d (role v) = Inr d' \<and>
       enforce_taint_policy E d' = Inr ()"
      using False by (auto simp: enforce_route_policy_def thenA_Inr bindA_Inr)
    moreover have "enforce_taint_policy E d' = Inr () \<longleftrightarrow> enforce_taint_policy E d = Inr ()"
      if "d' = d \<or> d' = warn ''unknown_run_id_allowed'' d"
    proof -
      have "enforce_taint_policy E (warn m d) = enforce_taint_policy E d" for m
        unfolding enforce_taint_policy_def w ..
      with that show ?thesis by metis
    qed
    moreover have "d' = d \<or> d' = warn ''unknown_run_id_allowed'' d"
      if "enforce_run_scope E (g_runs w) now cfg d (role v) = Inr d'"
      using that unfolding enforce_run_scope_Inr by presburger
    ultimately have "enforce_route_policy E now cfg v d w = (Inr d', w') \<longleftrightarrow>
       w' = w \<and> caller_checks E v d = Inr () \<and> enforce_run_scope E (g_runs w) now cfg d (role v) = Inr d' \<and>
       enforce_taint_policy E d = Inr ()" by blast
    with False show ?thesis unfolding c t enforce_run_scope_Inr by blast
  qed
qed

lemma adjacent_equal: "\<not> adjacent_differ (a # l) \<Longrightarrow> \<forall>x\<in>set l. x = a"
  by (induction l arbitrary: a) auto

text \<open>No request is routed in two ways: the chosen route exists, and every place that names a
  route (header, metadata, payload, model alias) names that one; a model under the gateway's
  own prefix that is no alias is refused.\<close>

theorem route_sources_agree:
  assumes "route_from_sources E hs payload cfg = Inr (route_id, warnings)"
  shows "has_key (cfg_routes cfg) route_id \<and> (\<forall>r\<in>set (explicit_routes hs payload). r = route_id) \<and>
    (\<exists>aliases. route_alias_map E cfg = Inr aliases \<and>
       (\<forall>r. map_of aliases (str_or_blank (dget0 payload ''model'')) = Some r \<and>
            str_or_blank (dget0 payload ''model'') \<noteq> [] \<and> r \<noteq> [] \<longrightarrow> r = route_id) \<and>
       (prefix ''asg/'' (str_or_blank (dget0 payload ''model'')) \<longrightarrow>
          map_of aliases (str_or_blank (dget0 payload ''model'')) \<noteq> None) \<and>
       (route_id \<in> set (explicit_routes hs payload) \<or>
          map_of aliases (str_or_blank (dget0 payload ''model'')) = Some route_id))"
proof -
  define model where "model = str_or_blank (dget0 payload ''model'')"
  define explicit where "explicit = explicit_routes hs payload"
  define e where "e = (case explicit of [] \<Rightarrow> [] | r # _ \<Rightarrow> r)"
  obtain aliases a where al: "route_alias_map E cfg = Inr aliases" and adj: "\<not> adjacent_differ explicit"
    and a: "(if model = [] then Inr [] else case map_of aliases model of Some r \<Rightarrow> Inr r
         | None \<Rightarrow> if prefix ''asg/'' model then Inl (GatewayError 400 ''unknown_route_alias'') else Inr []) = Inr a"
    and c: "\<not> (e \<noteq> [] \<and> a \<noteq> [] \<and> e \<noteq> a)" and r: "route_id = (if e \<noteq> [] then e else a)"
      "route_id \<noteq> []" "has_key (cfg_routes cfg) route_id"
    using assms unfolding route_from_sources_def bindE_Inr thenE_Inr raise_if_Inr Let_def
      model_def[symmetric] explicit_def[symmetric] e_def[symmetric] by auto
  have ne: "\<forall>s\<in>set explicit. s \<noteq> []" by (simp add: explicit_def explicit_routes_def)
  have ex: "\<forall>x\<in>set explicit. x = route_id"
  proof (cases explicit)
    case (Cons x l)
    then show ?thesis using adj adjacent_equal[of x l] r(1) ne by (auto simp: e_def)
  qed simp
  have al_r: "map_of aliases model = Some q \<Longrightarrow> model \<noteq> [] \<Longrightarrow> q \<noteq> [] \<Longrightarrow> q = route_id" for q
    using a c r(1) by (auto split: if_splits)
  have "prefix ''asg/'' model \<Longrightarrow> map_of aliases model \<noteq> None"
    using a by (auto split: if_splits option.splits)
  moreover have "route_id \<in> set explicit \<or> map_of aliases model = Some route_id"
    using r(1,2) a by (cases explicit) (auto simp: e_def split: if_splits option.splits)
  ultimately show ?thesis
    using al r(3) ex al_r unfolding model_def[symmetric] explicit_def[symmetric] by blast
qed

theorem route_sources_agree_witness:
  "route_from_sources demo_env [(''x-asg-route'', ''a'')] [(''model'', JStr ''asg/a'')]
     [(''routes'', JObj [(''a'', JObj [(''aliases'', JList [JStr ''asg/a''])])])] = Inr (''a'', []) \<and>
   has_key (cfg_routes [(''routes'', JObj [(''a'', JObj [(''aliases'', JList [JStr ''asg/a''])])])]) ''a''"
proof -
  have r: "route_from_sources demo_env [(''x-asg-route'', ''a'')] [(''model'', JStr ''asg/a'')]
     [(''routes'', JObj [(''a'', JObj [(''aliases'', JList [JStr ''asg/a''])])])] = Inr (''a'', [])" by code_simp
  from route_sources_agree[OF r] r show ?thesis by auto
qed

text \<open>A run or task id is accepted only if every header of that name and both places of the
  payload that are given agree on one bounded identifier: no second value is smuggled past
  the check, and the id that is used is one that was given.\<close>

theorem optional_id_unambiguous:
  assumes "resolve_optional_id hs payload header name = Inr x"
  shows "case x of
      None \<Rightarrow> (\<forall>j\<in>set (map JStr (header_all hs header) @ [dget0 (metadata payload) name, dget0 payload name]).
                 j = JNull \<or> j = JStr [])
    | Some i \<Rightarrow> run_id_ok i \<and>
        (\<forall>j\<in>set (map JStr (header_all hs header) @ [dget0 (metadata payload) name, dget0 payload name]).
           j = JNull \<or> j = JStr [] \<or> j = JStr i) \<and>
        JStr i \<in> set (map JStr (header_all hs header) @ [dget0 (metadata payload) name, dget0 payload name])"
proof -
  define js where "js = map JStr (header_all hs header) @ [dget0 (metadata payload) name, dget0 payload name]"
  obtain vs where vs: "mapE id_value js = Inr vs" and one: "\<not> 1 < length (remdups (List.map_filter id vs))"
    and x: "x = (case List.map_filter id vs of [] \<Rightarrow> None | v # _ \<Rightarrow> Some v)"
    using assms by (auto simp: resolve_optional_id_def bindE_Inr js_def Let_def split: if_splits)
  have iv: "id_value j = Inr None \<longleftrightarrow> j = JNull \<or> j = JStr []"
    "id_value j = Inr (Some i) \<longleftrightarrow> j = JStr i \<and> i \<noteq> [] \<and> run_id_ok i" for j i
    by (auto simp: id_value_def split: json.splits if_splits)
  have mf: "v \<in> set (List.map_filter id vs) \<longleftrightarrow> Some v \<in> set vs" for v
    by (auto simp: List.map_filter_def) force
  have all: "j \<in> set js \<Longrightarrow> \<exists>v\<in>set vs. id_value j = Inr v" for j
    by (rule mapE_image[OF vs])
  have origin: "v \<in> set vs \<Longrightarrow> \<exists>j\<in>set js. id_value j = Inr v" for v
    by (rule mapE_source[OF vs])
  show ?thesis
  proof (cases x)
    case None
    then have "List.map_filter id vs = []" using x by (auto split: list.splits)
    then have "Some v \<notin> set vs" for v using mf by (metis empty_iff list.set(1))
    then have "j = JNull \<or> j = JStr []" if "j \<in> set js" for j
      using all[OF that] iv(1) by (metis option.exhaust)
    then show ?thesis using None by (simp add: js_def)
  next
    case (Some i)
    then obtain l where l: "List.map_filter id vs = i # l" using x by (auto split: list.splits)
    have "set (List.map_filter id vs) = {i}"
    proof -
      have "card (set (List.map_filter id vs)) \<le> 1" using one by (simp add: length_remdups_card_conv)
      moreover have "i \<in> set (List.map_filter id vs)" using l by simp
      ultimately show ?thesis by (auto simp: card_le_Suc0_iff_eq)
    qed
    then have u: "Some v \<in> set vs \<longleftrightarrow> v = i" for v using mf by auto
    then obtain j where j: "j \<in> set js" "id_value j = Inr (Some i)" using origin by blast
    have "j = JNull \<or> j = JStr [] \<or> j = JStr i" if jj: "j \<in> set js" for j
    proof -
      obtain v where v: "v \<in> set vs" "id_value j = Inr v" using all[OF jj] by blast
      show ?thesis
      proof (cases v)
        case None
        then show ?thesis using v(2) iv(1) by blast
      next
        case (Some k)
        then have "k = i" using u v(1) by blast
        then show ?thesis using Some v(2) iv(2) by blast
      qed
    qed
    moreover have "run_id_ok i" "JStr i \<in> set js" using j iv(2)[of j i] by simp_all
    ultimately show ?thesis using Some unfolding js_def by simp
  qed
qed

theorem optional_id_unambiguous_witness:
  "resolve_optional_id [(''x-asg-run-id'', ''r1'')] [(''run_id'', JStr ''r1'')] ''X-ASG-Run-Id'' ''run_id'' = Inr (Some ''r1'') \<and> run_id_ok ''r1''"
proof -
  have r: "resolve_optional_id [(''x-asg-run-id'', ''r1'')] [(''run_id'', JStr ''r1'')] ''X-ASG-Run-Id'' ''run_id'' = Inr (Some ''r1'')"
    by code_simp
  from optional_id_unambiguous[OF r] r show ?thesis by simp
qed

text \<open>Re-registering a run with a time that has passed revokes it: once the record is in the
  store, every request that names the run is refused as expired, on every route and for every
  caller, unless the configuration itself defines the run.\<close>

theorem reregistration_revokes_run:
  assumes "jsonl_inv f" "json_line_ok E (JObj record)" "wf_json (JObj record)"
    and "run_id_ok r" "dget0 record ''run_id'' = JStr r"
    and "record_for E cfg r (sort_keys (JObj record)) = Some n"
    and "parse_datetime E (py_str E (dget0 n ''expires_at'')) = Inr t" "t < now"
    and "map_of (dict_or_empty (py_or (dget0 cfg ''runs'') (JObj []))) r = None"
    and "rd_run_id d = Some r"
  shows "enforce_run_scope E (append_jsonl_record E (JObj record) f) now cfg d agent = Inl (GatewayError 403 ''run_expired'')"
proof -
  have l: "latest_dynamic_run_record E cfg (append_jsonl_record E (JObj record) f) r = Some n"
    using latest_after_append[OF assms(1-3), of cfg r] assms(4-6) by simp
  have "has_key n ''expires_at''"
    using assms(6) by (auto simp: record_for_def normalize_dynamic_run_record_def has_key_def bindE_Inr
        split: json.splits if_splits sum.splits)
  then show ?thesis
    using assms(7-10) l run_id_ok_nonempty[OF assms(4)]
    by (simp add: enforce_run_scope_def resolve_run_scope_record_def)
qed

theorem reregistration_revokes_run_witness:
  "enforce_run_scope demo_env (append_jsonl_record demo_env (JObj (run_record (''9'' @ replicate 24 CHR ''0'') [])) None) 2 gc_cfg
     (demo_model_call ''r1'') ''anyone'' = Inl (GatewayError 403 ''run_expired'')"
proof -
  let ?rec = "run_record (''9'' @ replicate 24 CHR ''0'') []"
  have wf: "wf_json (JObj ?rec)" by (simp add: run_record_def)
  have i: "jsonl_inv None" by (simp add: jsonl_inv_def file_text_def)
  have ok: "run_id_ok ''r1''" "dget0 ?rec ''run_id'' = JStr ''r1''" by code_simp+
  have e: "\<exists>n. record_for demo_env gc_cfg ''r1'' (sort_keys (JObj ?rec)) = Some n \<and>
      parse_datetime demo_env (py_str demo_env (dget0 n ''expires_at'')) = Inr 1"
  proof -
    have "(case record_for demo_env gc_cfg ''r1'' (sort_keys (JObj ?rec)) of None \<Rightarrow> False
      | Some n \<Rightarrow> parse_datetime demo_env (py_str demo_env (dget0 n ''expires_at'')) = Inr 1)" by code_simp
    then show ?thesis by (auto split: option.splits)
  qed
  then obtain n where n: "record_for demo_env gc_cfg ''r1'' (sort_keys (JObj ?rec)) = Some n"
    "parse_datetime demo_env (py_str demo_env (dget0 n ''expires_at'')) = Inr 1" by blast
  have m: "map_of (dict_or_empty (py_or (dget0 gc_cfg ''runs'') (JObj []))) ''r1'' = None" by code_simp
  have d: "rd_run_id (demo_model_call ''r1'') = Some ''r1''" by (simp add: demo_model_call_def)
  show ?thesis by (rule reregistration_revokes_run[OF i demo_json_line_ok[OF wf] wf ok n _ m d]) simp
qed

end
