(* ===== verification/Text_Scan.thy ===== *)
theory Text_Scan
  imports Decision Run_Store
begin

text \<open>
  The deterministic scanner of proxy.py: normalisation, extraction of the text of a
  payload, the finding lists of a text and of its URLs, and the score that decides. Regular
  expressions, URL splitting and Unicode normalisation are library functions.
\<close>

section \<open>Findings and results\<close>

record finding =
  f_category :: string
  f_severity :: int
  f_detail :: string

definition F :: "string \<Rightarrow> int \<Rightarrow> string \<Rightarrow> finding" where
  "F c s d = \<lparr>f_category = c, f_severity = s, f_detail = d\<rparr>"

record removed_chars =
  rm_format :: nat
  rm_control :: nat
  rm_truncated :: nat

record scan_result =
  s_original :: string
  s_normalized :: string
  s_text :: string
  s_removed :: removed_chars
  s_findings :: "finding list"
  s_score :: int
  s_blocked :: bool
  s_review :: bool
  s_checks :: "json list"
  s_relaxed :: "string list"

definition score :: "finding list \<Rightarrow> int" where
  "score fs = sum_list (map f_severity fs)"

text \<open>A section of the configuration; the defaults make every section an object.\<close>

definition cfg_section :: "dict \<Rightarrow> string \<Rightarrow> dict" where
  "cfg_section cfg name = dict_or_empty (dget cfg name (JObj []))"

definition cfg_int :: "dict \<Rightarrow> string \<Rightarrow> int \<Rightarrow> int res" where
  "cfg_int d key dflt = py_int (dget d key (JInt dflt))"

definition flag :: "dict \<Rightarrow> string \<Rightarrow> bool \<Rightarrow> bool" where
  "flag d key dflt = truthy (dget d key (JBool dflt))"

section \<open>Normalisation\<close>

definition is_control :: "char \<Rightarrow> bool" where  \<comment> \<open>Unicode category Cc\<close>
  "is_control c \<longleftrightarrow> code_in 0 31 c \<or> code_in 127 159 c"

definition is_format :: "char \<Rightarrow> bool" where  \<comment> \<open>Unicode category Cf, below 256\<close>
  "is_format c \<longleftrightarrow> c = CHR 0xAD"

fun unify_newlines :: "string \<Rightarrow> string" where
  "unify_newlines [] = []"
| "unify_newlines [c] = [if c = CHR 0x0D then newline else c]"
| "unify_newlines (c # d # s) =
     (if c = CHR 0x0D then (if d = newline then newline # unify_newlines s else newline # unify_newlines (d # s))
      else c # unify_newlines (d # s))"

definition normalize_untrusted_text :: "env \<Rightarrow> string \<Rightarrow> dict \<Rightarrow> (string \<times> removed_chars) res" where
  "normalize_untrusted_text E txt cfg =
     (let options = cfg_section cfg ''normalize'';
          t = (if flag options ''unicode_nfkc'' True then e_nfkc E txt else txt);
          sf = flag options ''strip_format_chars'' True;
          sc = flag options ''strip_control_chars'' True;
          dropf = (\<lambda>c. sf \<and> is_format c);
          dropc = (\<lambda>c. \<not> dropf c \<and> sc \<and> (is_control c \<or> is_format c) \<and> c \<notin> {newline, CHR 0x0D, CHR 0x09});
          out = unify_newlines (filter (\<lambda>c. \<not> dropf c \<and> \<not> dropc c) t)
      in bindE (cfg_int options ''max_content_chars'' 40000) (\<lambda>max_chars.
         Inr (if max_chars < int (length out) then py_take max_chars out else out,
              \<lparr>rm_format = length (filter dropf t), rm_control = length (filter dropc t),
               rm_truncated = nat (int (length out) - max_chars)\<rparr>)))"

section \<open>URLs\<close>

fun longest_run :: "(char \<Rightarrow> bool) \<Rightarrow> nat \<Rightarrow> nat \<Rightarrow> string \<Rightarrow> nat" where
  "longest_run p cur best [] = max cur best"
| "longest_run p cur best (c # s) = (if p c then longest_run p (Suc cur) best s else longest_run p 0 (max cur best) s)"

definition is_hex :: "char \<Rightarrow> bool" where
  "is_hex c \<longleftrightarrow> is_digit c \<or> code_in 65 70 c \<or> code_in 97 102 c"

text \<open>\<open>len(re.findall("%[0-9a-fA-F]{2}", path))\<close>\<close>

fun percent_codes :: "string \<Rightarrow> nat" where
  "percent_codes (c # d # e # s) =
     (if c = CHR ''%'' \<and> is_hex d \<and> is_hex e then Suc (percent_codes s) else percent_codes (d # e # s))"
| "percent_codes _ = 0"

definition token_path :: "string \<Rightarrow> bool" where
  "token_path path \<longleftrightarrow> 64 \<le> longest_run (\<lambda>c. is_alnum c \<or> c = CHR ''_'' \<or> c = CHR ''-'') 0 0 path"

definition localhost_names :: "string list" where
  "localhost_names = [''localhost'', ''localhost.localdomain'']"

definition only_if :: "bool \<Rightarrow> 'a \<Rightarrow> 'a list" where
  "only_if b x = (if b then [x] else [])"

definition has_userinfo :: "parsed_url \<Rightarrow> bool" where
  "has_userinfo u \<longleftrightarrow> CHR ''@'' \<in> set (after_last CHR '']'' (u_netloc u))"

definition malformed_url :: "string \<Rightarrow> finding" where
  "malformed_url pfx = F (pfx @ '':malformed_url'') 8 ''URL could not be parsed (for example a bracketed IPv6 literal)''"

definition untrusted_url_findings :: "env \<Rightarrow> string \<Rightarrow> string \<Rightarrow> finding list" where
  "untrusted_url_findings E pfx url = (case e_urlsplit E url of
       None \<Rightarrow> [malformed_url pfx]
     | Some u \<Rightarrow>
         let host = py_lower (u_host u); bare = strip_by (\<lambda>c. c \<in> set ''[]'') host in
         only_if (has_userinfo u) (F (pfx @ '':url_userinfo'') 8 ''URL contains userinfo, which can hide destination or credentials'') @
         only_if (u_query u \<noteq> [] \<and> re_search E ''SENSITIVE_QUERY_PATTERN'' (u_query u))
           (F (pfx @ '':url_sensitive_query'') 8 ''URL query string contains sensitive-looking parameters'') @
         only_if (substring ''xn--'' host) (F (pfx @ '':punycode_host'') 4 ''URL host uses punycode and requires review'') @
         (if e_is_ip E bare
          then only_if (e_nonpublic E bare) (F (pfx @ '':private_host'') 6 ''URL targets a private, loopback, or non-public address'')
          else only_if (host \<in> set localhost_names) (F (pfx @ '':private_host'') 6 ''URL targets localhost'')) @
         only_if (4 \<le> percent_codes (u_path u)) (F (pfx @ '':encoded_path'') 4 ''URL path contains heavy percent-encoding'') @
         only_if (token_path (u_path u)) (F (pfx @ '':high_entropy_path'') 4 ''URL path contains a long token-like segment''))"

section \<open>Pattern tables\<close>

definition prompt_injection_patterns :: "(string \<times> int) list" where
  "prompt_injection_patterns =
     [(''ignore_previous_short'', 5), (''override_instructions'', 5), (''role_reassignment'', 4), (''secret_exfiltration'', 8),
      (''local_secret_file_request'', 8), (''tool_escalation'', 5), (''policy_bypass'', 7), (''external_write'', 6),
      (''tool_hijack'', 8), (''hidden_instruction_marker'', 5), (''authority_laundering'', 5), (''ja_ignore_previous'', 5),
      (''ja_secret_exfiltration'', 8), (''ja_policy_bypass'', 7), (''es_ignore_previous'', 5), (''fr_ignore_previous'', 5),
      (''zh_ignore_previous'', 5), (''ko_ignore_previous'', 5)]"

definition secret_patterns :: "(string \<times> int) list" where
  "secret_patterns =
     [(''private_key'', 10), (''hosted_git_token'', 10), (''gitlab_token'', 10), (''openai_key'', 10), (''anthropic_key'', 10),
      (''aws_access_key'', 10), (''google_api_key'', 10), (''jwt'', 8), (''bearer_token'', 8), (''generic_assignment_secret'', 8)]"

definition obfuscation_patterns :: "(string \<times> int) list" where
  "obfuscation_patterns = [(''long_base64_like'', 3), (''long_hex_like'', 3), (''url_encoded_controls'', 4)]"

definition decoded_rescan_categories :: "string list" where
  "decoded_rescan_categories =
     [''ignore_previous_short'', ''override_instructions'', ''role_reassignment'', ''secret_exfiltration'',
      ''local_secret_file_request'', ''tool_escalation'', ''policy_bypass'', ''external_write'', ''hidden_instruction_marker'',
      ''authority_laundering'', ''tool_hijack'', ''ja_ignore_previous'', ''ja_secret_exfiltration'', ''ja_policy_bypass'',
      ''es_ignore_previous'', ''fr_ignore_previous'', ''zh_ignore_previous'', ''ko_ignore_previous'']"

text \<open>The pattern of an entry of a table, searched without regard to case.\<close>

definition table_findings :: "env \<Rightarrow> string \<Rightarrow> (string \<times> int) list \<Rightarrow> string \<Rightarrow> string \<Rightarrow> finding list" where
  "table_findings E pfx table detail txt =
     concat (map (\<lambda>(name, sev). only_if (re_search E (pfx @ '':'' @ name) txt) (F (pfx @ '':'' @ name) sev detail)) table)"

section \<open>Encoded instructions\<close>

definition is_printable :: "char \<Rightarrow> bool" where  \<comment> \<open>\<open>str.isprintable\<close>, below 256\<close>
  "is_printable c \<longleftrightarrow> code_in 32 126 c \<or> code_in 161 255 c \<and> \<not> is_format c"

text \<open>\<open>len(re.findall("[A-Za-z]{2,}", s))\<close>\<close>

fun letter_words :: "nat \<Rightarrow> string \<Rightarrow> nat" where
  "letter_words cur [] = (if 2 \<le> cur then 1 else 0)"
| "letter_words cur (c # s) =
     (if code_in 65 90 c \<or> code_in 97 122 c then letter_words (Suc cur) s
      else (if 2 \<le> cur then 1 else 0) + letter_words 0 s)"

definition decode_blob :: "env \<Rightarrow> string \<Rightarrow> string option" where
  "decode_blob E blob =
     (let std = map (\<lambda>c. if c = CHR ''-'' then CHR ''+'' else if c = CHR ''_'' then CHR ''/'' else c) blob;
          pad = replicate (nat ((- int (length blob)) mod 4)) CHR ''=''
      in Option.bind (e_b64 E (std @ pad)) (e_utf8 E))"

definition blob_category :: "env \<Rightarrow> string \<Rightarrow> string" where
  "blob_category E blob = (case decode_blob E blob of
       None \<Rightarrow> []
     | Some d \<Rightarrow>
         let printable = length (filter (\<lambda>c. is_printable c \<or> c = newline \<or> c = CHR 0x09) d) in
         if d = [] \<or> 100 * printable < 95 * length d then []
         else case find (\<lambda>n. n \<in> set decoded_rescan_categories \<and> re_search E (''prompt_injection:'' @ n) d)
                     (map fst prompt_injection_patterns) of
             Some n \<Rightarrow> n
           | None \<Rightarrow> if re_search E ''DECODED_DIRECTIVE_PATTERN'' d \<and> 6 \<le> letter_words 0 d then ''directive_text'' else [])"

definition decoded_instruction_category :: "env \<Rightarrow> string \<Rightarrow> string" where
  "decoded_instruction_category E txt =
     (case filter (\<lambda>n. n \<noteq> []) (map (blob_category E) (take 16 (re_matches E ''BASE64_BLOB_PATTERN'' txt))) of
        [] \<Rightarrow> [] | n # _ \<Rightarrow> n)"

section \<open>Scanning a text\<close>

definition control_markers :: "string list" where
  "control_markers = [q @ ''_control:'' @ f @ '']''. q \<leftarrow> [''[request'', ''[message''],
     f \<leftarrow> [''tools'', ''tool_choice'', ''functions'', ''function_call'', ''tool_calls'']]"

definition text_findings :: "env \<Rightarrow> bool \<Rightarrow> removed_chars \<Rightarrow> string \<Rightarrow> finding list" where
  "text_findings E too_large removed t =
     only_if too_large (F ''boundary:scan_limit'' 10 ''complete input exceeds the inspection limit'') @
     only_if (substring ''[request_control:untrusted_message_role]'' t)
       (F ''request_control:untrusted_message_role'' 5 ''untrusted caller supplied a privileged message role'') @
     only_if (list_ex (\<lambda>m. substring m t) control_markers)
       (F ''request_control:caller_tooling'' 5 ''caller-controlled tool or function definitions require review'') @
     only_if (substring ''[request_control:stream]'' t \<and> re_search E ''stream_true'' t)
       (F ''request_control:stream_requested'' 3 ''caller requested streaming; proxy forwards non-streaming by policy'') @
     only_if (substring ''image_url_sensitive_query=true'' t)
       (F ''input_dlp:image_url_sensitive_query'' 8 ''image URL query contains sensitive-looking parameters'') @
     only_if (substring ''image_url_fragment_omitted=true'' t)
       (F ''input_dlp:image_url_fragment'' 3 ''image URL fragment was omitted before forwarding'') @
     only_if (re_search E ''LOCAL_PATH_PATTERN'' t) (F ''input_dlp:local_path'' 4 ''local filesystem path appeared in untrusted input'') @
     only_if (re_search E ''DANGEROUS_URI_PATTERN'' t)
       (F ''input_dlp:dangerous_uri_scheme'' 8 ''dangerous URI scheme appeared in untrusted input'') @
     concat (map (untrusted_url_findings E ''input_dlp'') (re_matches E ''URL_PATTERN'' t)) @
     table_findings E ''secret'' secret_patterns ''secret-like material detected'' t @
     table_findings E ''prompt_injection'' prompt_injection_patterns ''prompt-injection marker detected'' t @
     table_findings E ''obfuscation'' obfuscation_patterns ''encoded or obfuscated content detected'' t @
     (let hit = decoded_instruction_category E t in
      only_if (hit \<noteq> []) (F ''obfuscation:decoded_instruction'' 8
        (''base64 blob decodes to an instruction-like text ('' @ hit @ '')''))) @
     only_if (0 < rm_format removed) (F ''normalization:format_chars_removed'' 3 ''zero-width or bidirectional format characters removed'')"

definition scan_text :: "env \<Rightarrow> string \<Rightarrow> dict \<Rightarrow> scan_result res" where
  "scan_text E txt cfg =
     bindE (normalize_untrusted_text E txt cfg) (\<lambda>(t, removed).
     bindE (cfg_int (cfg_section cfg ''normalize'') ''max_content_chars'' 40000) (\<lambda>limit.
     let too_large = (limit < int (length txt) \<or> 0 < rm_truncated removed);
         findings = text_findings E too_large removed t;
         sc = score findings in
     bindE (if too_large then Inr 0 else cfg_int cfg ''block_risk_score'' 8) (\<lambda>block_at.
     bindE (cfg_int cfg ''review_risk_score'' 4) (\<lambda>review_at.
       Inr \<lparr>s_original = e_sha256 E txt, s_normalized = e_sha256 E t, s_text = t, s_removed = removed,
            s_findings = findings, s_score = sc, s_blocked = (too_large \<or> block_at \<le> sc),
            s_review = (review_at \<le> sc), s_checks = [], s_relaxed = []\<rparr>))))"

text \<open>
  \<open>merge_scan_results\<close>: equal findings are counted once (the generator given to \<open>extend\<close>
  sees what was already appended), a block stays a block.
\<close>

definition add_new :: "finding list \<Rightarrow> finding list \<Rightarrow> finding list" where
  "add_new fs new = foldl (\<lambda>fs f. if f \<in> set fs then fs else fs @ [f]) fs new"

definition merge_scan_results :: "scan_result \<Rightarrow> scan_result \<Rightarrow> dict \<Rightarrow> scan_result res" where
  "merge_scan_results scan extra thresholds =
     (let fs = add_new (s_findings scan) (s_findings extra); sc = score fs in
      bindE (if s_blocked scan \<or> s_blocked extra then Inr 0 else cfg_int thresholds ''block_risk_score'' 8) (\<lambda>block_at.
      bindE (if s_review scan \<or> s_review extra then Inr 0 else cfg_int thresholds ''review_risk_score'' 4) (\<lambda>review_at.
        Inr (scan\<lparr>s_findings := fs, s_score := sc,
                  s_blocked := s_blocked scan \<or> s_blocked extra \<or> block_at \<le> sc,
                  s_review := s_review scan \<or> s_review extra \<or> review_at \<le> sc\<rparr>))))"

section \<open>The text of a payload\<close>

definition sanitize_url_for_report :: "env \<Rightarrow> string \<Rightarrow> dict" where
  "sanitize_url_for_report E url = (case e_urlsplit E url of
       None \<Rightarrow> [(''url'', JStr ''[unparseable]''), (''host'', JStr []), (''url_sha256'', JStr (e_sha256 E url))]
     | Some u \<Rightarrow>
         [(''url'', JStr (if py_lower (u_scheme u) \<in> {''http'', ''https''}
             then e_urlunsplit E (u\<lparr>u_query := [], u_fragment := []\<rparr>)
             else u_scheme u @ '':[omitted]'')),
          (''host'', JStr (u_netloc u)), (''url_sha256'', JStr (e_sha256 E url))])"

text \<open>\<open>content_to_text\<close>: one entry of a content list; \<open>urlsplit\<close> may raise \<open>ValueError\<close>.\<close>

definition image_url_parts :: "env \<Rightarrow> string \<Rightarrow> string list res" where
  "image_url_parts E url =
     (let head = [''image_url_sha256='' @ e_sha256 E url,
                  ''image_url_report='' @ e_render E (sort_keys (JObj (sanitize_url_for_report E url)))]
      in case e_urlsplit E url of
           None \<Rightarrow> Inl (PyError ''ValueError'')
         | Some u \<Rightarrow> Inr (head @
             (if u_query u = [] then [] else ''image_url_query_omitted=true'' #
                only_if (re_search E ''SENSITIVE_QUERY_PATTERN'' (u_query u)) ''image_url_sensitive_query=true'') @
             only_if (u_fragment u \<noteq> []) ''image_url_fragment_omitted=true''))"

definition content_item :: "env \<Rightarrow> json \<Rightarrow> string list res" where
  "content_item E item = (case item of
       JObj d \<Rightarrow>
         if dget0 d ''type'' = JStr ''text'' then Inr [py_str E (dget d ''text'' (JStr []))]
         else if dget0 d ''type'' = JStr ''image_url'' then
           bindE (py_get (dget d ''image_url'' (JObj [])) ''url'' (JStr [])) (\<lambda>url.
           bindE (if truthy url then image_url_parts E (py_str E url) else Inr []) (\<lambda>parts.
             Inr (''[image_url omitted; URL hash only]'' # parts)))
         else Inr [e_render E (sort_keys item)]
     | _ \<Rightarrow> Inr [py_str E item])"

definition content_to_text :: "env \<Rightarrow> json \<Rightarrow> string res" where
  "content_to_text E content = (case content of
       JNull \<Rightarrow> Inr []
     | JStr s \<Rightarrow> Inr s
     | JList l \<Rightarrow> bindE (mapE (content_item E) l) (\<lambda>ps. Inr (py_join [newline] (concat ps)))
     | _ \<Rightarrow> Inr (e_render E (sort_keys content)))"

text \<open>
  \<open>complete_text\<close>, after image URLs were replaced by their reports where that is asked for.
\<close>

fun complete_text :: "env \<Rightarrow> json \<Rightarrow> string" where
  "complete_text E (JStr s) = s"
| "complete_text E (JObj d) = py_join [newline]
     (map (\<lambda>(k, t). k @ newline # t) (sort_key fst (map (\<lambda>(k, v). (k, complete_text E v)) d)))"
| "complete_text E (JList l) = py_join [newline] (map (complete_text E) l)"
| "complete_text E v = e_render E v"

definition image_url_of :: "dict \<Rightarrow> string option" where
  "image_url_of d = (if dget0 d ''type'' = JStr ''image_url'' then (case dget0 d ''image_url'' of
       JObj img \<Rightarrow> (case dget0 img ''url'' of JStr u \<Rightarrow> Some u | _ \<Rightarrow> None) | _ \<Rightarrow> None) else None)"

definition set_image_url :: "string \<Rightarrow> dict \<Rightarrow> dict" where
  "set_image_url report d = map (\<lambda>(k, v). (k, if k = ''image_url''
     then (case v of JObj img \<Rightarrow> JObj (AList.update ''url'' (JStr report) img) | _ \<Rightarrow> v) else v)) d"

fun redact_image_urls :: "env \<Rightarrow> json \<Rightarrow> json res" where
  "redact_image_urls E (JObj d) =
     bindE (mapE (\<lambda>p. bindE (redact_image_urls E (snd p)) (\<lambda>v. Inr (fst p, v))) d) (\<lambda>d'.
     case image_url_of d of
       None \<Rightarrow> Inr (JObj d')
     | Some url \<Rightarrow>
         bindE (content_to_text E (JList [JObj [(''type'', JStr ''image_url''), (''image_url'', JObj [(''url'', JStr url)])]]))
           (\<lambda>report. Inr (JObj (set_image_url report d'))))"
| "redact_image_urls E (JList l) = bindE (mapE (redact_image_urls E) l) (\<lambda>l'. Inr (JList l'))"
| "redact_image_urls E v = Inr v"

text \<open>\<open>multipart_texts\<close>: the text parts of every list of parts, run together.\<close>

definition part_text :: "json \<Rightarrow> string option" where
  "part_text item = (case item of
       JObj d \<Rightarrow> (if dget0 d ''type'' \<in> {JStr ''text'', JStr ''input_text'', JStr ''output_text''}
                 then (case dget0 d ''text'' of JStr s \<Rightarrow> Some s | _ \<Rightarrow> None) else None)
     | _ \<Rightarrow> None)"

fun multipart_texts :: "json \<Rightarrow> string list" where
  "multipart_texts (JList l) =
     (let parts = List.map_filter part_text l in
      (if 1 < length parts then [concat parts] else []) @ concat (map multipart_texts l))"
| "multipart_texts (JObj d) = concat (map snd (sort_key fst (map (\<lambda>(k, v). (k, multipart_texts v)) d)))"
| "multipart_texts _ = []"

definition request_control_fields :: "string list" where
  "request_control_fields = [''tools'', ''tool_choice'', ''functions'', ''function_call'', ''response_format'', ''metadata'',
     ''stream'', ''model'', ''max_tokens'', ''temperature'', ''top_p'', ''logit_bias'', ''user'', ''store'']"

definition message_control_fields :: "string list" where
  "message_control_fields = [''tool_calls'', ''function_call'', ''tool_call_id'', ''name'']"

definition untrusted_control_roles :: "string list" where
  "untrusted_control_roles = [''system'', ''developer'', ''tool'', ''function'']"

definition message_chunks :: "env \<Rightarrow> json \<Rightarrow> string list" where
  "message_chunks E msg = (case msg of
       JObj m \<Rightarrow>
         let r = py_str E (dget m ''role'' (JStr ''unknown'')) in
         [''['' @ r @ '']''] @
         only_if (py_lower r \<in> set untrusted_control_roles) (''[request_control:untrusted_message_role] '' @ r) @
         map (\<lambda>f. ''[message_control:'' @ f @ '']'') (filter (has_key m) message_control_fields)
     | _ \<Rightarrow> [])"

definition extract_content :: "env \<Rightarrow> bool \<Rightarrow> json \<Rightarrow> string res" where
  "extract_content E redact payload = (case payload of
       JStr s \<Rightarrow> Inr s
     | JObj d \<Rightarrow>
         bindE (if redact then redact_image_urls E payload else Inr payload) (\<lambda>shown.
         Inr (py_join [newline] (complete_text E shown #
           (case dget0 d ''messages'' of JList ms \<Rightarrow> concat (map (message_chunks E) ms) | _ \<Rightarrow> []) @
           map (\<lambda>f. ''[request_control:'' @ f @ '']'' @ (if f = ''stream'' then '' '' @ e_ascii E (dget0 d f) else []))
             (filter (has_key d) request_control_fields))))
     | _ \<Rightarrow> Inr (e_render E (sort_keys payload)))"

end
