(* ===== verification/Snippet_Check.thy ===== *)
theory Snippet_Check
  imports Text_Scan
begin

text \<open>
  The two optional model checks of a scan (\<open>apply_snippet_check\<close>, which may only lower
  findings, and \<open>apply_llm_inspector\<close>, which may only add one) and the scan of an inbound
  payload they complete (\<open>scan_inbound_payload\<close>), all of proxy.py. The answers of the
  models are parameters.
\<close>

section \<open>Settings\<close>

definition snippet_defaults :: dict where
  "snippet_defaults =
     [(''enabled'', JBool False), (''context_chars'', JInt 240), (''max_checks'', JInt 6),
      (''categories'', JList (map JStr
        [''prompt_injection:tool_escalation'', ''prompt_injection:external_write'', ''prompt_injection:role_reassignment'',
         ''prompt_injection:hidden_instruction_marker'', ''prompt_injection:authority_laundering'',
         ''obfuscation:long_base64_like'', ''obfuscation:long_hex_like'']))]"

definition snippet_check_settings :: "dict \<Rightarrow> dict" where
  "snippet_check_settings cfg =
     set_fields snippet_defaults (dict_or_empty (py_or (dget0 cfg ''llm_snippet_check'') (JObj [])))"

definition snippet_downgradable :: "string list" where
  "snippet_downgradable =
     [''prompt_injection:tool_escalation'', ''prompt_injection:external_write'', ''prompt_injection:role_reassignment'',
      ''prompt_injection:hidden_instruction_marker'', ''prompt_injection:authority_laundering'',
      ''obfuscation:long_base64_like'', ''obfuscation:long_hex_like'']"

definition output_snippet_extra :: "string list" where
  "output_snippet_extra = [''output_dlp:local_path'', ''input_dlp:local_path'']"

definition conditional_snippet :: "string list" where
  "conditional_snippet = [''prompt_injection:secret_exfiltration'', ''prompt_injection:ja_secret_exfiltration'',
     ''prompt_injection:local_secret_file_request'', ''prompt_injection:policy_bypass'']"

text \<open>\<open>_snippet_pattern\<close>: the pattern whose matches are shown, searched without regard to case.\<close>

definition snippet_pattern :: "string \<Rightarrow> string option" where
  "snippet_pattern category =
     (if category \<in> set output_snippet_extra then Some ''LOCAL_PATH_PATTERN (ignore case)''
      else if category \<in> set (map (\<lambda>(n, s). ''prompt_injection:'' @ n) prompt_injection_patterns) \<or>
              category \<in> set (map (\<lambda>(n, s). ''obfuscation:'' @ n) obfuscation_patterns)
      then Some category else None)"

section \<open>Windows around the matches\<close>

definition rfind_newline :: "string \<Rightarrow> nat \<Rightarrow> nat \<Rightarrow> nat option" where
  "rfind_newline t a b = find (\<lambda>i. i < length t \<and> t ! i = newline) (rev [a..<b])"

definition find_newline :: "string \<Rightarrow> nat \<Rightarrow> nat \<Rightarrow> nat option" where
  "find_newline t a b = find (\<lambda>i. i < length t \<and> t ! i = newline) [a..<b]"

definition snippet_window :: "string \<Rightarrow> int \<Rightarrow> nat \<times> nat \<Rightarrow> string \<times> string" where
  "snippet_window t ctx = (\<lambda>(ms, me).
     let start = max 0 (int ms - ctx); stop = min (int (length t)) (int me + ctx);
         line_start = rfind_newline t (nat (max 0 (start - ctx))) (nat start);
         line_end = find_newline t (nat stop) (nat (min (int (length t)) (stop + ctx)));
         a = (case line_start of None \<Rightarrow> nat start | Some i \<Rightarrow> i + 1);
         b = (case line_end of None \<Rightarrow> nat stop | Some i \<Rightarrow> i)
     in (slice t a b, take 200 (slice t ms me)))"

definition snippet_windows :: "env \<Rightarrow> string \<Rightarrow> string \<Rightarrow> int \<Rightarrow> int \<Rightarrow> (string \<times> string) list" where
  "snippet_windows E t pattern ctx limit =
     map (snippet_window t ctx) (take (nat (max 1 limit)) (e_finditer E pattern t))"

definition re_sub :: "env \<Rightarrow> string \<Rightarrow> string \<Rightarrow> string \<Rightarrow> string" where
  "re_sub E pattern repl s =
     (let (out, pos) = foldl (\<lambda>(out, pos) (a, b). (out @ slice s pos a @ repl, b)) ([], 0) (e_finditer E pattern s)
      in out @ drop pos s)"

section \<open>Asking about every match\<close>

definition has_scheme_url :: "env \<Rightarrow> string \<Rightarrow> bool" where
  "has_scheme_url E snippet \<longleftrightarrow> re_search E ''SCHEME_URL_RE'' (re_sub E ''DEFANGED_URL_RE'' '' '' snippet)"

definition check_entry :: "env \<Rightarrow> string \<Rightarrow> string \<Rightarrow> string \<Rightarrow> json" where
  "check_entry E category verdict snippet = JObj [(''category'', JStr category), (''verdict'', JStr verdict),
     (''snippet_sha256'', JStr (e_sha256 E snippet)), (''snippet_chars'', JInt (int (length snippet)))]"

text \<open>The verdicts on the windows of a finding up to the first that is no description.\<close>

fun ask_windows :: "env \<Rightarrow> string \<Rightarrow> (string \<times> string) list \<Rightarrow> int \<Rightarrow> string list \<times> int \<times> json list" where
  "ask_windows E category [] budget = ([], budget, [])"
| "ask_windows E category ((snippet, matched) # ws) budget =
     (if category \<in> set conditional_snippet \<and> has_scheme_url E snippet
      then ([''has_url''], budget, [check_entry E category ''has_url'' snippet])
      else let verdict = e_ask E snippet matched category; c = check_entry E category verdict snippet in
           if verdict \<noteq> ''description'' then ([verdict], budget - 1, [c])
           else let (vs, b, cs) = ask_windows E category ws (budget - 1) in (verdict # vs, b, c # cs))"

fun check_candidates :: "env \<Rightarrow> string \<Rightarrow> int \<Rightarrow> finding list \<Rightarrow> int \<Rightarrow> finding list \<times> json list" where
  "check_candidates E t ctx [] budget = ([], [])"
| "check_candidates E t ctx (f # fs) budget =
     (case snippet_pattern (f_category f) of
        None \<Rightarrow> check_candidates E t ctx fs budget
      | Some p \<Rightarrow>
          let ws = snippet_windows E t p ctx (budget + 1) in
          if ws = [] \<or> budget < int (length ws) then check_candidates E t ctx fs budget
          else let (vs, b, cs) = ask_windows E (f_category f) ws budget;
                   (lowered, cs') = check_candidates E t ctx fs b
               in ((if length vs = length ws \<and> (\<forall>v\<in>set vs. v = ''description'') then f # lowered else lowered),
                   cs @ cs'))"

definition lower :: "finding \<Rightarrow> finding" where
  "lower f = F (f_category f) 0 (f_detail f @ '' (snippet check: description)'')"

definition is_boundary :: "finding \<Rightarrow> bool" where
  "is_boundary f \<longleftrightarrow> prefix ''boundary:'' (f_category f)"

text \<open>The step of \<open>apply_snippet_check\<close> after its early returns.\<close>

definition lower_step :: "env \<Rightarrow> dict \<Rightarrow> finding list \<Rightarrow> scan_result \<Rightarrow> int \<Rightarrow> int \<Rightarrow> int \<Rightarrow> scan_result res" where
  "lower_step E cfg cand scan block_at budget ctx =
     (let (lowered, checks) = check_candidates E (s_text scan) ctx cand budget;
          scan = scan\<lparr>s_checks := s_checks scan @ checks\<rparr>
      in if lowered = [] then Inr scan
         else bindE (cfg_int cfg ''review_risk_score'' 4) (\<lambda>review_at.
           let fs = map (\<lambda>f. if f \<in> set lowered then lower f else f) (s_findings scan); sc = score fs in
           Inr (scan\<lparr>s_findings := fs, s_score := sc, s_blocked := block_at \<le> sc,
                     s_review := review_at \<le> sc\<rparr>)))"

definition apply_snippet_check :: "env \<Rightarrow> dict \<Rightarrow> bool \<Rightarrow> scan_result \<Rightarrow> scan_result res" where
  "apply_snippet_check E cfg model_output scan =
     (let settings = snippet_check_settings cfg in
      if \<not> truthy (dget0 settings ''enabled'') \<or> \<not> (s_blocked scan \<or> s_review scan) then Inr scan
      else if model_output \<and> \<not> truthy (dget0 settings ''apply_to_output'') then Inr scan
      else if list_ex is_boundary (s_findings scan) then Inr scan
      else bindE (str_items E (dget0 settings ''categories'')) (\<lambda>cats.
        let allowed = filter (\<lambda>c. c \<in> set cats) snippet_downgradable @
              (if model_output then output_snippet_extra @ conditional_snippet else []);
            candidates = filter (\<lambda>f. f_category f \<in> set allowed \<and> 0 < f_severity f) (s_findings scan)
        in if candidates = [] then Inr scan
           else bindE (cfg_int cfg ''block_risk_score'' 8) (\<lambda>block_at.
             let hard = score (filter (\<lambda>f. f \<notin> set candidates) (s_findings scan)) in
             if block_at \<le> hard then Inr scan
             else bindE (py_int (dget settings ''max_checks'' (JInt 6))) (\<lambda>budget.
                  bindE (py_int (dget settings ''context_chars'' (JInt 240))) (\<lambda>ctx.
                    lower_step E cfg candidates scan block_at budget ctx)))))"

section \<open>The inspector\<close>

definition apply_llm_inspector :: "env \<Rightarrow> dict \<Rightarrow> scan_result \<Rightarrow> scan_result res" where
  "apply_llm_inspector E cfg scan =
     (let llm = cfg_section cfg ''llm_inspector'' in
      if \<not> truthy (dget0 llm ''enabled'') then Inr scan
      else if s_blocked scan \<and> \<not> flag llm ''inspect_blocked'' False then Inr scan
      else bindE (cfg_int llm ''min_risk_score'' 0) (\<lambda>min_risk.
        if s_score scan < min_risk then Inr scan
        else case e_inspect E (s_text scan) of
          None \<Rightarrow> Inr scan
        | Some (c, sev, d) \<Rightarrow>
            let sc = s_score scan + sev in
            bindE (if s_blocked scan then Inr 0 else cfg_int cfg ''block_risk_score'' 8) (\<lambda>block_at.
            bindE (cfg_int cfg ''review_risk_score'' 4) (\<lambda>review_at.
              Inr (scan\<lparr>s_findings := s_findings scan @ [F c sev d], s_score := sc,
                        s_blocked := s_blocked scan \<or> block_at \<le> sc, s_review := review_at \<le> sc\<rparr>)))))"

section \<open>The inbound scan\<close>

record inbound_scan =
  in_text :: string
  in_scan :: scan_result

fun merge_texts :: "env \<Rightarrow> dict \<Rightarrow> string list \<Rightarrow> scan_result \<Rightarrow> scan_result res" where
  "merge_texts E cfg [] scan = Inr scan"
| "merge_texts E cfg (t # ts) scan =
     bindE (scan_text E t cfg) (\<lambda>extra.
     bindE (merge_scan_results scan extra cfg) (\<lambda>scan. merge_texts E cfg ts scan))"

definition pattern_scan :: "env \<Rightarrow> json \<Rightarrow> dict \<Rightarrow> scan_result res" where
  \<comment> \<open>the scan before the two model checks\<close>
  "pattern_scan E payload cfg =
     bindE (extract_content E False payload) (\<lambda>extracted.
     bindE (scan_text E extracted cfg) (\<lambda>scan.
     bindE (merge_texts E cfg (multipart_texts payload) scan) (\<lambda>scan.
     bindE (extract_content E True payload) (\<lambda>projected.
       if projected = extracted then Inr scan
       else bindE (normalize_untrusted_text E projected cfg) (\<lambda>(t, removed).
         Inr (scan\<lparr>s_text := t, s_normalized := e_sha256 E t\<rparr>))))))"

definition scan_inbound_payload :: "env \<Rightarrow> json \<Rightarrow> dict \<Rightarrow> inbound_scan res" where
  "scan_inbound_payload E payload cfg =
     bindE (pattern_scan E payload cfg) (\<lambda>scan.
     bindE (apply_snippet_check E cfg False scan) (\<lambda>scan.
     bindE (apply_llm_inspector E cfg scan) (\<lambda>scan.
     bindE (extract_content E False payload) (\<lambda>extracted.
       Inr \<lparr>in_text = py_join [newline] (extracted # multipart_texts payload), in_scan = scan\<rparr>))))"

section \<open>What the audit log shows of a scan\<close>

definition finding_json :: "finding \<Rightarrow> json" where
  "finding_json f = JObj [(''category'', JStr (f_category f)), (''severity'', JInt (f_severity f)), (''detail'', JStr (f_detail f))]"

definition removed_json :: "removed_chars \<Rightarrow> json" where
  "removed_json r = JObj [(''format'', JInt (int (rm_format r))), (''control'', JInt (int (rm_control r))),
     (''html_comments'', JInt 0), (''truncated'', JInt (int (rm_truncated r)))]"

definition scan_public_dict :: "scan_result \<Rightarrow> dict" where
  "scan_public_dict s =
     [(''original_sha256'', JStr (s_original s)), (''normalized_sha256'', JStr (s_normalized s)),
      (''removed_chars'', removed_json (s_removed s)), (''findings'', JList (map finding_json (s_findings s))),
      (''risk_score'', JInt (s_score s)), (''blocked'', JBool (s_blocked s)), (''requires_review'', JBool (s_review s))] @
     only_if (s_checks s \<noteq> []) (''snippet_checks'', JList (s_checks s)) @
     only_if (s_relaxed s \<noteq> []) (''relaxed_categories'', JList (map JStr (s_relaxed s)))"

definition category_group :: "finding \<Rightarrow> string" where
  "category_group f = takeWhile (\<lambda>c. c \<noteq> CHR '':'') (f_category f)"

definition public_scan_for_audit :: "dict \<Rightarrow> scan_result \<Rightarrow> dict" where
  "public_scan_for_audit cfg s =
     (let public = scan_public_dict s;
          groups = foldl (\<lambda>d f. AList.update (category_group f)
            (case map_of d (category_group f) of None \<Rightarrow> 1 | Some n \<Rightarrow> n + (1 :: int)) d) [] (s_findings s);
          public = set_fields public [(''finding_counts'', JObj (map (\<lambda>(k, n). (k, JInt n)) groups)),
            (''max_finding_severity'', JInt (if s_findings s = [] then 0 else Max (set (map f_severity (s_findings s)))))]
      in if flag (cfg_section cfg ''audit'') ''include_findings'' True then public
         else AList.delete ''findings'' (AList.update ''finding_count'' (JInt (int (length (s_findings s)))) public))"

section \<open>Lowering a finding\<close>

lemma ask_windows_descriptions:
  assumes "ask_windows E c ws b = (vs, b', cs)" "length vs = length ws" "\<forall>v\<in>set vs. v = ''description''"
  shows "\<forall>(s, m)\<in>set ws. e_ask E s m c = ''description'' \<and> (c \<in> set conditional_snippet \<longrightarrow> \<not> has_scheme_url E s)"
  using assms
proof (induction ws arbitrary: b vs b' cs)
  case (Cons w ws)
  obtain s m where w: "w = (s, m)" by (cases w)
  show ?case
  proof (cases "c \<in> set conditional_snippet \<and> has_scheme_url E s")
    case True
    with Cons.prems show ?thesis by (auto simp: w)
  next
    case False
    obtain vs0 b0 cs0 where rec: "ask_windows E c ws (b - 1) = (vs0, b0, cs0)"
      by (cases "ask_windows E c ws (b - 1)")
    have desc: "e_ask E s m c = ''description''"
    proof (rule ccontr)
      assume no: "e_ask E s m c \<noteq> ''description''"
      have "vs = [e_ask E s m c]"
        using Cons.prems(1) unfolding w ask_windows.simps if_not_P[OF False] Let_def if_P[OF no] by simp
      with Cons.prems(3) no show False by simp
    qed
    have vs: "vs = ''description'' # vs0"
      using Cons.prems(1) unfolding w ask_windows.simps if_not_P[OF False] Let_def desc rec by simp
    have len: "length vs0 = length ws" using Cons.prems(2) unfolding vs by simp
    have "\<forall>v\<in>set vs0. v = ''description''"
      using Cons.prems(3) unfolding vs list.set ball_simps by (rule conjunct2)
    note IH = Cons.IH[OF rec len this]
    show ?thesis unfolding list.set ball_simps w prod.case using IH desc False by blast
  qed
qed simp

text \<open>What lowering a finding rests on: a pattern, and a verdict on every one of its matches.\<close>

definition described :: "env \<Rightarrow> string \<Rightarrow> int \<Rightarrow> string \<Rightarrow> bool" where
  "described E t ctx c \<longleftrightarrow> (\<exists>p. snippet_pattern c = Some p \<and> e_finditer E p t \<noteq> [] \<and>
     (\<forall>(s, m)\<in>snippet_window t ctx ` set (e_finditer E p t). e_ask E s m c = ''description'' \<and>
        (c \<in> set conditional_snippet \<longrightarrow> \<not> has_scheme_url E s)))"

lemma snippet_windows_all:
  assumes "snippet_windows E t p ctx (b + 1) = ws" "ws \<noteq> []" "int (length ws) \<le> b"
  shows "ws = map (snippet_window t ctx) (e_finditer E p t)"
proof -
  have "length ws = min (length (e_finditer E p t)) (nat (max 1 (b + 1)))"
    using assms(1) by (auto simp: snippet_windows_def)
  then have "length (e_finditer E p t) \<le> nat (max 1 (b + 1))" using assms(2,3) by auto
  then show ?thesis using assms(1) by (simp add: snippet_windows_def)
qed

lemma check_candidates_sound:
  assumes "check_candidates E t ctx fs b = (lowered, cs)" "f \<in> set lowered"
  shows "f \<in> set fs \<and> described E t ctx (f_category f)"
  using assms
proof (induction fs arbitrary: b lowered cs)
  case (Cons g fs)
  show ?case
  proof (cases "snippet_pattern (f_category g)")
    case None
    with Cons show ?thesis by fastforce
  next
    case (Some p)
    let ?ws = "snippet_windows E t p ctx (b + 1)"
    show ?thesis
    proof (cases "?ws = [] \<or> b < int (length ?ws)")
      case True
      with Cons Some show ?thesis by fastforce
    next
      case False
      obtain vs b' cs1 where ask: "ask_windows E (f_category g) ?ws b = (vs, b', cs1)"
        by (cases "ask_windows E (f_category g) ?ws b")
      obtain low cs2 where rec: "check_candidates E t ctx fs b' = (low, cs2)"
        by (cases "check_candidates E t ctx fs b'")
      from False have all: "?ws = map (snippet_window t ctx) (e_finditer E p t)"
        by (intro snippet_windows_all[OF refl]) auto
      have ne: "e_finditer E p t \<noteq> []" using False all by auto
      from Cons.prems Some False ask rec have low:
        "lowered = (if length vs = length ?ws \<and> (\<forall>v\<in>set vs. v = ''description'') then g # low else low)"
        by (auto simp: Let_def)
      show ?thesis
      proof (cases "f \<in> set low")
        case True
        from Cons.IH[OF rec this] show ?thesis by simp
      next
        case False
        with low Cons.prems(2) have f: "f = g" and ok: "length vs = length ?ws" "\<forall>v\<in>set vs. v = ''description''"
          by (auto split: if_splits)
        have "described E t ctx (f_category g)"
          unfolding described_def
          using Some ne ask_windows_descriptions[OF ask ok] all by (intro exI[of _ p]) simp
        with f show ?thesis by simp
      qed
    qed
  qed
qed simp

definition may_lower :: "bool \<Rightarrow> string \<Rightarrow> bool" where
  "may_lower model_output c \<longleftrightarrow> c \<in> set snippet_downgradable \<or>
     model_output \<and> c \<in> set (output_snippet_extra @ conditional_snippet)"

lemma score_lower_le:
  "(\<forall>f\<in>L. 0 \<le> f_severity f) \<Longrightarrow> score (map (\<lambda>f. if f \<in> L then lower f else f) fs) \<le> score fs"
  by (induction fs) (auto simp: score_def lower_def F_def)

lemma snippet_check_lowers:
  assumes "apply_snippet_check E cfg model_output scan = Inr out"
  shows "s_findings out = s_findings scan \<and> s_score out = s_score scan \<and>
           s_blocked out = s_blocked scan \<and> s_review out = s_review scan \<or>
         (\<exists>lowered ctx block_at review_at.
            \<not> list_ex is_boundary (s_findings scan) \<and> lowered \<subseteq> set (s_findings scan) \<and>
            (\<forall>f\<in>lowered. may_lower model_output (f_category f) \<and> described E (s_text scan) ctx (f_category f)) \<and>
            s_findings out = map (\<lambda>f. if f \<in> lowered then lower f else f) (s_findings scan) \<and>
            s_score out = score (s_findings out) \<and> s_score out \<le> score (s_findings scan) \<and>
            cfg_int cfg ''block_risk_score'' 8 = Inr block_at \<and> s_blocked out = (block_at \<le> s_score out) \<and>
            cfg_int cfg ''review_risk_score'' 4 = Inr review_at \<and> s_review out = (review_at \<le> s_score out))"
proof -
  define st where "st = snippet_check_settings cfg"
  show ?thesis
  proof (cases "\<not> truthy (dget0 st ''enabled'') \<or> \<not> (s_blocked scan \<or> s_review scan)
      \<or> (model_output \<and> \<not> truthy (dget0 st ''apply_to_output'')) \<or> list_ex is_boundary (s_findings scan)")
    case True
    with assms have "out = scan" by (auto simp: apply_snippet_check_def st_def Let_def split: if_splits)
    then show ?thesis by simp
  next
    case False
    then have n1: "\<not> (\<not> truthy (dget0 st ''enabled'') \<or> \<not> (s_blocked scan \<or> s_review scan))"
      and n2: "\<not> (model_output \<and> \<not> truthy (dget0 st ''apply_to_output''))"
      and n3: "\<not> list_ex is_boundary (s_findings scan)" by blast+
    from False obtain cats where cats: "str_items E (dget0 st ''categories'') = Inr cats"
      using assms by (auto simp: apply_snippet_check_def st_def[symmetric] Let_def bindE_Inr)
    define allowed where "allowed = filter (\<lambda>c. c \<in> set cats) snippet_downgradable @
              (if model_output then output_snippet_extra @ conditional_snippet else [])"
    define cand where "cand = filter (\<lambda>f. f_category f \<in> set allowed \<and> 0 < f_severity f) (s_findings scan)"
    have cand: "may_lower model_output (f_category f) \<and> 0 < f_severity f \<and> f \<in> set (s_findings scan)" if "f \<in> set cand" for f
      using that by (auto simp: cand_def allowed_def may_lower_def split: if_splits)
    show ?thesis
    proof (cases "s_findings out = s_findings scan \<and> s_score out = s_score scan \<and>
           s_blocked out = s_blocked scan \<and> s_review out = s_review scan")
      case changed: False
      have run: "(if cand = [] then Inr scan
           else bindE (cfg_int cfg ''block_risk_score'' 8) (\<lambda>block_at.
             let hard = score (filter (\<lambda>f. f \<notin> set cand) (s_findings scan)) in
             if block_at \<le> hard then Inr scan
             else bindE (py_int (dget st ''max_checks'' (JInt 6))) (\<lambda>budget.
                  bindE (py_int (dget st ''context_chars'' (JInt 240))) (\<lambda>ctx. lower_step E cfg cand scan block_at budget ctx)))) = Inr out"
        using assms
        unfolding apply_snippet_check_def Let_def st_def[symmetric] if_not_P[OF n1] if_not_P[OF n2] if_not_P[OF n3]
          cats bindE_simps allowed_def[symmetric] cand_def[symmetric] .
      with changed obtain block_at budget ctx where
        b: "cfg_int cfg ''block_risk_score'' 8 = Inr block_at" and
        step: "lower_step E cfg cand scan block_at budget ctx = Inr out"
        by (auto simp: bindE_Inr Let_def split: if_splits)
      obtain low cs where c: "check_candidates E (s_text scan) ctx cand budget = (low, cs)"
        by (cases "check_candidates E (s_text scan) ctx cand budget")
      from step changed obtain review_at where
        r: "cfg_int cfg ''review_risk_score'' 4 = Inr review_at" and
        fs: "s_findings out = map (\<lambda>f. if f \<in> set low then lower f else f) (s_findings scan)" and
        sc: "s_score out = score (s_findings out)" "s_blocked out = (block_at \<le> s_score out)"
            "s_review out = (review_at \<le> s_score out)"
        by (auto simp: lower_step_def c bindE_Inr Let_def split: if_splits)
      have low: "f \<in> set cand \<and> described E (s_text scan) ctx (f_category f)" if "f \<in> set low" for f
        using check_candidates_sound[OF c that] .
      have le: "s_score out \<le> score (s_findings scan)"
        unfolding sc(1) fs by (rule score_lower_le) (use low cand in \<open>auto intro: less_imp_le\<close>)
      have sub: "set low \<subseteq> set (s_findings scan)" using low cand by blast
      have ok: "\<forall>f\<in>set low. may_lower model_output (f_category f) \<and> described E (s_text scan) ctx (f_category f)"
        using low cand by blast
      from False have nb: "\<not> list_ex is_boundary (s_findings scan)" by blast
      show ?thesis
        by (intro disjI2 exI[of _ "set low"] exI[of _ ctx] exI[of _ block_at] exI[of _ review_at] conjI)
           (fact nb sub ok fs sc le b r)+
    qed blast
  qed
qed

text \<open>C13: The snippet check lowers no finding whose matches in the scanned text it did not verify. Whatever the
  answers of the model, either the judgment is as before, or no finding says that the input was cut, every lowered
  finding has a category that may be lowered, and for each of them every match of its pattern in
  the scanned text (the normalized text of the scan; a finding merged from the parts of a multipart text may have its
  match elsewhere) was shown to the model and called a description (without a URL beside it, where
  that counts); all other findings are as before and score, block and review are those of the new
  list, the score being no higher.\<close>
theorem snippet_check_sound:
  assumes "apply_snippet_check E cfg model_output scan = Inr out"
  shows "s_findings out = s_findings scan \<and> s_score out = s_score scan \<and>
           s_blocked out = s_blocked scan \<and> s_review out = s_review scan \<or>
         (\<exists>lowered ctx block_at review_at.
            \<not> list_ex is_boundary (s_findings scan) \<and> lowered \<subseteq> set (s_findings scan) \<and>
            (\<forall>f\<in>lowered. may_lower model_output (f_category f) \<and> described E (s_text scan) ctx (f_category f)) \<and>
            s_findings out = map (\<lambda>f. if f \<in> lowered then lower f else f) (s_findings scan) \<and>
            s_score out = score (s_findings out) \<and> s_score out \<le> score (s_findings scan) \<and>
            cfg_int cfg ''block_risk_score'' 8 = Inr block_at \<and> s_blocked out = (block_at \<le> s_score out) \<and>
            cfg_int cfg ''review_risk_score'' 4 = Inr review_at \<and> s_review out = (review_at \<le> s_score out))"
  by (rule snippet_check_lowers[OF assms])

section \<open>An input that was cut is blocked for good\<close>

lemma scan_text_too_large:
  assumes "scan_text E t cfg = Inr s"
    and "cfg_int (cfg_section cfg ''normalize'') ''max_content_chars'' 40000 = Inr limit" "limit < int (length t)"
  shows "s_blocked s \<and> list_ex is_boundary (s_findings s)"
proof -
  have b: "is_boundary (F ''boundary:scan_limit'' 10 d)" for d
    by (simp add: is_boundary_def F_def)
  show ?thesis using assms b
    by (auto simp: scan_text_def bindE_Inr Let_def text_findings_def only_if_def)
qed

lemma add_new_keeps: "set fs \<subseteq> set (add_new fs new)" "set new \<subseteq> set (add_new fs new)"
proof -
  have "set fs \<union> set new \<subseteq> set (add_new fs new)"
    unfolding add_new_def by (induction new arbitrary: fs) (simp, fastforce)
  then show "set fs \<subseteq> set (add_new fs new)" "set new \<subseteq> set (add_new fs new)" by auto
qed

lemma list_ex_mono: "set xs \<subseteq> set ys \<Longrightarrow> list_ex p xs \<Longrightarrow> list_ex p ys"
  by (auto simp: list_ex_iff)

definition cut_off :: "scan_result \<Rightarrow> bool" where
  "cut_off s \<longleftrightarrow> s_blocked s \<and> list_ex is_boundary (s_findings s)"

lemma merge_cut_off:
  "merge_scan_results s x cfg = Inr r \<Longrightarrow> cut_off s \<or> cut_off x \<Longrightarrow> cut_off r"
  using list_ex_mono[OF add_new_keeps(1)[of "s_findings s" "s_findings x"], of is_boundary]
    list_ex_mono[OF add_new_keeps(2)[of "s_findings x" "s_findings s"], of is_boundary]
  by (auto simp: merge_scan_results_def bindE_Inr Let_def cut_off_def split: if_splits)

lemma merge_texts_cut_off:
  assumes "merge_texts E cfg ts s = Inr r"
    and "cut_off s \<or> (\<exists>t\<in>set ts. \<forall>x. scan_text E t cfg = Inr x \<longrightarrow> cut_off x)"
  shows "cut_off r"
  using assms
proof (induction ts arbitrary: s)
  case (Cons t ts)
  from Cons.prems(1) obtain x m where x: "scan_text E t cfg = Inr x" and m: "merge_scan_results s x cfg = Inr m"
    and r: "merge_texts E cfg ts m = Inr r" by (auto simp: bindE_Inr)
  have "cut_off m \<or> (\<exists>t\<in>set ts. \<forall>x. scan_text E t cfg = Inr x \<longrightarrow> cut_off x)"
    using Cons.prems(2) x merge_cut_off[OF m] by auto
  then show ?case by (rule Cons.IH[OF r])
qed simp

lemma snippet_check_cut_off: "apply_snippet_check E cfg mo s = Inr r \<Longrightarrow> cut_off s \<Longrightarrow> cut_off r"
  by (auto simp: apply_snippet_check_def Let_def cut_off_def split: if_splits)

lemma inspector_cut_off: "apply_llm_inspector E cfg s = Inr r \<Longrightarrow> cut_off s \<Longrightarrow> cut_off r"
  by (auto simp: apply_llm_inspector_def Let_def cut_off_def bindE_Inr split: if_splits option.splits)

lemma pattern_scan_cut_off:
  assumes p: "pattern_scan E payload cfg = Inr r"
    and x: "extract_content E False payload = Inr x"
    and l: "cfg_int (cfg_section cfg ''normalize'') ''max_content_chars'' 40000 = Inr limit"
    and t: "t \<in> set (x # multipart_texts payload)" "limit < int (length t)"
  shows "cut_off r"
proof -
  from p x obtain s m where s: "scan_text E x cfg = Inr s"
    and m: "merge_texts E cfg (multipart_texts payload) s = Inr m"
    and r: "s_blocked r = s_blocked m" "s_findings r = s_findings m"
    by (auto simp: pattern_scan_def bindE_Inr split: if_splits)
  have big: "cut_off y" if "scan_text E t cfg = Inr y" for y
    using scan_text_too_large[OF that l t(2)] by (simp add: cut_off_def)
  have "cut_off m" by (rule merge_texts_cut_off[OF m]) (use t(1) s big in auto)
  with r show ?thesis by (simp add: cut_off_def)
qed

text \<open>A payload whose text, or the run-together text of one of its lists of parts, is longer
  than the inspection limit is blocked with a boundary finding, and neither the merge of the
  scans, nor the snippet check, nor the inspector takes that back.\<close>
theorem oversize_input_blocked:
  assumes "scan_inbound_payload E payload cfg = Inr r"
    and "extract_content E False payload = Inr x"
    and "cfg_int (cfg_section cfg ''normalize'') ''max_content_chars'' 40000 = Inr limit"
    and "t \<in> set (x # multipart_texts payload)" "limit < int (length t)"
  shows "s_blocked (in_scan r) \<and> list_ex is_boundary (s_findings (in_scan r))"
proof -
  from assms(1) obtain a b c where a: "pattern_scan E payload cfg = Inr a"
    and b: "apply_snippet_check E cfg False a = Inr b" and c: "apply_llm_inspector E cfg b = Inr c"
    and r: "in_scan r = c" by (auto simp: scan_inbound_payload_def bindE_Inr)
  have "cut_off c"
    by (rule inspector_cut_off[OF c snippet_check_cut_off[OF b pattern_scan_cut_off[OF a assms(2-5)]]])
  then show ?thesis by (simp add: r cut_off_def)
qed

section \<open>Concrete inputs\<close>

definition demo_scan_env :: env where
  "demo_scan_env = calc_env\<lparr>e_finditer := (\<lambda>p s. if p = ''prompt_injection:tool_escalation''
       then find_all ''run sh'' s else []),
     e_ask := (\<lambda>snippet m c. if substring ''run sh now'' snippet then ''instruction'' else ''description'')\<rparr>"

definition demo_scan_cfg :: dict where
  "demo_scan_cfg = [(''llm_snippet_check'', JObj [(''enabled'', JBool True)]),
     (''normalize'', JObj [(''max_content_chars'', JInt 80)])]"

definition demo_part :: "string \<Rightarrow> json" where
  "demo_part s = JObj [(''type'', JStr ''text''), (''text'', JStr s)]"

definition demo_parts :: json where
  "demo_parts = JObj [(''p'', JList [demo_part ''run sh. ru'', demo_part ''n sh now''])]"

definition demo_parts_text :: string where
  "demo_parts_text = py_join [newline]
     [''p'', ''text'', ''run sh. ru'', ''type'', ''text'', ''text'', ''n sh now'', ''type'', ''text'']"

definition demo_joined :: string where
  "demo_joined = ''run sh. run sh now''"

definition demo_flagged :: "string \<Rightarrow> scan_result" where
  "demo_flagged t = \<lparr>s_original = CHR ''h'' # t, s_normalized = CHR ''h'' # t, s_text = t,
     s_removed = \<lparr>rm_format = 0, rm_control = 0, rm_truncated = 0\<rparr>,
     s_findings = [F ''prompt_injection:tool_escalation'' 5 ''prompt-injection marker detected''],
     s_score = 5, s_blocked = False, s_review = True, s_checks = [], s_relaxed = []\<rparr>"

definition demo_lowered :: scan_result where
  "demo_lowered = (demo_flagged demo_parts_text)
     \<lparr>s_findings := [F ''prompt_injection:tool_escalation'' 0 ''prompt-injection marker detected (snippet check: description)''],
      s_score := 0, s_review := False,
      s_checks := [check_entry demo_scan_env ''prompt_injection:tool_escalation'' ''description'' demo_parts_text]\<rparr>"

lemma demo_extract:
  "extract_content demo_scan_env False demo_parts = Inr demo_parts_text"
  "extract_content demo_scan_env True demo_parts = Inr demo_parts_text"
  by code_simp+

lemma demo_scan:
  "scan_text demo_scan_env demo_parts_text demo_scan_cfg = Inr (demo_flagged demo_parts_text)"
  "scan_text demo_scan_env demo_joined demo_scan_cfg = Inr (demo_flagged demo_joined)"
  by code_simp+

lemma demo_multipart: "multipart_texts demo_parts = [demo_joined]"
  by code_simp

lemma demo_merge:
  "merge_scan_results (demo_flagged demo_parts_text) (demo_flagged demo_joined) demo_scan_cfg =
     Inr (demo_flagged demo_parts_text)"
  by code_simp

lemma demo_check:
  "apply_snippet_check demo_scan_env demo_scan_cfg False (demo_flagged demo_parts_text) = Inr demo_lowered"
  by code_simp

lemma demo_no_inspector: "apply_llm_inspector demo_scan_env demo_scan_cfg s = Inr s"
  by (simp add: apply_llm_inspector_def demo_scan_cfg_def cfg_section_def)

lemma demo_inbound:
  "scan_inbound_payload demo_scan_env demo_parts demo_scan_cfg =
     Inr \<lparr>in_text = demo_parts_text @ newline # demo_joined, in_scan = demo_lowered\<rparr>"
  by (simp add: scan_inbound_payload_def pattern_scan_def demo_extract demo_scan demo_multipart demo_merge
      demo_check demo_no_inspector)

theorem snippet_check_sound_witness:
  "s_review (demo_flagged demo_parts_text) \<and> \<not> s_review demo_lowered \<and>
   s_score demo_lowered \<le> score (s_findings (demo_flagged demo_parts_text))"
proof -
  have r: "s_review (demo_flagged demo_parts_text)" "\<not> s_review demo_lowered"
    by (simp_all add: demo_lowered_def demo_flagged_def)
  from snippet_check_sound[OF demo_check] r show ?thesis by blast
qed

definition demo_big_cfg :: dict where
  "demo_big_cfg = [(''normalize'', JObj [(''max_content_chars'', JInt 3)])]"

definition demo_cut :: scan_result where
  "demo_cut = \<lparr>s_original = ''habcd'', s_normalized = ''habc'', s_text = ''abc'',
     s_removed = \<lparr>rm_format = 0, rm_control = 0, rm_truncated = 1\<rparr>,
     s_findings = [F ''boundary:scan_limit'' 10 ''complete input exceeds the inspection limit''],
     s_score = 10, s_blocked = True, s_review = True, s_checks = [], s_relaxed = []\<rparr>"

lemma demo_cut_scan: "scan_text demo_scan_env ''abcd'' demo_big_cfg = Inr demo_cut"
  by code_simp

theorem oversize_input_blocked_witness:
  "scan_inbound_payload demo_scan_env (JStr ''abcd'') demo_big_cfg = Inr \<lparr>in_text = ''abcd'', in_scan = demo_cut\<rparr> \<and>
   s_blocked demo_cut"
proof -
  have x: "extract_content demo_scan_env b (JStr ''abcd'') = Inr ''abcd''" for b
    by (simp add: extract_content_def)
  have l: "cfg_int (cfg_section demo_big_cfg ''normalize'') ''max_content_chars'' 40000 = Inr 3"
    by (simp add: demo_big_cfg_def cfg_int_def cfg_section_def)
  have "apply_snippet_check demo_scan_env demo_big_cfg False demo_cut = Inr demo_cut"
    "apply_llm_inspector demo_scan_env demo_big_cfg demo_cut = Inr demo_cut" by code_simp+
  then have run: "scan_inbound_payload demo_scan_env (JStr ''abcd'') demo_big_cfg = Inr \<lparr>in_text = ''abcd'', in_scan = demo_cut\<rparr>"
    by (simp add: scan_inbound_payload_def pattern_scan_def x demo_cut_scan)
  with oversize_input_blocked[OF run x l, of "''abcd''"] show ?thesis by simp
qed

text \<open>A match that only exists where the parts of a message are run together is not among the
  matches the snippet check verifies: equal findings are merged into one, and the check looks for
  its matches in the text of the payload alone. So the finding is lowered and the payload passes
  without review, although the model calls the unseen match an instruction.\<close>
theorem multipart_match_lowered_unseen:
  "\<exists>E payload cfg r t m. scan_inbound_payload E payload cfg = Inr r \<and>
     t \<in> set (multipart_texts payload) \<and> m \<in> set (e_finditer E ''prompt_injection:tool_escalation'' t) \<and>
     (case snippet_window t 240 m of (s, matched) \<Rightarrow>
        e_ask E s matched ''prompt_injection:tool_escalation'' = ''instruction'') \<and>
     \<not> s_blocked (in_scan r) \<and> \<not> s_review (in_scan r) \<and>
     (\<exists>s. scan_text E t cfg = Inr s \<and> s_review s)"
proof -
  have t: "(8, 14) \<in> set (e_finditer demo_scan_env ''prompt_injection:tool_escalation'' demo_joined)"
    "case snippet_window demo_joined 240 (8, 14) of (s, matched) \<Rightarrow>
        e_ask demo_scan_env s matched ''prompt_injection:tool_escalation'' = ''instruction''"
    by code_simp+
  define r where "r = \<lparr>in_text = demo_parts_text @ newline # demo_joined, in_scan = demo_lowered\<rparr>"
  have s: "\<not> s_blocked (in_scan r)" "\<not> s_review (in_scan r)"
    "\<exists>s. scan_text demo_scan_env demo_joined demo_scan_cfg = Inr s \<and> s_review s"
    by (simp_all add: r_def demo_scan demo_lowered_def demo_flagged_def)
  have m: "demo_joined \<in> set (multipart_texts demo_parts)" by (simp add: demo_multipart)
  show ?thesis
    by (rule exI[of _ demo_scan_env], rule exI[of _ demo_parts], rule exI[of _ demo_scan_cfg], rule exI[of _ r],
        rule exI[of _ demo_joined], rule exI[of _ "(8, 14)"], intro conjI)
       (fact demo_inbound[folded r_def] m t s)+
qed

end
