(* ===== verification/Input_Policy.thy ===== *)
theory Input_Policy
  imports Route_Policy Snippet_Check
begin

text \<open>
  What a route accepts as input (gateway.py): the checks of \<open>enforce_input_policy\<close> on the
  shape of the payload, at any depth, with the two strict request formats, and the scan of
  the payload with the findings a route ignores (\<open>scan_inbound_for_route\<close>).
\<close>

section \<open>Walking a payload\<close>

text \<open>
  \<open>recursive_items\<close>: every value below the payload, with its path as text. A key is
  recovered from the path by the checks below, as the source does.
\<close>

fun recursive_items :: "json \<Rightarrow> string \<Rightarrow> (string \<times> json) list"
  and dict_items :: "dict \<Rightarrow> string \<Rightarrow> (string \<times> json) list"
  and list_items :: "nat \<Rightarrow> json list \<Rightarrow> string \<Rightarrow> (string \<times> json) list" where
  "recursive_items (JObj d) path = dict_items d path"
| "recursive_items (JList l) path = list_items 0 l path"
| "recursive_items v path = []"
| "dict_items [] path = []"
| "dict_items ((k, v) # d) path =
     (path @ CHR ''.'' # k, v) # recursive_items v (path @ CHR ''.'' # k) @ dict_items d path"
| "list_items i [] path = []"
| "list_items i (v # l) path =
     (path @ ''['' @ nat_digits i @ '']'', v) # recursive_items v (path @ ''['' @ nat_digits i @ '']'') @
     list_items (Suc i) l path"

definition all_items :: "dict \<Rightarrow> (string \<times> json) list" where
  "all_items payload = recursive_items (JObj payload) ''$''"

definition drop_index :: "string \<Rightarrow> string" where
  \<comment> \<open>\<open>if "[" in key: key = key.rsplit("[", 1)[0]\<close>\<close>
  "drop_index key = (if CHR ''['' \<in> set key then before_last CHR ''['' key else key)"

definition path_key :: "string \<Rightarrow> string" where
  "path_key path = py_lower (drop_index (after_last CHR ''.'' path))"

section \<open>Constants\<close>

definition input_denied :: exn where
  "input_denied = GatewayError 403 ''input_policy_denied''"

definition read_only_forbidden_fields :: "string list" where
  "read_only_forbidden_fields = [''tools'', ''functions'', ''tool_choice'', ''function_call'', ''parallel_tool_calls'']"

definition raw_external_content_keys :: "string list" where
  "raw_external_content_keys = [''raw_content'', ''raw_html'', ''html'', ''body_html'', ''full_text'', ''page_text'',
     ''document_text'', ''source_text'', ''raw_document'', ''raw_page'', ''raw_markdown'', ''transcript_raw'']"

definition batch_size_keys :: "string list" where
  "batch_size_keys = [''batch_size'', ''n'', ''count'', ''num_images'', ''num_prompts'', ''samples'']"

definition batch_list_keys :: "string list" where
  "batch_list_keys = [''prompts'', ''prompt_matrix'', ''items'', ''jobs'', ''requests'']"

definition x_research_top_fields :: "string list" where
  "x_research_top_fields = [''model'', ''route_id'', ''capability'', ''run_id'', ''task_id'', ''taint'', ''metadata'',
     ''message_type'', ''x_research_request'']"

definition x_research_fields :: "string list" where
  "x_research_fields = [''query'', ''question'', ''max_results'', ''since'', ''until'', ''language'']"

definition artifact_review_top_fields :: "string list" where
  "artifact_review_top_fields = [''model'', ''route_id'', ''capability'', ''run_id'', ''task_id'', ''taint'', ''metadata'',
     ''message_type'', ''artifact_ref'']"

section \<open>Message types and task packets\<close>

definition payload_message_type :: "dict \<Rightarrow> string" where
  "payload_message_type payload =
     (let v = py_strip (str_or_blank (dget0 payload ''message_type'')) in
      if v \<noteq> [] then v else py_strip (str_or_blank (dget0 (metadata payload) ''message_type'')))"

definition nonblank :: "json \<Rightarrow> bool" where
  \<comment> \<open>\<open>isinstance(v, str) and v.strip()\<close>\<close>
  "nonblank v \<longleftrightarrow> py_strip (str_or_blank v) \<noteq> []"

definition structured_task_allowed :: "dict \<Rightarrow> bool" where
  "structured_task_allowed payload = (case dget0 payload ''task'' of
       JObj task \<Rightarrow> nonblank (dget0 task ''objective'') \<and>
         (has_key task ''constraints'' \<longrightarrow> is_dict (dget0 task ''constraints'')) \<and>
         (has_key task ''output_contract'' \<longrightarrow> is_dict (dget0 task ''output_contract''))
     | _ \<Rightarrow> payload_message_type payload = ''task_instruction'' \<and> is_list (dget0 payload ''messages''))"

definition route_input_policy :: "route_decision \<Rightarrow> dict" where
  "route_input_policy d = dict_or_empty (dget (rd_route d) ''input_policy'' (JObj []))"

definition route_is_read_only_model :: "dict \<Rightarrow> bool" where
  "route_is_read_only_model route \<longleftrightarrow> dget0 route ''kind'' = JStr ''openai_chat_completions'' \<and>
     (case dget0 route ''action_policy'' of JObj p \<Rightarrow> dget0 p ''read_only_model'' = JBool True | _ \<Rightarrow> False)"

section \<open>The X research request\<close>

definition policy_positive_int :: "dict \<Rightarrow> string \<Rightarrow> int \<Rightarrow> int res" where
  "policy_positive_int policy field dflt =
     (if \<not> has_key policy field then Inr dflt
      else bindE (parse_int (dget0 policy field) dflt) (\<lambda>(v, ok).
        if \<not> ok \<or> v \<le> 0 then Inl input_denied else Inr v))"

definition require_query_text :: "json \<Rightarrow> int \<Rightarrow> string res" where
  "require_query_text value max_chars = (case value of
       JStr s \<Rightarrow>
         if py_strip s = [] then Inl input_denied
         else if list_ex (\<lambda>c. is_control c \<or> is_format c) s then Inl input_denied
         else if max_chars < int (length (py_strip s)) then Inl input_denied
         else Inr (py_strip s)
     | _ \<Rightarrow> Inl input_denied)"

definition require_single_line :: "json \<Rightarrow> int \<Rightarrow> string res" where
  "require_single_line value max_chars = (case value of
       JStr s \<Rightarrow>
         if py_strip s = [] then Inl input_denied
         else if CHR 0x0D \<in> set s \<or> newline \<in> set s then Inl input_denied
         else if max_chars < int (length (py_strip s)) then Inl input_denied
         else Inr (py_strip s)
     | _ \<Rightarrow> Inl input_denied)"

text \<open>\<open>X_RESEARCH_DATE_PATTERN.fullmatch\<close> and \<open>date.fromisoformat\<close> on what it accepts.\<close>

definition date_pattern_ok :: "string \<Rightarrow> bool" where
  "date_pattern_ok s \<longleftrightarrow> length s = 10 \<and>
     list_all (\<lambda>i. if i = 4 \<or> i = 7 then s ! i = CHR ''-'' else is_digit (s ! i)) [0..<10]"

definition days_in_month :: "int \<Rightarrow> int \<Rightarrow> int" where
  "days_in_month y m =
     (if m = 2 then (if y mod 4 = 0 \<and> (y mod 100 \<noteq> 0 \<or> y mod 400 = 0) then 29 else 28)
      else if m = 4 \<or> m = 6 \<or> m = 9 \<or> m = 11 then 30 else 31)"

definition iso_date :: "string \<Rightarrow> (int \<times> int \<times> int) option" where
  "iso_date s =
     (let y = digits_val (slice s 0 4); m = digits_val (slice s 5 7); d = digits_val (slice s 8 10) in
      if 1 \<le> y \<and> 1 \<le> m \<and> m \<le> 12 \<and> 1 \<le> d \<and> d \<le> days_in_month y m then Some (y, m, d) else None)"

definition date_less :: "int \<times> int \<times> int \<Rightarrow> int \<times> int \<times> int \<Rightarrow> bool" where
  "date_less = (\<lambda>(y, m, d) (y', m', d'). y < y' \<or> y = y' \<and> (m < m' \<or> m = m' \<and> d < d'))"

definition research_date :: "dict \<Rightarrow> string \<Rightarrow> (int \<times> int \<times> int) option res" where
  "research_date req field =
     (if \<not> has_key req field then Inr None
      else bindE (require_single_line (dget0 req field) 10) (\<lambda>v.
        if \<not> date_pattern_ok v then Inl input_denied
        else case iso_date v of None \<Rightarrow> Inl input_denied | Some t \<Rightarrow> Inr (Some t)))"

text \<open>\<open>X_RESEARCH_LANGUAGE_PATTERN.fullmatch\<close>\<close>

definition is_letter :: "char \<Rightarrow> bool" where
  "is_letter c \<longleftrightarrow> code_in 65 90 c \<or> code_in 97 122 c"

definition language_ok :: "string \<Rightarrow> bool" where
  "language_ok s \<longleftrightarrow>
     (let head = takeWhile is_letter s; rest = dropWhile is_letter s in
      2 \<le> length head \<and> length head \<le> 8 \<and>
      (case rest of [] \<Rightarrow> True
       | c # t \<Rightarrow> c \<in> {CHR ''-'', CHR ''_''} \<and> 2 \<le> length t \<and> length t \<le> 8 \<and> list_all is_alnum t))"

definition language_check :: "dict \<Rightarrow> unit res" where
  "language_check req =
     (if has_key req ''language''
      then bindE (require_single_line (dget0 req ''language'') 17) (\<lambda>l. raise_if (\<not> language_ok l) input_denied)
      else Inr ())"

definition max_results_check :: "dict \<Rightarrow> int \<Rightarrow> unit res" where
  "max_results_check req limit =
     (if \<not> has_key req ''max_results'' then Inr ()
      else if is_bool (dget0 req ''max_results'') then Inl input_denied
      else bindE (parse_int (dget0 req ''max_results'') 0) (\<lambda>(n, ok).
        raise_if (\<not> ok \<or> \<not> (1 \<le> n \<and> n \<le> limit)) input_denied))"

definition enforce_x_research_request_policy :: "dict \<Rightarrow> route_decision \<Rightarrow> unit res" where
  "enforce_x_research_request_policy payload d =
     thenE (raise_if (payload_message_type payload \<noteq> ''x_research_request'') input_denied)
    (thenE (raise_if (\<exists>k\<in>set (map fst payload). k \<notin> set x_research_top_fields) input_denied)
    (case dget0 payload ''x_research_request'' of
       JObj req \<Rightarrow>
         thenE (raise_if (\<exists>k\<in>set (map fst req). k \<notin> set x_research_fields) input_denied)
        (let policy = route_input_policy d in
         bindE (policy_positive_int policy ''max_x_query_chars'' 280) (\<lambda>max_query.
         bindE (policy_positive_int policy ''max_x_question_chars'' 500) (\<lambda>max_question.
         bindE (policy_positive_int policy ''max_x_results'' 10) (\<lambda>limit.
         thenE (raise_if (50 < limit) input_denied)
        (bindE (require_query_text (dget0 req ''query'') max_query) (\<lambda>_.
         bindE (if has_key req ''question'' then require_query_text (dget0 req ''question'') max_question else Inr []) (\<lambda>_.
         thenE (max_results_check req limit)
        (bindE (research_date req ''since'') (\<lambda>since.
         bindE (research_date req ''until'') (\<lambda>until.
         thenE (raise_if (case (since, until) of (Some s, Some u) \<Rightarrow> date_less u s | _ \<Rightarrow> False) input_denied)
        (language_check req)))))))))))
     | _ \<Rightarrow> Inl input_denied))"

section \<open>The artifact review request\<close>

definition artifact_id_ok :: "string \<Rightarrow> bool" where
  \<comment> \<open>\<open>ARTIFACT_ID_PATTERN.fullmatch\<close>\<close>
  "artifact_id_ok s \<longleftrightarrow> length s = 36 \<and> prefix ''art_'' s \<and> list_all is_lower_hex (drop 4 s)"

definition enforce_artifact_review_request_policy :: "dict \<Rightarrow> unit res" where
  "enforce_artifact_review_request_policy payload =
     thenE (raise_if (payload_message_type payload \<noteq> ''artifact_review_request'') input_denied)
    (thenE (raise_if (\<exists>k\<in>set (map fst payload). k \<notin> set artifact_review_top_fields) input_denied)
    (case dget0 payload ''artifact_ref'' of
       JObj ref \<Rightarrow>
         thenE (raise_if (\<exists>k\<in>set (map fst ref). k \<noteq> ''artifact_id'') input_denied)
        (case dget0 ref ''artifact_id'' of
           JStr i \<Rightarrow> raise_if (\<not> artifact_id_ok i) input_denied
         | _ \<Rightarrow> Inl input_denied)
     | _ \<Rightarrow> Inl input_denied))"

section \<open>Batches and shell commands\<close>

definition batch_item_check :: "int \<Rightarrow> string \<times> json \<Rightarrow> unit res" where
  "batch_item_check max_size = (\<lambda>(path, value).
     let key = path_key path in
     thenE (if key \<in> set batch_size_keys then
              (if is_bool value then Inl input_denied
               else bindE (parse_int value 0) (\<lambda>(n, ok). raise_if (\<not> ok \<or> max_size < n) input_denied))
            else Inr ())
    (case value of
       JList l \<Rightarrow> raise_if (key \<in> set batch_list_keys \<and> max_size < int (length l)) input_denied
     | _ \<Rightarrow> Inr ()))"

definition enforce_batch_size_policy :: "dict \<Rightarrow> int \<Rightarrow> unit res" where
  "enforce_batch_size_policy payload max_size = forE (all_items payload) (batch_item_check max_size)"

fun messages_contain_shell :: "env \<Rightarrow> json list \<Rightarrow> bool res" where
  "messages_contain_shell E [] = Inr False"
| "messages_contain_shell E (JObj m # ms) =
     bindE (content_to_text E (dget0 m ''content'')) (\<lambda>t.
       if re_search E ''SHELL_LIKE_PATTERN'' t then Inr True else messages_contain_shell E ms)"
| "messages_contain_shell E (_ # ms) = messages_contain_shell E ms"

definition chat_messages_contain_shell :: "env \<Rightarrow> dict \<Rightarrow> bool res" where
  "chat_messages_contain_shell E payload = (case dget0 payload ''messages'' of
       JList ms \<Rightarrow> messages_contain_shell E ms | _ \<Rightarrow> Inr False)"

section \<open>The input policy of a route\<close>

definition whenE :: "bool \<Rightarrow> unit res \<Rightarrow> unit res" where
  "whenE b m = (if b then m else Inr ())"

definition max_messages_check :: "dict \<Rightarrow> dict \<Rightarrow> unit res" where
  "max_messages_check policy payload =
     bindE (parse_int (dget0 policy ''max_messages'') 0) (\<lambda>(n, ok).
       thenE (raise_if (\<not> ok \<or> n < 0) input_denied)
      (case dget0 payload ''messages'' of JList ms \<Rightarrow> raise_if (n < int (length ms)) input_denied | _ \<Rightarrow> Inr ()))"

definition raw_content_check :: "string \<times> json \<Rightarrow> unit res" where
  "raw_content_check = (\<lambda>(path, _). raise_if (path_key path \<in> set raw_external_content_keys) input_denied)"

definition url_check :: "env \<Rightarrow> string \<times> json \<Rightarrow> unit res" where
  "url_check E = (\<lambda>(_, v). case v of JStr s \<Rightarrow> raise_if (re_search E ''URL_PATTERN'' s) input_denied | _ \<Rightarrow> Inr ())"

definition batch_check :: "dict \<Rightarrow> dict \<Rightarrow> unit res" where
  "batch_check policy payload =
     bindE (parse_int (dget0 policy ''max_batch_size'') 0) (\<lambda>(n, ok).
       thenE (raise_if (\<not> ok \<or> n < 1) input_denied) (enforce_batch_size_policy payload n))"

definition shell_check :: "env \<Rightarrow> dict \<Rightarrow> dict \<Rightarrow> dict \<Rightarrow> unit res" where
  "shell_check E policy route payload =
     bindE (if truthy (dget0 policy ''forbid_shell_from_chat'') then Inr (JBool True)
            else py_get (dget route ''action_policy'' (JObj [])) ''forbid_shell_from_chat'' JNull) (\<lambda>forbid.
       if truthy forbid then bindE (chat_messages_contain_shell E payload) (\<lambda>b. raise_if b input_denied) else Inr ())"

definition enforce_input_policy :: "env \<Rightarrow> dict \<Rightarrow> route_decision \<Rightarrow> unit res" where
  "enforce_input_policy E payload d =
     thenE (raise_if (has_key payload ''receipt_type'') input_denied)
    (case dget (rd_route d) ''input_policy'' (JObj []) of
       JObj policy \<Rightarrow>
         thenE (raise_if (route_is_read_only_model (rd_route d) \<and>
                  (\<exists>k\<in>set read_only_forbidden_fields. has_key payload k)) input_denied)
        (thenE (whenE (has_key policy ''max_messages'') (max_messages_check policy payload))
        (thenE (raise_if (nonblank (dget0 policy ''require_message_type'') \<and>
                  payload_message_type payload \<noteq> py_strip (str_or_blank (dget0 policy ''require_message_type''))) input_denied)
        (thenE (raise_if (truthy (dget0 policy ''require_structured_task'') \<and> \<not> structured_task_allowed payload) input_denied)
        (thenE (whenE (dget0 policy ''allow_raw_external_content'' = JBool False) (forE (all_items payload) raw_content_check))
        (thenE (whenE (truthy (dget0 policy ''disallow_external_urls'')) (forE (all_items payload) (url_check E)))
        (thenE (whenE (has_key policy ''max_batch_size'') (batch_check policy payload))
        (thenE (shell_check E policy (rd_route d) payload)
        (thenE (whenE (truthy (dget0 policy ''require_x_research_request'')) (enforce_x_research_request_policy payload d))
        (whenE (py_str E (dget0 (rd_route d) ''kind'') = ''artifact_review'') (enforce_artifact_review_request_policy payload))))))))))
     | _ \<Rightarrow> Inl input_denied)"

section \<open>Findings a route ignores\<close>

definition is_private_host :: "env \<Rightarrow> string \<Rightarrow> bool" where
  "is_private_host E host =
     (let h = strip_by (\<lambda>c. c \<in> set ''[]'') (py_lower host) in
      h \<in> set localhost_names \<or> e_is_ip E h \<and> e_nonpublic E h)"

definition allowed_private_hosts :: "env \<Rightarrow> route_decision \<Rightarrow> string list" where
  "allowed_private_hosts E d = (case dget0 (route_input_policy d) ''allowed_private_instruction_hosts'' of
       JList hosts \<Rightarrow> map (\<lambda>h. strip_by (\<lambda>c. c \<in> set ''[]'') (py_strip (py_lower (py_str E h))))
                         (filter (\<lambda>h. py_strip (py_str E h) \<noteq> []) hosts)
     | _ \<Rightarrow> [])"

definition private_url_hosts :: "env \<Rightarrow> string \<Rightarrow> string list" where
  "private_url_hosts E txt = List.map_filter (\<lambda>url. case e_urlsplit E url of
       None \<Rightarrow> Some ''(unparseable)''
     | Some u \<Rightarrow> let host = strip_by (\<lambda>c. c \<in> set ''[]'') (py_lower (u_host u)) in
         if host \<noteq> [] \<and> is_private_host E host then Some host else None) (re_matches E ''URL_PATTERN'' txt)"

definition route_allows_private_instruction_hosts :: "env \<Rightarrow> route_decision \<Rightarrow> string \<Rightarrow> bool" where
  "route_allows_private_instruction_hosts E d txt =
     (let allowed = allowed_private_hosts E d; private = private_url_hosts E txt in
      allowed \<noteq> [] \<and> private \<noteq> [] \<and> set private \<subseteq> set allowed)"

definition policy_list :: "env \<Rightarrow> dict \<Rightarrow> string \<Rightarrow> string list" where
  "policy_list E policy key = (case dget0 policy key of JList l \<Rightarrow> map (py_str E) l | _ \<Rightarrow> [])"

definition route_allows_input_finding :: "env \<Rightarrow> route_decision \<Rightarrow> finding \<Rightarrow> string \<Rightarrow> bool" where
  "route_allows_input_finding E d f txt \<longleftrightarrow> \<not> is_boundary f \<and>
     (f_category f \<in> set (policy_list E (route_input_policy d) ''allow_scanner_findings'') \<or>
      f_category f = ''input_dlp:private_host'' \<and> route_allows_private_instruction_hosts E d txt)"

definition ignored_warnings :: "string \<Rightarrow> string list \<Rightarrow> string list" where
  "ignored_warnings kind cats = map (\<lambda>c. kind @ c) (sort (remdups cats))"

definition apply_route_inbound_scan_policy ::
    "env \<Rightarrow> inbound_scan \<Rightarrow> route_decision \<Rightarrow> dict \<Rightarrow> (inbound_scan \<times> route_decision) res" where
  "apply_route_inbound_scan_policy E inbound d cfg =
     (let scan = in_scan inbound;
          ignores = (\<lambda>f. route_allows_input_finding E d f (in_text inbound));
          kept = filter (\<lambda>f. \<not> ignores f) (s_findings scan) in
      if length kept = length (s_findings scan) then Inr (inbound, d)
      else let sc = score kept in
        bindE (if list_ex is_boundary kept then Inr 0 else cfg_int cfg ''block_risk_score'' 8) (\<lambda>block_at.
        bindE (cfg_int cfg ''review_risk_score'' 4) (\<lambda>review_at.
          Inr (inbound\<lparr>in_scan := scan\<lparr>s_findings := kept, s_score := sc,
                  s_blocked := list_ex is_boundary kept \<or> block_at \<le> sc, s_review := review_at \<le> sc\<rparr>\<rparr>,
               d\<lparr>rd_warnings := rd_warnings d @ ignored_warnings ''route_ignored_input_finding:''
                  (map f_category (filter ignores (s_findings scan)))\<rparr>))))"

definition scan_inbound_for_route :: "env \<Rightarrow> dict \<Rightarrow> dict \<Rightarrow> route_decision \<Rightarrow> (inbound_scan \<times> route_decision) res" where
  "scan_inbound_for_route E payload cfg d =
     bindE (scan_inbound_payload E (JObj payload) cfg) (\<lambda>inbound. apply_route_inbound_scan_policy E inbound d cfg)"

section \<open>The checks reach every depth\<close>

text \<open>A value that stands somewhere in another, at any depth.\<close>

inductive nested :: "json \<Rightarrow> json \<Rightarrow> bool" where
  nested_here: "nested v v"
| nested_list: "w \<in> set l \<Longrightarrow> nested v w \<Longrightarrow> nested v (JList l)"
| nested_dict: "(k, w) \<in> set d \<Longrightarrow> nested v w \<Longrightarrow> nested v (JObj d)"

lemma list_items_step:
  "w \<in> set l \<Longrightarrow> \<exists>p. (p, w) \<in> set (list_items i l path) \<and> set (recursive_items w p) \<subseteq> set (list_items i l path)"
proof (induction l arbitrary: i)
  case (Cons v l)
  then show ?case
  proof (cases "w = v")
    case False
    with Cons obtain p where "(p, w) \<in> set (list_items (Suc i) l path)"
      "set (recursive_items w p) \<subseteq> set (list_items (Suc i) l path)" by auto
    then show ?thesis by (intro exI[of _ p]) auto
  qed auto
qed simp

lemma dict_items_step:
  "(k, w) \<in> set d \<Longrightarrow> (path @ CHR ''.'' # k, w) \<in> set (dict_items d path) \<and>
     set (recursive_items w (path @ CHR ''.'' # k)) \<subseteq> set (dict_items d path)"
  by (induction d) auto

lemma recursive_items_below:
  "nested v w \<Longrightarrow> v = w \<or> (\<exists>p. (p, v) \<in> set (recursive_items w path))"
proof (induction arbitrary: path rule: nested.induct)
  case (nested_list w l v)
  from list_items_step[OF nested_list(1), of 0 path] obtain p where
    p: "(p, w) \<in> set (list_items 0 l path)" "set (recursive_items w p) \<subseteq> set (list_items 0 l path)" by blast
  with nested_list.IH[of p] show ?case by auto
next
  case (nested_dict k w d v)
  let ?p = "path @ CHR ''.'' # k"
  from dict_items_step[OF nested_dict(1), of path] nested_dict.IH[of ?p] show ?case by auto
qed simp

lemma recursive_items_key:
  "nested u w \<Longrightarrow> u = JObj d \<Longrightarrow> (k, v) \<in> set d \<Longrightarrow> \<exists>p. (p @ CHR ''.'' # k, v) \<in> set (recursive_items w path)"
proof (induction arbitrary: path rule: nested.induct)
  case (nested_here u)
  then show ?case using dict_items_step[of k v d path] by auto
next
  case (nested_list w l u)
  from list_items_step[OF nested_list(1), of 0 path] obtain p where
    "set (recursive_items w p) \<subseteq> set (list_items 0 l path)" by blast
  with nested_list.IH[OF nested_list.prems, of p] show ?case by auto
next
  case (nested_dict k' w d' u)
  let ?p = "path @ CHR ''.'' # k'"
  from dict_items_step[OF nested_dict(1), of path] nested_dict.IH[OF nested_dict.prems, of ?p] show ?case by auto
qed

definition plain_key :: "string \<Rightarrow> bool" where
  "plain_key k \<longleftrightarrow> CHR ''.'' \<notin> set k \<and> CHR ''['' \<notin> set k"

lemma path_key_plain: "plain_key k \<Longrightarrow> path_key (p @ CHR ''.'' # k) = py_lower k"
  by (simp add: path_key_def plain_key_def drop_index_def)

lemma plain_lower: "plain_key (py_lower k) \<Longrightarrow> plain_key k"
proof -
  have "lower_char CHR ''.'' = CHR ''.''" "lower_char CHR ''['' = CHR ''[''" by code_simp+
  then show "plain_key (py_lower k) \<Longrightarrow> plain_key k"
    unfolding plain_key_def py_lower_def by (metis image_eqI set_map)
qed

lemma keys_plain:
  "list_all plain_key (raw_external_content_keys @ batch_size_keys @ batch_list_keys)"
  by code_simp

lemma nested_key_path:
  assumes "nested (JObj ob) (JObj payload)" "(k, v) \<in> set ob"
    and "py_lower k \<in> set (raw_external_content_keys @ batch_size_keys @ batch_list_keys)"
  obtains path where "(path, v) \<in> set (all_items payload)" "path_key path = py_lower k"
proof -
  from assms(3) keys_plain have "plain_key (py_lower k)" unfolding list_all_iff by blast
  from path_key_plain[OF plain_lower[OF this]] recursive_items_key[OF assms(1) refl assms(2), of "''$''"]
  show ?thesis using that unfolding all_items_def by blast
qed

definition batch_bounded :: "dict \<Rightarrow> int \<Rightarrow> bool" where
  "batch_bounded payload n \<longleftrightarrow> (\<forall>ob k v. nested (JObj ob) (JObj payload) \<longrightarrow> (k, v) \<in> set ob \<longrightarrow>
     (py_lower k \<in> set batch_size_keys \<longrightarrow> (\<exists>m. parse_int v 0 = Inr (m, True) \<and> m \<le> n)) \<and>
     (py_lower k \<in> set batch_list_keys \<longrightarrow> (\<forall>l. v = JList l \<longrightarrow> int (length l) \<le> n)))"

lemma batch_policy_bounded:
  assumes "enforce_batch_size_policy payload n = Inr ()"
  shows "batch_bounded payload n"
  unfolding batch_bounded_def
proof (intro allI impI conjI)
  fix ob k v
  assume o: "nested (JObj ob) (JObj payload)" "(k, v) \<in> set ob"
  have chk: "batch_item_check n x = Inr ()" if "x \<in> set (all_items payload)" for x
    using assms that by (auto simp: enforce_batch_size_policy_def forE_Inr)
  { assume k: "py_lower k \<in> set batch_size_keys"
    then have "py_lower k \<in> set (raw_external_content_keys @ batch_size_keys @ batch_list_keys)" by simp
    from nested_key_path[OF o this] obtain path where "(path, v) \<in> set (all_items payload)" "path_key path = py_lower k" .
    from chk[OF this(1)] this(2) k show "\<exists>m. parse_int v 0 = Inr (m, True) \<and> m \<le> n"
      by (auto simp: batch_item_check_def thenE_Inr bindE_Inr raise_if_Inr split: if_splits) }
  { fix l assume k: "py_lower k \<in> set batch_list_keys" and v: "v = JList l"
    then have "py_lower k \<in> set (raw_external_content_keys @ batch_size_keys @ batch_list_keys)" by simp
    from nested_key_path[OF o this] obtain path where "(path, v) \<in> set (all_items payload)" "path_key path = py_lower k" .
    from chk[OF this(1)] this(2) k v show "int (length l) \<le> n"
      by (simp add: batch_item_check_def thenE_Inr raise_if_Inr) }
qed

lemma whenE_Inr [res_simps]: "whenE b m = Inr () \<longleftrightarrow> (b \<longrightarrow> m = Inr ())"
  by (simp add: whenE_def)

text \<open>What an accepted payload passed, one fact per check of the route's policy.\<close>

lemma input_policy_checks:
  assumes "enforce_input_policy E payload d = Inr ()"
  shows "\<not> has_key payload ''receipt_type''"
    "dget0 (route_input_policy d) ''allow_raw_external_content'' = JBool False \<Longrightarrow> forE (all_items payload) raw_content_check = Inr ()"
    "truthy (dget0 (route_input_policy d) ''disallow_external_urls'') \<Longrightarrow> forE (all_items payload) (url_check E) = Inr ()"
    "has_key (route_input_policy d) ''max_batch_size'' \<Longrightarrow> batch_check (route_input_policy d) payload = Inr ()"
    "truthy (dget0 (route_input_policy d) ''require_x_research_request'') \<Longrightarrow> enforce_x_research_request_policy payload d = Inr ()"
    "py_str E (dget0 (rd_route d) ''kind'') = ''artifact_review'' \<Longrightarrow> enforce_artifact_review_request_policy payload = Inr ()"
  using assms
  by (auto simp: enforce_input_policy_def route_input_policy_def thenE_Inr raise_if_Inr whenE_Inr split: json.splits)

text \<open>C14: Whatever a route forbids about the shape of its input is absent from an accepted payload
  at every depth, although the checks read keys off a textual path: no object in it has a key for
  raw external content when the route does not allow that, no string in it holds a URL when the
  route forbids them, and with a batch limit no object in it has a batch size above the limit or
  a batch list longer than it.\<close>
theorem input_policy_reaches_all_depths:
  assumes "enforce_input_policy E payload d = Inr ()"
  shows "(dget0 (route_input_policy d) ''allow_raw_external_content'' = JBool False \<longrightarrow>
      (\<forall>ob k v. nested (JObj ob) (JObj payload) \<and> (k, v) \<in> set ob \<longrightarrow> py_lower k \<notin> set raw_external_content_keys)) \<and>
    (truthy (dget0 (route_input_policy d) ''disallow_external_urls'') \<longrightarrow>
      (\<forall>s. nested (JStr s) (JObj payload) \<longrightarrow> \<not> re_search E ''URL_PATTERN'' s)) \<and>
    (has_key (route_input_policy d) ''max_batch_size'' \<longrightarrow>
      (\<exists>n. parse_int (dget0 (route_input_policy d) ''max_batch_size'') 0 = Inr (n, True) \<and> 1 \<le> n \<and> batch_bounded payload n))"
proof (intro conjI impI allI)
  note checks = input_policy_checks[OF assms]
  { fix ob k v
    assume raw: "dget0 (route_input_policy d) ''allow_raw_external_content'' = JBool False"
      and o: "nested (JObj ob) (JObj payload) \<and> (k, v) \<in> set ob"
    show "py_lower k \<notin> set raw_external_content_keys"
    proof
      assume k: "py_lower k \<in> set raw_external_content_keys"
      then have "py_lower k \<in> set (raw_external_content_keys @ batch_size_keys @ batch_list_keys)" by simp
      from nested_key_path[OF conjunct1[OF o] conjunct2[OF o] this] obtain path where
        p: "(path, v) \<in> set (all_items payload)" "path_key path = py_lower k" .
      from checks(2)[OF raw] p(1) have "raw_content_check (path, v) = Inr ()" by (auto simp: forE_Inr)
      with k p(2) show False by (simp add: raw_content_check_def raise_if_Inr)
    qed }
  { fix s
    assume u: "truthy (dget0 (route_input_policy d) ''disallow_external_urls'')" and n: "nested (JStr s) (JObj payload)"
    from recursive_items_below[OF n, of "''$''"] obtain p where "(p, JStr s) \<in> set (all_items payload)"
      by (auto simp: all_items_def)
    with checks(3)[OF u] have "url_check E (p, JStr s) = Inr ()" by (auto simp: forE_Inr)
    then show "\<not> re_search E ''URL_PATTERN'' s" by (simp add: url_check_def raise_if_Inr) }
  { assume b: "has_key (route_input_policy d) ''max_batch_size''"
    from checks(4)[OF b] obtain n where n: "parse_int (dget0 (route_input_policy d) ''max_batch_size'') 0 = Inr (n, True)" "1 \<le> n"
      "enforce_batch_size_policy payload n = Inr ()"
      by (auto simp: batch_check_def bindE_Inr thenE_Inr raise_if_Inr)
    with batch_policy_bounded[OF n(3)] show "\<exists>n. parse_int (dget0 (route_input_policy d) ''max_batch_size'') 0 = Inr (n, True) \<and> 1 \<le> n \<and> batch_bounded payload n"
      by blast }
qed

section \<open>The X research request is fully typed\<close>

definition single_line :: "json \<Rightarrow> (string \<Rightarrow> bool) \<Rightarrow> bool" where
  "single_line v p \<longleftrightarrow> (\<exists>s. v = JStr s \<and> newline \<notin> set s \<and> CHR 0x0D \<notin> set s \<and> p (py_strip s))"

lemma require_single_line_Inr:
  "require_single_line v n = Inr s \<longleftrightarrow> single_line v (\<lambda>t. t = s \<and> t \<noteq> [] \<and> int (length t) \<le> n)"
  by (auto simp: require_single_line_def single_line_def split: json.splits)

definition query_text :: "json \<Rightarrow> bool" where
  "query_text v \<longleftrightarrow> (\<exists>s. v = JStr s \<and> py_strip s \<noteq> [] \<and> (\<forall>c\<in>set s. \<not> is_control c \<and> \<not> is_format c))"

lemma require_query_text_Inr: "require_query_text v n = Inr s \<Longrightarrow> query_text v"
  by (auto simp: require_query_text_def query_text_def list_ex_iff split: json.splits if_splits)

lemma research_date_Inr:
  "research_date req f = Inr r \<Longrightarrow> has_key req f \<Longrightarrow>
     \<exists>t. r = Some t \<and> single_line (dget0 req f) (\<lambda>s. date_pattern_ok s \<and> iso_date s = Some t)"
  by (cases r) (auto simp: research_date_def bindE_Inr require_single_line_Inr single_line_def split: if_splits option.splits)

lemma policy_positive_int_pos: "policy_positive_int p f n = Inr m \<Longrightarrow> 0 < n \<Longrightarrow> 0 < m"
  by (auto simp: policy_positive_int_def bindE_Inr split: if_splits)

text \<open>C15: An accepted X research request is of the documented type: only the listed fields, a
  non-blank query without control or format characters, a result count between 1 and the hard
  maximum of 50, valid calendar dates on one line with until not before since, and a short
  language tag.\<close>
theorem x_research_request_typed:
  assumes "enforce_x_research_request_policy payload d = Inr ()"
  shows "\<exists>req. dget0 payload ''x_research_request'' = JObj req \<and>
    fst ` set payload \<subseteq> set x_research_top_fields \<and> fst ` set req \<subseteq> set x_research_fields \<and>
    query_text (dget0 req ''query'') \<and>
    (has_key req ''question'' \<longrightarrow> query_text (dget0 req ''question'')) \<and>
    (has_key req ''max_results'' \<longrightarrow> (\<exists>n. parse_int (dget0 req ''max_results'') 0 = Inr (n, True) \<and> 1 \<le> n \<and> n \<le> 50)) \<and>
    (\<forall>f\<in>{''since'', ''until''}. has_key req f \<longrightarrow>
       (\<exists>t. single_line (dget0 req f) (\<lambda>s. date_pattern_ok s \<and> iso_date s = Some t))) \<and>
    (\<forall>s u. research_date req ''since'' = Inr (Some s) \<and> research_date req ''until'' = Inr (Some u) \<longrightarrow> \<not> date_less u s) \<and>
    (has_key req ''language'' \<longrightarrow> single_line (dget0 req ''language'') language_ok)"
proof -
  from assms obtain req where req: "dget0 payload ''x_research_request'' = JObj req"
    by (auto simp: enforce_x_research_request_policy_def thenE_Inr split: json.splits)
  have top: "fst ` set payload \<subseteq> set x_research_top_fields" "fst ` set req \<subseteq> set x_research_fields"
    using assms by (auto simp: enforce_x_research_request_policy_def thenE_Inr raise_if_Inr req)
  from assms obtain mq mqu limit q qu since until where
    limit: "limit \<le> 50" and
    q: "require_query_text (dget0 req ''query'') mq = Inr q" and
    qu: "(if has_key req ''question'' then require_query_text (dget0 req ''question'') mqu else Inr []) = Inr qu" and
    n: "max_results_check req limit = Inr ()" and
    s: "research_date req ''since'' = Inr since" and u: "research_date req ''until'' = Inr until" and
    le: "\<not> (case (since, until) of (Some s, Some u) \<Rightarrow> date_less u s | _ \<Rightarrow> False)" and
    l: "language_check req = Inr ()"
    unfolding enforce_x_research_request_policy_def req json.simps
    by (clarsimp simp: thenE_Inr bindE_Inr Let_def raise_if_Inr not_less)
  have Q: "query_text (dget0 req ''query'')" by (rule require_query_text_Inr[OF q])
  have QU: "has_key req ''question'' \<longrightarrow> query_text (dget0 req ''question'')"
    using qu by (auto intro: require_query_text_Inr)
  have N: "has_key req ''max_results'' \<longrightarrow> (\<exists>n. parse_int (dget0 req ''max_results'') 0 = Inr (n, True) \<and> 1 \<le> n \<and> n \<le> 50)"
    using n limit by (auto simp: max_results_check_def bindE_Inr raise_if_Inr split: if_splits)
  have D: "\<forall>f\<in>{''since'', ''until''}. has_key req f \<longrightarrow>
       (\<exists>t. single_line (dget0 req f) (\<lambda>s. date_pattern_ok s \<and> iso_date s = Some t))"
    using research_date_Inr[OF s] research_date_Inr[OF u] by blast
  have L: "has_key req ''language'' \<longrightarrow> single_line (dget0 req ''language'') language_ok"
    using l by (auto simp: language_check_def bindE_Inr raise_if_Inr require_single_line_Inr single_line_def split: if_splits)
  have LE: "\<forall>s u. research_date req ''since'' = Inr (Some s) \<and> research_date req ''until'' = Inr (Some u) \<longrightarrow> \<not> date_less u s"
    using le unfolding s u by (auto split: option.splits)
  show ?thesis using req top Q QU N D LE L by blast
qed

section \<open>Findings a route ignores\<close>

text \<open>C16: The scan of a request for a route is the scan of its payload less the findings the route
  names in its policy (or private hosts all of which it allows), each of which leaves a warning;
  without such a finding nothing changes, otherwise the judgment is recomputed from what is left.
  In particular an oversized input stays blocked whatever the route ignores.\<close>
theorem route_scan_sound:
  assumes "scan_inbound_for_route E payload cfg d = Inr (r, d')"
  shows "\<exists>r0. scan_inbound_payload E (JObj payload) cfg = Inr r0 \<and>
      (let ignored = (\<lambda>f. route_allows_input_finding E d f (in_text r0)) in
       s_findings (in_scan r) = filter (\<lambda>f. \<not> ignored f) (s_findings (in_scan r0)) \<and>
       (list_ex ignored (s_findings (in_scan r0)) \<or> r = r0 \<and> d' = d) \<and>
       (\<forall>f\<in>set (s_findings (in_scan r0)). ignored f \<longrightarrow>
          \<not> is_boundary f \<and> ''route_ignored_input_finding:'' @ f_category f \<in> set (rd_warnings d'))) \<and>
      (cut_off (in_scan r0) \<longrightarrow> cut_off (in_scan r))"
proof -
  from assms obtain r0 where r0: "scan_inbound_payload E (JObj payload) cfg = Inr r0"
    and ap: "apply_route_inbound_scan_policy E r0 d cfg = Inr (r, d')"
    by (auto simp: scan_inbound_for_route_def bindE_Inr)
  define ig where "ig = (\<lambda>f. route_allows_input_finding E d f (in_text r0))"
  have nb: "\<not> is_boundary f" if "ig f" for f using that by (simp add: ig_def route_allows_input_finding_def)
  have kept: "s_findings (in_scan r) = filter (\<lambda>f. \<not> ig f) (s_findings (in_scan r0)) \<and>
       (list_ex ig (s_findings (in_scan r0)) \<or> r = r0 \<and> d' = d) \<and>
       (\<forall>f\<in>set (s_findings (in_scan r0)). ig f \<longrightarrow>
          \<not> is_boundary f \<and> ''route_ignored_input_finding:'' @ f_category f \<in> set (rd_warnings d')) \<and>
      (cut_off (in_scan r0) \<longrightarrow> cut_off (in_scan r))"
  proof (cases "list_ex ig (s_findings (in_scan r0))")
    case False
    then have "filter (\<lambda>f. \<not> ig f) (s_findings (in_scan r0)) = s_findings (in_scan r0)"
      by (auto simp: list_ex_iff filter_id_conv)
    with ap False show ?thesis
      by (auto simp: apply_route_inbound_scan_policy_def ig_def[symmetric] Let_def list_ex_iff)
  next
    case True
    then obtain g where g: "g \<in> set (s_findings (in_scan r0))" "ig g" by (auto simp: list_ex_iff)
    have "length (filter (\<lambda>f. \<not> ig f) (s_findings (in_scan r0))) < length (s_findings (in_scan r0))"
      by (rule length_filter_less[OF g(1)]) (simp add: g(2))
    with ap obtain block_at review_at where
      r: "r = r0\<lparr>in_scan := (in_scan r0)\<lparr>s_findings := filter (\<lambda>f. \<not> ig f) (s_findings (in_scan r0)),
            s_score := score (filter (\<lambda>f. \<not> ig f) (s_findings (in_scan r0))),
            s_blocked := list_ex is_boundary (filter (\<lambda>f. \<not> ig f) (s_findings (in_scan r0))) \<or>
               block_at \<le> score (filter (\<lambda>f. \<not> ig f) (s_findings (in_scan r0))),
            s_review := review_at \<le> score (filter (\<lambda>f. \<not> ig f) (s_findings (in_scan r0)))\<rparr>\<rparr>"
      and d': "d' = d\<lparr>rd_warnings := rd_warnings d @ ignored_warnings ''route_ignored_input_finding:''
                  (map f_category (filter ig (s_findings (in_scan r0))))\<rparr>"
      unfolding apply_route_inbound_scan_policy_def ig_def[symmetric] Let_def by (auto simp: bindE_Inr)
    have "cut_off (in_scan r0) \<longrightarrow> cut_off (in_scan r)"
      using nb by (auto simp: cut_off_def r list_ex_iff)
    with True nb show ?thesis
      unfolding r d' by (auto simp: ignored_warnings_def image_iff)
  qed
  show ?thesis
    by (rule exI[of _ r0]) (use r0 kept in \<open>simp add: ig_def[symmetric] Let_def\<close>)
qed

section \<open>Concrete requests\<close>

definition demo_route :: "dict \<Rightarrow> route_decision" where
  "demo_route policy = \<lparr>rd_route_id = ''r'', rd_route = [(''input_policy'', JObj policy)], rd_capability = ''c'',
     rd_run_id = None, rd_task_id = None, rd_taint = [], rd_warnings = []\<rparr>"

definition demo_strict :: dict where
  "demo_strict = [(''allow_raw_external_content'', JBool False), (''disallow_external_urls'', JBool True),
     (''max_batch_size'', JInt 3)]"

definition demo_batch :: dict where
  "demo_batch = [(''opts'', JObj [(''N'', JInt 3)]), (''prompts'', JList [JStr ''a'', JStr ''b''])]"

theorem input_policy_reaches_all_depths_witness:
  "enforce_input_policy calc_env demo_batch (demo_route demo_strict) = Inr () \<and> batch_bounded demo_batch 3"
proof -
  have run: "enforce_input_policy calc_env demo_batch (demo_route demo_strict) = Inr ()" by code_simp
  have p: "route_input_policy (demo_route demo_strict) = demo_strict"
    by (simp add: route_input_policy_def demo_route_def)
  have "has_key demo_strict ''max_batch_size''" "parse_int (dget0 demo_strict ''max_batch_size'') 0 = Inr (3, True)"
    by (simp_all add: demo_strict_def)
  with input_policy_reaches_all_depths[OF run] run show ?thesis by (auto simp: p)
qed

definition demo_research :: dict where
  "demo_research = [(''message_type'', JStr ''x_research_request''), (''x_research_request'', JObj
     [(''query'', JStr ''isabelle''), (''max_results'', JInt 5), (''since'', JStr ''2024-02-29''),
      (''until'', JStr ''2024-03-01''), (''language'', JStr ''pt-BR'')])]"

theorem x_research_request_typed_witness:
  "enforce_x_research_request_policy demo_research (demo_route []) = Inr () \<and>
   fst ` set demo_research \<subseteq> set x_research_top_fields"
proof -
  have run: "enforce_x_research_request_policy demo_research (demo_route []) = Inr ()" by code_simp
  from x_research_request_typed[OF run] run show ?thesis by blast
qed

lemma route_scan_total:
  assumes "cfg_int cfg ''block_risk_score'' 8 = Inr a" "cfg_int cfg ''review_risk_score'' 4 = Inr b"
  shows "\<exists>x. apply_route_inbound_scan_policy E r0 d cfg = Inr x"
  by (simp add: apply_route_inbound_scan_policy_def Let_def assms)

theorem route_scan_sound_witness:
  "\<exists>r d'. scan_inbound_for_route demo_scan_env [(''p'', JList [demo_part ''run sh. ru'', demo_part ''n sh now''])] demo_scan_cfg
       (demo_route [(''allow_scanner_findings'', JList [JStr ''prompt_injection:tool_escalation''])]) = Inr (r, d') \<and>
     s_findings (in_scan r) = [] \<and>
     ''route_ignored_input_finding:prompt_injection:tool_escalation'' \<in> set (rd_warnings d')"
proof -
  let ?d = "demo_route [(''allow_scanner_findings'', JList [JStr ''prompt_injection:tool_escalation''])]"
  let ?p = "[(''p'', JList [demo_part ''run sh. ru'', demo_part ''n sh now''])]"
  let ?r0 = "\<lparr>in_text = demo_parts_text @ newline # demo_joined, in_scan = demo_lowered\<rparr>"
  have r0: "scan_inbound_payload demo_scan_env (JObj ?p) demo_scan_cfg = Inr ?r0"
    by (rule demo_inbound[unfolded demo_parts_def])
  have fs: "s_findings demo_lowered = [F ''prompt_injection:tool_escalation'' 0 ''prompt-injection marker detected (snippet check: description)'']"
    by (simp add: demo_lowered_def)
  have ig: "route_allows_input_finding demo_scan_env ?d (hd (s_findings demo_lowered)) t" for t
    by (simp add: route_allows_input_finding_def fs F_def is_boundary_def policy_list_def route_input_policy_def demo_route_def)
  have c: "f_category (hd (s_findings demo_lowered)) = ''prompt_injection:tool_escalation''"
    by (simp add: fs F_def)
  have "cfg_int demo_scan_cfg ''block_risk_score'' 8 = Inr 8" "cfg_int demo_scan_cfg ''review_risk_score'' 4 = Inr 4"
    by (simp_all add: cfg_int_def demo_scan_cfg_def)
  from route_scan_total[OF this] obtain r d' where "apply_route_inbound_scan_policy demo_scan_env ?r0 ?d demo_scan_cfg = Inr (r, d')"
    by fast
  then have run: "scan_inbound_for_route demo_scan_env ?p demo_scan_cfg ?d = Inr (r, d')"
    unfolding scan_inbound_for_route_def r0 bindE_simps .
  from route_scan_sound[OF run] r0 have
    "s_findings (in_scan r) = filter (\<lambda>f. \<not> route_allows_input_finding demo_scan_env ?d f (in_text ?r0)) (s_findings demo_lowered)"
    "\<forall>f\<in>set (s_findings demo_lowered). route_allows_input_finding demo_scan_env ?d f (in_text ?r0) \<longrightarrow>
       ''route_ignored_input_finding:'' @ f_category f \<in> set (rd_warnings d')"
    by (auto simp: Let_def)
  moreover obtain f where f: "s_findings demo_lowered = [f]" by (simp add: fs)
  moreover have "f_category f = ''prompt_injection:tool_escalation''" using c by (simp add: f)
  moreover have "route_allows_input_finding demo_scan_env ?d f t" for t using ig by (simp add: f)
  ultimately have "s_findings (in_scan r) = []"
    "''route_ignored_input_finding:'' @ ''prompt_injection:tool_escalation'' \<in> set (rd_warnings d')"
    by simp_all
  with run show ?thesis by (intro exI conjI) simp_all
qed

end
