(* ===== verification/Action_Guard.thy ===== *)
theory Action_Guard
  imports Input_Policy
begin

text \<open>
  The action guard of gateway.py: what it reports on a payload (\<open>action_guard\<close>), what a route
  ignores of it, which findings an approval may lift, and the approval artifacts themselves,
  from the request that creates one to its use (\<open>enforce_action_guard\<close>).
\<close>

section \<open>Findings\<close>

definition non_approvable :: "string list" where
  "non_approvable = [''inspection_limit'', ''caller_controlled_backend'', ''private_network_target'',
     ''metadata_endpoint'', ''dangerous_uri_scheme'', ''secret_exfiltration'']"

definition approvable :: "string list" where
  "approvable = [''host_package_install'', ''external_upload'', ''privileged_command'', ''delete_operation'', ''git_publish'']"

definition caller_backend_field_names :: "string list" where
  "caller_backend_field_names = [''target_url'', ''backend_url'', ''base_url'', ''upstream_url'', ''proxy_url'',
     ''target_endpoint'', ''backend_endpoint'', ''x-target-url'']"

definition dangerous_action_patterns :: "(string \<times> int \<times> string) list" where
  "dangerous_action_patterns =
     [(''secret_exfiltration'', 10, ''secret exfiltration request''), (''curl_pipe_shell'', 10, ''curl piped into a shell''),
      (''privileged_command'', 9, ''sudo is disallowed''), (''host_package_install'', 9, ''host package install is disallowed''),
      (''external_upload'', 8, ''external upload or publish is disallowed''), (''email_send'', 8, ''email sending is disallowed''),
      (''social_post'', 8, ''social posting is disallowed''), (''purchase_payment'', 9, ''purchase or payment action is disallowed''),
      (''delete_operation'', 9, ''destructive delete operation is disallowed''),
      (''git_publish'', 8, ''git push, merge, release, or publish is disallowed'')]"

record action_result =
  ag_hash :: string
  ag_findings :: "finding list"

definition ag_blocked :: "action_result \<Rightarrow> bool" where
  "ag_blocked r \<longleftrightarrow> ag_findings r \<noteq> []"

definition action_public_dict :: "action_result \<Rightarrow> dict" where
  "action_public_dict r = [(''normalized_action_hash'', JStr (ag_hash r)),
     (''findings'', JList (map finding_json (ag_findings r))), (''blocked'', JBool (ag_blocked r))]"

definition inspection_limit :: finding where
  "inspection_limit = F ''action_guard:inspection_limit'' 10 ''complete action exceeds inspection limit''"

definition dangerous_scheme :: finding where
  "dangerous_scheme = F ''action_guard:dangerous_uri_scheme'' 10 ''dangerous URI scheme is not allowed''"

definition private_target :: finding where
  "private_target = F ''action_guard:private_network_target'' 10 ''private, loopback, or metadata URL target is not allowed''"

text \<open>\<open>re.match(r"^(file|data|javascript|smb)[:/]", s)\<close>\<close>

definition dangerous_start :: "string \<Rightarrow> bool" where
  "dangerous_start s \<longleftrightarrow> list_ex (\<lambda>w. prefix (w @ '':'') s \<or> prefix (w @ ''/'') s) [''file'', ''data'', ''javascript'', ''smb'']"

definition action_item_findings :: "string \<times> json \<Rightarrow> finding list" where
  "action_item_findings = (\<lambda>(path, value).
     let key = py_lower (after_last CHR ''.'' path) in
     only_if (key \<in> set caller_backend_field_names)
       (F ''action_guard:caller_controlled_backend'' 10 (key @ '' is not allowed'')) @
     (case value of JStr s \<Rightarrow> only_if (dangerous_start (py_lower s)) dangerous_scheme | _ \<Rightarrow> []))"

definition action_url_findings :: "env \<Rightarrow> string \<Rightarrow> finding list" where
  "action_url_findings E url = (case e_urlsplit E url of
       None \<Rightarrow> [private_target]
     | Some u \<Rightarrow>
         only_if (u_host u \<noteq> [] \<and> is_private_host E (u_host u)) private_target @
         only_if (u_host u \<noteq> [] \<and> strip_by (\<lambda>c. c \<in> set ''[]'') (u_host u) = ''169.254.169.254'')
           (F ''action_guard:metadata_endpoint'' 10 ''cloud metadata endpoint is not allowed''))"

definition action_pattern_findings :: "env \<Rightarrow> string \<Rightarrow> finding list" where
  "action_pattern_findings E txt = concat (map (\<lambda>(c, sev, detail).
     only_if (re_search E (''action_guard:'' @ c) txt) (F (''action_guard:'' @ c) sev detail)) dangerous_action_patterns)"

text \<open>Equal category and detail are reported once, the first time.\<close>

definition dedupe_findings :: "finding list \<Rightarrow> finding list" where
  "dedupe_findings fs = foldl (\<lambda>out f.
     if (f_category f, f_detail f) \<in> set (map (\<lambda>g. (f_category g, f_detail g)) out) then out else out @ [f]) [] fs"

definition control_text :: "env \<Rightarrow> dict \<Rightarrow> string" where
  "control_text E payload = e_render E (sort_keys (JObj payload))"

definition action_hash :: "env \<Rightarrow> dict \<Rightarrow> string" where
  "action_hash E payload = ''sha256:'' @ e_sha256 E (control_text E payload)"

definition action_guard :: "env \<Rightarrow> headers \<Rightarrow> dict \<Rightarrow> dict \<Rightarrow> action_result res" where
  "action_guard E hs payload cfg =
     bindE (extract_content E False (JObj payload)) (\<lambda>content.
     bindE (normalize_untrusted_text E content cfg) (\<lambda>(normalized, removed).
     bindE (cfg_int (cfg_section cfg ''normalize'') ''max_content_chars'' 40000) (\<lambda>limit.
     bindE (mapE (\<lambda>t. normalize_untrusted_text E t cfg) (multipart_texts (JObj payload))) (\<lambda>parts.
     let text = normalized @ newline # py_join [newline] (map fst parts);
         findings =
           only_if (0 < rm_truncated removed \<or> limit < int (length content)) inspection_limit @
           concat (map (\<lambda>(t, r). only_if (0 < rm_truncated r) inspection_limit) parts) @
           only_if (header_value hs ''X-Target-URL'' \<noteq> [])
             (F ''action_guard:caller_controlled_backend'' 10 ''X-Target-URL is not allowed'') @
           concat (map action_item_findings (all_items payload)) @
           only_if (re_search E ''DANGEROUS_URI_PATTERN'' text) dangerous_scheme @
           concat (map (action_url_findings E) (re_matches E ''URL_PATTERN'' text)) @
           action_pattern_findings E text
     in Inr \<lparr>ag_hash = action_hash E payload, ag_findings = dedupe_findings findings\<rparr>))))"

section \<open>What a route ignores\<close>

definition never_ignored :: "string list" where
  "never_ignored = [''action_guard:inspection_limit'', ''action_guard:caller_controlled_backend'',
     ''action_guard:metadata_endpoint'', ''action_guard:dangerous_uri_scheme'']"

definition route_allows_action_finding :: "env \<Rightarrow> route_decision \<Rightarrow> finding \<Rightarrow> string \<Rightarrow> bool" where
  "route_allows_action_finding E d f txt =
     (if f_category f = ''action_guard:private_network_target'' then route_allows_private_instruction_hosts E d txt
      else if f_category f = ''action_guard:secret_exfiltration'' then False
      else f_category f \<notin> set never_ignored \<and>
           f_category f \<in> set (policy_list E (route_input_policy d) ''allow_action_guard_findings''))"

definition action_key :: "finding \<Rightarrow> string" where
  "action_key f = removeprefix ''action_guard:'' (f_category f)"

definition read_only_ignores :: "route_decision \<Rightarrow> finding \<Rightarrow> bool" where
  "read_only_ignores d f \<longleftrightarrow> route_is_read_only_model (rd_route d) \<and> action_key f \<notin> set non_approvable"

definition route_action_text :: "env \<Rightarrow> dict \<Rightarrow> string res" where
  "route_action_text E payload = bindE (extract_content E False (JObj payload)) (\<lambda>content.
     Inr (py_join [newline] (content # control_text E payload # multipart_texts (JObj payload))))"

definition apply_route_action_guard_policy ::
    "env \<Rightarrow> action_result \<Rightarrow> route_decision \<Rightarrow> dict \<Rightarrow> (action_result \<times> route_decision) res" where
  "apply_route_action_guard_policy E r d payload =
     bindE (route_action_text E payload) (\<lambda>txt.
     let ignored = (\<lambda>f. read_only_ignores d f \<or> route_allows_action_finding E d f txt);
         kept = filter (\<lambda>f. \<not> ignored f) (ag_findings r)
     in if length kept = length (ag_findings r) then Inr (r, d)
        else Inr (r\<lparr>ag_findings := kept\<rparr>, d\<lparr>rd_warnings := rd_warnings d @ ignored_warnings ''route_ignored_action_finding:''
               (map (\<lambda>f. (if read_only_ignores d f then ''read_only_model:'' else []) @ f_category f)
                  (filter ignored (ag_findings r)))\<rparr>))"

section \<open>Approvals\<close>

definition approval_categories_ok :: "json \<Rightarrow> string list option" where
  \<comment> \<open>a non-empty list of non-blank strings, each stripped\<close>
  "approval_categories_ok v = (case v of
       JList l \<Rightarrow> if l \<noteq> [] \<and> list_all nonblank l then Some (map (py_strip \<circ> str_or_blank) l) else None
     | _ \<Rightarrow> None)"

definition approval_record_valid :: "env \<Rightarrow> int \<Rightarrow> dict \<Rightarrow> route_decision \<Rightarrow> verified_agent \<Rightarrow> string \<Rightarrow> string list \<Rightarrow> bool" where
  "approval_record_valid E now record d v hash required \<longleftrightarrow>
     nonblank (dget0 record ''approver_agent_id'') \<and>
     dget0 record ''target_agent_id'' = JStr (va_agent_id v) \<and>
     dget0 record ''target_route_id'' = JStr (rd_route_id d) \<and>
     dget0 record ''target_capability'' = JStr (rd_capability d) \<and>
     dget0 record ''normalized_action_hash'' = JStr hash \<and>
     (case approval_categories_ok (dget0 record ''approved_categories'') of
        None \<Rightarrow> False | Some approved \<Rightarrow> set required \<subseteq> set approved) \<and>
     (case parse_datetime E (py_str E (dget0 record ''expires_at'')) of Inl e \<Rightarrow> False | Inr t \<Rightarrow> \<not> t < now)"

definition has_approval :: "env \<Rightarrow> int \<Rightarrow> store \<Rightarrow> route_decision \<Rightarrow> verified_agent \<Rightarrow> string \<Rightarrow> string list \<Rightarrow> bool" where
  "has_approval E now approvals d v hash required = list_ex (\<lambda>j. case j of
       JObj record \<Rightarrow> approval_record_valid E now record d v hash required | _ \<Rightarrow> False) (jsonl_records E approvals)"

definition action_blocked :: exn where
  "action_blocked = GatewayError 403 ''blocked_by_action_guard''"

definition route_approvals :: "env \<Rightarrow> route_decision \<Rightarrow> string list res" where
  "route_approvals E d = (case dget (rd_route d) ''action_policy'' (JObj []) of
       JObj policy \<Rightarrow> bindE (py_iter (dget policy ''approval_required_for'' (JList []))) (\<lambda>l. Inr (map (py_str E) l))
     | _ \<Rightarrow> Inr [])"

definition enforce_action_guard :: "env \<Rightarrow> int \<Rightarrow> store \<Rightarrow> route_decision \<Rightarrow> verified_agent \<Rightarrow> action_result \<Rightarrow> unit res" where
  "enforce_action_guard E now approvals d v r =
     (if \<not> ag_blocked r then Inr ()
      else bindE (route_approvals E d) (\<lambda>approval_categories.
        let keys = map action_key (ag_findings r); found = filter (\<lambda>k. k \<in> set approvable) keys in
        thenE (raise_if (\<exists>k\<in>set keys. k \<in> set non_approvable) action_blocked)
       (thenE (raise_if (\<exists>k\<in>set keys. k \<notin> set non_approvable \<and> k \<notin> set approvable) action_blocked)
       (thenE (raise_if (found = []) action_blocked)
       (thenE (raise_if (\<not> set found \<subseteq> set approval_categories) action_blocked)
       (raise_if (\<not> has_approval E now approvals d v (ag_hash r) found) (GatewayError 403 ''approval_required'')))))))"

text \<open>
  The body of \<open>handle_approval\<close>: the checks on the payload of an approval, which give the
  approved categories, and the record that is stored.
\<close>

definition approval_required_fields :: "string list" where
  "approval_required_fields = [''approval_id'', ''target_agent_id'', ''target_route_id'', ''target_capability'',
     ''normalized_action_hash'', ''approved_by'', ''expires_at'']"

definition approval_checks :: "env \<Rightarrow> dict \<Rightarrow> verified_agent \<Rightarrow> dict \<Rightarrow> string list res" where
  "approval_checks E cfg v payload =
     thenE (raise_if (\<exists>f\<in>set approval_required_fields. \<not> nonblank (dget0 payload f)) bad_request)
    (case approval_categories_ok (dget0 payload ''approved_categories'') of
       None \<Rightarrow> Inl bad_request
     | Some approved \<Rightarrow>
        let field = (\<lambda>f. str_or_blank (dget0 payload f)) in
        thenE (raise_if (\<not> set approved \<subseteq> set approvable) bad_request)
       (thenE (raise_if (field ''target_agent_id'' = va_agent_id v) (GatewayError 403 ''self_approval_denied''))
       (case dget0 (cfg_agents cfg) (field ''target_agent_id'') of
          JObj target \<Rightarrow>
            thenE (raise_if (\<not> has_key (cfg_routes cfg) (field ''target_route_id'')) (GatewayError 404 ''unknown_route''))
           (bindE (str_items E (dget0 target ''allowed_routes'')) (\<lambda>routes.
            thenE (raise_if (field ''target_route_id'' \<notin> set routes) (GatewayError 403 ''route_denied''))
           (bindE (str_items E (dget0 target ''allowed_capabilities'')) (\<lambda>capabilities.
            thenE (raise_if (field ''target_capability'' \<notin> set capabilities) (GatewayError 403 ''capability_denied''))
           (bindE (parse_datetime E (field ''expires_at'')) (\<lambda>t. Inr (sort (remdups approved))))))))
        | _ \<Rightarrow> Inl bad_request)))"

definition approval_record :: "env \<Rightarrow> int \<Rightarrow> verified_agent \<Rightarrow> dict \<Rightarrow> string list \<Rightarrow> dict" where
  "approval_record E now v payload approved =
     [(''approval_id'', dget0 payload ''approval_id''), (''approver_agent_id'', JStr (va_agent_id v)),
      (''approver_trust_tier'', dget0 (va_agent v) ''trust_tier''), (''target_agent_id'', dget0 payload ''target_agent_id''),
      (''target_route_id'', dget0 payload ''target_route_id''), (''target_capability'', dget0 payload ''target_capability''),
      (''normalized_action_hash'', dget0 payload ''normalized_action_hash''),
      (''approved_categories'', JList (map JStr approved)), (''approved_by'', dget0 payload ''approved_by''),
      (''expires_at'', dget0 payload ''expires_at''), (''created_at'', JStr (e_isosec E now)),
      (''reason'', JStr (py_str E (dget payload ''reason'' (JStr []))))]"

section \<open>What the guard lets through\<close>

lemma approvable_not_forbidden: "k \<in> set approvable \<Longrightarrow> k \<notin> set non_approvable"
  by (auto simp: approvable_def non_approvable_def)

text \<open>C17: A request passes the action guard exactly when nothing was found, or every finding is of an
  approvable category that the route lets approvals lift and one approval, valid now for this
  agent, route, capability and action hash, covers all of them. A finding of any other category,
  approvable or not, cannot be lifted.\<close>
theorem action_guard_exact:
  "enforce_action_guard E now approvals d v r = Inr () \<longleftrightarrow>
     ag_findings r = [] \<or>
     (\<exists>cats. route_approvals E d = Inr cats \<and>
        list_all (\<lambda>f. action_key f \<in> set approvable \<and> action_key f \<in> set cats) (ag_findings r) \<and>
        (\<exists>record. JObj record \<in> set (jsonl_records E approvals) \<and>
           approval_record_valid E now record d v (ag_hash r) (map action_key (ag_findings r))))"
proof -
  let ?keys = "map action_key (ag_findings r)"
  have found: "filter (\<lambda>k. k \<in> set approvable) ?keys = ?keys" if "\<forall>f\<in>set (ag_findings r). action_key f \<in> set approvable"
    using that by (auto simp: filter_id_conv)
  have appr: "has_approval E now approvals d v (ag_hash r) req \<longleftrightarrow>
      (\<exists>record. JObj record \<in> set (jsonl_records E approvals) \<and> approval_record_valid E now record d v (ag_hash r) req)" for req
    unfolding has_approval_def list_ex_iff by (rule iffI) (force split: json.splits)+
  show ?thesis
  proof (cases "ag_findings r = [] \<or> \<not> (\<forall>f\<in>set (ag_findings r). action_key f \<in> set approvable)")
    case True
    then show ?thesis
      by (auto simp: enforce_action_guard_def list_all_iff ag_blocked_def bindE_Inr thenE_Inr raise_if_Inr Let_def)
  next
    case False
    then have all: "\<forall>f\<in>set (ag_findings r). action_key f \<in> set approvable" and ne: "ag_findings r \<noteq> []" by auto
    have n1: "\<not> (\<exists>k\<in>set ?keys. k \<in> set non_approvable)" using all approvable_not_forbidden by auto
    have n2: "\<not> (\<exists>k\<in>set ?keys. k \<notin> set non_approvable \<and> k \<notin> set approvable)" using all by auto
    have n3: "?keys \<noteq> []" using ne by simp
    have "enforce_action_guard E now approvals d v r = Inr () \<longleftrightarrow>
        (\<exists>cats. route_approvals E d = Inr cats \<and> set ?keys \<subseteq> set cats \<and> has_approval E now approvals d v (ag_hash r) ?keys)"
      unfolding enforce_action_guard_def ag_blocked_def Let_def found[OF all]
      using ne n1 n2 n3 by (simp only: not_not if_False bindE_Inr thenE_Inr raise_if_Inr) blast
    also have "\<dots> \<longleftrightarrow> (\<exists>cats. route_approvals E d = Inr cats \<and>
        (\<forall>f\<in>set (ag_findings r). action_key f \<in> set approvable \<and> action_key f \<in> set cats) \<and>
        (\<exists>record. JObj record \<in> set (jsonl_records E approvals) \<and>
           approval_record_valid E now record d v (ag_hash r) ?keys))"
      unfolding appr using all by auto
    finally show ?thesis using ne by (simp add: list_all_iff)
  qed
qed

section \<open>From the approval to the action\<close>

text \<open>What an approval grants: this agent, route, capability and hash, some categories, until a time.\<close>

definition grants :: "env \<Rightarrow> int \<Rightarrow> dict \<Rightarrow> string list \<Rightarrow> route_decision \<Rightarrow> verified_agent \<Rightarrow> string \<Rightarrow> string list \<Rightarrow> bool" where
  "grants E now payload approved d v hash required \<longleftrightarrow>
     dget0 payload ''target_agent_id'' = JStr (va_agent_id v) \<and>
     dget0 payload ''target_route_id'' = JStr (rd_route_id d) \<and>
     dget0 payload ''target_capability'' = JStr (rd_capability d) \<and>
     dget0 payload ''normalized_action_hash'' = JStr hash \<and> set required \<subseteq> set approved \<and>
     (\<exists>t. parse_datetime E (str_or_blank (dget0 payload ''expires_at'')) = Inr t \<and> now \<le> t)"

lemma approval_checks_Inr:
  assumes "approval_checks E cfg v payload = Inr approved"
  shows "\<forall>f\<in>set approval_required_fields. nonblank (dget0 payload f)"
    "dget0 payload ''target_agent_id'' \<noteq> JStr (va_agent_id v)"
    "approved \<noteq> []" "set approved \<subseteq> set approvable" "list_all (\<lambda>s. py_strip s = s \<and> s \<noteq> []) approved"
proof -
  from assms show "\<forall>f\<in>set approval_required_fields. nonblank (dget0 payload f)"
    by (auto simp: approval_checks_def thenE_Inr raise_if_Inr)
  from assms obtain l where l: "approval_categories_ok (dget0 payload ''approved_categories'') = Some l"
    and a: "approved = sort (remdups l)" "set l \<subseteq> set approvable"
    and s: "str_or_blank (dget0 payload ''target_agent_id'') \<noteq> va_agent_id v"
    by (auto simp: approval_checks_def thenE_Inr raise_if_Inr bindE_Inr Let_def split: option.splits json.splits)
  from s show "dget0 payload ''target_agent_id'' \<noteq> JStr (va_agent_id v)" by auto
  from a show "set approved \<subseteq> set approvable" by simp
  from l obtain js where js: "js \<noteq> []" "list_all nonblank js" "l = map (py_strip \<circ> str_or_blank) js"
    by (auto simp: approval_categories_ok_def split: json.splits if_splits)
  then have "set approved \<noteq> {}" by (simp add: a)
  then show "approved \<noteq> []" by auto
  from js show "list_all (\<lambda>s. py_strip s = s \<and> s \<noteq> []) approved"
    by (auto simp: a list_all_iff nonblank_def)
qed

lemma categories_ok_strings:
  "xs \<noteq> [] \<Longrightarrow> list_all (\<lambda>s. py_strip s = s \<and> s \<noteq> []) xs \<Longrightarrow> approval_categories_ok (JList (map JStr xs)) = Some xs"
  by (auto simp: approval_categories_ok_def nonblank_def list_all_iff intro!: map_idI)

lemma nonblank_str: "nonblank j \<Longrightarrow> \<exists>s. j = JStr s"
  by (cases j) (auto simp: nonblank_def)

lemma wf_dget: "wf_json (JObj d) \<Longrightarrow> wf_json (dget0 d k)"
  by (auto simp: dget_def dest!: map_of_SomeD split: option.splits)

lemma approval_record_wf:
  assumes "wf_json (JObj payload)" "wf_json (JObj (va_agent v))"
  shows "wf_json (JObj (approval_record E now v payload approved))"
  using wf_dget[OF assms(1)] wf_dget[OF assms(2)] by (simp add: approval_record_def)

lemma sorted_dget:
  "wf_json (JObj d) \<Longrightarrow> sort_keys (JObj d) = JObj s \<Longrightarrow> dget0 s k = sort_keys (dget0 d k)"
  by (auto simp: dget_def map_of_sorted_json split: option.splits)

lemma approval_record_grants:
  assumes ok: "approval_checks E cfg v payload = Inr approved"
    and wf: "wf_json (JObj payload)" "wf_json (JObj (va_agent v))" and id: "py_strip (va_agent_id v) \<noteq> []"
    and s: "sort_keys (JObj (approval_record E stored v payload approved)) = JObj record"
  shows "approval_record_valid E now record d v' hash required \<longleftrightarrow> grants E now payload approved d v' hash required"
proof -
  note f = approval_checks_Inr[OF ok]
  note get = sorted_dget[OF approval_record_wf[OF wf] s]
  have str: "sort_keys (dget0 payload k) = dget0 payload k" if k: "k \<in> set approval_required_fields" for k
    using f(1) nonblank_str that by fastforce
  obtain e where e: "dget0 payload ''expires_at'' = JStr e"
    using f(1) nonblank_str by (fastforce simp: approval_required_fields_def)
  have fields:
    "dget0 record ''approver_agent_id'' = JStr (va_agent_id v)"
    "dget0 record ''target_agent_id'' = dget0 payload ''target_agent_id''"
    "dget0 record ''target_route_id'' = dget0 payload ''target_route_id''"
    "dget0 record ''target_capability'' = dget0 payload ''target_capability''"
    "dget0 record ''normalized_action_hash'' = dget0 payload ''normalized_action_hash''"
    "dget0 record ''approved_categories'' = JList (map JStr approved)"
    "dget0 record ''expires_at'' = JStr e"
    unfolding get using str by (simp_all add: approval_record_def approval_required_fields_def e o_def)
  show ?thesis
    unfolding approval_record_valid_def grants_def fields categories_ok_strings[OF f(3,5)] e
    using id by (auto simp: nonblank_def split: sum.splits)
qed

text \<open>C18: Storing an approval grants what it names and nothing else: afterwards an action has an
  approval exactly when it had one before or the new approval names its agent, route, capability
  and action hash, covers its categories and has not expired. The categories granted are
  approvable ones, and the agent is never the approver.\<close>
theorem approval_grants_exactly:
  assumes "json_env E" "jsonl_inv approvals" "wf_json (JObj payload)" "wf_json (JObj (va_agent v))"
    and "py_strip (va_agent_id v) \<noteq> []" "approval_checks E cfg v payload = Inr approved"
  shows "(has_approval E now (append_jsonl_record E (JObj (approval_record E stored v payload approved)) approvals) d v' hash required \<longleftrightarrow>
      has_approval E now approvals d v' hash required \<or> grants E now payload approved d v' hash required) \<and>
    (grants E now payload approved d v' hash required \<longrightarrow> set required \<subseteq> set approvable \<and> va_agent_id v' \<noteq> va_agent_id v)"
proof -
  let ?r = "JObj (approval_record E stored v payload approved)"
  let ?P = "\<lambda>j. case j of JObj record \<Rightarrow> approval_record_valid E now record d v' hash required | _ \<Rightarrow> False"
  have line: "json_line_ok E ?r" using assms(1) approval_record_wf[OF assms(3,4)] by (simp add: json_env_def)
  obtain s where s: "sort_keys ?r = JObj s" by simp
  have "?P (sort_keys ?r) \<longleftrightarrow> grants E now payload approved d v' hash required"
    unfolding s using approval_record_grants[OF assms(6,3,4,5) s] by simp
  with jsonl.exists_append[OF assms(2) line, of ?P]
  have "has_approval E now (append_jsonl_record E ?r approvals) d v' hash required \<longleftrightarrow>
      has_approval E now approvals d v' hash required \<or> grants E now payload approved d v' hash required"
    by (auto simp: has_approval_def list_ex_iff)
  moreover have "set required \<subseteq> set approvable \<and> va_agent_id v' \<noteq> va_agent_id v"
    if g: "grants E now payload approved d v' hash required"
    using g approval_checks_Inr(2,4)[OF assms(6)] by (auto simp: grants_def)
  ultimately show ?thesis by blast
qed

section \<open>A concrete approval\<close>

definition demo_expiry :: string where
  "demo_expiry = replicate 5 CHR ''9'' @ replicate 20 CHR ''0''"

definition demo_approval :: dict where
  "demo_approval = [(''approval_id'', JStr ''p1''), (''target_agent_id'', JStr ''worker''), (''target_route_id'', JStr ''r''),
     (''target_capability'', JStr ''c''), (''normalized_action_hash'', JStr ''sha256:h''), (''approved_by'', JStr ''me''),
     (''expires_at'', JStr demo_expiry), (''approved_categories'', JList [JStr ''git_publish'', JStr '' delete_operation''])]"

definition demo_approval_cfg :: dict where
  "demo_approval_cfg = [(''agents'', JObj [(''worker'', JObj [(''allowed_routes'', JList [JStr ''r'']),
      (''allowed_capabilities'', JList [JStr ''c''])])]), (''routes'', JObj [(''r'', JObj [])])]"

definition demo_operator :: verified_agent where
  "demo_operator = \<lparr>va_agent_id = ''op'', va_agent = [], va_principal = [], va_bound_run_id = []\<rparr>"

definition demo_worker :: verified_agent where
  "demo_worker = \<lparr>va_agent_id = ''worker'', va_agent = [], va_principal = [], va_bound_run_id = []\<rparr>"

lemma demo_expiry_time: "parse_datetime demo_env demo_expiry = Inr 5"
proof -
  have "py_strip demo_expiry = demo_expiry" "\<not> suffix ''Z'' demo_expiry" "length demo_expiry = 25"
    "length (takeWhile (\<lambda>c. c = CHR ''9'') demo_expiry) = 5" by code_simp+
  then show ?thesis by (simp add: parse_datetime_def demo_env_def)
qed

lemma demo_approval_checks:
  "approval_checks demo_env demo_approval_cfg demo_operator demo_approval = Inr [''delete_operation'', ''git_publish'']"
proof -
  have f: "\<not> (\<exists>f\<in>set approval_required_fields. \<not> nonblank (dget0 demo_approval f))" by code_simp
  have c: "approval_categories_ok (dget0 demo_approval ''approved_categories'') = Some [''git_publish'', ''delete_operation'']"
    by code_simp
  have a: "set [''git_publish'', ''delete_operation''] \<subseteq> set approvable" by code_simp
  have s: "sort (remdups [''git_publish'', ''delete_operation'']) = [''delete_operation'', ''git_publish'']" by code_simp
  show ?thesis unfolding approval_checks_def c using f a
    by (simp only: option.case raise_if_simps thenE_simps Let_def not_not)
      (simp add: demo_approval_def demo_operator_def demo_approval_cfg_def cfg_agents_def cfg_routes_def py_or_def
        str_items_def demo_expiry_time s)
qed

theorem approval_grants_exactly_witness:
  "has_approval demo_env 5 (append_jsonl_record demo_env (JObj (approval_record demo_env 0 demo_operator demo_approval
       [''delete_operation'', ''git_publish''])) None) (demo_route []) demo_worker ''sha256:h'' [''git_publish'']"
proof -
  have g: "grants demo_env 5 demo_approval [''delete_operation'', ''git_publish''] (demo_route []) demo_worker ''sha256:h'' [''git_publish'']"
    by (simp add: grants_def demo_approval_def demo_worker_def demo_route_def demo_expiry_time)
  have w: "wf_json (JObj demo_approval)" "wf_json (JObj (va_agent demo_operator))" "jsonl_inv None"
    "py_strip (va_agent_id demo_operator) \<noteq> []"
    by (simp_all add: demo_approval_def demo_operator_def jsonl_inv_def file_text_def) code_simp
  from approval_grants_exactly[OF demo_json_env w(3,1,2,4) demo_approval_checks] g show ?thesis by blast
qed


end
