(* ===== verification/Output_Guard.thy ===== *)
theory Output_Guard
  imports Input_Policy
begin

text \<open>
  What a backend may answer: the egress scan of proxy.py (\<open>scan_output_text\<close> with its URL
  policy, \<open>output_guard_scan_for_upstream\<close>), and the output guard of gateway.py with the
  steps that relax its findings (\<open>relax_untrusted_tool_result\<close>,
  \<open>relax_fetch_action_url_query\<close>, the snippet check) and the JSON shape check.
\<close>

section \<open>Effective configuration\<close>

text \<open>\<open>deep_update\<close>: objects are merged, anything else replaced.\<close>

lemma size_pairs_le: "size_list (\<lambda>p. size (snd p)) d \<le> size_list (size_prod (\<lambda>x. 0) size) d"
  by (induction d) (auto simp: size_prod_simp)

function deep_update :: "dict \<Rightarrow> dict \<Rightarrow> dict" where
  "deep_update base [] = base"
| "deep_update base ((k, v) # new) = deep_update
     (case v of
        JObj ob \<Rightarrow> (case map_of base k of
            Some (JObj b) \<Rightarrow> AList.update k (JObj (deep_update b ob)) base
          | _ \<Rightarrow> AList.update k v base)
      | _ \<Rightarrow> AList.update k v base) new"
  by pat_completeness auto

termination
  by (relation "measure (\<lambda>(base, new). size_list (\<lambda>p. size (snd p)) new)")
    (auto intro: le_less_trans[OF size_pairs_le] le_trans[OF size_pairs_le])

text \<open>\<open>capability_policy\<close>: the default policy with the one of the capability over it.\<close>

definition capability_policy :: "dict \<Rightarrow> string \<Rightarrow> dict" where
  "capability_policy cfg capability = (case py_or (dget0 cfg ''capabilities'') (JObj []) of
       JObj policies \<Rightarrow>
         let merged = (case dget0 policies ''_default'' of JObj p \<Rightarrow> deep_update [] p | _ \<Rightarrow> [])
         in (case dget0 policies capability of JObj p \<Rightarrow> deep_update merged p | _ \<Rightarrow> merged)
     | _ \<Rightarrow> [])"

definition output_guard_cfg :: "dict \<Rightarrow> dict" where
  "output_guard_cfg cfg = cfg_section cfg ''output_guard''"

definition url_policy_flags :: "string \<Rightarrow> dict" where
  "url_policy_flags url_policy =
     (if url_policy = ''no_query_no_fragment''
      then [(''disallow_url_query'', JBool True), (''disallow_url_fragment'', JBool True), (''block_all_urls'', JBool False)]
      else if url_policy = ''public_web''
      then [(''disallow_url_query'', JBool False), (''disallow_url_fragment'', JBool False), (''block_all_urls'', JBool False)]
      else if url_policy = ''block_all'' then [(''block_all_urls'', JBool True)] else [])"

definition output_guard_config_for_capability :: "env \<Rightarrow> dict \<Rightarrow> string option \<Rightarrow> dict" where
  "output_guard_config_for_capability E cfg capability =
     (let guard = output_guard_cfg cfg;
          policy = (case capability of None \<Rightarrow> [] | Some c \<Rightarrow> if c = [] then [] else capability_policy cfg c);
          url_policy = py_str E (dget policy ''output_url_policy''
             (dget guard ''output_url_policy'' (JStr ''no_query_no_fragment'')));
          domains = dget policy ''allowed_domains'' (dget guard ''allowed_domains'' (JList []));
          guard = set_fields (AList.update ''output_url_policy'' (JStr url_policy) guard) (url_policy_flags url_policy);
          guard = (if is_list domains then AList.update ''allowed_domains'' domains guard else guard)
      in AList.update ''output_guard'' (JObj guard) cfg)"

definition output_normalize_config :: "dict \<Rightarrow> dict res" where
  "output_normalize_config cfg =
     (let guard = output_guard_cfg cfg in
      bindE (py_int (dget guard ''max_content_chars'' (dget (cfg_section cfg ''normalize'') ''max_content_chars'' (JInt 40000)))) (\<lambda>n.
        Inr (AList.update ''normalize'' (JObj
          [(''unicode_nfkc'', JBool (flag guard ''unicode_nfkc'' True)),
           (''strip_format_chars'', JBool (flag guard ''strip_format_chars'' True)),
           (''strip_control_chars'', JBool (flag guard ''strip_control_chars'' True)),
           (''strip_html_comments'', JBool True), (''max_content_chars'', JInt n)]) cfg)))"

text \<open>\<open>int(guard.get(key, cfg.get(key, default)))\<close>\<close>

definition guard_threshold :: "dict \<Rightarrow> string \<Rightarrow> int \<Rightarrow> int res" where
  "guard_threshold cfg key dflt = py_int (dget (output_guard_cfg cfg) key (dget cfg key (JInt dflt)))"

section \<open>URLs in the output\<close>

definition rstrip_dots :: "string \<Rightarrow> string" where
  "rstrip_dots s = rev (dropWhile (\<lambda>c. c = CHR ''.'') (rev s))"

definition host_matches_allowed_domain :: "string \<Rightarrow> string \<Rightarrow> bool" where
  "host_matches_allowed_domain host0 domain =
     (let host = rstrip_dots (py_lower host0); allowed = rstrip_dots (py_strip (py_lower domain));
          under = (\<lambda>s. host = s \<or> suffix (CHR ''.'' # s) host)
      in if allowed = [] then False
         else if prefix ''*.'' allowed then under (drop 2 allowed)
         else if prefix ''.'' allowed then under (drop 1 allowed)
         else host = allowed)"

definition host_allowed_by_policy :: "env \<Rightarrow> string \<Rightarrow> json list \<Rightarrow> bool" where
  "host_allowed_by_policy E host domains \<longleftrightarrow>
     domains = [] \<or> list_ex (\<lambda>d. host_matches_allowed_domain host (py_str E d)) domains"

definition domain_denied :: "env \<Rightarrow> dict \<Rightarrow> string \<Rightarrow> bool" where
  "domain_denied E guard host = (case py_or (dget0 guard ''allowed_domains'') (JList []) of
       JList domains \<Rightarrow> host \<noteq> [] \<and> \<not> host_allowed_by_policy E host domains | _ \<Rightarrow> False)"

definition url_policy_findings :: "env \<Rightarrow> dict \<Rightarrow> string \<Rightarrow> string \<Rightarrow> finding list res" where
  "url_policy_findings E cfg pfx url = (case e_urlsplit E url of
       None \<Rightarrow> Inr [malformed_url pfx]
     | Some u \<Rightarrow>
         let guard = output_guard_cfg cfg; host = py_lower (u_host u); bare = strip_by (\<lambda>c. c \<in> set ''[]'') host in
         bindE (py_iter (dget guard ''shortener_hosts'' (JList []))) (\<lambda>shorteners. Inr (
           only_if (flag guard ''block_all_urls'' False) (F (pfx @ '':url_blocked'') 8 ''URL output is disallowed by capability policy'') @
           only_if (domain_denied E guard host) (F (pfx @ '':domain_not_allowed'') 8 ''URL host is not allowed by capability policy'') @
           only_if (flag guard ''disallow_userinfo'' True \<and> has_userinfo u)
             (F (pfx @ '':url_userinfo'') 8 ''URL contains userinfo, which can hide destination or credentials'') @
           only_if (u_query u \<noteq> [] \<and> re_search E ''SENSITIVE_QUERY_PATTERN'' (u_query u))
             (F (pfx @ '':url_sensitive_query'') 8 ''URL query string contains sensitive-looking parameters'') @
           only_if (flag guard ''disallow_url_query'' True \<and> u_query u \<noteq> [])
             (F (pfx @ '':url_query'') 8 ''URL query string is disallowed on egress'') @
           only_if (flag guard ''disallow_url_fragment'' True \<and> u_fragment u \<noteq> [])
             (F (pfx @ '':url_fragment'') 5 ''URL fragment is disallowed on egress'') @
           only_if (flag guard ''flag_punycode_hosts'' True \<and> substring ''xn--'' host)
             (F (pfx @ '':punycode_host'') 5 ''URL host uses punycode and requires review'') @
           only_if (flag guard ''flag_shorteners'' True \<and> host \<in> set (map (\<lambda>s. py_lower (py_str E s)) shorteners))
             (F (pfx @ '':url_shortener'') 5 ''URL shortener is disallowed or requires review'') @
           (if e_is_ip E bare
            then only_if (flag guard ''disallow_ip_literals'' True) (F (pfx @ '':ip_literal'') 8 ''URL uses an IP literal destination'') @
                 only_if (flag guard ''disallow_private_hosts'' True \<and> e_nonpublic E bare)
                   (F (pfx @ '':private_host'') 8 ''URL targets a private, loopback, or non-public address'')
            else only_if (flag guard ''disallow_private_hosts'' True \<and> host \<in> set localhost_names)
                   (F (pfx @ '':private_host'') 8 ''URL targets localhost'')) @
           (if flag guard ''flag_encoded_paths'' True
            then only_if (4 \<le> percent_codes (u_path u)) (F (pfx @ '':encoded_path'') 5 ''URL path contains heavy percent-encoding'') @
                 only_if (token_path (u_path u)) (F (pfx @ '':high_entropy_path'') 5 ''URL path contains a long token-like segment'')
            else []))))"

section \<open>Scanning the output\<close>

definition is_scan_limit :: "finding \<Rightarrow> bool" where
  "is_scan_limit f \<longleftrightarrow> f_category f = ''boundary:scan_limit''"

definition unguarded_scan :: "env \<Rightarrow> string \<Rightarrow> string \<times> removed_chars \<Rightarrow> scan_result" where
  \<comment> \<open>the result when the output guard is off\<close>
  "unguarded_scan E txt = (\<lambda>(t, removed). \<lparr>s_original = e_sha256 E txt, s_normalized = e_sha256 E t, s_text = t, s_removed = removed,
     s_findings = [], s_score = 0, s_blocked = False, s_review = False, s_checks = [], s_relaxed = []\<rparr>)"

definition output_findings :: "env \<Rightarrow> dict \<Rightarrow> string \<Rightarrow> finding list res" where
  "output_findings E cfg t =
     (let guard = output_guard_cfg cfg in
      bindE (mapE (url_policy_findings E cfg ''output_dlp'') (re_matches E ''URL_PATTERN'' t)) (\<lambda>urls. Inr (
        only_if (flag guard ''disallow_dangerous_schemes'' True \<and> re_search E ''DANGEROUS_URI_PATTERN'' t)
          (F ''output_dlp:dangerous_uri_scheme'' 8 ''dangerous URI scheme is disallowed on egress'') @
        only_if (flag guard ''block_local_paths'' True \<and> re_search E ''LOCAL_PATH_PATTERN'' t)
          (F ''output_dlp:local_path'' 8 ''local filesystem path is disallowed on egress'') @
        only_if (re_search E ''SYSTEM_DISCLOSURE_PATTERN'' t)
          (F ''output_dlp:system_disclosure'' 8 ''internal prompt, config, or traceback reference is disallowed on egress'') @
        concat urls)))"

text \<open>Score and judgment of a list of findings against the thresholds of the output guard.\<close>

definition rejudge :: "dict \<Rightarrow> bool \<Rightarrow> finding list \<Rightarrow> scan_result \<Rightarrow> scan_result res" where
  "rejudge cfg blocked fs scan =
     bindE (if blocked then Inr 0 else guard_threshold cfg ''block_risk_score'' 8) (\<lambda>block_at.
     bindE (guard_threshold cfg ''review_risk_score'' 4) (\<lambda>review_at.
       Inr (scan\<lparr>s_findings := fs, s_score := score fs, s_blocked := blocked \<or> block_at \<le> score fs,
                 s_review := review_at \<le> score fs\<rparr>)))"

definition scan_output_text :: "env \<Rightarrow> string \<Rightarrow> dict \<Rightarrow> string option \<Rightarrow> scan_result res" where
  "scan_output_text E txt cfg capability =
     (let eff = output_guard_config_for_capability E cfg capability in
      if \<not> flag (output_guard_cfg eff) ''enabled'' True
      then bindE (normalize_untrusted_text E txt eff) (\<lambda>n. Inr (unguarded_scan E txt n))
      else bindE (output_normalize_config eff) (\<lambda>ncfg.
           bindE (scan_text E txt ncfg) (\<lambda>scan.
           bindE (output_findings E eff (s_text scan)) (\<lambda>extra.
             rejudge eff (list_ex is_scan_limit (s_findings scan)) (s_findings scan @ extra) scan))))"

fun merge_output_texts :: "env \<Rightarrow> dict \<Rightarrow> string option \<Rightarrow> dict \<Rightarrow> string list \<Rightarrow> scan_result \<Rightarrow> scan_result res" where
  "merge_output_texts E cfg capability thresholds [] scan = Inr scan"
| "merge_output_texts E cfg capability thresholds (t # ts) scan =
     bindE (scan_output_text E t cfg capability) (\<lambda>extra.
     bindE (merge_scan_results scan extra thresholds) (\<lambda>scan. merge_output_texts E cfg capability thresholds ts scan))"

definition output_guard_scan_for_upstream :: "env \<Rightarrow> dict \<Rightarrow> dict \<Rightarrow> string option \<Rightarrow> scan_result res" where
  "output_guard_scan_for_upstream E upstream cfg capability =
     bindE (scan_output_text E (complete_text E (JObj upstream)) cfg capability) (\<lambda>scan.
     let eff = output_guard_config_for_capability E cfg capability in
     if \<not> flag (output_guard_cfg eff) ''enabled'' True then Inr scan
     else merge_output_texts E cfg capability (set_fields eff (output_guard_cfg eff)) (multipart_texts (JObj upstream)) scan)"

definition proxy_output_guard_blocks :: "scan_result \<Rightarrow> dict \<Rightarrow> bool" where
  "proxy_output_guard_blocks scan cfg \<longleftrightarrow> flag (output_guard_cfg cfg) ''enabled'' True \<and>
     (s_blocked scan \<or> s_review scan \<and> flag (output_guard_cfg cfg) ''block_on_review'' True)"

section \<open>The text of a chat completion\<close>

definition control_chunks :: "env \<Rightarrow> dict \<Rightarrow> string list" where
  "control_chunks E message = concat (map (\<lambda>f. if has_key message f
     then [''[backend_control:'' @ f @ '']'', e_render E (sort_keys (dget0 message f))] else []) [''tool_calls'', ''function_call''])"

definition choice_chunks :: "env \<Rightarrow> json \<Rightarrow> string list res" where
  "choice_chunks E choice = (case choice of
       JObj c \<Rightarrow> (case dget0 c ''message'' of
           JObj m \<Rightarrow> bindE (content_to_text E (dget0 m ''content'')) (\<lambda>t.
             Inr (only_if (t \<noteq> []) t @ control_chunks E m))
         | _ \<Rightarrow> Inr (only_if (has_key c ''text'') (py_str E (dget c ''text'' (JStr [])))))
     | _ \<Rightarrow> Inr [])"

definition extract_openai_response_text :: "env \<Rightarrow> dict \<Rightarrow> string res" where
  "extract_openai_response_text E payload =
     bindE (mapE (choice_chunks E) (case dget0 payload ''choices'' of JList cs \<Rightarrow> cs | _ \<Rightarrow> [])) (\<lambda>chunks.
       Inr (if concat chunks = [] then e_render E (sort_keys (JObj payload)) else py_join [newline] (concat chunks)))"

section \<open>Relaxing findings\<close>

definition tool_result_relaxable :: "string list" where
  "tool_result_relaxable = [p @ '':'' @ n. p \<leftarrow> [''input_dlp'', ''output_dlp''],
     n \<leftarrow> [''private_host'', ''high_entropy_path'', ''encoded_path'', ''url_query'', ''url_fragment'', ''punycode_host'',
           ''url_shortener'', ''local_path'']]"

definition policy_flag :: "route_decision \<Rightarrow> string \<Rightarrow> bool" where
  \<comment> \<open>\<open>output_policy.get(key) is True\<close>\<close>
  "policy_flag d key = (case dget0 (rd_route d) ''output_policy'' of JObj p \<Rightarrow> dget0 p key = JBool True | _ \<Rightarrow> False)"

definition relax_untrusted_tool_result :: "env \<Rightarrow> dict \<Rightarrow> route_decision \<Rightarrow> scan_result \<Rightarrow> scan_result res" where
  "relax_untrusted_tool_result E cfg d scan =
     (if \<not> policy_flag d ''untrusted_tool_result'' \<or> dget0 (rd_route d) ''kind'' \<noteq> JStr ''http_json'' then Inr scan
      else let dropped = filter (\<lambda>f. f_category f \<in> set tool_result_relaxable) (s_findings scan);
               kept = filter (\<lambda>f. f_category f \<notin> set tool_result_relaxable) (s_findings scan)
      in if dropped = [] then Inr scan
         else rejudge (output_guard_config_for_capability E cfg None) (list_ex is_scan_limit kept) kept
                (scan\<lparr>s_relaxed := sort (remdups (map f_category dropped))\<rparr>))"

definition fetch_hosts_of :: "env \<Rightarrow> dict \<Rightarrow> store \<Rightarrow> string \<Rightarrow> json list res" where
  "fetch_hosts_of E cfg runs run_id = (case map_option fst (resolve_run_scope_record E cfg runs run_id) of
       Some (JObj record) \<Rightarrow> py_iter (py_or (dget0 record ''fetch_hosts'') (JList []))
     | _ \<Rightarrow> Inr [])"

text \<open>The action of a model reply: exactly a fetch of a URL, with no key twice anywhere.\<close>

definition fetch_action_url :: "env \<Rightarrow> string \<Rightarrow> string option" where
  "fetch_action_url E t = (case e_pairs E t of
       Some (JObj a) \<Rightarrow>
         if wf_json (JObj a) \<and> set (map fst a) = {''action'', ''url''} \<and> dget0 a ''action'' = JStr ''fetch''
         then (case dget0 a ''url'' of JStr u \<Rightarrow> Some u | _ \<Rightarrow> None) else None
     | _ \<Rightarrow> None)"

text \<open>\<open>urllib.parse.urlsplit\<close> where its \<open>ValueError\<close> is not caught.\<close>

definition urlsplit :: "env \<Rightarrow> string \<Rightarrow> parsed_url res" where
  "urlsplit E url = (case e_urlsplit E url of None \<Rightarrow> Inl (PyError ''ValueError'') | Some u \<Rightarrow> Inr u)"

definition fetch_url_ok :: "json list \<Rightarrow> parsed_url \<Rightarrow> bool res" where
  "fetch_url_ok hosts u =
     (if u_scheme u \<noteq> ''https'' \<or> u_userinfo u then Inr False
      else case u_port u of
        None \<Rightarrow> Inl (PyError ''ValueError'')
      | Some p \<Rightarrow> Inr (p \<in> {None, Some 443} \<and> JStr (u_host u) \<in> set hosts))"

definition query_urls :: "env \<Rightarrow> string \<Rightarrow> string list res" where
  "query_urls E t = bindE (mapE (\<lambda>url. bindE (urlsplit E url) (\<lambda>u. Inr (url, u_query u \<noteq> []))) (re_matches E ''URL_PATTERN'' t)) (\<lambda>l.
     Inr (map fst (filter snd l)))"

definition is_url_query :: "finding \<Rightarrow> bool" where
  "is_url_query f \<longleftrightarrow> f_category f = ''output_dlp:url_query''"

definition drop_url_query :: "dict \<Rightarrow> scan_result \<Rightarrow> scan_result res" where
  "drop_url_query cfg scan = (let kept = filter (\<lambda>f. \<not> is_url_query f) (s_findings scan) in
     rejudge cfg (list_ex is_scan_limit kept) kept scan)"

definition relax_fetch_action_url_query :: "env \<Rightarrow> dict \<Rightarrow> store \<Rightarrow> route_decision \<Rightarrow> dict \<Rightarrow> scan_result \<Rightarrow> scan_result res" where
  "relax_fetch_action_url_query E cfg runs d payload scan =
     (if \<not> policy_flag d ''allow_fetch_query_to_run_hosts'' \<or> rd_run_id d \<in> {None, Some []} \<or>
         \<not> list_ex is_url_query (s_findings scan) then Inr scan
      else bindE (fetch_hosts_of E cfg runs (the (rd_run_id d))) (\<lambda>hosts.
        if hosts = [] then Inr scan
        else bindE (extract_openai_response_text E payload) (\<lambda>reply.
          case fetch_action_url E (py_strip (re_sub E ''THINK_PATTERN'' [] reply)) of
            None \<Rightarrow> Inr scan
          | Some url \<Rightarrow>
              bindE (bindE (urlsplit E url) (fetch_url_ok hosts)) (\<lambda>ok.
                if \<not> ok then Inr scan
                else bindE (query_urls E (s_text scan)) (\<lambda>urls.
                  if urls = [] \<or> (\<exists>u\<in>set urls. u \<noteq> url) then Inr scan else drop_url_query cfg scan)))))"

section \<open>The output guard of the gateway\<close>

definition not_json_object :: finding where
  "not_json_object = F ''output_guard:not_json_object'' 8 ''route requires a JSON object output''"

definition is_chat :: "route_decision \<Rightarrow> bool" where
  "is_chat d \<longleftrightarrow> dget0 (rd_route d) ''kind'' = JStr ''openai_chat_completions''"

definition json_object_check :: "env \<Rightarrow> dict \<Rightarrow> route_decision \<Rightarrow> dict \<Rightarrow> scan_result \<Rightarrow> scan_result res" where
  "json_object_check E cfg d payload scan = (case dget (rd_route d) ''output_policy'' (JObj []) of
       JObj policy \<Rightarrow>
         if \<not> truthy (dget0 policy ''require_json_object'') then Inr scan
         else bindE (if is_chat d
                     then bindE (extract_openai_response_text E payload) (\<lambda>t.
                       Inr (case e_loads E t of Some j \<Rightarrow> is_dict j | None \<Rightarrow> False))
                     else Inr True) (\<lambda>ok.
           rejudge cfg (s_blocked scan) (s_findings scan @ only_if (\<not> ok) not_json_object) scan)
     | _ \<Rightarrow> Inr scan)"

definition output_guard_scan :: "env \<Rightarrow> dict \<Rightarrow> store \<Rightarrow> route_decision \<Rightarrow> dict \<Rightarrow> scan_result res" where
  \<comment> \<open>\<open>enforce_output_guard\<close> after its canary check\<close>
  "output_guard_scan E cfg runs d payload =
     bindE (output_guard_scan_for_upstream E payload cfg None) (\<lambda>scan.
     bindE (relax_untrusted_tool_result E cfg d scan) (\<lambda>scan.
     bindE (if is_chat d
            then bindE (relax_fetch_action_url_query E cfg runs d payload scan) (apply_snippet_check E cfg True)
            else Inr scan) (\<lambda>scan.
       json_object_check E cfg d payload scan)))"

definition enforce_output_guard :: "env \<Rightarrow> int \<Rightarrow> dict \<Rightarrow> route_decision \<Rightarrow> dict \<Rightarrow> (world, scan_result) act" where
  "enforce_output_guard E now cfg d payload =
     thenA (enforce_canary E now cfg (JObj payload) None ''backend'' ''backend_response'')
           (getsA (\<lambda>w. output_guard_scan E cfg (g_runs w) d payload))"

definition output_guard_blocks :: "scan_result \<Rightarrow> dict \<Rightarrow> route_decision \<Rightarrow> bool" where
  "output_guard_blocks scan cfg d =
     (if s_blocked scan then True
      else if (case dget (rd_route d) ''output_policy'' (JObj []) of
                 JObj p \<Rightarrow> dget0 p ''block_on_review'' = JBool False | _ \<Rightarrow> False) then False
      else proxy_output_guard_blocks scan cfg)"

section \<open>Relaxing steps keep what is protected\<close>

text \<open>
  A finding is protected by a configuration when no relaxing step may drop or lower its
  category and its severity alone reaches every threshold in use; a scan is guarded when it
  is blocked with a protected finding in it.
\<close>

definition protected_finding :: "dict \<Rightarrow> finding \<Rightarrow> bool" where
  "protected_finding cfg f \<longleftrightarrow> f_category f \<notin> set tool_result_relaxable \<and> \<not> is_url_query f \<and> \<not> may_lower True (f_category f) \<and>
     (\<forall>b. guard_threshold cfg ''block_risk_score'' 8 = Inr b \<or> cfg_int cfg ''block_risk_score'' 8 = Inr b \<longrightarrow> b \<le> f_severity f)"

definition nonneg :: "finding list \<Rightarrow> bool" where
  "nonneg fs \<longleftrightarrow> (\<forall>f\<in>set fs. 0 \<le> f_severity f)"

definition guarded :: "dict \<Rightarrow> scan_result \<Rightarrow> bool" where
  "guarded cfg s \<longleftrightarrow> s_blocked s \<and> nonneg (s_findings s) \<and> (\<exists>f\<in>set (s_findings s). protected_finding cfg f)"

locale scan_step =
  fixes step :: "scan_result \<Rightarrow> scan_result res" and cfg :: dict
  assumes keeps: "step s = Inr t \<Longrightarrow> guarded cfg s \<Longrightarrow> guarded cfg t"
begin

lemma sequence:
  assumes "scan_step after cfg"
  shows "scan_step (\<lambda>s. bindE (step s) after) cfg"
  using assms keeps by (auto simp: scan_step_def bindE_Inr)

end

lemma severity_le_score: "nonneg fs \<Longrightarrow> f \<in> set fs \<Longrightarrow> f_severity f \<le> score fs"
proof (induction fs)
  case (Cons g fs)
  have "0 \<le> score fs" unfolding score_def
    by (rule sum_list_nonneg) (use Cons.prems(1) in \<open>auto simp: nonneg_def\<close>)
  moreover have "nonneg fs" using Cons.prems(1) by (simp add: nonneg_def)
  ultimately show ?case using Cons by (auto simp: score_def nonneg_def)
qed simp

lemma rejudge_guarded:
  assumes "rejudge cfg' b fs s = Inr t" "nonneg fs" "f \<in> set fs" "protected_finding cfg f"
    and "guard_threshold cfg' ''block_risk_score'' 8 = guard_threshold cfg ''block_risk_score'' 8"
  shows "guarded cfg t"
proof -
  from severity_le_score[OF assms(2,3)] assms(1,4,5) have "s_blocked t" "s_findings t = fs"
    by (fastforce simp: rejudge_def bindE_Inr protected_finding_def split: if_splits)+
  with assms(2-4) show ?thesis by (auto simp: guarded_def)
qed

lemma dget_url_flags:
  "k \<notin> {''disallow_url_query'', ''disallow_url_fragment'', ''block_all_urls''} \<Longrightarrow>
     dget (set_fields d (url_policy_flags p)) k v = dget d k v"
  by (simp add: url_policy_flags_def set_fields_def)

lemma output_guard_effective:
  "k \<notin> {''disallow_url_query'', ''disallow_url_fragment'', ''block_all_urls'', ''output_url_policy'', ''allowed_domains''} \<Longrightarrow>
     dget (output_guard_cfg (output_guard_config_for_capability E cfg c)) k v = dget (output_guard_cfg cfg) k v"
  unfolding output_guard_config_for_capability_def Let_def output_guard_cfg_def[of "AList.update _ _ _"] cfg_section_def
  by (simp add: dget_url_flags)

lemma guard_threshold_effective:
  "guard_threshold (output_guard_config_for_capability E cfg c) ''block_risk_score'' 8 = guard_threshold cfg ''block_risk_score'' 8"
proof -
  have "dget (output_guard_config_for_capability E cfg c) ''block_risk_score'' v = dget cfg ''block_risk_score'' v" for v
    by (simp add: output_guard_config_for_capability_def Let_def)
  then show ?thesis by (simp add: guard_threshold_def output_guard_effective)
qed

interpretation tool_result: scan_step "relax_untrusted_tool_result E cfg d" cfg for E cfg d
proof
  fix s t assume step: "relax_untrusted_tool_result E cfg d s = Inr t" and g: "guarded cfg s"
  let ?kept = "filter (\<lambda>f. f_category f \<notin> set tool_result_relaxable) (s_findings s)"
  from g obtain f where f: "f \<in> set ?kept" "protected_finding cfg f" and n: "nonneg ?kept"
    by (auto simp: guarded_def protected_finding_def nonneg_def)
  from step g show "guarded cfg t"
    by (auto simp: relax_untrusted_tool_result_def Let_def split: if_splits
        intro: rejudge_guarded[OF _ n f guard_threshold_effective])
qed

interpretation fetch_query: scan_step "relax_fetch_action_url_query E cfg runs d payload" cfg for E cfg runs d payload
proof
  fix s t assume step: "relax_fetch_action_url_query E cfg runs d payload s = Inr t" and g: "guarded cfg s"
  let ?kept = "filter (\<lambda>f. \<not> is_url_query f) (s_findings s)"
  from g obtain f where f: "f \<in> set ?kept" "protected_finding cfg f" and n: "nonneg ?kept"
    by (auto simp: guarded_def protected_finding_def nonneg_def)
  have "t = s \<or> drop_url_query cfg s = Inr t"
    using step by (auto simp: relax_fetch_action_url_query_def bindE_Inr split: if_splits option.splits)
  with g show "guarded cfg t"
    by (auto simp: drop_url_query_def Let_def intro: rejudge_guarded[OF _ n f refl])
qed

lemma lowered_kept:
  assumes "f \<in> set fs" "\<not> may_lower True (f_category f)" "\<forall>g\<in>L. may_lower True (f_category g)"
  shows "f \<in> set (map (\<lambda>f. if f \<in> L then lower f else f) fs)"
  using assms by (force simp: image_iff)

interpretation snippet: scan_step "apply_snippet_check E cfg True" cfg for E cfg
proof
  fix s t assume step: "apply_snippet_check E cfg True s = Inr t" and g: "guarded cfg s"
  from g obtain f where f: "f \<in> set (s_findings s)" "protected_finding cfg f" and n: "nonneg (s_findings s)"
    by (auto simp: guarded_def)
  show "guarded cfg t"
  proof (cases "s_findings t = s_findings s \<and> s_blocked t = s_blocked s")
    case True
    with g show ?thesis by (simp add: guarded_def)
  next
    case False
    with snippet_check_lowers[OF step] obtain L block_at where
      L: "\<forall>g\<in>L. may_lower True (f_category g)"
      and t: "s_findings t = map (\<lambda>f. if f \<in> L then lower f else f) (s_findings s)" "s_score t = score (s_findings t)"
      "cfg_int cfg ''block_risk_score'' 8 = Inr block_at" "s_blocked t = (block_at \<le> s_score t)"
      by blast
    have ft: "f \<in> set (s_findings t)" unfolding t(1) using lowered_kept[OF f(1) _ L] f(2) by (simp add: protected_finding_def)
    have nt: "nonneg (s_findings t)" using n by (auto simp: nonneg_def t(1) lower_def F_def)
    have "block_at \<le> f_severity f" using f(2) t(3) by (simp add: protected_finding_def)
    with severity_le_score[OF nt ft] t(2,4) have "s_blocked t" by linarith
    with ft nt f(2) show ?thesis by (auto simp: guarded_def)
  qed
qed

interpretation json_object: scan_step "json_object_check E cfg d payload" cfg for E cfg d payload
proof
  fix s t assume step: "json_object_check E cfg d payload s = Inr t" and g: "guarded cfg s"
  from g obtain f where f: "f \<in> set (s_findings s)" "protected_finding cfg f" and n: "nonneg (s_findings s)"
    by (auto simp: guarded_def)
  have n': "nonneg (s_findings s @ only_if b not_json_object)" for b
    using n by (auto simp: nonneg_def only_if_def not_json_object_def F_def)
  have f': "f \<in> set (s_findings s @ only_if b not_json_object)" for b using f(1) by simp
  from step g show "guarded cfg t"
    by (auto simp: json_object_check_def bindE_Inr split: json.splits if_splits
        intro: rejudge_guarded[OF _ n' f' f(2) refl])
qed

section \<open>Every scan is honest about protected findings\<close>

lemma nonneg_simps [simp]:
  "nonneg []" "nonneg (f # fs) \<longleftrightarrow> 0 \<le> f_severity f \<and> nonneg fs" "nonneg (fs @ gs) \<longleftrightarrow> nonneg fs \<and> nonneg gs"
  "nonneg (only_if b f) \<longleftrightarrow> (b \<longrightarrow> 0 \<le> f_severity f)" "nonneg (concat (map h xs)) \<longleftrightarrow> (\<forall>x\<in>set xs. nonneg (h x))"
  "nonneg (concat fss) \<longleftrightarrow> (\<forall>fs\<in>set fss. nonneg fs)" "f_severity (F c v t) = v"
  by (auto simp: nonneg_def only_if_def F_def)

lemma nonneg_table: "\<forall>(n, v)\<in>set table. 0 \<le> v \<Longrightarrow> nonneg (table_findings E p table t x)"
  by (auto simp: table_findings_def)

lemma tables_nonneg:
  "\<forall>(n, v)\<in>set secret_patterns. 0 \<le> v" "\<forall>(n, v)\<in>set prompt_injection_patterns. 0 \<le> v"
  "\<forall>(n, v)\<in>set obfuscation_patterns. 0 \<le> v"
  by (simp_all add: secret_patterns_def prompt_injection_patterns_def obfuscation_patterns_def)

lemma nonneg_untrusted_url: "nonneg (untrusted_url_findings E p u)"
  by (simp add: untrusted_url_findings_def malformed_url_def Let_def split: option.split)

lemma nonneg_text_findings: "nonneg (text_findings E b r t)"
  by (simp add: text_findings_def nonneg_untrusted_url nonneg_table[OF tables_nonneg(1)] nonneg_table[OF tables_nonneg(2)]
      nonneg_table[OF tables_nonneg(3)] Let_def)

lemma nonneg_scan_text: "scan_text E t cfg = Inr s \<Longrightarrow> nonneg (s_findings s)"
  using nonneg_text_findings by (auto simp: scan_text_def bindE_Inr Let_def)

lemma nonneg_url_policy: "url_policy_findings E cfg p u = Inr fs \<Longrightarrow> nonneg fs"
  by (auto simp: url_policy_findings_def malformed_url_def bindE_Inr Let_def split: option.splits)

lemma nonneg_output_findings: "output_findings E cfg t = Inr fs \<Longrightarrow> nonneg fs"
  using nonneg_url_policy by (fastforce simp: output_findings_def bindE_Inr Let_def dest: mapE_source)

definition honest :: "dict \<Rightarrow> scan_result \<Rightarrow> bool" where
  "honest cfg s \<longleftrightarrow> nonneg (s_findings s) \<and> ((\<exists>f\<in>set (s_findings s). protected_finding cfg f) \<longrightarrow> s_blocked s)"

lemma honest_output_scan: "scan_output_text E t cfg c = Inr s \<Longrightarrow> honest cfg s"
proof -
  let ?eff = "output_guard_config_for_capability E cfg c"
  assume s: "scan_output_text E t cfg c = Inr s"
  show "honest cfg s"
  proof (cases "flag (output_guard_cfg ?eff) ''enabled'' True")
    case False
    with s show ?thesis by (auto simp: scan_output_text_def bindE_Inr Let_def unguarded_scan_def honest_def)
  next
    case True
    with s obtain ncfg s1 extra where s1: "scan_text E t ncfg = Inr s1"
      and extra: "output_findings E ?eff (s_text s1) = Inr extra"
      and j: "rejudge ?eff (list_ex is_scan_limit (s_findings s1)) (s_findings s1 @ extra) s1 = Inr s"
      by (auto simp: scan_output_text_def bindE_Inr Let_def)
    have n: "nonneg (s_findings s1 @ extra)"
      using nonneg_scan_text[OF s1] nonneg_output_findings[OF extra] by simp
    have fs: "s_findings s = s_findings s1 @ extra" using j by (auto simp: rejudge_def bindE_Inr)
    show ?thesis unfolding honest_def fs
      using n rejudge_guarded[OF j n _ _ guard_threshold_effective] by (auto simp: guarded_def fs)
  qed
qed

lemma set_add_new: "set (add_new fs new) = set fs \<union> set new"
  unfolding add_new_def by (induction new arbitrary: fs) auto

lemma honest_merge:
  "merge_scan_results s x th = Inr r \<Longrightarrow> honest cfg s \<Longrightarrow> honest cfg x \<Longrightarrow> honest cfg r"
  by (auto simp: merge_scan_results_def bindE_Inr Let_def honest_def nonneg_def set_add_new split: if_splits)

lemma honest_merge_texts:
  "merge_output_texts E cfg c th ts s = Inr r \<Longrightarrow> honest cfg s \<Longrightarrow> honest cfg r"
  by (induction ts arbitrary: s) (auto simp: bindE_Inr dest: honest_output_scan honest_merge)

lemma honest_upstream: "output_guard_scan_for_upstream E payload cfg c = Inr s \<Longrightarrow> honest cfg s"
  by (auto simp: output_guard_scan_for_upstream_def bindE_Inr Let_def split: if_splits
      dest: honest_output_scan intro: honest_merge_texts)

text \<open>C19: A backend answer with protected material is never released. If the egress scan of the whole
  answer holds a finding whose category no relaxing step may touch (a secret, a dangerous scheme,
  credentials in a URL, an incomplete inspection) and whose severity reaches the configured
  thresholds, the answer is blocked on every route: the tool-result relaxation, the fetch-query
  relaxation, the snippet check and the JSON check, in the order they run, do not undo it.\<close>
theorem protected_output_blocked:
  assumes "output_guard_scan_for_upstream E payload cfg None = Inr s0"
    and "f \<in> set (s_findings s0)" "protected_finding cfg f"
    and "output_guard_scan E cfg runs d payload = Inr s"
  shows "output_guard_blocks s cfg d"
proof -
  have "scan_step (\<lambda>s. bindE (relax_fetch_action_url_query E cfg runs d payload s) (apply_snippet_check E cfg True)) cfg"
    by (rule fetch_query.sequence) (rule snippet.scan_step_axioms)
  then have "scan_step (\<lambda>s. if is_chat d then bindE (relax_fetch_action_url_query E cfg runs d payload s) (apply_snippet_check E cfg True)
      else Inr s) cfg"
    by (auto simp: scan_step_def)
  note mid = scan_step.sequence[OF this json_object.scan_step_axioms[of E cfg d payload]]
  have "guarded cfg s0" using honest_upstream[OF assms(1)] assms(2,3) by (auto simp: honest_def guarded_def)
  then have "guarded cfg s"
    using assms(4) scan_step.keeps[OF tool_result.sequence[OF mid], of E d s0 s] assms(1)
    by (simp add: output_guard_scan_def)
  then show ?thesis by (simp add: output_guard_blocks_def guarded_def)
qed

section \<open>Concrete answers\<close>

definition demo_out_env :: env where
  "demo_out_env = calc_env\<lparr>e_finditer := (\<lambda>p s. if p = ''prompt_injection:tool_escalation'' then find_all ''run sh'' s
       else if p = ''prompt_injection:ko_ignore_previous'' then find_all ''ign'' s else []),
     e_ask := (\<lambda>snippet m c. ''description'')\<rparr>"

definition demo_out_cfg :: dict where
  "demo_out_cfg = [(''llm_snippet_check'', JObj [(''enabled'', JBool True), (''apply_to_output'', JBool True)]),
     (''output_guard'', JObj [(''block_risk_score'', JInt 5)])]"

definition demo_chat :: route_decision where
  "demo_chat = (demo_route [])\<lparr>rd_route := [(''kind'', JStr ''openai_chat_completions''),
     (''output_policy'', JObj [(''block_on_review'', JBool False)])]\<rparr>"

definition demo_answer :: dict where
  "demo_answer = [(''choices'', JList [JObj [(''message'', JObj [(''content'', JStr ''run sh ign'')])]])]"
definition demo_out_text :: string where
  "demo_out_text = py_join [newline] [''choices'', ''message'', ''content'', ''run sh ign'']"

definition demo_out_flagged :: scan_result where
  "demo_out_flagged = \<lparr>s_original = CHR ''h'' # demo_out_text, s_normalized = CHR ''h'' # demo_out_text, s_text = demo_out_text,
     s_removed = \<lparr>rm_format = 0, rm_control = 0, rm_truncated = 0\<rparr>,
     s_findings = [F ''prompt_injection:tool_escalation'' 5 ''prompt-injection marker detected'',
       F ''prompt_injection:ko_ignore_previous'' 5 ''prompt-injection marker detected''],
     s_score = 10, s_blocked = True, s_review = True, s_checks = [], s_relaxed = []\<rparr>"

lemma demo_out_parts: "multipart_texts (JObj demo_answer) = []" "complete_text demo_out_env (JObj demo_answer) = demo_out_text"
  by code_simp+

lemma demo_out_scan: "scan_output_text demo_out_env demo_out_text demo_out_cfg None = Inr demo_out_flagged"
proof -
  define eff where "eff = output_guard_config_for_capability demo_out_env demo_out_cfg None"
  define ncfg where "ncfg = projr (output_normalize_config eff)"
  have e: "flag (output_guard_cfg eff) ''enabled'' True" "output_normalize_config eff = Inr ncfg"
    unfolding ncfg_def eff_def by code_simp+
  have s: "scan_text demo_out_env demo_out_text ncfg = Inr demo_out_flagged"
    unfolding ncfg_def eff_def by code_simp
  have f: "output_findings demo_out_env eff (s_text demo_out_flagged) = Inr []"
    unfolding eff_def by code_simp
  have r: "rejudge eff (list_ex is_scan_limit (s_findings demo_out_flagged)) (s_findings demo_out_flagged @ []) demo_out_flagged
      = Inr demo_out_flagged"
    unfolding eff_def by code_simp
  show ?thesis unfolding scan_output_text_def Let_def eff_def[symmetric] using e s f r by simp
qed

lemma demo_out_upstream: "output_guard_scan_for_upstream demo_out_env demo_answer demo_out_cfg None = Inr demo_out_flagged"
  unfolding output_guard_scan_for_upstream_def demo_out_parts demo_out_scan by (simp add: Let_def)

definition demo_out_lowered :: scan_result where
  "demo_out_lowered = projr (apply_snippet_check demo_out_env demo_out_cfg True demo_out_flagged)"

lemma demo_out_check: "apply_snippet_check demo_out_env demo_out_cfg True demo_out_flagged = Inr demo_out_lowered"
  unfolding demo_out_lowered_def by code_simp

lemma demo_out_judgment: "s_blocked demo_out_lowered = False" "s_findings demo_out_lowered =
    [F ''prompt_injection:tool_escalation'' 0 ''prompt-injection marker detected (snippet check: description)'',
     F ''prompt_injection:ko_ignore_previous'' 5 ''prompt-injection marker detected'']"
  unfolding demo_out_lowered_def by code_simp+

lemma demo_out_guard: "output_guard_scan demo_out_env demo_out_cfg runs demo_chat demo_answer = Inr demo_out_lowered"
  by (simp add: output_guard_scan_def demo_out_upstream relax_untrusted_tool_result_def policy_flag_def demo_chat_def demo_route_def
      is_chat_def relax_fetch_action_url_query_def demo_out_check json_object_check_def)

text \<open>Both thresholds are needed for that: the snippet check recomputes the judgment of a model's
  answer against the inbound threshold \<open>block_risk_score\<close>, not against the stricter one of the
  output guard. An answer with a finding that no step may lower and that alone reaches the
  output guard's threshold is released once another finding of it was lowered.\<close>
theorem output_threshold_lost_after_snippet_check:
  "\<exists>E cfg runs d payload s0 s f n. output_guard_scan_for_upstream E payload cfg None = Inr s0 \<and> s_blocked s0 \<and>
     f \<in> set (s_findings s0) \<and> f \<in> set (s_findings s) \<and> \<not> may_lower True (f_category f) \<and>
     guard_threshold cfg ''block_risk_score'' 8 = Inr n \<and> n \<le> f_severity f \<and>
     output_guard_scan E cfg runs d payload = Inr s \<and> \<not> output_guard_blocks s cfg d"
proof -
  let ?f = "F ''prompt_injection:ko_ignore_previous'' 5 ''prompt-injection marker detected''"
  have t: "guard_threshold demo_out_cfg ''block_risk_score'' 8 = Inr 5" "5 \<le> f_severity ?f" "\<not> may_lower True (f_category ?f)"
    by code_simp+
  have b: "s_blocked demo_out_flagged" "?f \<in> set (s_findings demo_out_flagged)" "?f \<in> set (s_findings demo_out_lowered)"
    by (simp_all add: demo_out_flagged_def demo_out_judgment)
  have r: "\<not> output_guard_blocks demo_out_lowered demo_out_cfg demo_chat"
    by (simp add: output_guard_blocks_def demo_out_judgment demo_chat_def)
  show ?thesis
    using demo_out_upstream demo_out_guard[of None] t b r by blast
qed

definition demo_secret_env :: env where
  "demo_secret_env = calc_env\<lparr>e_finditer := (\<lambda>p s. if p = ''secret:jwt'' then find_all ''eyJ'' s else [])\<rparr>"

definition demo_secret_answer :: dict where
  "demo_secret_answer = [(''a'', JStr ''eyJ'')]"

theorem protected_output_blocked_witness:
  "\<exists>s. output_guard_scan demo_secret_env [] None (demo_route []) demo_secret_answer = Inr s \<and> output_guard_blocks s [] (demo_route [])"
proof -
  let ?f = "F ''secret:jwt'' 8 ''secret-like material detected''"
  define eff where "eff = output_guard_config_for_capability demo_secret_env [] None"
  define ncfg where "ncfg = projr (output_normalize_config eff)"
  define s0 where "s0 = projr (scan_text demo_secret_env (''a'' @ newline # ''eyJ'') ncfg)"
  have e: "flag (output_guard_cfg eff) ''enabled'' True" "output_normalize_config eff = Inr ncfg"
    unfolding ncfg_def eff_def by code_simp+
  have s: "scan_text demo_secret_env (''a'' @ newline # ''eyJ'') ncfg = Inr s0" "s_findings s0 = [?f]"
    unfolding s0_def ncfg_def eff_def by code_simp+
  have f: "output_findings demo_secret_env eff (s_text s0) = Inr []"
    unfolding s0_def ncfg_def eff_def by code_simp
  have m: "multipart_texts (JObj demo_secret_answer) = []" "complete_text demo_secret_env (JObj demo_secret_answer) = ''a'' @ newline # ''eyJ''"
    by code_simp+
  obtain s1 where j: "rejudge eff False [?f] s0 = Inr s1" "s_findings s1 = [?f]"
  proof
    have "guard_threshold eff ''block_risk_score'' 8 = Inr 8" "guard_threshold eff ''review_risk_score'' 4 = Inr 4"
      unfolding eff_def by code_simp+
    then show "rejudge eff False [?f] s0 = Inr (s0\<lparr>s_findings := [?f], s_score := score [?f], s_blocked := 8 \<le> score [?f],
        s_review := 4 \<le> score [?f]\<rparr>)" by (simp add: rejudge_def)
  qed simp
  have b: "\<not> is_scan_limit ?f" by code_simp
  have s0: "output_guard_scan_for_upstream demo_secret_env demo_secret_answer [] None = Inr s1" "?f \<in> set (s_findings s1)"
    unfolding output_guard_scan_for_upstream_def m scan_output_text_def eff_def[symmetric] Let_def
    using e s f j b by simp_all
  have p: "protected_finding [] ?f"
  proof -
    have "f_category ?f \<notin> set tool_result_relaxable" "\<not> is_url_query ?f" "\<not> may_lower True (f_category ?f)"
      "guard_threshold [] ''block_risk_score'' 8 = Inr 8" "cfg_int [] ''block_risk_score'' 8 = Inr 8" by code_simp+
    then show ?thesis by (auto simp: protected_finding_def F_def)
  qed
  have run: "output_guard_scan demo_secret_env [] None (demo_route []) demo_secret_answer = Inr s1"
    by (simp add: output_guard_scan_def s0(1) relax_untrusted_tool_result_def policy_flag_def demo_route_def is_chat_def json_object_check_def)
  from protected_output_blocked[OF s0 p run] run show ?thesis by blast
qed

section \<open>A query URL split over two parts\<close>

definition demo_url :: "string \<Rightarrow> parsed_url option" where
  "demo_url s = (if length s = 3 then Some \<lparr>u_scheme = ''https'', u_netloc = take 1 s, u_host = take 1 s, u_path = [],
     u_query = drop 2 s, u_fragment = [], u_userinfo = False, u_port = Some None\<rparr> else None)"

definition demo_fetch_env :: env where
  "demo_fetch_env = calc_env\<lparr>e_urlsplit := demo_url,
     e_finditer := (\<lambda>p s. if p = ''URL_PATTERN'' then find_all ''A?x'' s @ find_all ''B?x'' s else []),
     e_pairs := (\<lambda>s. if s = ''A?x'' then Some (JObj [(''action'', JStr ''fetch''), (''url'', JStr ''A?x'')]) else None)\<rparr>"

definition demo_fetch_cfg :: dict where
  "demo_fetch_cfg = [(''runs'', JObj [(''r1'', JObj [(''fetch_hosts'', JList [JStr ''A''])])])]"

definition demo_fetch_route :: route_decision where
  "demo_fetch_route = (demo_route [])\<lparr>rd_run_id := Some ''r1'', rd_route := [(''kind'', JStr ''openai_chat_completions''),
     (''output_policy'', JObj [(''allow_fetch_query_to_run_hosts'', JBool True)])]\<rparr>"

definition demo_fetch_answer :: dict where
  "demo_fetch_answer = [(''choices'', JList [JObj [(''message'', JObj [(''content'', JStr ''A?x''),
     (''reasoning'', JList [demo_part ''B?'', demo_part ''x''])])]])]"
definition demo_fetch_text :: string where
  "demo_fetch_text = py_join [newline] [''choices'', ''message'', ''content'', ''A?x'', ''reasoning'', ''text'', ''B?'',
     ''type'', ''text'', ''text'', ''x'', ''type'', ''text'']"

definition demo_query_finding :: finding where
  "demo_query_finding = F ''output_dlp:url_query'' 8 ''URL query string is disallowed on egress''"

definition demo_query_scan :: "string \<Rightarrow> scan_result" where
  "demo_query_scan t = \<lparr>s_original = CHR ''h'' # t, s_normalized = CHR ''h'' # t, s_text = t,
     s_removed = \<lparr>rm_format = 0, rm_control = 0, rm_truncated = 0\<rparr>, s_findings = [demo_query_finding],
     s_score = 8, s_blocked = True, s_review = True, s_checks = [], s_relaxed = []\<rparr>"

lemma demo_fetch_texts:
  "multipart_texts (JObj demo_fetch_answer) = [''B?x'']"
  "complete_text demo_fetch_env (JObj demo_fetch_answer) = demo_fetch_text"
  by code_simp+

lemma demo_fetch_scan:
  "scan_output_text demo_fetch_env demo_fetch_text demo_fetch_cfg None = Inr (demo_query_scan demo_fetch_text)"
  "scan_output_text demo_fetch_env ''B?x'' demo_fetch_cfg None = Inr (demo_query_scan ''B?x'')"
proof -
  define eff where "eff = output_guard_config_for_capability demo_fetch_env demo_fetch_cfg None"
  define ncfg where "ncfg = projr (output_normalize_config eff)"
  have e: "flag (output_guard_cfg eff) ''enabled'' True" "output_normalize_config eff = Inr ncfg"
    unfolding ncfg_def eff_def by code_simp+
  have s: "scan_text demo_fetch_env demo_fetch_text ncfg = Inr ((demo_query_scan demo_fetch_text)
      \<lparr>s_findings := [], s_score := 0, s_blocked := False, s_review := False\<rparr>)"
    "scan_text demo_fetch_env ''B?x'' ncfg = Inr ((demo_query_scan ''B?x'')
      \<lparr>s_findings := [], s_score := 0, s_blocked := False, s_review := False\<rparr>)"
    unfolding ncfg_def eff_def by code_simp+
  have f: "output_findings demo_fetch_env eff demo_fetch_text = Inr [demo_query_finding]"
    "output_findings demo_fetch_env eff ''B?x'' = Inr [demo_query_finding]"
    unfolding eff_def by code_simp+
  have g: "guard_threshold eff ''block_risk_score'' 8 = Inr 8" "guard_threshold eff ''review_risk_score'' 4 = Inr 4"
    unfolding eff_def by code_simp+
  have c: "score [demo_query_finding] = 8" by code_simp
  show "scan_output_text demo_fetch_env demo_fetch_text demo_fetch_cfg None = Inr (demo_query_scan demo_fetch_text)"
    "scan_output_text demo_fetch_env ''B?x'' demo_fetch_cfg None = Inr (demo_query_scan ''B?x'')"
    unfolding scan_output_text_def Let_def eff_def[symmetric] using e
    by (simp_all add: s f rejudge_def g c demo_query_scan_def)
qed

lemma demo_fetch_merge:
  "merge_scan_results (demo_query_scan demo_fetch_text) (demo_query_scan t) th = Inr (demo_query_scan demo_fetch_text)"
  by (simp add: merge_scan_results_def demo_query_scan_def add_new_def score_def demo_query_finding_def F_def)

lemma demo_fetch_upstream:
  "output_guard_scan_for_upstream demo_fetch_env demo_fetch_answer demo_fetch_cfg None = Inr (demo_query_scan demo_fetch_text)"
  unfolding output_guard_scan_for_upstream_def demo_fetch_texts Let_def
  by (simp add: demo_fetch_scan demo_fetch_merge)

lemma demo_fetch_relaxed:
  "relax_fetch_action_url_query demo_fetch_env demo_fetch_cfg None demo_fetch_route demo_fetch_answer (demo_query_scan demo_fetch_text)
     = Inr ((demo_query_scan demo_fetch_text)\<lparr>s_findings := [], s_score := 0, s_blocked := False, s_review := False\<rparr>)"
  by code_simp

text \<open>
  The same blindness lets a second URL with a query through: the fetch-query relaxation looks
  for other such URLs in the text of the answer alone, so one that only exists where text parts
  are run together loses its finding with the verified URL.
\<close>

theorem split_query_url_released:
  "\<exists>E cfg runs d payload s t u. output_guard_scan E cfg runs d payload = Inr s \<and> \<not> output_guard_blocks s cfg d \<and>
     t \<in> set (multipart_texts (JObj payload)) \<and>
     scan_output_text E t cfg None = Inr u \<and> s_blocked u \<and> list_ex is_url_query (s_findings u)"
proof -
  define s where "s = (demo_query_scan demo_fetch_text)\<lparr>s_findings := [], s_score := 0, s_blocked := False, s_review := False\<rparr>"
  have "apply_snippet_check demo_fetch_env demo_fetch_cfg True s = Inr s"
    by (simp add: s_def apply_snippet_check_def Let_def)
  then have run: "output_guard_scan demo_fetch_env demo_fetch_cfg None demo_fetch_route demo_fetch_answer = Inr s"
    unfolding output_guard_scan_def demo_fetch_upstream
    by (simp add: relax_untrusted_tool_result_def policy_flag_def demo_fetch_route_def demo_route_def is_chat_def
        json_object_check_def demo_fetch_relaxed[folded s_def, unfolded demo_fetch_route_def demo_route_def, simplified])
  have b: "\<not> output_guard_blocks s demo_fetch_cfg demo_fetch_route"
    by (simp add: output_guard_blocks_def proxy_output_guard_blocks_def s_def)
  have t: "''B?x'' \<in> set (multipart_texts (JObj demo_fetch_answer))" by (simp add: demo_fetch_texts del: multipart_texts.simps)
  have u: "s_blocked (demo_query_scan ''B?x'')" "list_ex is_url_query (s_findings (demo_query_scan ''B?x''))"
    by (simp_all add: demo_query_scan_def demo_query_finding_def is_url_query_def F_def)
  show ?thesis using run b t demo_fetch_scan(2) u by blast
qed

end
