(* ===== verification/Run_Modes.thy ===== *)
theory Run_Modes
  imports Output_Guard Action_Guard
begin

text \<open>
  Registering a run (\<open>build_run_registration_record\<close>) and the two modes a registration may ask
  for, from gateway.py: the test mode, in which the input guard only logs, and the quarantined
  read, in which content with injection findings only still reaches a model without tools; with
  the warnings and evidence that are recorded for such runs.
\<close>

section \<open>Lifetime of a run\<close>

definition default_run_ttl :: int where
  "default_run_ttl = 604800"

definition run_store_max_ttl_seconds :: "dict \<Rightarrow> int res" where
  "run_store_max_ttl_seconds cfg = (case dget cfg ''run_store'' (JObj []) of
       JObj store \<Rightarrow> bindE (parse_int (dget store ''max_ttl_seconds'' (JInt default_run_ttl)) default_run_ttl) (\<lambda>(v, ok).
         Inr (if ok \<and> 0 < v then v else default_run_ttl))
     | _ \<Rightarrow> Inr default_run_ttl)"

definition seconds :: "int \<Rightarrow> int" where
  \<comment> \<open>in microseconds\<close>
  "seconds n = n * 1000000"

text \<open>\<open>run_registration_expires_at\<close>: the time itself; the record holds it to the second.\<close>

definition registration_expiry :: "env \<Rightarrow> dict \<Rightarrow> dict \<Rightarrow> int \<Rightarrow> int res" where
  "registration_expiry E payload cfg now =
     (if has_key payload ''ttl_seconds'' = has_key payload ''expires_at'' then Inl bad_request
      else bindE (run_store_max_ttl_seconds cfg) (\<lambda>max_ttl.
        if has_key payload ''ttl_seconds''
        then (case dget0 payload ''ttl_seconds'' of
            JInt ttl \<Rightarrow> thenE (raise_if (ttl \<le> 0 \<or> max_ttl < ttl) bad_request) (Inr (now + seconds ttl))
          | _ \<Rightarrow> Inl bad_request)
        else (case dget0 payload ''expires_at'' of
            JStr raw \<Rightarrow>
              thenE (raise_if (py_strip raw = []) bad_request)
             (case parse_datetime E raw of
                Inl _ \<Rightarrow> Inl bad_request
              | Inr t \<Rightarrow> thenE (raise_if (t \<le> now \<or> now + seconds max_ttl < t) bad_request) (Inr t))
          | _ \<Rightarrow> Inl bad_request)))"

definition run_registration_expires_at :: "env \<Rightarrow> dict \<Rightarrow> dict \<Rightarrow> int \<Rightarrow> string res" where
  "run_registration_expires_at E payload cfg now = bindE (registration_expiry E payload cfg now) (\<lambda>t. Inr (e_isosec E t))"

section \<open>The test mode\<close>

definition log_only :: string where
  "log_only = ''input_guard_log_only''"

definition test_mode_settings :: "dict \<Rightarrow> dict option" where
  "test_mode_settings cfg = (case dget0 cfg ''test_modes'' of
       JObj modes \<Rightarrow> (case dget0 modes log_only of
           JObj s \<Rightarrow> if dget0 s ''enabled'' = JBool True then Some s else None
         | _ \<Rightarrow> None)
     | _ \<Rightarrow> None)"

text \<open>\<open>x in set(settings.get(key) or [])\<close>\<close>

definition listed :: "json \<Rightarrow> dict \<Rightarrow> string \<Rightarrow> bool res" where
  "listed x settings key = bindE (py_iter (py_or (dget0 settings key) (JList []))) (\<lambda>l. Inr (x \<in> set l))"

text \<open>\<open>sorted(set(allowed_routes) & set(settings.get("routes") or []))\<close>\<close>

definition common_routes :: "string list \<Rightarrow> dict \<Rightarrow> string list res" where
  "common_routes allowed settings = bindE (py_iter (py_or (dget0 settings ''routes'') (JList []))) (\<lambda>l.
     Inr (sort (remdups (filter (\<lambda>r. JStr r \<in> set l) allowed))))"

definition run_test_mode_fields :: "env \<Rightarrow> dict \<Rightarrow> dict \<Rightarrow> verified_agent \<Rightarrow> string list \<Rightarrow> string \<Rightarrow> string \<Rightarrow> int \<Rightarrow> dict res" where
  "run_test_mode_fields E payload cfg v allowed reason expires_at now =
     (if dget0 payload ''test_mode'' = JNull then Inr []
      else if dget0 payload ''test_mode'' \<noteq> JStr log_only then Inl bad_request
      else case test_mode_settings cfg of
        None \<Rightarrow> Inl (GatewayError 403 ''test_mode_disabled'')
      | Some settings \<Rightarrow>
          bindE (listed (JStr (va_agent_id v)) settings ''allowed_registrars'') (\<lambda>ok.
          thenE (raise_if (\<not> ok) (GatewayError 403 ''test_mode_denied''))
         (thenE (raise_if (py_strip reason = []) bad_request)
         (bindE (py_int (dget settings ''max_ttl_seconds'' (JInt 3600))) (\<lambda>max_ttl.
          bindE (parse_datetime E expires_at) (\<lambda>t.
          thenE (raise_if (seconds max_ttl < t - now) bad_request)
         (bindE (common_routes allowed settings) (\<lambda>routes.
          thenE (raise_if (routes = []) bad_request)
         (Inr [(''test_mode'', JStr log_only), (''test_mode_routes'', JList (map JStr routes))])))))))))"

definition active_input_guard_test_mode :: "env \<Rightarrow> int \<Rightarrow> dict \<Rightarrow> store \<Rightarrow> route_decision \<Rightarrow> bool res" where
  "active_input_guard_test_mode E now cfg runs d = (case test_mode_settings cfg of
       None \<Rightarrow> Inr False
     | Some settings \<Rightarrow>
         if rd_run_id d \<in> {None, Some []} then Inr False
         else bindE (listed (JStr (rd_route_id d)) settings ''routes'') (\<lambda>route_ok.
           if \<not> route_ok then Inr False
           else case map_option fst (resolve_run_scope_record E cfg runs (the (rd_run_id d))) of
             Some (JObj record) \<Rightarrow>
               if dget0 record ''test_mode'' \<noteq> JStr log_only then Inr False
               else bindE (listed (JStr (rd_route_id d)) record ''test_mode_routes'') (\<lambda>opted_in.
                 if \<not> opted_in then Inr False
                 else bindE (listed (dget0 record ''created_by'') settings ''allowed_registrars'') (\<lambda>registrar_ok.
                   if \<not> registrar_ok then Inr False
                   else Inr (case parse_datetime E (py_str E (dget0 record ''expires_at'')) of
                          Inl _ \<Rightarrow> False | Inr t \<Rightarrow> now < t)))
           | _ \<Rightarrow> Inr False))"

section \<open>The quarantined read\<close>

definition quarantined_read_settings :: "dict \<Rightarrow> dict option" where
  "quarantined_read_settings cfg = (case dget0 cfg ''quarantined_read'' of
       JObj s \<Rightarrow> if dget0 s ''enabled'' = JBool True then Some s else None | _ \<Rightarrow> None)"

text \<open>\<open>FETCH_HOST_PATTERN.fullmatch\<close>\<close>

definition fetch_host_ok :: "string \<Rightarrow> bool" where
  "fetch_host_ok h \<longleftrightarrow> (let labels = split_on CHR ''.'' h in 2 \<le> length labels \<and>
     list_all (\<lambda>l. l \<noteq> [] \<and> list_all (\<lambda>c. is_digit c \<or> code_in 97 122 c \<or> c = CHR ''-'') l) labels)"

definition fetch_hosts_field :: "dict \<Rightarrow> dict res" where
  "fetch_hosts_field payload = (case dget0 payload ''fetch_hosts'' of
       JNull \<Rightarrow> Inr []
     | JList hosts \<Rightarrow>
         if length hosts \<le> 10 \<and> list_all (\<lambda>h. case h of JStr s \<Rightarrow> length s \<le> 253 \<and> fetch_host_ok s | _ \<Rightarrow> False) hosts
         then Inr [(''fetch_hosts'', JList (map JStr (sort (remdups (map str_or_blank hosts)))))]
         else Inl bad_request
     | _ \<Rightarrow> Inl bad_request)"

definition run_read_mode_fields :: "dict \<Rightarrow> dict \<Rightarrow> verified_agent \<Rightarrow> string list \<Rightarrow> dict res" where
  "run_read_mode_fields payload cfg v allowed =
     bindE (fetch_hosts_field payload) (\<lambda>fields.
     if dget0 payload ''read_mode'' = JNull then Inr fields
     else if dget0 payload ''read_mode'' \<noteq> JStr ''quarantined'' then Inl bad_request
     else case quarantined_read_settings cfg of
       None \<Rightarrow> Inl (GatewayError 403 ''quarantined_read_disabled'')
     | Some settings \<Rightarrow>
         bindE (listed (JStr (va_agent_id v)) settings ''allowed_registrars'') (\<lambda>ok.
         thenE (raise_if (\<not> ok) (GatewayError 403 ''quarantined_read_denied''))
        (bindE (common_routes allowed settings) (\<lambda>routes.
         thenE (raise_if (routes = []) bad_request)
        (Inr (fields @ [(''read_mode'', JStr ''quarantined''), (''quarantined_routes'', JList (map JStr routes))]))))))"

definition active_quarantined_read :: "env \<Rightarrow> dict \<Rightarrow> store \<Rightarrow> route_decision \<Rightarrow> dict option res" where
  "active_quarantined_read E cfg runs d = (case quarantined_read_settings cfg of
       None \<Rightarrow> Inr None
     | Some settings \<Rightarrow>
         if rd_run_id d \<in> {None, Some []} then Inr None
         else bindE (listed (JStr (rd_route_id d)) settings ''routes'') (\<lambda>route_ok.
           if \<not> route_ok \<or> \<not> route_is_read_only_model (rd_route d) then Inr None
           else case map_option fst (resolve_run_scope_record E cfg runs (the (rd_run_id d))) of
             Some (JObj record) \<Rightarrow>
               if dget0 record ''read_mode'' \<noteq> JStr ''quarantined'' then Inr None
               else bindE (listed (JStr (rd_route_id d)) record ''quarantined_routes'') (\<lambda>opted_in.
                 if \<not> opted_in then Inr None
                 else bindE (listed (dget0 record ''created_by'') settings ''allowed_registrars'') (\<lambda>registrar_ok.
                   Inr (if registrar_ok then Some settings else None)))
           | _ \<Rightarrow> Inr None))"

definition quarantinable :: "finding \<Rightarrow> bool" where
  "quarantinable f \<longleftrightarrow> list_ex (\<lambda>p. prefix p (f_category f)) [''prompt_injection:'', ''obfuscation:'', ''llm_inspector:''] \<or>
     f_category f = ''input_dlp:local_path''"

definition quarantine_eligible :: "scan_result \<Rightarrow> dict \<Rightarrow> bool res" where
  "quarantine_eligible scan settings =
     (if list_ex (\<lambda>f. 0 < f_severity f \<and> \<not> quarantinable f) (s_findings scan) then Inr False
      else bindE (py_int (dget settings ''max_risk_score'' (JInt 40))) (\<lambda>m. Inr (s_score scan \<le> m)))"

section \<open>Run warnings and evidence\<close>

text \<open>\<open>_test_mode_pattern\<close>: the pattern whose matches explain a finding.\<close>

definition test_mode_pattern :: "string \<Rightarrow> string option" where
  "test_mode_pattern category =
     (let pfx = takeWhile (\<lambda>c. c \<noteq> CHR '':'') category; name = drop (Suc (length pfx)) category in
      if pfx = ''prompt_injection'' \<or> pfx = ''obfuscation'' then
        snippet_pattern category
      else if pfx = ''action_guard'' then
        (if name \<in> set (map fst dangerous_action_patterns) then Some (''action_guard:'' @ name) else None)
      else if category = ''input_dlp:local_path'' then Some ''LOCAL_PATH_PATTERN (ignore case)'' else None)"

text \<open>
  \<open>defang_url\<close>; the warning that is put before the address, which holds characters above
  code point 255, is a parameter.
\<close>

definition defang_rest :: "string \<Rightarrow> string" where
  "defang_rest r =
     (let host = takeWhile (\<lambda>c. c \<notin> set ''/?#'') r; tail = dropWhile (\<lambda>c. c \<notin> set ''/?#'') r
      in concat (map (\<lambda>c. if c = CHR ''.'' then ''[.]'' else [c]) host) @ (if suffix [newline] tail then butlast tail else tail))"

definition defang_url :: "string \<Rightarrow> string \<Rightarrow> string" where
  "defang_url warning url =
     (let t = take 300 url; l = py_lower t;
          n = (if prefix ''https://'' l then 8 else if prefix ''http://'' l then 7 else 0);
          tail = dropWhile (\<lambda>c. c \<notin> set ''/?#'') (drop n t)
      in warning @ (if n = 0 \<or> newline \<in> set (butlast tail) then t
         else (if n = 8 then ''hxxps://'' else ''hxxp://'') @ defang_rest (drop n t)))"

text \<open>The pages of a text: where a page header starts, and the address it names.\<close>

definition page_headers :: "env \<Rightarrow> string \<Rightarrow> (nat \<times> string) list" where
  "page_headers E t = map (\<lambda>(a, b). (a, drop 1 (dropWhile (\<lambda>c. c \<noteq> CHR ''='') (slice t a b)))) (e_finditer E ''PAGE_HEADER_PATTERN'' t)"

fun match_sources :: "(nat \<times> string) list \<Rightarrow> (nat \<times> nat) list \<Rightarrow> string list \<Rightarrow> string list" where
  "match_sources pages [] sources = sources"
| "match_sources pages ((a, b) # ms) sources =
     (let above = map snd (filter (\<lambda>(pos, url). pos \<le> a) pages);
          sources = (if above \<noteq> [] \<and> last above \<notin> set sources then sources @ [last above] else sources)
      in if 3 \<le> length sources then sources else match_sources pages ms sources)"

definition finding_sources :: "env \<Rightarrow> string \<Rightarrow> string \<Rightarrow> string list" where
  "finding_sources E t category =
     (let pages = page_headers E t in
      if pages = [] then []
      else case test_mode_pattern category of
        None \<Rightarrow> take 5 (sort (remdups (map snd pages)))
      | Some p \<Rightarrow> match_sources pages (e_finditer E p t) [])"

definition warning_items :: "env \<Rightarrow> string \<Rightarrow> finding list \<Rightarrow> string \<Rightarrow> json list" where
  "warning_items E warning fs t = map (\<lambda>f. JObj [(''category'', JStr (f_category f)),
     (''sources'', JList (map (JStr \<circ> defang_url warning) (finding_sources E t (f_category f))))])
     (filter (\<lambda>f. 0 < f_severity f) fs)"

definition run_warning :: "env \<Rightarrow> int \<Rightarrow> route_decision \<Rightarrow> string \<Rightarrow> string \<Rightarrow> int \<Rightarrow> json list \<Rightarrow> dict" where
  "run_warning E now d stage outcome risk items =
     [(''ts'', JStr (e_isosec E now)), (''run_id'', opt_json (rd_run_id d)), (''route_id'', JStr (rd_route_id d)),
      (''stage'', JStr stage), (''outcome'', JStr outcome), (''risk'', JInt risk), (''items'', JList (take 20 items))]"

definition record_run_warning ::
    "env \<Rightarrow> string \<Rightarrow> int \<Rightarrow> route_decision \<Rightarrow> string \<Rightarrow> string \<Rightarrow> finding list \<Rightarrow> int \<Rightarrow> string \<Rightarrow> world \<Rightarrow> world" where
  "record_run_warning E warning now d stage outcome fs risk t w =
     (let items = warning_items E warning fs t in
      if dget0 (rd_route d) ''report_run_warnings'' \<noteq> JBool True \<or> rd_run_id d \<in> {None, Some []} \<or> items = [] then w
      else w\<lparr>g_warnings := append_jsonl_record E (JObj (run_warning E now d stage outcome risk items)) (g_warnings w)\<rparr>)"

definition run_warnings_max :: nat where
  "run_warnings_max = 20"

type_synonym warning_key = "string \<times> string \<times> string"

definition merge_warning :: "warning_key \<Rightarrow> json \<Rightarrow> int \<Rightarrow> (warning_key \<times> json list \<times> int) list \<Rightarrow> (warning_key \<times> json list \<times> int) list" where
  "merge_warning key category risk merged =
     (let (cats, m) = (case map_of merged key of None \<Rightarrow> ([], 0) | Some e \<Rightarrow> e) in
      AList.update key (if category \<in> set cats then cats else cats @ [category], max m risk) merged)"

definition warning_sources :: "json \<Rightarrow> (json \<times> json list) res" where
  "warning_sources item =
     bindE (py_get item ''sources'' JNull) (\<lambda>sources.
     bindE (py_iter (py_or sources (JList [JStr ''(unattributed)'']))) (\<lambda>l.
     bindE (py_get item ''category'' JNull) (\<lambda>category. Inr (category, l))))"

definition load_warning_record ::
    "env \<Rightarrow> dict \<Rightarrow> (warning_key \<times> json list \<times> int) list \<Rightarrow> (warning_key \<times> json list \<times> int) list res" where
  "load_warning_record E record merged =
     bindE (py_iter (py_or (dget0 record ''items'') (JList []))) (\<lambda>items.
     bindE (mapE warning_sources items) (\<lambda>ps.
     if concat (map snd ps) = [] then Inr merged
     else bindE (py_int (py_or (dget0 record ''risk'') (JInt 0))) (\<lambda>risk.
       Inr (foldl (\<lambda>m (category, s). merge_warning (py_str E s, py_str E (dget0 record ''stage''), py_str E (dget0 record ''outcome''))
              category risk m) merged (concat (map (\<lambda>(c, l). map (Pair c) l) ps))))))"

fun load_warning_records :: "env \<Rightarrow> string \<Rightarrow> json list \<Rightarrow> (warning_key \<times> json list \<times> int) list \<Rightarrow> (warning_key \<times> json list \<times> int) list res" where
  "load_warning_records E run_id [] merged = Inr merged"
| "load_warning_records E run_id (j # js) merged = (case j of
       JObj record \<Rightarrow>
         if dget0 record ''run_id'' \<noteq> JStr run_id then load_warning_records E run_id js merged
         else bindE (load_warning_record E record merged) (load_warning_records E run_id js)
     | _ \<Rightarrow> load_warning_records E run_id js merged)"

definition warning_json :: "warning_key \<times> json list \<times> int \<Rightarrow> json" where
  "warning_json = (\<lambda>((source, stage, outcome), cats, risk). JObj [(''source'', JStr source), (''stage'', JStr stage),
     (''outcome'', JStr outcome), (''categories'', JList cats), (''max_risk'', JInt risk)])"

definition load_run_warnings :: "env \<Rightarrow> store \<Rightarrow> string option \<Rightarrow> json list res" where
  "load_run_warnings E warnings run_id = (case run_id of
       None \<Rightarrow> Inr []
     | Some r \<Rightarrow> if r = [] \<or> warnings = None then Inr []
         else bindE (load_warning_records E r (jsonl_records E warnings) []) (\<lambda>m. Inr (take run_warnings_max (map warning_json m))))"

text \<open>\<open>write_test_mode_evidence\<close>: short windows around the matches of each finding.\<close>

fun evidence_items :: "env \<Rightarrow> string \<Rightarrow> string list \<Rightarrow> json list \<Rightarrow> json list" where
  "evidence_items E t [] items = items"
| "evidence_items E t (c # cs) items = (case test_mode_pattern c of
       None \<Rightarrow> evidence_items E t cs (items @ [JObj [(''category'', JStr c), (''snippet'', JNull)]])
     | Some p \<Rightarrow>
         let items = items @ map (\<lambda>(window, matched). JObj [(''category'', JStr c), (''matched'', JStr (take 200 matched)),
               (''snippet'', JStr (take 600 window))]) (snippet_windows E t p 160 2)
         in if 12 \<le> length items then items else evidence_items E t cs items)"

definition write_test_mode_evidence ::
    "env \<Rightarrow> int \<Rightarrow> dict \<Rightarrow> route_decision \<Rightarrow> string \<Rightarrow> string \<Rightarrow> string \<Rightarrow> finding list \<Rightarrow> string option \<Rightarrow> world \<Rightarrow> world" where
  "write_test_mode_evidence E now cfg d request_id stage t fs output w =
     (case test_mode_settings cfg of
        None \<Rightarrow> w
      | Some settings \<Rightarrow> (case dget0 settings ''evidence_file'' of
          JStr path \<Rightarrow>
            if path = [] then w
            else let record = [(''ts'', JStr (e_isosec E now)), (''run_id'', opt_json (rd_run_id d)),
                  (''route_id'', JStr (rd_route_id d)), (''request_id'', JStr request_id), (''stage'', JStr stage),
                  (''items'', JList (take 12 (evidence_items E t (map f_category fs) [])))] @
                  (case output of None \<Rightarrow> [] | Some s \<Rightarrow> [(''output_text'', JStr (take 4000 s))])
               in w\<lparr>g_evidence := append_jsonl_record E (JObj record) (g_evidence w)\<rparr>
        | _ \<Rightarrow> w))"

section \<open>The registration record\<close>

definition registration_run_id :: "string \<Rightarrow> dict \<Rightarrow> string res" where
  "registration_run_id fresh payload = (case dget0 payload ''run_id'' of
       JNull \<Rightarrow> Inr (''run_'' @ fresh)
     | JStr r \<Rightarrow> if run_id_ok r then Inr r else Inl input_denied
     | _ \<Rightarrow> Inl input_denied)"

definition registration_reason :: "dict \<Rightarrow> string res" where
  "registration_reason payload = (case dget payload ''reason'' (JStr []) of
       JNull \<Rightarrow> Inr [] | JStr s \<Rightarrow> Inr (take 200 (py_strip s)) | _ \<Rightarrow> Inl bad_request)"

text \<open>\<open>fresh\<close> is \<open>secrets.token_hex(16)\<close>.\<close>

definition build_run_registration_record :: "env \<Rightarrow> int \<Rightarrow> string \<Rightarrow> dict \<Rightarrow> dict \<Rightarrow> verified_agent \<Rightarrow> dict res" where
  "build_run_registration_record E now fresh payload cfg v =
     bindE (registration_run_id fresh payload) (\<lambda>run_id.
     bindE (route_array (dget0 payload ''allowed_routes'') False cfg) (\<lambda>allowed_routes.
     bindE (route_array (dget payload ''denied_routes'' (JList [])) True cfg) (\<lambda>denied_routes.
     bindE (string_array (dget payload ''allowed_callers'' (JList [])) True) (\<lambda>allowed_callers.
     bindE (registration_reason payload) (\<lambda>reason.
     thenE (raise_if (va_bound_run_id v \<noteq> []) (GatewayError 403 ''capability_denied''))
    (bindE (run_agents_from_payload E payload cfg allowed_callers) (\<lambda>run_agents.
     bindE (run_registration_expires_at E payload cfg now) (\<lambda>expires_at.
     let record = [(''run_id'', JStr run_id), (''allowed_routes'', JList (map JStr allowed_routes)),
           (''denied_routes'', JList (map JStr denied_routes)), (''allowed_callers'', JList (map JStr allowed_callers)),
           (''expires_at'', JStr expires_at), (''created_by'', JStr (va_agent_id v)),
           (''created_at'', JStr (e_isosec E now)), (''reason'', JStr reason)] @
           only_if (run_agents \<noteq> []) (''run_agents'', JObj run_agents)
     in bindE (run_test_mode_fields E payload cfg v allowed_routes reason expires_at now) (\<lambda>test_mode.
        bindE (run_read_mode_fields payload cfg v allowed_routes) (\<lambda>read_mode.
          Inr (record @ test_mode @ read_mode)))))))))))"

section \<open>A registered run\<close>

lemma string_array_again: "string_array v e = Inr ss \<Longrightarrow> ss \<noteq> [] \<or> e \<Longrightarrow> string_array (JList (map JStr ss)) e = Inr ss"
  using mapE_string_item[OF string_array_strip] by (auto simp: string_array_def)

lemma string_array_nonempty: "string_array v False = Inr ss \<Longrightarrow> ss \<noteq> []"
  by (auto simp: string_array_def mapE_Inr split: json.splits if_splits)

lemma route_array_again:
  assumes "route_array v e cfg = Inr ss" shows "route_array (JList (map JStr ss)) e cfg = Inr ss"
proof -
  from assms have s: "string_array v e = Inr ss" and k: "filter (\<lambda>r. \<not> has_key (cfg_routes cfg) r) ss = []"
    by (auto simp: route_array_def bindE_Inr split: if_splits)
  have "ss \<noteq> [] \<or> e" using string_array_nonempty[of v ss] s by (cases e) auto
  from string_array_again[OF s this] k show ?thesis by (simp add: route_array_def)
qed

lemma common_routes_sub: "common_routes allowed s = Inr rs \<Longrightarrow> set rs \<subseteq> set allowed"
  by (auto simp: common_routes_def bindE_Inr)

text \<open>The parts of a registration, and the record they make.\<close>

record registration =
  rg_run_id :: string
  rg_allowed :: "string list"
  rg_denied :: "string list"
  rg_callers :: "string list"
  rg_reason :: string
  rg_agents :: dict
  rg_expiry :: int
  rg_test :: dict
  rg_read :: dict

definition registration_of :: "env \<Rightarrow> int \<Rightarrow> string \<Rightarrow> dict \<Rightarrow> dict \<Rightarrow> verified_agent \<Rightarrow> registration \<Rightarrow> bool" where
  "registration_of E now fresh payload cfg v r \<longleftrightarrow>
     registration_run_id fresh payload = Inr (rg_run_id r) \<and>
     route_array (dget0 payload ''allowed_routes'') False cfg = Inr (rg_allowed r) \<and>
     route_array (dget payload ''denied_routes'' (JList [])) True cfg = Inr (rg_denied r) \<and>
     string_array (dget payload ''allowed_callers'' (JList [])) True = Inr (rg_callers r) \<and>
     registration_reason payload = Inr (rg_reason r) \<and> va_bound_run_id v = [] \<and>
     run_agents_from_payload E payload cfg (rg_callers r) = Inr (rg_agents r) \<and>
     registration_expiry E payload cfg now = Inr (rg_expiry r) \<and>
     run_test_mode_fields E payload cfg v (rg_allowed r) (rg_reason r) (e_isosec E (rg_expiry r)) now = Inr (rg_test r) \<and>
     run_read_mode_fields payload cfg v (rg_allowed r) = Inr (rg_read r)"

definition registration_record :: "env \<Rightarrow> int \<Rightarrow> verified_agent \<Rightarrow> registration \<Rightarrow> dict" where
  "registration_record E now v r =
     [(''run_id'', JStr (rg_run_id r)), (''allowed_routes'', JList (map JStr (rg_allowed r))),
      (''denied_routes'', JList (map JStr (rg_denied r))), (''allowed_callers'', JList (map JStr (rg_callers r))),
      (''expires_at'', JStr (e_isosec E (rg_expiry r))), (''created_by'', JStr (va_agent_id v)),
      (''created_at'', JStr (e_isosec E now)), (''reason'', JStr (rg_reason r))] @
      only_if (rg_agents r \<noteq> []) (''run_agents'', JObj (rg_agents r)) @ rg_test r @ rg_read r"

lemma build_registration:
  assumes "build_run_registration_record E now fresh payload cfg v = Inr record"
  obtains r where "registration_of E now fresh payload cfg v r" "record = registration_record E now v r"
proof -
  from assms obtain i a dn c rs ag t tm rm where
    "registration_run_id fresh payload = Inr i" "route_array (dget0 payload ''allowed_routes'') False cfg = Inr a"
    "route_array (dget payload ''denied_routes'' (JList [])) True cfg = Inr dn"
    "string_array (dget payload ''allowed_callers'' (JList [])) True = Inr c" "registration_reason payload = Inr rs"
    "va_bound_run_id v = []" "run_agents_from_payload E payload cfg c = Inr ag" "registration_expiry E payload cfg now = Inr t"
    "run_test_mode_fields E payload cfg v a rs (e_isosec E t) now = Inr tm" "run_read_mode_fields payload cfg v a = Inr rm"
    "record = registration_record E now v \<lparr>rg_run_id = i, rg_allowed = a, rg_denied = dn, rg_callers = c, rg_reason = rs,
       rg_agents = ag, rg_expiry = t, rg_test = tm, rg_read = rm\<rparr>"
    unfolding build_run_registration_record_def run_registration_expires_at_def registration_record_def
    by (auto simp: bindE_Inr thenE_Inr raise_if_Inr Let_def)
  then show thesis
    by (intro that[of "\<lparr>rg_run_id = i, rg_allowed = a, rg_denied = dn, rg_callers = c, rg_reason = rs,
       rg_agents = ag, rg_expiry = t, rg_test = tm, rg_read = rm\<rparr>"]) (simp_all add: registration_of_def)
qed

lemma test_fields_shape:
  "run_test_mode_fields E payload cfg v a rs x now = Inr tm \<Longrightarrow>
     tm = [] \<or> (\<exists>routes. tm = [(''test_mode'', JStr log_only), (''test_mode_routes'', JList (map JStr routes))])"
  by (auto simp: run_test_mode_fields_def bindE_Inr thenE_Inr split: if_splits option.splits)

lemma read_fields_shape:
  assumes "run_read_mode_fields payload cfg v a = Inr rm"
  shows "wf_json (JObj rm) \<and> fst ` set rm \<subseteq> {''fetch_hosts'', ''read_mode'', ''quarantined_routes''}"
proof -
  have hosts: "fs = [] \<or> (\<exists>l. fs = [(''fetch_hosts'', JList (map JStr l))])" if "fetch_hosts_field payload = Inr fs" for fs
    using that by (auto simp: fetch_hosts_field_def split: json.splits if_splits)
  from assms obtain fs where fs: "fetch_hosts_field payload = Inr fs"
    and rm: "rm = fs \<or> (\<exists>routes. rm = fs @ [(''read_mode'', JStr ''quarantined''), (''quarantined_routes'', JList (map JStr routes))])"
    by (auto simp: run_read_mode_fields_def bindE_Inr thenE_Inr split: if_splits option.splits)
  with hosts[OF fs] show ?thesis by auto
qed

lemma run_agents_wf:
  assumes "run_agents_from_payload E payload cfg callers = Inr ag" "wf_json (JObj payload)"
  shows "wf_json (JObj ag)"
proof (cases "dget0 payload ''run_agents''")
  case (JObj raw)
  have wf: "distinct (map fst raw)" using wf_dget[OF assms(2), of "''run_agents''"] by (simp add: JObj)
  from assms(1) have m: "mapE (run_agent_entry E cfg callers) raw = Inr ag"
    by (auto simp: run_agents_from_payload_def JObj thenE_Inr)
  have e: "\<exists>h. p = (fst q, JStr h)" if "run_agent_entry E cfg callers q = Inr p" for p q
    using that by (auto simp: run_agent_entry_def thenE_Inr split: prod.splits json.splits)
  from m have "map fst ag = map fst raw \<and> (\<forall>p\<in>set ag. \<exists>h. snd p = JStr h)"
  proof (induction raw arbitrary: ag)
    case (Cons q raw)
    then obtain p ps where p: "run_agent_entry E cfg callers q = Inr p" "mapE (run_agent_entry E cfg callers) raw = Inr ps"
      "ag = p # ps" by (auto simp: bindE_Inr)
    from Cons.IH[OF p(2)] e[OF p(1)] show ?case by (auto simp: p(3))
  qed simp
  with wf show ?thesis by fastforce
qed (use assms(1) in \<open>auto simp: run_agents_from_payload_def\<close>)

lemma registration_wf:
  assumes "registration_of E now fresh payload cfg v r" "wf_json (JObj payload)"
  shows "wf_json (JObj (registration_record E now v r))"
proof -
  have t: "rg_test r = [] \<or> (\<exists>routes. rg_test r = [(''test_mode'', JStr log_only), (''test_mode_routes'', JList (map JStr routes))])"
    using assms(1) by (auto simp: registration_of_def dest: test_fields_shape)
  have rr: "run_read_mode_fields payload cfg v (rg_allowed r) = Inr (rg_read r)"
    and ra: "run_agents_from_payload E payload cfg (rg_callers r) = Inr (rg_agents r)"
    using assms(1) by (simp_all add: registration_of_def)
  note rd = conjunct1[OF read_fields_shape[OF rr]] conjunct2[OF read_fields_shape[OF rr]]
  note ag = run_agents_wf[OF ra assms(2)]
  have d: "distinct (map fst (rg_read r))" "\<forall>p\<in>set (rg_read r). wf_json (snd p)" using rd(1) by auto
  let ?head = "[(''run_id'', JStr (rg_run_id r)), (''allowed_routes'', JList (map JStr (rg_allowed r))),
      (''denied_routes'', JList (map JStr (rg_denied r))), (''allowed_callers'', JList (map JStr (rg_callers r))),
      (''expires_at'', JStr (e_isosec E (rg_expiry r))), (''created_by'', JStr (va_agent_id v)),
      (''created_at'', JStr (e_isosec E now)), (''reason'', JStr (rg_reason r))]"
  let ?mid = "only_if (rg_agents r \<noteq> []) (''run_agents'', JObj (rg_agents r)) @ rg_test r"
  have h: "distinct (map fst ?head)" "\<forall>p\<in>set ?head. wf_json (snd p)" by simp_all
  have m: "distinct (map fst ?mid) \<and> (\<forall>p\<in>set ?mid. wf_json (snd p)) \<and>
    fst ` set ?mid \<subseteq> {''run_agents'', ''test_mode'', ''test_mode_routes''}"
    using t
  proof
    assume e: "rg_test r = []"
    show ?thesis using ag unfolding e by (simp add: only_if_def)
  next
    assume "\<exists>routes. rg_test r = [(''test_mode'', JStr log_only), (''test_mode_routes'', JList (map JStr routes))]"
    then obtain rs where e: "rg_test r = [(''test_mode'', JStr log_only), (''test_mode_routes'', JList (map JStr rs))]" by blast
    show ?thesis using ag unfolding e by (simp add: only_if_def)
  qed
  note m = conjunct1[OF m] conjunct1[OF conjunct2[OF m]] conjunct2[OF conjunct2[OF m]]
  have x: "set (map fst ?head) \<inter> {''run_agents'', ''test_mode'', ''test_mode_routes''} = {}" by simp
  have y: "set (map fst ?head) \<inter> {''fetch_hosts'', ''read_mode'', ''quarantined_routes''} = {}"
    "{''run_agents'', ''test_mode'', ''test_mode_routes''} \<inter> {''fetch_hosts'', ''read_mode'', ''quarantined_routes''} = {}"
    by simp_all
  have join: "distinct (map fst (a @ b @ c))" if "distinct (map fst a)" "distinct (map fst b)" "distinct (map fst c)"
    "fst ` set b \<subseteq> B" "fst ` set c \<subseteq> C" "set (map fst a) \<inter> B = {}" "set (map fst a) \<inter> C = {}" "B \<inter> C = {}"
    for a b c :: dict and B C
    unfolding map_append distinct_append using that by (simp add: image_Un) blast
  have "distinct (map fst (?head @ ?mid @ rg_read r))"
    by (rule join[OF h(1) m(1) d(1) m(3) rd(2) x y])
  moreover have "\<forall>p\<in>set (?head @ ?mid @ rg_read r). wf_json (snd p)"
    using h(2) m(2) d(2) by (simp only: set_append) blast
  ultimately show ?thesis by (simp add: registration_record_def)
qed

lemma registration_fields:
  assumes "registration_of E now fresh payload cfg v r"
  shows "map_of (registration_record E now v r) ''run_id'' = Some (JStr (rg_run_id r))"
    "map_of (registration_record E now v r) ''allowed_routes'' = Some (JList (map JStr (rg_allowed r)))"
    "map_of (registration_record E now v r) ''denied_routes'' = Some (JList (map JStr (rg_denied r)))"
    "map_of (registration_record E now v r) ''allowed_callers'' = Some (JList (map JStr (rg_callers r)))"
    "map_of (registration_record E now v r) ''expires_at'' = Some (JStr (e_isosec E (rg_expiry r)))"
    "map_of (registration_record E now v r) ''created_by'' = Some (JStr (va_agent_id v))"
    "map_of (registration_record E now v r) ''test_mode'' = map_of (rg_test r) ''test_mode''"
    "map_of (registration_record E now v r) ''test_mode_routes'' = map_of (rg_test r) ''test_mode_routes''"
proof -
  have "fst ` set (rg_read r) \<subseteq> {''fetch_hosts'', ''read_mode'', ''quarantined_routes''}"
    using assms by (intro conjunct2[OF read_fields_shape[of payload cfg v "rg_allowed r"]]) (simp add: registration_of_def)
  then have k: "map_of (rg_read r) k = None" if "k \<notin> {''fetch_hosts'', ''read_mode'', ''quarantined_routes''}" for k
    using that by (auto simp: map_of_eq_None_iff)
  show "map_of (registration_record E now v r) ''run_id'' = Some (JStr (rg_run_id r))"
    "map_of (registration_record E now v r) ''allowed_routes'' = Some (JList (map JStr (rg_allowed r)))"
    "map_of (registration_record E now v r) ''denied_routes'' = Some (JList (map JStr (rg_denied r)))"
    "map_of (registration_record E now v r) ''allowed_callers'' = Some (JList (map JStr (rg_callers r)))"
    "map_of (registration_record E now v r) ''expires_at'' = Some (JStr (e_isosec E (rg_expiry r)))"
    "map_of (registration_record E now v r) ''created_by'' = Some (JStr (va_agent_id v))"
    "map_of (registration_record E now v r) ''test_mode'' = map_of (rg_test r) ''test_mode''"
    "map_of (registration_record E now v r) ''test_mode_routes'' = map_of (rg_test r) ''test_mode_routes''"
    by (simp_all add: registration_record_def only_if_def map_add_def k split: option.split)
qed

lemma sort_keys_strings [simp]: "sort_keys (JList (map JStr l)) = JList (map JStr l)"
  by (simp add: o_def)

text \<open>The record that counts for the run after the registration was stored.\<close>

lemma registered_latest:
  assumes reg: "registration_of E now fresh payload cfg v r" and env: "json_env E" and inv: "jsonl_inv runs"
    and wf: "wf_json (JObj payload)" and fresh: "run_id_ok (''run_'' @ fresh)"
    and t: "parse_datetime E (e_isosec E (rg_expiry r)) = Inr t"
  obtains n where
    "latest_dynamic_run_record E cfg (append_jsonl_record E (JObj (registration_record E now v r)) runs) (rg_run_id r) = Some n"
    "run_id_ok (rg_run_id r)"
    "map_of n ''allowed_routes'' = Some (JList (map JStr (rg_allowed r)))"
    "map_of n ''denied_routes'' = Some (JList (map JStr (rg_denied r)))"
    "map_of n ''allowed_callers'' = Some (JList (map JStr (rg_callers r)))"
    "map_of n ''expires_at'' = Some (JStr (e_isoformat E t))"
    "map_of n ''created_by'' = Some (JStr (va_agent_id v))"
    "map_of n ''test_mode'' = map_of (rg_test r) ''test_mode''"
    "map_of n ''test_mode_routes'' = map_of (rg_test r) ''test_mode_routes''"
proof -
  let ?rec = "registration_record E now v r"
  have W: "wf_json (JObj ?rec)" by (rule registration_wf[OF reg wf])
  then have line: "json_line_ok E (JObj ?rec)" using env by (simp add: json_env_def)
  obtain s where s: "sort_keys (JObj ?rec) = JObj s" by simp
  have m: "map_of s k = map_option sort_keys (map_of ?rec k)" for k
    using map_of_sorted_json[OF W, of k] s by simp
  have ok: "run_id_ok (rg_run_id r)"
    using reg fresh by (auto simp: registration_of_def registration_run_id_def split: json.splits if_splits)
  note f = registration_fields[OF reg]
  have tf: "map_option sort_keys (map_of (rg_test r) k) = map_of (rg_test r) k" for k
  proof -
    from reg have "rg_test r = [] \<or> (\<exists>routes. rg_test r = [(''test_mode'', JStr log_only), (''test_mode_routes'', JList (map JStr routes))])"
      by (auto simp: registration_of_def dest: test_fields_shape)
    then show ?thesis by auto
  qed
  have ra: "route_array (JList (map JStr (rg_allowed r))) False cfg = Inr (rg_allowed r)"
    "route_array (JList (map JStr (rg_denied r))) True cfg = Inr (rg_denied r)"
    "string_array (JList (map JStr (rg_callers r))) True = Inr (rg_callers r)"
    using reg by (auto simp: registration_of_def intro: route_array_again string_array_again)
  define n where "n = set_fields s [(''run_id'', JStr (rg_run_id r)),
       (''allowed_routes'', JList (map JStr (rg_allowed r))), (''denied_routes'', JList (map JStr (rg_denied r))),
       (''allowed_callers'', JList (map JStr (rg_callers r))), (''expires_at'', JStr (e_isoformat E t))]"
  have "record_for E cfg (rg_run_id r) (JObj s) = Some n"
    unfolding record_for_def normalize_dynamic_run_record_def json.case dget_def m f n_def
    using ok by (simp add: ra t o_def)
  with latest_after_append[OF inv line W, of cfg "rg_run_id r"] s ok f(1) have
    "latest_dynamic_run_record E cfg (append_jsonl_record E (JObj ?rec) runs) (rg_run_id r) = Some n"
    by (simp add: dget_def)
  then show thesis
    by (rule that) (use ok in \<open>simp_all add: n_def m f tf del: sort_keys.simps(2)\<close>)
qed

lemma str_items_strings: "str_items E (JList (map JStr l)) = Inr l"
  by (cases l) (simp_all add: str_items_def py_or_def o_def)

text \<open>C20: What a registration grants. Once the record that \<open>build_run_registration_record\<close> makes of a
  payload is appended to the run store, the run policy accepts a call for that run exactly until
  the registered expiry, on the allowed routes that are not denied, from the allowed callers.
\<close>

theorem registered_run_scope_exact:
  assumes "json_env E" "jsonl_inv runs" "wf_json (JObj payload)" "run_id_ok (''run_'' @ fresh)"
    and build: "build_run_registration_record E now fresh payload cfg v = Inr record"
    and parts: "dget0 record ''run_id'' = JStr run_id"
      "route_array (dget0 payload ''allowed_routes'') False cfg = Inr allowed"
      "route_array (dget payload ''denied_routes'' (JList [])) True cfg = Inr denied"
      "string_array (dget payload ''allowed_callers'' (JList [])) True = Inr callers"
      "registration_expiry E payload cfg now = Inr expiry"
    and time: "parse_datetime E (e_isosec E expiry) = Inr t" "parse_datetime E (e_isoformat E t) = Inr t"
    and dynamic: "map_of (dict_or_empty (py_or (dget0 cfg ''runs'') (JObj []))) run_id = None"
    and call: "rd_run_id d = Some run_id"
  shows "enforce_run_scope E (append_jsonl_record E (JObj record) runs) later cfg d agent = Inr d' \<longleftrightarrow>
    d' = d \<and> later \<le> t \<and> rd_route_id d \<notin> set denied \<and> rd_route_id d \<in> set allowed \<and> (callers = [] \<or> agent \<in> set callers)"
proof -
  from build obtain r where reg: "registration_of E now fresh payload cfg v r"
    and rec: "record = registration_record E now v r" by (rule build_registration)
  from parts reg registration_fields(1)[OF reg] rec have eqs: "rg_run_id r = run_id" "rg_allowed r = allowed"
    "rg_denied r = denied" "rg_callers r = callers" "rg_expiry r = expiry"
    by (auto simp: registration_of_def dget_def)
  from time(1) have t: "parse_datetime E (e_isosec E (rg_expiry r)) = Inr t" by (simp add: eqs)
  from registered_latest[OF reg assms(1,2,3,4) t] obtain n where
    n: "latest_dynamic_run_record E cfg (append_jsonl_record E (JObj record) runs) run_id = Some n" "run_id_ok run_id"
      "map_of n ''allowed_routes'' = Some (JList (map JStr allowed))" "map_of n ''denied_routes'' = Some (JList (map JStr denied))"
      "map_of n ''allowed_callers'' = Some (JList (map JStr callers))" "map_of n ''expires_at'' = Some (JStr (e_isoformat E t))"
    unfolding rec eqs by blast
  from n(2) have ne: "rd_run_id d \<notin> {None, Some []}" using call by (auto simp: run_id_ok_def)
  have res: "map_option fst (resolve_run_scope_record E cfg (append_jsonl_record E (JObj record) runs) run_id) = Some (JObj n)"
    using dynamic n(1) by (simp add: resolve_run_scope_record_def)
  have "allowed \<noteq> []" using parts(2) string_array_nonempty by (auto simp: route_array_def bindE_Inr split: if_splits)
  with ne show ?thesis
    unfolding enforce_run_scope_Inr run_unknown_def run_permits_def call option.sel res
    using n(3-6) time(2) by (auto simp: has_key_def dget_def str_items_strings)
qed

lemma test_mode_active_iff:
  assumes reg: "registration_of E now fresh payload cfg v r" and "json_env E" "jsonl_inv runs" "wf_json (JObj payload)"
    "run_id_ok (''run_'' @ fresh)"
    and t: "parse_datetime E (e_isosec E (rg_expiry r)) = Inr t" "parse_datetime E (e_isoformat E t) = Inr t"
    and dynamic: "map_of (dict_or_empty (py_or (dget0 cfg ''runs'') (JObj []))) (rg_run_id r) = None"
    and call: "rd_run_id d = Some (rg_run_id r)"
  shows "active_input_guard_test_mode E later cfg (append_jsonl_record E (JObj (registration_record E now v r)) runs) d = Inr True \<longleftrightarrow>
    (\<exists>settings routes. test_mode_settings cfg = Some settings \<and>
       rg_test r = [(''test_mode'', JStr log_only), (''test_mode_routes'', JList (map JStr routes))] \<and>
       listed (JStr (rd_route_id d)) settings ''routes'' = Inr True \<and> rd_route_id d \<in> set routes \<and>
       listed (JStr (va_agent_id v)) settings ''allowed_registrars'' = Inr True \<and> later < t)"
proof -
  from registered_latest[OF reg assms(2-5) t(1)] obtain n where
    n: "latest_dynamic_run_record E cfg (append_jsonl_record E (JObj (registration_record E now v r)) runs) (rg_run_id r) = Some n"
      "run_id_ok (rg_run_id r)" "map_of n ''expires_at'' = Some (JStr (e_isoformat E t))"
      "map_of n ''created_by'' = Some (JStr (va_agent_id v))"
      "map_of n ''test_mode'' = map_of (rg_test r) ''test_mode''" "map_of n ''test_mode_routes'' = map_of (rg_test r) ''test_mode_routes''"
    by blast
  have res: "map_option fst (resolve_run_scope_record E cfg (append_jsonl_record E (JObj (registration_record E now v r)) runs)
      (rg_run_id r)) = Some (JObj n)"
    using dynamic n(1) by (simp add: resolve_run_scope_record_def)
  have ne: "rd_run_id d \<notin> {None, Some []}" using call n(2) by (auto simp: run_id_ok_def)
  have l: "listed (JStr x) n ''test_mode_routes'' = Inr True \<longleftrightarrow> x \<in> set routes"
    if "map_of n ''test_mode_routes'' = Some (JList (map JStr routes))" for x routes
    using that by (cases routes) (auto simp: listed_def dget_def py_or_def)
  have f: "dget0 n ''created_by'' = JStr (va_agent_id v)" "dget0 n ''expires_at'' = JStr (e_isoformat E t)"
    using n(3,4) by (simp_all add: dget_def)
  from reg have "rg_test r = [] \<or> (\<exists>routes. rg_test r = [(''test_mode'', JStr log_only), (''test_mode_routes'', JList (map JStr routes))])"
    by (auto simp: registration_of_def dest: test_fields_shape)
  then show ?thesis
  proof
    assume e: "rg_test r = []"
    have q: "dget0 n ''test_mode'' \<noteq> JStr log_only" using n(5) e by (simp add: dget_def)
    have "active_input_guard_test_mode E later cfg (append_jsonl_record E (JObj (registration_record E now v r)) runs) d \<noteq> Inr True"
      unfolding active_input_guard_test_mode_def call option.sel res option.case json.case
      using q by (auto simp: bindE_Inr split: option.splits)
    with e show ?thesis by auto
  next
    assume "\<exists>routes. rg_test r = [(''test_mode'', JStr log_only), (''test_mode_routes'', JList (map JStr routes))]"
    then obtain routes where e: "rg_test r = [(''test_mode'', JStr log_only), (''test_mode_routes'', JList (map JStr routes))]" by blast
    have q: "dget0 n ''test_mode'' = JStr log_only" "map_of n ''test_mode_routes'' = Some (JList (map JStr routes))"
      using n(5,6) e by (simp_all add: dget_def)
    have inj: "JList (map JStr routes) = JList (map JStr ss) \<longleftrightarrow> ss = routes" for ss by (auto simp: inj_map_eq_map inj_def)
    show ?thesis
      unfolding active_input_guard_test_mode_def call option.sel res option.case json.case q(1) f
      using l[OF q(2)] ne[unfolded call] t(2) e inj by (auto simp: bindE_Inr split: option.splits)
  qed
qed

text \<open>C21: The input guard's test mode is bounded. When the guard only logs for a call in a freshly
  registered run, the registration asked for the mode, the mode is enabled, its registrar and the
  route are listed for it, the route is one the run allows, and the call comes before an expiry
  that lies at most the configured time after the registration.
\<close>

theorem test_mode_bounded:
  assumes "json_env E" "jsonl_inv runs" "wf_json (JObj payload)" "run_id_ok (''run_'' @ fresh)"
    and build: "build_run_registration_record E now fresh payload cfg v = Inr record"
    and parts: "dget0 record ''run_id'' = JStr run_id"
      "route_array (dget0 payload ''allowed_routes'') False cfg = Inr allowed"
      "registration_expiry E payload cfg now = Inr expiry"
    and time: "parse_datetime E (e_isosec E expiry) = Inr t" "parse_datetime E (e_isoformat E t) = Inr t"
    and dynamic: "map_of (dict_or_empty (py_or (dget0 cfg ''runs'') (JObj []))) run_id = None"
    and call: "rd_run_id d = Some run_id"
    and active: "active_input_guard_test_mode E later cfg (append_jsonl_record E (JObj record) runs) d = Inr True"
  shows "\<exists>settings max_ttl. test_mode_settings cfg = Some settings \<and> dget0 payload ''test_mode'' = JStr log_only \<and>
    listed (JStr (va_agent_id v)) settings ''allowed_registrars'' = Inr True \<and>
    listed (JStr (rd_route_id d)) settings ''routes'' = Inr True \<and> rd_route_id d \<in> set allowed \<and>
    py_int (dget settings ''max_ttl_seconds'' (JInt 3600)) = Inr max_ttl \<and> later < t \<and> t \<le> now + seconds max_ttl"
proof -
  from build obtain r where reg: "registration_of E now fresh payload cfg v r"
    and rec: "record = registration_record E now v r" by (rule build_registration)
  from parts reg registration_fields(1)[OF reg] rec have eqs: "rg_run_id r = run_id" "rg_allowed r = allowed" "rg_expiry r = expiry"
    by (auto simp: registration_of_def dget_def)
  from time(1) have t: "parse_datetime E (e_isosec E (rg_expiry r)) = Inr t" by (simp add: eqs)
  from reg have tm: "run_test_mode_fields E payload cfg v allowed (rg_reason r) (e_isosec E expiry) now = Inr (rg_test r)"
    by (simp add: registration_of_def eqs)
  from active obtain settings routes where s: "test_mode_settings cfg = Some settings"
    "rg_test r = [(''test_mode'', JStr log_only), (''test_mode_routes'', JList (map JStr routes))]"
    "listed (JStr (rd_route_id d)) settings ''routes'' = Inr True" "rd_route_id d \<in> set routes"
    "listed (JStr (va_agent_id v)) settings ''allowed_registrars'' = Inr True" "later < t"
    using test_mode_active_iff[OF reg assms(1-4) t time(2)] dynamic call unfolding rec eqs by blast
  have inj: "map JStr a = map JStr b \<longleftrightarrow> a = b" for a b by (simp add: inj_map_eq_map inj_def)
  from tm s(1,2) time(1) obtain max_ttl where m: "dget0 payload ''test_mode'' = JStr log_only"
    "py_int (dget settings ''max_ttl_seconds'' (JInt 3600)) = Inr max_ttl" "\<not> seconds max_ttl < t - now"
    "common_routes allowed settings = Inr routes"
    by (auto simp: run_test_mode_fields_def bindE_Inr thenE_Inr raise_if_Inr inj split: if_splits)
  with common_routes_sub[OF m(4)] s(4) have "rd_route_id d \<in> set allowed" by blast
  with s m show ?thesis by auto
qed

definition demo_mode_cfg :: dict where
  "demo_mode_cfg = [(''routes'', JObj [(''a'', JObj [])]), (''test_modes'', JObj [(log_only, JObj [(''enabled'', JBool True),
     (''allowed_registrars'', JList [JStr ''op'']), (''routes'', JList [JStr ''a''])])])]"

definition demo_registration :: dict where
  "demo_registration = [(''run_id'', JStr ''r1''), (''allowed_routes'', JList [JStr ''a'']), (''expires_at'', JStr demo_expiry),
     (''test_mode'', JStr log_only), (''reason'', JStr ''tuning'')]"

definition demo_run_call :: route_decision where
  "demo_run_call = (demo_route [])\<lparr>rd_route_id := ''a'', rd_run_id := Some ''r1''\<rparr>"

lemma demo_route_arrays:
  "route_array (dget0 demo_registration ''allowed_routes'') False demo_mode_cfg = Inr [''a'']"
  "route_array (dget demo_registration ''denied_routes'' (JList [])) True demo_mode_cfg = Inr []"
  "string_array (dget demo_registration ''allowed_callers'' (JList [])) True = Inr []"
  "py_strip demo_expiry \<noteq> []"
  by code_simp+

lemma demo_expiry_sec: "e_isosec demo_env 5 = demo_expiry" "e_isoformat demo_env 5 = demo_expiry"
  by (simp_all add: demo_env_def demo_expiry_def)

lemma demo_registration_expiry: "registration_expiry demo_env demo_registration demo_mode_cfg 0 = Inr 5"
proof -
  have "run_store_max_ttl_seconds demo_mode_cfg = Inr default_run_ttl" by code_simp
  then show ?thesis
    using demo_route_arrays(4) demo_expiry_time
    by (simp add: registration_expiry_def demo_registration_def has_key_def seconds_def default_run_ttl_def)
qed

definition demo_mode_settings :: dict where
  "demo_mode_settings = [(''enabled'', JBool True), (''allowed_registrars'', JList [JStr ''op'']), (''routes'', JList [JStr ''a''])]"

lemma demo_mode_on: "test_mode_settings demo_mode_cfg = Some demo_mode_settings"
  by code_simp

lemma demo_test_fields:
  "registration_reason demo_registration = Inr ''tuning''"
  "run_test_mode_fields demo_env demo_registration demo_mode_cfg demo_operator [''a''] ''tuning'' demo_expiry 0 =
     Inr [(''test_mode'', JStr log_only), (''test_mode_routes'', JList [JStr ''a''])]"
proof -
  show "registration_reason demo_registration = Inr ''tuning''" by code_simp
  have q: "dget0 demo_registration ''test_mode'' = JStr log_only" "py_strip ''tuning'' \<noteq> []" "va_agent_id demo_operator = ''op''"
    by code_simp+
  have l: "listed (JStr ''op'') demo_mode_settings ''allowed_registrars'' = Inr True"
    "common_routes [''a''] demo_mode_settings = Inr [''a'']"
    "py_int (dget demo_mode_settings ''max_ttl_seconds'' (JInt 3600)) = Inr 3600" by code_simp+
  show "run_test_mode_fields demo_env demo_registration demo_mode_cfg demo_operator [''a''] ''tuning'' demo_expiry 0 =
     Inr [(''test_mode'', JStr log_only), (''test_mode_routes'', JList [JStr ''a''])]"
    using q l demo_expiry_time unfolding run_test_mode_fields_def demo_mode_on option.case by (simp add: seconds_def)
qed

lemma demo_registration_record:
  "\<exists>record. build_run_registration_record demo_env 0 ''f'' demo_registration demo_mode_cfg demo_operator = Inr record \<and>
     dget0 record ''run_id'' = JStr ''r1''"
proof -
  have i: "registration_run_id ''f'' demo_registration = Inr ''r1''" "registration_reason demo_registration = Inr ''tuning''"
    "run_agents_from_payload demo_env demo_registration demo_mode_cfg [] = Inr []" "va_bound_run_id demo_operator = []" by code_simp+
  have r: "run_read_mode_fields demo_registration demo_mode_cfg demo_operator [''a''] = Inr []" by code_simp
  show ?thesis
    unfolding build_run_registration_record_def run_registration_expires_at_def i demo_route_arrays demo_registration_expiry
      bindE_simps demo_expiry_sec Let_def demo_test_fields(2) r
    by (simp add: i only_if_def dget_def)
qed

theorem registered_run_scope_exact_witness:
  "\<exists>record. build_run_registration_record demo_env 0 ''f'' demo_registration demo_mode_cfg demo_operator = Inr record \<and>
     enforce_run_scope demo_env (append_jsonl_record demo_env (JObj record) None) 5 demo_mode_cfg demo_run_call ''x'' = Inr demo_run_call \<and>
     enforce_run_scope demo_env (append_jsonl_record demo_env (JObj record) None) 6 demo_mode_cfg demo_run_call ''x'' \<noteq> Inr demo_run_call"
proof -
  obtain rc where b: "build_run_registration_record demo_env 0 ''f'' demo_registration demo_mode_cfg demo_operator = Inr rc"
    and i: "dget0 rc ''run_id'' = JStr ''r1''" using demo_registration_record by blast
  have f: "run_id_ok (''run_'' @ ''f'')" by code_simp
  have w: "wf_json (JObj demo_registration)" by (simp add: demo_registration_def)
  have e: "jsonl_inv None" by (simp add: jsonl_inv_def file_text_def)
  have d: "map_of (dict_or_empty (py_or (dget0 demo_mode_cfg ''runs'') (JObj []))) ''r1'' = None" by code_simp
  have c: "rd_run_id demo_run_call = Some ''r1''" "rd_route_id demo_run_call = ''a''" by (simp_all add: demo_run_call_def)
  have t: "parse_datetime demo_env (e_isosec demo_env 5) = Inr 5" "parse_datetime demo_env (e_isoformat demo_env 5) = Inr 5"
    by (simp_all only: demo_expiry_sec demo_expiry_time)
  note x = registered_run_scope_exact[OF demo_json_env e w f b i demo_route_arrays(1-3) demo_registration_expiry t d c(1)]
  from b x c show ?thesis by auto
qed

theorem test_mode_bounded_witness:
  "\<exists>settings max_ttl. test_mode_settings demo_mode_cfg = Some settings \<and>
    listed (JStr ''op'') settings ''allowed_registrars'' = Inr True \<and>
    py_int (dget settings ''max_ttl_seconds'' (JInt 3600)) = Inr max_ttl \<and> (5 :: int) \<le> seconds max_ttl"
proof -
  obtain rc where b: "build_run_registration_record demo_env 0 ''f'' demo_registration demo_mode_cfg demo_operator = Inr rc"
    and i: "dget0 rc ''run_id'' = JStr ''r1''" using demo_registration_record by blast
  from build_registration[OF b] obtain r where reg: "registration_of demo_env 0 ''f'' demo_registration demo_mode_cfg demo_operator r"
    and rec: "rc = registration_record demo_env 0 demo_operator r" by blast
  from reg i registration_fields(1)[OF reg] demo_route_arrays demo_registration_expiry
  have eqs: "rg_run_id r = ''r1''" "rg_allowed r = [''a'']" "rg_expiry r = 5" "rg_callers r = []"
    by (auto simp: registration_of_def dget_def rec)
  have t: "parse_datetime demo_env (e_isosec demo_env 5) = Inr 5" "parse_datetime demo_env (e_isoformat demo_env 5) = Inr 5"
    by (simp_all only: demo_expiry_sec demo_expiry_time)
  have w: "wf_json (JObj demo_registration)" "jsonl_inv None" "run_id_ok (''run_'' @ ''f'')"
    by (simp add: demo_registration_def, simp add: jsonl_inv_def file_text_def, code_simp)
  have d: "map_of (dict_or_empty (py_or (dget0 demo_mode_cfg ''runs'') (JObj []))) ''r1'' = None" by code_simp
  have c: "rd_run_id demo_run_call = Some ''r1''" "rd_route_id demo_run_call = ''a''" by (simp_all add: demo_run_call_def)
  from reg have "run_test_mode_fields demo_env demo_registration demo_mode_cfg demo_operator [''a''] ''tuning'' demo_expiry 0 = Inr (rg_test r)"
    using demo_test_fields(1) by (simp add: registration_of_def eqs demo_expiry_sec)
  with demo_test_fields(2) have rt: "rg_test r = [(''test_mode'', JStr log_only), (''test_mode_routes'', JList (map JStr [''a'']))]" by simp
  have l: "listed (JStr ''a'') demo_mode_settings ''routes'' = Inr True"
    "listed (JStr ''op'') demo_mode_settings ''allowed_registrars'' = Inr True" "va_agent_id demo_operator = ''op''" by code_simp+
  have "active_input_guard_test_mode demo_env 4 demo_mode_cfg (append_jsonl_record demo_env (JObj rc) None) demo_run_call = Inr True"
    unfolding rec test_mode_active_iff[OF reg demo_json_env w(2,1,3), of 5 demo_run_call 4, unfolded eqs, OF t d c(1)] c
    using rt l demo_mode_on by (auto intro!: exI[of _ "[''a'']"])
  from test_mode_bounded[OF demo_json_env w(2,1,3) b i demo_route_arrays(1) demo_registration_expiry t d c(1) this]
  show ?thesis unfolding c l(3) by auto
qed
end
