(* ===== verification/Artifact_Store.thy ===== *)
theory Artifact_Store
  imports Backend
begin

text \<open>
  The artifact store of gateway.py: where manifests, lookups, index entries and blobs lie below
  the root of the store, how they are written and read, how long they are kept, and the
  garbage collection (\<open>gc_artifacts\<close>). Paths are lists of components; symbolic links and
  directories as such are not modelled, and a path handed to \<open>open\<close> is that of a file.
\<close>

section \<open>Options and policies\<close>

definition artifact_store_options :: "dict \<Rightarrow> dict" where
  "artifact_store_options cfg = dict_or_empty (dget cfg ''artifact_store'' (JObj []))"

definition route_artifact_policy :: "route_decision \<Rightarrow> dict" where
  "route_artifact_policy d = dict_or_empty (dget (rd_route d) ''artifact_policy'' (JObj []))"

definition default_max_artifact_bytes :: int where
  "default_max_artifact_bytes = 10485760"

definition artifact_max_bytes :: "dict \<Rightarrow> route_decision \<Rightarrow> int res" where
  "artifact_max_bytes cfg d =
     bindE (parse_int (dget (artifact_store_options cfg) ''max_artifact_bytes'' (JInt default_max_artifact_bytes))
       default_max_artifact_bytes) (\<lambda>(n, ok).
     let limit = (if \<not> ok \<or> n \<le> 0 then default_max_artifact_bytes else n); policy = route_artifact_policy d in
     if \<not> has_key policy ''max_artifact_bytes'' then Inr limit
     else bindE (parse_int (dget0 policy ''max_artifact_bytes'') limit) (\<lambda>(n, ok).
       Inr (if ok \<and> 0 < n then min limit n else limit)))"

definition default_retention_days :: int where
  "default_retention_days = 90"

definition artifact_retention_days :: "dict \<Rightarrow> int res" where
  "artifact_retention_days cfg =
     bindE (parse_int (dget (artifact_store_options cfg) ''retention_days'' (JInt default_retention_days)) default_retention_days)
       (\<lambda>(days, ok). Inr (if \<not> ok \<or> days \<le> 0 then default_retention_days else days))"

definition artifact_statuses :: "string list" where
  "artifact_statuses = [''unchecked'', ''verified'', ''verified_with_warnings'', ''needs_review'', ''blocked'']"

definition artifact_allowed_statuses :: "env \<Rightarrow> route_decision \<Rightarrow> string list" where
  "artifact_allowed_statuses E d = (case dget0 (route_artifact_policy d) ''allowed_statuses'' of
       JList l \<Rightarrow> if l = [] then [''verified''] else filter (\<lambda>s. s \<in> set artifact_statuses) (map (py_str E) l)
     | _ \<Rightarrow> [''verified''])"

section \<open>Paths\<close>

definition store_error :: exn where
  "store_error = GatewayError 500 ''artifact_store_error''"

definition unknown_artifact :: exn where
  "unknown_artifact = GatewayError 404 ''unknown_artifact''"

definition validate_artifact_id :: "string \<Rightarrow> unit res" where
  "validate_artifact_id i = raise_if (\<not> artifact_id_ok i) unknown_artifact"

text \<open>\<open>ARTIFACT_PARTITION_PATTERN.fullmatch\<close>: a date with slashes.\<close>

definition partition_ok :: "string \<Rightarrow> bool" where
  "partition_ok p \<longleftrightarrow> length p = 10 \<and> p ! 4 = CHR ''/'' \<and> p ! 7 = CHR ''/'' \<and>
     list_all (\<lambda>i. is_digit (p ! i)) [0, 1, 2, 3, 5, 6, 8, 9]"

definition validate_artifact_partition :: "string \<Rightarrow> unit res" where
  "validate_artifact_partition p = raise_if (\<not> partition_ok p) store_error"

text \<open>The year, month and day of a number of days since the epoch.\<close>

definition civil :: "int \<Rightarrow> int \<times> int \<times> int" where
  "civil days =
     (let z = days + 719468;
          era = z div 146097;
          doe = z mod 146097;
          yoe = (doe - doe div 1460 + doe div 36524 - doe div 146096) div 365;
          doy = doe - (365 * yoe + yoe div 4 - yoe div 100);
          mp = (5 * doy + 2) div 153;
          m = (if mp < 10 then mp + 3 else mp - 9)
      in (yoe + era * 400 + (if m \<le> 2 then 1 else 0), m, doy - (153 * mp + 2) div 5 + 1))"

definition pad :: "nat \<Rightarrow> int \<Rightarrow> string" where
  "pad n i = (let s = int_str i in replicate (n - length s) CHR ''0'' @ s)"

definition partition_of_time :: "int \<Rightarrow> string" where
  "partition_of_time t = (case civil (t div seconds 86400) of (y, m, d) \<Rightarrow> pad 4 y @ ''/'' @ pad 2 m @ ''/'' @ pad 2 d)"

definition expand_z :: "string \<Rightarrow> string" where
  \<comment> \<open>\<open>s.replace("Z", "+00:00")\<close>\<close>
  "expand_z s = concat (map (\<lambda>c. if c = CHR ''Z'' then ''+00:00'' else [c]) s)"

definition artifact_partition_from_timestamp :: "env \<Rightarrow> int \<Rightarrow> json \<Rightarrow> string" where
  "artifact_partition_from_timestamp E now timestamp =
     (case e_iso E (expand_z (py_str E (py_or timestamp (JStr [])))) of
        None \<Rightarrow> partition_of_time now | Some (t, _) \<Rightarrow> partition_of_time t)"

definition artifact_storage_partition :: "env \<Rightarrow> int \<Rightarrow> dict \<Rightarrow> (string \<times> dict) res" where
  "artifact_storage_partition E now manifest =
     (let p = py_str E (py_or (dget0 manifest ''storage_partition'') (JStr [])) in
      if p \<noteq> [] then thenE (validate_artifact_partition p) (Inr (p, manifest))
      else let q = artifact_partition_from_timestamp E now (dget0 manifest ''created_at'')
           in Inr (q, AList.update ''storage_partition'' (JStr q) manifest))"

definition json_name :: "string \<Rightarrow> string" where
  "json_name i = i @ ''.json''"

definition artifact_lookup_path :: "string \<Rightarrow> apath res" where
  "artifact_lookup_path i = thenE (validate_artifact_id i) (Inr [''index'', ''artifacts'', json_name i])"

definition artifact_manifest_path :: "string \<Rightarrow> string option \<Rightarrow> apath res" where
  "artifact_manifest_path i part = thenE (validate_artifact_id i) (case part of
       None \<Rightarrow> Inr [''manifests'', json_name i]
     | Some p \<Rightarrow> thenE (validate_artifact_partition p) (Inr (''manifests'' # split_on CHR ''/'' p @ [json_name i])))"

definition artifact_index_path :: "string \<Rightarrow> string \<Rightarrow> string option \<Rightarrow> apath res" where
  "artifact_index_path st i part =
     thenE (raise_if (st \<notin> set artifact_statuses) store_error)
    (thenE (validate_artifact_id i) (case part of
       None \<Rightarrow> Inr [''quarantine'', st, json_name i]
     | Some p \<Rightarrow> thenE (validate_artifact_partition p) (Inr ([''quarantine'', st] @ split_on CHR ''/'' p @ [json_name i]))))"

definition artifact_blob_path :: "string \<Rightarrow> apath res" where
  "artifact_blob_path sha = thenE (raise_if (\<not> sha256_hex_ok sha) store_error) (Inr [''blobs'', ''sha256'', take 2 sha, sha])"

definition artifact_legacy_blob_path :: "string \<Rightarrow> apath res" where
  "artifact_legacy_blob_path sha = thenE (raise_if (\<not> sha256_hex_ok sha) store_error) (Inr [''blobs'', ''sha256'', sha])"

definition exists :: "astore \<Rightarrow> apath \<Rightarrow> bool" where
  "exists store p \<longleftrightarrow> map_of store p \<noteq> None"

definition artifact_blob_read_path :: "astore \<Rightarrow> string \<Rightarrow> apath res" where
  "artifact_blob_read_path store sha =
     bindE (artifact_blob_path sha) (\<lambda>p. if exists store p then Inr p
       else bindE (artifact_legacy_blob_path sha) (\<lambda>q. Inr (if exists store q then q else p)))"

text \<open>\<open>Path(relative)\<close> without empty and current-directory components; \<open>None\<close> when it is absolute or climbs.\<close>

definition safe_relative_artifact_path :: "json \<Rightarrow> apath option" where
  "safe_relative_artifact_path relative = (case relative of
       JStr s \<Rightarrow> (let parts = filter (\<lambda>c. c \<noteq> [] \<and> c \<noteq> ''.'') (split_on CHR ''/'' s) in
         if s = [] \<or> prefix ''/'' s \<or> ''..'' \<in> set parts then None else Some parts)
     | _ \<Rightarrow> None)"

section \<open>Writing\<close>

definition write_json_atomic :: "apath \<Rightarrow> dict \<Rightarrow> (astore, unit) act" where
  "write_json_atomic p body = modA (AList.update p (JsonFile (sort_keys (JObj body))))"

definition write_blob_once :: "apath \<Rightarrow> string \<Rightarrow> (astore, unit) act" where
  "write_blob_once p content = modA (\<lambda>store. if exists store p then store else AList.update p (RawFile content) store)"

definition id_of :: "env \<Rightarrow> dict \<Rightarrow> string" where
  "id_of E manifest = py_str E (dget0 manifest ''artifact_id'')"

definition write_artifact_lookup :: "env \<Rightarrow> int \<Rightarrow> dict \<Rightarrow> apath \<Rightarrow> (astore, unit) act" where
  "write_artifact_lookup E now manifest path =
     bindA (liftA (artifact_storage_partition E now manifest)) (\<lambda>(part, manifest).
     bindA (liftA (artifact_lookup_path (id_of E manifest))) (\<lambda>p.
       write_json_atomic p ([(''artifact_id'', JStr (id_of E manifest)), (''storage_partition'', JStr part),
         (''manifest_path'', JStr (py_join ''/'' path))] @
         map (\<lambda>k. (k, dget0 manifest k)) [''status'', ''content_sha256'', ''size_bytes'', ''updated_at'', ''producer_agent_id'', ''route_id'',
           ''run_id'', ''task_id''] @ [(''taint'', dget manifest ''taint'' (JList []))])))"

text \<open>Both writers leave the partition in the manifest they were given.\<close>

definition write_artifact_manifest :: "env \<Rightarrow> int \<Rightarrow> dict \<Rightarrow> (astore, dict) act" where
  "write_artifact_manifest E now manifest =
     bindA (liftA (artifact_storage_partition E now manifest)) (\<lambda>(part, manifest).
     bindA (liftA (artifact_manifest_path (id_of E manifest) (Some part))) (\<lambda>p.
     thenA (write_json_atomic p manifest) (thenA (write_artifact_lookup E now manifest p) (retA manifest))))"

definition index_paths :: "string \<Rightarrow> string list \<Rightarrow> apath list res" where
  \<comment> \<open>the entries of an artifact under every status, outside and inside each partition\<close>
  "index_paths i partitions = bindE (mapE (\<lambda>st. bindE (artifact_index_path st i None) (\<lambda>p.
     bindE (mapE (\<lambda>q. artifact_index_path st i (Some q)) partitions) (\<lambda>ps. Inr (p # ps)))) artifact_statuses)
     (\<lambda>l. Inr (concat l))"

definition unlink_all :: "apath list \<Rightarrow> astore \<Rightarrow> astore" where
  "unlink_all ps store = filter (\<lambda>(p, _). p \<notin> set ps) store"

definition write_artifact_index :: "env \<Rightarrow> int \<Rightarrow> dict \<Rightarrow> (astore, dict) act" where
  "write_artifact_index E now manifest =
     bindA (liftA (artifact_storage_partition E now manifest)) (\<lambda>(part, manifest).
     bindA (liftA (index_paths (id_of E manifest) [part])) (\<lambda>old.
     thenA (modA (unlink_all old))
    (bindA (liftA (artifact_index_path (py_str E (dget0 manifest ''status'')) (id_of E manifest) (Some part))) (\<lambda>p.
     thenA (write_json_atomic p ([(''artifact_id'', JStr (id_of E manifest))] @
         map (\<lambda>k. (k, dget0 manifest k)) [''status'', ''content_sha256'', ''size_bytes'', ''media_type'', ''updated_at'', ''producer_agent_id'',
           ''route_id'', ''run_id'', ''task_id''] @ [(''taint'', dget manifest ''taint'' (JList [])), (''storage_partition'', JStr part)]))
       (retA manifest)))))"

section \<open>Reading\<close>

definition load_json :: "afile \<Rightarrow> json res" where
  "load_json f = (case f of JsonFile j \<Rightarrow> Inr j | RawFile _ \<Rightarrow> Inl (PyError ''ValueError''))"

text \<open>The path the lookup entry names, if it leads to a file.\<close>

definition looked_up_path :: "astore \<Rightarrow> string \<Rightarrow> apath option res" where
  "looked_up_path store i = (case map_of store [''index'', ''artifacts'', json_name i] of
       None \<Rightarrow> Inr None
     | Some f \<Rightarrow> bindE (load_json f) (\<lambda>body. case body of
           JObj lookup \<Rightarrow> Inr (case safe_relative_artifact_path (dget0 lookup ''manifest_path'') of
               None \<Rightarrow> None | Some p \<Rightarrow> if exists store p then Some p else None)
         | _ \<Rightarrow> Inr None))"

definition partitioned_manifests :: "astore \<Rightarrow> string \<Rightarrow> apath list" where
  \<comment> \<open>\<open>sorted((root / "manifests").glob("*/*/*/<id>.json"))\<close>\<close>
  "partitioned_manifests store i = sort (filter (\<lambda>p. length p = 5 \<and> hd p = ''manifests'' \<and> last p = json_name i) (map fst store))"

definition manifest_file :: "astore \<Rightarrow> string \<Rightarrow> apath option res" where
  "manifest_file store i = bindE (looked_up_path store i) (\<lambda>found. Inr (case found of
       Some p \<Rightarrow> Some p
     | None \<Rightarrow> if exists store [''manifests'', json_name i] then Some [''manifests'', json_name i]
         else (case partitioned_manifests store i of [] \<Rightarrow> None | p # _ \<Rightarrow> Some p)))"

definition load_artifact_manifest :: "astore \<Rightarrow> string \<Rightarrow> dict res" where
  "load_artifact_manifest store i =
     thenE (validate_artifact_id i)
    (bindE (manifest_file store i) (\<lambda>found. case found of
       None \<Rightarrow> Inl unknown_artifact
     | Some p \<Rightarrow> (case map_of store p of
         None \<Rightarrow> Inl unknown_artifact
       | Some f \<Rightarrow> bindE (load_json f) (\<lambda>body. case body of
           JObj manifest \<Rightarrow>
             (let parent = butlast p; part = py_join ''/'' (tl parent) in
              Inr (if \<not> has_key manifest ''storage_partition'' \<and> parent \<noteq> [''manifests''] \<and> prefix [''manifests''] parent \<and> partition_ok part
                   then AList.update ''storage_partition'' (JStr part) manifest else manifest))
         | _ \<Rightarrow> Inl store_error))))"

section \<open>Retention\<close>

definition parse_artifact_datetime :: "env \<Rightarrow> json \<Rightarrow> int option" where
  "parse_artifact_datetime E v = (case v of
       JStr s \<Rightarrow> if py_strip s = [] then None else (case e_iso E (expand_z s) of
           None \<Rightarrow> None | Some (t, None) \<Rightarrow> Some t | Some (t, Some off) \<Rightarrow> Some (t - off))
     | _ \<Rightarrow> None)"

definition artifact_retention_timestamp :: "env \<Rightarrow> dict \<Rightarrow> int option" where
  "artifact_retention_timestamp E manifest = (case parse_artifact_datetime E (dget0 manifest ''created_at'') of
       Some t \<Rightarrow> Some t | None \<Rightarrow> parse_artifact_datetime E (dget0 manifest ''updated_at''))"

text \<open>\<open>datetime.min\<close>, and the subtraction that raises below it.\<close>

definition earliest :: int where
  "earliest = seconds (- 62135596800)"

definition artifact_retention_cutoff :: "dict \<Rightarrow> int \<Rightarrow> int res" where
  "artifact_retention_cutoff cfg now = bindE (artifact_retention_days cfg) (\<lambda>days.
     let t = now - seconds (86400 * days) in
     if 999999999 < days \<or> t < earliest then Inl (PyError ''OverflowError'') else Inr t)"

definition artifact_expired :: exn where
  "artifact_expired = GatewayError 410 ''artifact_expired''"

definition enforce_artifact_retention :: "env \<Rightarrow> int \<Rightarrow> dict \<Rightarrow> dict \<Rightarrow> unit res" where
  "enforce_artifact_retention E now manifest cfg = (case artifact_retention_timestamp E manifest of
       None \<Rightarrow> Inl artifact_expired
     | Some created \<Rightarrow> bindE (artifact_retention_cutoff cfg now) (\<lambda>cutoff. raise_if (created < cutoff) artifact_expired))"

section \<open>Garbage collection\<close>

definition iter_artifact_manifest_paths :: "astore \<Rightarrow> apath list" where
  "iter_artifact_manifest_paths store =
     sort (filter (\<lambda>p. 2 \<le> length p \<and> hd p = ''manifests'' \<and> suffix ''.json'' (last p)) (map fst store))"

text \<open>
  A file that is no JSON object counts as unreadable. (Bytes that are no UTF-8 would end the source's
  collection with \<open>UnicodeDecodeError\<close>; such a manifest is not modelled.)
\<close>

definition read_artifact_manifest_file :: "astore \<Rightarrow> apath \<Rightarrow> dict option" where
  "read_artifact_manifest_file store p = (case map_of store p of Some (JsonFile (JObj m)) \<Rightarrow> Some m | _ \<Rightarrow> None)"

definition artifact_partition_from_manifest_path :: "apath \<Rightarrow> string option" where
  "artifact_partition_from_manifest_path p =
     (if prefix [''manifests''] p \<and> length p = 5 \<and> partition_ok (py_join ''/'' (take 3 (tl p)))
      then Some (py_join ''/'' (take 3 (tl p))) else None)"

definition artifact_gc_index_paths :: "env \<Rightarrow> astore \<Rightarrow> string \<Rightarrow> dict \<Rightarrow> apath \<Rightarrow> apath list res" where
  "artifact_gc_index_paths E store i manifest path =
     (let configured = py_str E (py_or (dget0 manifest ''storage_partition'') (JStr []));
          partitions = only_if (partition_ok configured) configured @
            (case artifact_partition_from_manifest_path path of None \<Rightarrow> [] | Some p \<Rightarrow> [p])
      in bindE (artifact_lookup_path i) (\<lambda>lookup.
         bindE (index_paths i partitions) (\<lambda>ps.
           Inr (sort (remdups (lookup # ps @ filter (\<lambda>p. length p = 6 \<and> hd p = ''quarantine'' \<and> p ! 1 \<in> set artifact_statuses \<and>
             last p = json_name i) (map fst store)))))))"

definition artifact_blob_paths_for_delete :: "astore \<Rightarrow> string \<Rightarrow> apath list" where
  "artifact_blob_paths_for_delete store sha =
     (if \<not> sha256_hex_ok sha then []
      else filter (exists store) [[''blobs'', ''sha256'', take 2 sha, sha], [''blobs'', ''sha256'', sha]])"

record candidate =
  gc_id :: string
  gc_sha :: string
  gc_manifest :: dict
  gc_path :: apath

definition sha_of :: "env \<Rightarrow> dict \<Rightarrow> string" where
  "sha_of E m = py_str E (py_or (dget0 m ''content_sha256'') (JStr []))"

text \<open>One manifest of the first loop: the candidate it makes, and whether it is skipped.\<close>

definition scan_manifest :: "env \<Rightarrow> int \<Rightarrow> apath \<Rightarrow> dict \<Rightarrow> candidate list \<times> nat" where
  "scan_manifest E cutoff p m =
     (let i = py_str E (py_or (dget0 m ''artifact_id'') (JStr [])) in
      if \<not> artifact_id_ok i then ([], 1)
      else case artifact_retention_timestamp E m of
        None \<Rightarrow> ([], 1)
      | Some created \<Rightarrow> (only_if (created < cutoff) \<lparr>gc_id = i, gc_sha = sha_of E m, gc_manifest = m, gc_path = p\<rparr>, 0))"

text \<open>The first loop: which manifest references which content, and which manifests have expired.\<close>

fun gc_scan :: "env \<Rightarrow> astore \<Rightarrow> int \<Rightarrow> apath list \<Rightarrow> (string \<times> apath) list \<times> candidate list \<times> nat" where
  "gc_scan E store cutoff [] = ([], [], 0)"
| "gc_scan E store cutoff (p # ps) = (case gc_scan E store cutoff ps of (refs, cands, skipped) \<Rightarrow>
      (case read_artifact_manifest_file store p of
        None \<Rightarrow> (refs, cands, Suc skipped)
      | Some m \<Rightarrow> (case scan_manifest E cutoff p m of (c, n) \<Rightarrow>
          (only_if (sha256_hex_ok (sha_of E m)) (sha_of E m, p) @ refs, c @ cands, n + skipped))))"

record gc_state =
  gc_store :: astore
  gc_manifests :: nat
  gc_indexes :: nat
  gc_blobs :: nat
  gc_hashes :: "string list"

definition present :: "apath list \<Rightarrow> astore \<Rightarrow> nat" where
  "present ps store = length (filter (exists store) ps)"

text \<open>The content of a candidate goes when every manifest that references it has expired.\<close>

definition gc_delete_blob :: "(string \<times> apath) list \<Rightarrow> apath list \<Rightarrow> candidate \<Rightarrow> gc_state \<Rightarrow> gc_state" where
  "gc_delete_blob refs expired c s =
     (let references = map snd (filter (\<lambda>(sha, _). sha = gc_sha c) refs);
          blobs = artifact_blob_paths_for_delete (gc_store s) (gc_sha c)
      in if gc_sha c \<in> set (gc_hashes s) \<or> references = [] \<or> \<not> set references \<subseteq> set expired \<or> blobs = [] then s
         else s\<lparr>gc_store := unlink_all blobs (gc_store s), gc_blobs := Suc (gc_blobs s), gc_hashes := gc_sha c # gc_hashes s\<rparr>)"

definition gc_delete :: "env \<Rightarrow> (string \<times> apath) list \<Rightarrow> apath list \<Rightarrow> candidate \<Rightarrow> gc_state \<Rightarrow> gc_state res" where
  "gc_delete E refs expired c s =
     (let store = unlink_all [gc_path c] (gc_store s) in
      bindE (artifact_gc_index_paths E store (gc_id c) (gc_manifest c) (gc_path c)) (\<lambda>ps.
        Inr (gc_delete_blob refs expired c (s\<lparr>gc_store := unlink_all ps store,
          gc_manifests := gc_manifests s + present [gc_path c] (gc_store s), gc_indexes := gc_indexes s + present ps store\<rparr>))))"

fun gc_deletes :: "env \<Rightarrow> (string \<times> apath) list \<Rightarrow> apath list \<Rightarrow> candidate list \<Rightarrow> gc_state \<Rightarrow> gc_state res" where
  "gc_deletes E refs expired [] s = Inr s"
| "gc_deletes E refs expired (c # cs) s = bindE (gc_delete E refs expired c s) (gc_deletes E refs expired cs)"

definition gc_artifact_summary :: "env \<Rightarrow> bool \<Rightarrow> string \<Rightarrow> int \<Rightarrow> int \<Rightarrow> int \<Rightarrow> nat \<Rightarrow> candidate list \<Rightarrow> gc_state \<Rightarrow> nat \<Rightarrow> dict" where
  "gc_artifact_summary E dry_run dir now days cutoff scanned cands s skipped =
     [(''ok'', JBool True), (''dry_run'', JBool dry_run), (''store'', JStr dir), (''now'', JStr (e_isoformat E now)),
      (''retention_days'', JInt days), (''cutoff'', JStr (e_isoformat E cutoff)), (''scanned_manifests'', JInt (int scanned)),
      (''expired_manifests'', JInt (int (length cands))), (''deleted_manifests'', JInt (int (gc_manifests s))),
      (''deleted_indexes'', JInt (int (gc_indexes s))), (''deleted_blobs'', JInt (int (gc_blobs s))),
      (''skipped_manifests'', JInt (int skipped))]"

text \<open>
  The store after a collection, with what the summary counts; \<open>dir\<close> is the path of the store. The
  source takes no lock: a collection is one step here, and a submission that runs beside it is not modelled.
\<close>

definition gc_artifact_store :: "env \<Rightarrow> int \<Rightarrow> bool \<Rightarrow> astore \<Rightarrow> (candidate list \<times> gc_state \<times> nat) res" where
  "gc_artifact_store E cutoff dry_run store =
     (let (refs, cands, skipped) = gc_scan E store cutoff (iter_artifact_manifest_paths store);
          start = \<lparr>gc_store = store, gc_manifests = 0, gc_indexes = 0, gc_blobs = 0, gc_hashes = []\<rparr>
      in bindE (if dry_run then Inr start else gc_deletes E refs (map gc_path cands) cands start) (\<lambda>s. Inr (cands, s, skipped)))"

definition gc_artifacts :: "env \<Rightarrow> dict \<Rightarrow> bool \<Rightarrow> int \<Rightarrow> string \<Rightarrow> (world, dict) act" where
  "gc_artifacts E cfg dry_run now dir = (\<lambda>w.
     (bindA (liftA (artifact_retention_days cfg)) (\<lambda>days.
      bindA (liftA (artifact_retention_cutoff cfg now)) (\<lambda>cutoff.
      bindA (liftA (gc_artifact_store E cutoff dry_run (g_artifacts w))) (\<lambda>(cands, s, skipped).
      let summary = gc_artifact_summary E dry_run dir now days cutoff (length (iter_artifact_manifest_paths (g_artifacts w))) cands s skipped in
      thenA (modA (\<lambda>w. w\<lparr>g_artifacts := gc_store s\<rparr>))
       (if dry_run then retA summary
        else thenA (write_audit E now (AList.delete ''store'' summary @ [(''event'', JStr ''artifact_gc''), (''decision'', JStr ''completed'')]))
               (retA summary)))))) w)"

section \<open>What a collection deletes\<close>

text \<open>A manifest file that is readable, well formed and older than the cutoff.\<close>

definition expired_manifest :: "env \<Rightarrow> int \<Rightarrow> astore \<Rightarrow> apath \<Rightarrow> bool" where
  "expired_manifest E cutoff store p = (case read_artifact_manifest_file store p of
       None \<Rightarrow> False
     | Some m \<Rightarrow> artifact_id_ok (py_str E (py_or (dget0 m ''artifact_id'') (JStr []))) \<and>
         (case artifact_retention_timestamp E m of None \<Rightarrow> False | Some t \<Rightarrow> t < cutoff))"

definition blob_paths :: "string \<Rightarrow> apath list" where
  "blob_paths sha = [[''blobs'', ''sha256'', take 2 sha, sha], [''blobs'', ''sha256'', sha]]"

lemma map_of_unlink [simp]: "map_of (unlink_all ps store) p = (if p \<in> set ps then None else map_of store p)"
  unfolding unlink_all_def by (induction store) auto

lemma unlink_all_append: "unlink_all qs (unlink_all ps store) = unlink_all (ps @ qs) store"
  by (auto simp: unlink_all_def filter_filter intro!: filter_cong)

lemma gc_scan_refs:
  "gc_scan E store cutoff ps = (refs, cands, k) \<Longrightarrow>
     (sha, p) \<in> set refs \<longleftrightarrow> p \<in> set ps \<and> sha256_hex_ok sha \<and>
       (\<exists>m. read_artifact_manifest_file store p = Some m \<and> sha = sha_of E m)"
proof (induction ps arbitrary: refs cands k)
  case (Cons q ps)
  obtain r c n where s: "gc_scan E store cutoff ps = (r, c, n)" using prod_cases3 by blast
  have "refs = (case read_artifact_manifest_file store q of None \<Rightarrow> r
      | Some m \<Rightarrow> only_if (sha256_hex_ok (sha_of E m)) (sha_of E m, q) @ r)"
    using Cons.prems s by (auto split: option.splits prod.splits)
  with Cons.IH[OF s] show ?case by (auto simp: only_if_def split: option.splits if_splits)
qed simp

lemma scan_manifest_cand:
  assumes "read_artifact_manifest_file store p = Some m"
  shows "map gc_path (fst (scan_manifest E cutoff p m)) = only_if (expired_manifest E cutoff store p) p"
    "c \<in> set (fst (scan_manifest E cutoff p m)) \<Longrightarrow> artifact_id_ok (gc_id c) \<and> gc_path c = p \<and> gc_sha c = sha_of E m"
  using assms by (auto simp: scan_manifest_def expired_manifest_def only_if_def Let_def split: option.splits if_splits)

lemma gc_scan_cands:
  "gc_scan E store cutoff ps = (refs, cands, k) \<Longrightarrow>
     map gc_path cands = filter (expired_manifest E cutoff store) ps \<and>
     (\<forall>c\<in>set cands. artifact_id_ok (gc_id c) \<and> (\<exists>m. read_artifact_manifest_file store (gc_path c) = Some m \<and> gc_sha c = sha_of E m))"
proof (induction ps arbitrary: refs cands k)
  case (Cons q ps)
  obtain r c n where s: "gc_scan E store cutoff ps = (r, c, n)" using prod_cases3 by blast
  show ?case
  proof (cases "read_artifact_manifest_file store q")
    case None
    with Cons.IH[OF s] Cons.prems s show ?thesis by (simp add: expired_manifest_def)
  next
    case (Some m)
    with Cons.prems s have "cands = fst (scan_manifest E cutoff q m) @ c" by (auto split: prod.splits)
    with Cons.IH[OF s] scan_manifest_cand[OF Some] Some show ?thesis by (auto simp: only_if_def)
  qed
qed simp

lemma split_on_nonempty: "split_on c s \<noteq> []"
  by (induction s) (auto split: list.splits)

lemma artifact_index_path_Inr:
  "artifact_id_ok i \<Longrightarrow> st \<in> set artifact_statuses \<Longrightarrow> (case part of None \<Rightarrow> True | Some p \<Rightarrow> partition_ok p) \<Longrightarrow>
    \<exists>p. artifact_index_path st i part = Inr p \<and> hd p = ''quarantine''"
  by (auto simp: artifact_index_path_def validate_artifact_id_def validate_artifact_partition_def split: option.splits)

lemma mapE_all: "(\<And>x. x \<in> set xs \<Longrightarrow> \<exists>y. f x = Inr y \<and> P y) \<Longrightarrow> \<exists>ys. mapE f xs = Inr ys \<and> (\<forall>y\<in>set ys. P y)"
proof (induction xs)
  case (Cons x xs)
  from Cons.prems[of x] obtain y where "f x = Inr y" "P y" by auto
  moreover from Cons obtain ys where "mapE f xs = Inr ys" "\<forall>y\<in>set ys. P y" by auto
  ultimately show ?case by auto
qed simp

lemma index_paths_Inr:
  assumes "artifact_id_ok i" "list_all partition_ok parts"
  shows "\<exists>ps. index_paths i parts = Inr ps \<and> (\<forall>p\<in>set ps. hd p = ''quarantine'')"
proof -
  have "\<exists>ps. bindE (artifact_index_path st i None) (\<lambda>p. bindE (mapE (\<lambda>q. artifact_index_path st i (Some q)) parts) (\<lambda>ps. Inr (p # ps))) = Inr ps \<and>
      (\<forall>p\<in>set ps. hd p = ''quarantine'')" if st: "st \<in> set artifact_statuses" for st
  proof -
    from artifact_index_path_Inr[OF assms(1) st, of None] obtain p where p: "artifact_index_path st i None = Inr p" "hd p = ''quarantine''" by auto
    have "\<exists>ps. mapE (\<lambda>q. artifact_index_path st i (Some q)) parts = Inr ps \<and> (\<forall>p\<in>set ps. hd p = ''quarantine'')"
      by (rule mapE_all) (use artifact_index_path_Inr[OF assms(1) st] assms(2) in \<open>auto simp: list_all_iff\<close>)
    with p show ?thesis by auto
  qed
  from mapE_all[of artifact_statuses _ "\<lambda>ps. \<forall>p\<in>set ps. hd p = ''quarantine''", OF this]
  show ?thesis unfolding index_paths_def by fastforce
qed

lemma gc_index_paths_Inr:
  assumes "artifact_id_ok i"
  shows "\<exists>ps. artifact_gc_index_paths E store i m p = Inr ps \<and> (\<forall>q\<in>set ps. hd q \<in> {''index'', ''quarantine''})"
proof -
  let ?c = "py_str E (py_or (dget0 m ''storage_partition'') (JStr []))"
  have parts: "list_all partition_ok (only_if (partition_ok ?c) ?c @ (case artifact_partition_from_manifest_path p of None \<Rightarrow> [] | Some p \<Rightarrow> [p]))"
    by (auto simp: only_if_def artifact_partition_from_manifest_path_def)
  from index_paths_Inr[OF assms parts] obtain ps where ps:
    "index_paths i (only_if (partition_ok ?c) ?c @ (case artifact_partition_from_manifest_path p of None \<Rightarrow> [] | Some p \<Rightarrow> [p])) = Inr ps"
    "\<forall>p\<in>set ps. hd p = ''quarantine''" by blast
  have l: "artifact_lookup_path i = Inr [''index'', ''artifacts'', json_name i]"
    using assms by (simp add: artifact_lookup_path_def validate_artifact_id_def)
  show ?thesis unfolding artifact_gc_index_paths_def Let_def l ps(1) bindE_simps using ps(2) by auto
qed

text \<open>What one candidate takes away: its manifest, entries outside the manifests and blobs, and blobs only
  when every manifest that references its content has expired.\<close>

definition may_delete :: "(string \<times> apath) list \<Rightarrow> apath list \<Rightarrow> candidate list \<Rightarrow> apath \<Rightarrow> bool" where
  "may_delete refs expired cs p \<longleftrightarrow> p \<in> gc_path ` set cs \<or> hd p \<in> {''index'', ''quarantine''} \<or>
     (\<exists>c\<in>set cs. p \<in> set (blob_paths (gc_sha c)) \<and> (\<forall>q. (gc_sha c, q) \<in> set refs \<longrightarrow> q \<in> set expired))"

lemma gc_delete_blob_store:
  "\<exists>ps. gc_store (gc_delete_blob refs expired c s) = unlink_all ps (gc_store s) \<and> (\<forall>p\<in>set ps. may_delete refs expired [c] p)"
proof (cases "gc_delete_blob refs expired c s = s")
  case True
  then show ?thesis by (intro exI[of _ "[]"]) (simp add: unlink_all_def)
next
  case False
  let ?bs = "artifact_blob_paths_for_delete (gc_store s) (gc_sha c)"
  from False have "gc_store (gc_delete_blob refs expired c s) = unlink_all ?bs (gc_store s)"
    and sub: "set (map snd (filter (\<lambda>(sha, _). sha = gc_sha c) refs)) \<subseteq> set expired"
    by (auto simp: gc_delete_blob_def Let_def split: if_splits)
  moreover have "\<forall>q. (gc_sha c, q) \<in> set refs \<longrightarrow> q \<in> set expired" using sub by force
  moreover have "set ?bs \<subseteq> set (blob_paths (gc_sha c))"
    by (auto simp: artifact_blob_paths_for_delete_def blob_paths_def)
  ultimately show ?thesis by (intro exI[of _ ?bs]) (auto simp: may_delete_def)
qed

lemma gc_delete_step:
  assumes "artifact_id_ok (gc_id c)"
  shows "\<exists>s' ps. gc_delete E refs expired c s = Inr s' \<and> gc_store s' = unlink_all ps (gc_store s) \<and>
    gc_path c \<in> set ps \<and> (\<forall>p\<in>set ps. may_delete refs expired [c] p)"
proof -
  let ?st = "unlink_all [gc_path c] (gc_store s)"
  from gc_index_paths_Inr[OF assms] obtain qs where q: "artifact_gc_index_paths E ?st (gc_id c) (gc_manifest c) (gc_path c) = Inr qs"
    "\<forall>q\<in>set qs. hd q \<in> {''index'', ''quarantine''}" by blast
  obtain s1 where s1: "gc_delete E refs expired c s = Inr (gc_delete_blob refs expired c s1)" "gc_store s1 = unlink_all qs ?st"
    by (simp add: gc_delete_def Let_def q)
  obtain ps where ps: "gc_store (gc_delete_blob refs expired c s1) = unlink_all ps (gc_store s1)" "\<forall>p\<in>set ps. may_delete refs expired [c] p"
    using gc_delete_blob_store by blast
  have "gc_store (gc_delete_blob refs expired c s1) = unlink_all ((gc_path c # qs) @ ps) (gc_store s)"
    by (simp add: ps s1(2) unlink_all_append)
  moreover have "\<forall>p\<in>set ((gc_path c # qs) @ ps). may_delete refs expired [c] p"
    using ps(2) q(2) by (auto simp: may_delete_def)
  ultimately show ?thesis using s1(1) by (intro exI[of _ "gc_delete_blob refs expired c s1"] exI[of _ "(gc_path c # qs) @ ps"]) auto
qed

lemma may_delete_mono: "may_delete refs expired [c] p \<Longrightarrow> c \<in> set cs \<Longrightarrow> may_delete refs expired cs p"
  "may_delete refs expired cs p \<Longrightarrow> may_delete refs expired (c # cs) p"
  by (auto simp: may_delete_def)

lemma gc_deletes_run:
  "\<forall>c\<in>set cs. artifact_id_ok (gc_id c) \<Longrightarrow>
     \<exists>s' ps. gc_deletes E refs expired cs s = Inr s' \<and> gc_store s' = unlink_all ps (gc_store s) \<and>
       gc_path ` set cs \<subseteq> set ps \<and> (\<forall>p\<in>set ps. may_delete refs expired cs p)"
proof (induction cs arbitrary: s)
  case Nil
  show ?case by (rule exI[of _ s], rule exI[of _ "[]"]) (simp add: unlink_all_def)
next
  case (Cons c cs)
  from gc_delete_step[of c E refs expired s] Cons.prems obtain t qs where
    t: "gc_delete E refs expired c s = Inr t" "gc_store t = unlink_all qs (gc_store s)" "gc_path c \<in> set qs"
      "\<forall>p\<in>set qs. may_delete refs expired [c] p" by auto
  from Cons.IH[of t] Cons.prems obtain u ps where
    u: "gc_deletes E refs expired cs t = Inr u" "gc_store u = unlink_all ps (gc_store t)" "gc_path ` set cs \<subseteq> set ps"
      "\<forall>p\<in>set ps. may_delete refs expired cs p" by auto
  show ?case
    by (rule exI[of _ u], rule exI[of _ "qs @ ps"])
      (use t u in \<open>auto simp: unlink_all_append intro: may_delete_mono\<close>)
qed

text \<open>Content that only expired manifests reference does not stay.\<close>

definition gone :: "astore \<Rightarrow> string \<Rightarrow> bool" where
  "gone store sha \<longleftrightarrow> list_all (\<lambda>b. map_of store b = None) (blob_paths sha)"

lemma gone_unlink: "gone store sha \<Longrightarrow> gone (unlink_all ps store) sha"
  by (auto simp: gone_def list_all_iff)

lemma gone_blobs: "sha256_hex_ok sha \<Longrightarrow> gone (unlink_all (artifact_blob_paths_for_delete store sha) store) sha"
  by (auto simp: gone_def list_all_iff artifact_blob_paths_for_delete_def blob_paths_def exists_def)

lemma gc_delete_blob_gone:
  assumes "\<forall>h\<in>set (gc_hashes s). sha256_hex_ok h \<longrightarrow> gone (gc_store s) h"
  shows "\<forall>h\<in>set (gc_hashes (gc_delete_blob refs expired c s)). sha256_hex_ok h \<longrightarrow> gone (gc_store (gc_delete_blob refs expired c s)) h"
    "sha256_hex_ok (gc_sha c) \<Longrightarrow> (gc_sha c, q) \<in> set refs \<Longrightarrow> (\<forall>q. (gc_sha c, q) \<in> set refs \<longrightarrow> q \<in> set expired) \<Longrightarrow>
       gone (gc_store (gc_delete_blob refs expired c s)) (gc_sha c)"
proof -
  let ?s = "gc_delete_blob refs expired c s" and ?bs = "artifact_blob_paths_for_delete (gc_store s) (gc_sha c)"
  have cases: "?s = s \<or> gc_store ?s = unlink_all ?bs (gc_store s) \<and> gc_hashes ?s = gc_sha c # gc_hashes s"
    by (auto simp: gc_delete_blob_def Let_def)
  then show "\<forall>h\<in>set (gc_hashes ?s). sha256_hex_ok h \<longrightarrow> gone (gc_store ?s) h"
    using assms gone_blobs[of "gc_sha c" "gc_store s"] gone_unlink by auto
  assume ok: "sha256_hex_ok (gc_sha c)" and r: "(gc_sha c, q) \<in> set refs" "\<forall>q. (gc_sha c, q) \<in> set refs \<longrightarrow> q \<in> set expired"
  have refs: "map snd (filter (\<lambda>(sha, _). sha = gc_sha c) refs) \<noteq> []"
    "set (map snd (filter (\<lambda>(sha, _). sha = gc_sha c) refs)) \<subseteq> set expired"
    using r by (force simp: filter_empty_conv)+
  show "gone (gc_store ?s) (gc_sha c)"
  proof (cases "gc_sha c \<in> set (gc_hashes s) \<or> ?bs = []")
    case True
    then have s: "?s = s" by (auto simp: gc_delete_blob_def)
    from True show ?thesis
    proof
      assume "?bs = []"
      with gone_blobs[OF ok, of "gc_store s"] show ?thesis by (simp add: s unlink_all_def)
    qed (use assms ok s in auto)
  next
    case False
    with refs have "gc_store ?s = unlink_all ?bs (gc_store s)" unfolding gc_delete_blob_def Let_def by simp
    with gone_blobs[OF ok] show ?thesis by simp
  qed
qed

lemma gc_deletes_gone:
  "gc_deletes E refs expired cs s = Inr s' \<Longrightarrow> \<forall>h\<in>set (gc_hashes s). sha256_hex_ok h \<longrightarrow> gone (gc_store s) h \<Longrightarrow>
     \<forall>c\<in>set cs. artifact_id_ok (gc_id c) \<Longrightarrow>
     (\<forall>sha. gone (gc_store s) sha \<longrightarrow> gone (gc_store s') sha) \<and>
     (\<forall>c\<in>set cs. sha256_hex_ok (gc_sha c) \<longrightarrow> (\<exists>q. (gc_sha c, q) \<in> set refs) \<longrightarrow> (\<forall>q. (gc_sha c, q) \<in> set refs \<longrightarrow> q \<in> set expired) \<longrightarrow>
       gone (gc_store s') (gc_sha c))"
proof (induction cs arbitrary: s)
  case (Cons c cs)
  from Cons.prems(1) obtain ps where ps: "artifact_gc_index_paths E (unlink_all [gc_path c] (gc_store s)) (gc_id c) (gc_manifest c) (gc_path c) = Inr ps"
    using gc_index_paths_Inr[of "gc_id c"] Cons.prems(3) by auto blast
  define s1 where "s1 = s\<lparr>gc_store := unlink_all ps (unlink_all [gc_path c] (gc_store s)),
      gc_manifests := gc_manifests s + present [gc_path c] (gc_store s), gc_indexes := gc_indexes s + present ps (unlink_all [gc_path c] (gc_store s))\<rparr>"
  have step: "gc_delete E refs expired c s = Inr (gc_delete_blob refs expired c s1)"
    unfolding gc_delete_def Let_def ps bindE_simps s1_def ..
  have h1: "\<forall>h\<in>set (gc_hashes s1). sha256_hex_ok h \<longrightarrow> gone (gc_store s1) h"
    using Cons.prems(2) gone_unlink by (auto simp: s1_def)
  note d = gc_delete_blob_gone[OF h1, where refs = refs and expired = expired and c = c]
  obtain qs where q: "gc_store (gc_delete_blob refs expired c s1) = unlink_all qs (gc_store s1)"
    using gc_delete_blob_store by blast
  from Cons.prems(1) step have rest: "gc_deletes E refs expired cs (gc_delete_blob refs expired c s1) = Inr s'" by simp
  from Cons.IH[OF rest d(1)] Cons.prems(3) d(2) q gone_unlink show ?case by (auto simp: s1_def)
qed simp

lemma blob_path_sha: "b \<in> set (blob_paths x) \<Longrightarrow> b \<in> set (blob_paths y) \<Longrightarrow> x = y"
  by (auto simp: blob_paths_def)

lemma blob_path_hd: "b \<in> set (blob_paths x) \<Longrightarrow> hd b = ''blobs''"
  by (auto simp: blob_paths_def)

text \<open>C25: Garbage collection of artifacts is exact. Of the manifests, precisely the readable, well-formed
  ones older than the retention time go and every other file under the manifests stays; the content a
  remaining manifest names stays; and the content that only expired manifests name goes.\<close>

theorem gc_artifacts_exact:
  assumes run: "gc_artifacts E cfg False now dir w = (Inr summary, w')" and cut: "artifact_retention_cutoff cfg now = Inr cutoff"
    and p: "p \<in> set (iter_artifact_manifest_paths (g_artifacts w))"
    and m: "read_artifact_manifest_file (g_artifacts w) p = Some m" "sha256_hex_ok (sha_of E m)"
  shows "map_of (g_artifacts w') p = (if expired_manifest E cutoff (g_artifacts w) p then None else map_of (g_artifacts w) p) \<and>
    (if list_all (\<lambda>q. case read_artifact_manifest_file (g_artifacts w) q of
          Some m' \<Rightarrow> sha_of E m' = sha_of E m \<longrightarrow> expired_manifest E cutoff (g_artifacts w) q | None \<Rightarrow> True)
        (iter_artifact_manifest_paths (g_artifacts w))
     then gone (g_artifacts w') (sha_of E m)
     else list_all (\<lambda>b. map_of (g_artifacts w') b = map_of (g_artifacts w) b) (blob_paths (sha_of E m)))"
proof -
  let ?st = "g_artifacts w" and ?ps = "iter_artifact_manifest_paths (g_artifacts w)"
  obtain refs cands k where scan: "gc_scan E ?st cutoff ?ps = (refs, cands, k)" using prod_cases3 by blast
  note r = gc_scan_refs[OF scan] and c = gc_scan_cands[OF scan]
  let ?start = "\<lparr>gc_store = ?st, gc_manifests = 0, gc_indexes = 0, gc_blobs = 0, gc_hashes = []\<rparr>"
  from gc_deletes_run[of cands E refs "map gc_path cands" ?start] c obtain s qs where
    s: "gc_deletes E refs (map gc_path cands) cands ?start = Inr s" "gc_store s = unlink_all qs ?st" "gc_path ` set cands \<subseteq> set qs"
      "\<forall>p\<in>set qs. may_delete refs (map gc_path cands) cands p" by auto
  from run cut s(1) have w': "g_artifacts w' = gc_store s"
    by (auto simp: gc_artifacts_def bindA_def thenA_def liftA_def modA_def retA_def gc_artifact_store_def scan Let_def
        split: sum.splits prod.splits dest!: write_audit_frame)
  have ex: "gc_path ` set cands = {q \<in> set ?ps. expired_manifest E cutoff ?st q}"
    using arg_cong[OF conjunct1[OF c], of set] by simp
  have hdp: "hd q = ''manifests''" if "q \<in> set ?ps" for q using that by (auto simp: iter_artifact_manifest_paths_def)
  have first: "map_of (gc_store s) p = (if expired_manifest E cutoff ?st p then None else map_of ?st p)"
  proof (cases "expired_manifest E cutoff ?st p")
    case True
    with p ex s(3) show ?thesis by (auto simp: s(2))
  next
    case False
    then have "p \<notin> set qs" using s(4) ex hdp[OF p] by (auto simp: may_delete_def dest!: blob_path_hd)
    with False show ?thesis by (simp add: s(2))
  qed
  let ?all = "list_all (\<lambda>q. case read_artifact_manifest_file ?st q of
          Some m' \<Rightarrow> sha_of E m' = sha_of E m \<longrightarrow> expired_manifest E cutoff ?st q | None \<Rightarrow> True) ?ps"
  have refs: "(sha_of E m, p) \<in> set refs" using r[of "sha_of E m" p] p m by blast
  have second: "gone (gc_store s) (sha_of E m)" if ?all
  proof -
    have sub: "\<forall>q. (sha_of E m, q) \<in> set refs \<longrightarrow> q \<in> set (map gc_path cands)"
      using that r ex by (fastforce simp: list_all_iff)
    then obtain d where d: "d \<in> set cands" "gc_path d = p" using refs by auto
    then have "gc_sha d = sha_of E m" using c m(1) by auto
    with gc_deletes_gone[OF s(1)] c d(1) m(2) refs sub show ?thesis by auto
  qed
  have third: "list_all (\<lambda>b. map_of (gc_store s) b = map_of ?st b) (blob_paths (sha_of E m))" if n: "\<not> ?all"
  proof -
    from n obtain q where q: "q \<in> set ?ps" "(sha_of E m, q) \<in> set refs" "\<not> expired_manifest E cutoff ?st q"
      using r m(2) by (auto simp: list_all_iff split: option.splits)
    have "b \<notin> set qs" if b: "b \<in> set (blob_paths (sha_of E m))" for b
    proof
      assume "b \<in> set qs"
      with s(4) have "may_delete refs (map gc_path cands) cands b" by blast
      moreover have "b \<notin> gc_path ` set cands" using ex hdp blob_path_hd[OF b] by auto
      ultimately obtain d :: candidate where "b \<in> set (blob_paths (gc_sha d))" "\<forall>q. (gc_sha d, q) \<in> set refs \<longrightarrow> q \<in> gc_path ` set cands"
        using blob_path_hd[OF b] by (auto simp: may_delete_def)
      with blob_path_sha[OF b] q ex show False by auto
    qed
    then show ?thesis by (simp add: list_all_iff s(2))
  qed
  from first second third show ?thesis unfolding w' by simp
qed

lemma write_audit_first: "g_audit w = None \<Longrightarrow> \<exists>ev w'. write_audit E now event w = (Inr ev, w')"
proof -
  assume a: "g_audit w = None"
  have "last_hash E None = Inr zero_hash" by (simp add: last_hash_def audit_lines_def file_text_def file_lines_def)
  then show ?thesis by (simp add: write_audit_def audit_write_def a Let_def)
qed

lemma gc_artifacts_returns:
  assumes "artifact_retention_days cfg = Inr days" "artifact_retention_cutoff cfg now = Inr cutoff" "g_audit w = None"
  shows "\<exists>summary w'. gc_artifacts E cfg False now dir w = (Inr summary, w')"
proof -
  let ?st = "g_artifacts w"
  obtain refs cands k where scan: "gc_scan E ?st cutoff (iter_artifact_manifest_paths ?st) = (refs, cands, k)" using prod_cases3 by blast
  let ?start = "\<lparr>gc_store = ?st, gc_manifests = 0, gc_indexes = 0, gc_blobs = 0, gc_hashes = []\<rparr>"
  from gc_deletes_run[of cands E refs "map gc_path cands" ?start] gc_scan_cands[OF scan] obtain s where
    s: "gc_deletes E refs (map gc_path cands) cands ?start = Inr s" by auto
  let ?w = "w\<lparr>g_artifacts := gc_store s\<rparr>"
  let ?ev = "AList.delete ''store'' (gc_artifact_summary E False dir now days cutoff
      (length (iter_artifact_manifest_paths ?st)) cands s k) @ [(''event'', JStr ''artifact_gc''), (''decision'', JStr ''completed'')]"
  have "g_audit ?w = None" using assms(3) by simp
  from write_audit_first[OF this, of E now ?ev] obtain ev w' where "write_audit E now ?ev ?w = (Inr ev, w')" by blast
  then show ?thesis
    by (simp add: gc_artifacts_def assms gc_artifact_store_def scan s bindA_def thenA_def liftA_def modA_def retA_def Let_def)
qed

definition demo_art :: string where
  "demo_art = ''art_'' @ replicate 32 CHR ''a''"

definition demo_digest :: string where
  "demo_digest = replicate 64 CHR ''b''"

definition demo_old :: dict where
  "demo_old = [(''artifact_id'', JStr demo_art), (''content_sha256'', JStr demo_digest), (''created_at'', JStr ''5'')]"

definition demo_old_path :: apath where
  "demo_old_path = [''manifests'', ''1970'', ''01'', ''01'', json_name demo_art]"

definition demo_gc_world :: world where
  "demo_gc_world = \<lparr>g_audit = None, g_runs = None, g_approvals = None, g_warnings = None, g_revoked = None, g_registry = None,
     g_cache = None, g_kill = False, g_limiter = limiter_reset, g_evidence = None,
     g_artifacts = [(demo_old_path, JsonFile (JObj demo_old)), ([''blobs'', ''sha256'', ''bb'', demo_digest], RawFile ''x'')],
     g_quota = \<lparr>q_calls = [], q_seen = []\<rparr>\<rparr>"

definition demo_gc_now :: int where
  "demo_gc_now = seconds (86400 * 91)"

theorem gc_artifacts_exact_witness:
  "\<exists>summary w'. gc_artifacts calc_env [] False demo_gc_now ''store'' demo_gc_world = (Inr summary, w') \<and>
     map_of (g_artifacts w') demo_old_path = None \<and> gone (g_artifacts w') demo_digest"
proof -
  have cut: "artifact_retention_cutoff [] demo_gc_now = Inr (seconds 86400)" by code_simp
  have days: "artifact_retention_days [] = Inr 90" by code_simp
  have "g_audit demo_gc_world = None" by (simp add: demo_gc_world_def)
  from gc_artifacts_returns[OF days cut this] obtain summary w' where
    run: "gc_artifacts calc_env [] False demo_gc_now ''store'' demo_gc_world = (Inr summary, w')" by blast
  have p: "iter_artifact_manifest_paths (g_artifacts demo_gc_world) = [demo_old_path]" by code_simp
  have m: "read_artifact_manifest_file (g_artifacts demo_gc_world) demo_old_path = Some demo_old" "sha256_hex_ok (sha_of calc_env demo_old)"
    "sha_of calc_env demo_old = demo_digest" by code_simp+
  have x: "expired_manifest calc_env (seconds 86400) (g_artifacts demo_gc_world) demo_old_path" by code_simp
  from gc_artifacts_exact[OF run cut _ m(1,2)] p x m(3) have
    "map_of (g_artifacts w') demo_old_path = None \<and> gone (g_artifacts w') demo_digest" by (simp add: m(1))
  with run show ?thesis by blast
qed

end
