(* ===== verification/Config_Check.thy ===== *)
theory Config_Check
  imports Artifact_Check
begin

text \<open>
  Loading and checking the configuration (\<open>load_config\<close> and \<open>validate_config\<close> of gateway.py, with
  \<open>validate_test_modes\<close> and \<open>validate_quarantined_read\<close>). A check returns the list of the settings it
  complains about, or raises what Python raises on a value of an unforeseen type; a complaint is
  kept as the name of the setting, without the rest of its message. The program reads
  configurations it has accepted only, so the lemmas at the end show what the other components
  may rely on: aliases name one route, agents name existing routes, per-run identities are never
  configured identities, and reading a limit does not raise.
\<close>

section \<open>Collecting complaints\<close>

type_synonym errs = "string list res"

definition err :: "bool \<Rightarrow> string \<Rightarrow> string list" where
  "err b label = (if b then [label] else [])"

definition errE :: "bool \<Rightarrow> string \<Rightarrow> errs" where
  "errE b label = Inr (err b label)"

definition alsoE :: "errs \<Rightarrow> errs \<Rightarrow> errs" where
  "alsoE a b = bindE a (\<lambda>xs. bindE b (\<lambda>ys. Inr (xs @ ys)))"

fun allE :: "errs list \<Rightarrow> errs" where
  "allE [] = Inr []"
| "allE (m # ms) = alsoE m (allE ms)"

text \<open>\<open>number, ok = parse_int(value, default=d)\<close> and a test of the number.\<close>

definition int_error :: "json \<Rightarrow> int \<Rightarrow> (int \<Rightarrow> bool) \<Rightarrow> string \<Rightarrow> errs" where
  "int_error v d good label = bindE (parse_int v d) (\<lambda>(n, ok). errE (\<not> ok \<or> \<not> good n) label)"

definition int_field :: "dict \<Rightarrow> string \<Rightarrow> (int \<Rightarrow> bool) \<Rightarrow> string \<Rightarrow> errs" where
  "int_field d key good label = (if has_key d key then int_error (dget0 d key) 0 good label else Inr [])"

definition bool_field :: "dict \<Rightarrow> string \<Rightarrow> string \<Rightarrow> errs" where
  "bool_field d key label = errE (has_key d key \<and> \<not> is_bool (dget0 d key)) label"

text \<open>\<open>isinstance(v, bool) or not isinstance(v, int) or not good(v)\<close>\<close>

definition strict_int_error :: "json \<Rightarrow> (int \<Rightarrow> bool) \<Rightarrow> string \<Rightarrow> errs" where
  "strict_int_error v good label = errE (case v of JInt n \<Rightarrow> \<not> good n | _ \<Rightarrow> True) label"

text \<open>\<open>key in mapping\<close> for any value; \<open>s in value\<close> for a string.\<close>

definition key_in :: "json \<Rightarrow> dict \<Rightarrow> bool res" where
  "key_in j d = bindE (hashable j) (\<lambda>_. Inr (case j of JStr s \<Rightarrow> has_key d s | _ \<Rightarrow> False))"

fun py_contains :: "json \<Rightarrow> string \<Rightarrow> bool res" where
  "py_contains (JObj d) s = Inr (has_key d s)"
| "py_contains (JList l) s = Inr (JStr s \<in> set l)"
| "py_contains (JStr t) s = Inr (substring s t)"
| "py_contains _ s = Inl (PyError ''TypeError'')"

text \<open>\<open>not isinstance(v, list) or not v or any(not isinstance(x, str) or x not in names for x in v)\<close>\<close>

fun any_outside :: "json \<Rightarrow> json list \<Rightarrow> bool res" where
  "any_outside names [] = Inr False"
| "any_outside names (JStr s # xs) = bindE (py_contains names s) (\<lambda>known. if known then any_outside names xs else Inr True)"
| "any_outside names (x # xs) = Inr True"

definition names_error :: "json \<Rightarrow> json \<Rightarrow> string \<Rightarrow> errs" where
  "names_error v names label = (case v of
       JList (x # xs) \<Rightarrow> bindE (any_outside names (x # xs)) (\<lambda>b. errE b label)
     | _ \<Rightarrow> errE True label)"

definition dotted :: "string list \<Rightarrow> string" where
  "dotted = py_join ''.''"

section \<open>The process and its stores\<close>

text \<open>What the check asks of the machine: addresses, and whether the canary registry is a file.\<close>

record host =
  h_loopback :: "string \<Rightarrow> bool"     \<comment> \<open>\<open>ipaddress.ip_address(s).is_loopback\<close>; \<open>False\<close> is also \<open>ValueError\<close>\<close>
  h_network :: "string \<Rightarrow> bool"      \<comment> \<open>\<open>ipaddress.ip_network(s, strict=False)\<close> does not raise\<close>
  h_registry :: bool                   \<comment> \<open>\<open>canary.registry_path(cfg).is_file()\<close>\<close>

definition is_loopback_bind :: "host \<Rightarrow> json \<Rightarrow> bool" where
  "is_loopback_bind H bind = (case bind of
       JStr s \<Rightarrow> (let h = py_lower (py_strip s) in h \<in> {''127.0.0.1'', ''::1'', ''localhost''} \<or> h_loopback H h)
     | _ \<Rightarrow> False)"

definition process_errors :: "host \<Rightarrow> env \<Rightarrow> dict \<Rightarrow> errs" where
  "process_errors H E cfg =
     (let bind = py_str E (dget cfg ''bind'' (JStr [])) in
      allE [errE (bind = [] \<or> \<not> is_loopback_bind H (JStr bind)) ''bind'',
        int_error (dget0 cfg ''port'') 8788 (\<lambda>n. 1 \<le> n \<and> n \<le> 65535) ''port'',
        int_error (dget0 cfg ''max_body_bytes'') 524288 (\<lambda>n. 0 < n) ''max_body_bytes'',
        strict_int_error (dget cfg ''request_read_timeout_seconds'' (JInt 15)) (\<lambda>n. 1 \<le> n \<and> n \<le> 600) ''request_read_timeout_seconds'',
        strict_int_error (dget cfg ''max_concurrent_requests'' (JInt 32)) (\<lambda>n. 1 \<le> n \<and> n \<le> 600) ''max_concurrent_requests'',
        bool_field cfg ''require_known_run_id'' ''require_known_run_id''])"

text \<open>The path of a store has a default, which is not blank.\<close>

definition path_error :: "dict \<Rightarrow> string \<Rightarrow> errs" where
  "path_error store label = errE (has_key store ''path'' \<and> \<not> nonblank (dget0 store ''path'')) label"

definition run_store_errors :: "dict \<Rightarrow> errs" where
  "run_store_errors cfg = (case dget cfg ''run_store'' (JObj []) of
       JNull \<Rightarrow> Inr []
     | JStr path \<Rightarrow> errE (py_strip path = []) ''run_store''
     | JObj store \<Rightarrow> allE [path_error store ''run_store.path'',
         int_error (dget store ''max_ttl_seconds'' (JInt default_run_ttl)) default_run_ttl (\<lambda>n. 0 < n) ''run_store.max_ttl_seconds'']
     | _ \<Rightarrow> errE True ''run_store'')"

definition quota_errors :: "dict \<Rightarrow> errs" where
  "quota_errors cfg = (case dget0 cfg ''run_model_quota'' of
       JNull \<Rightarrow> Inr []
     | JObj quota \<Rightarrow>
         (let raw = dget quota ''max_model_calls_per_run'' (JInt 200); label = ''run_model_quota.max_model_calls_per_run'' in
          allE [bool_field quota ''enabled'' ''run_model_quota.enabled'',
            if is_bool raw then errE True label else int_error raw 200 (\<lambda>n. 0 < n) label])
     | _ \<Rightarrow> errE True ''run_model_quota'')"

definition artifact_store_errors :: "dict \<Rightarrow> errs" where
  "artifact_store_errors cfg = (case dget cfg ''artifact_store'' (JObj []) of
       JNull \<Rightarrow> Inr []
     | JObj store \<Rightarrow> allE [path_error store ''artifact_store.path'',
         int_error (dget store ''max_artifact_bytes'' (JInt default_max_artifact_bytes)) default_max_artifact_bytes (\<lambda>n. 0 < n)
           ''artifact_store.max_artifact_bytes'',
         int_error (dget store ''retention_days'' (JInt default_retention_days)) default_retention_days (\<lambda>n. 0 < n)
           ''artifact_store.retention_days'']
     | _ \<Rightarrow> errE True ''artifact_store'')"

section \<open>Routes\<close>

definition route_kinds :: "string list" where
  "route_kinds = [''inspect_only'', ''openai_chat_completions'', ''http_json'', ''command'', ''artifact_review'', ''canary'']"

definition route_label :: "string \<Rightarrow> string \<Rightarrow> string" where
  "route_label route_id field = dotted [''routes'', route_id, field]"

definition kind_of :: "env \<Rightarrow> dict \<Rightarrow> string" where
  "kind_of E route = py_str E (dget route ''kind'' (JStr []))"

text \<open>\<open>route.get(key) or []\<close>: an array of non-blank strings, when given.\<close>

definition strings_errors :: "json \<Rightarrow> string \<Rightarrow> errs" where
  "strings_errors v label = (case v of
       JList xs \<Rightarrow> allE (map (\<lambda>x. errE (\<not> nonblank x) label) xs)
     | _ \<Rightarrow> errE True label)"

definition or_empty_list :: "json \<Rightarrow> json" where
  "or_empty_list v = py_or v (JList [])"

definition capability_errors :: "env \<Rightarrow> string \<Rightarrow> dict \<Rightarrow> errs" where
  "capability_errors E r route =
     allE [errE (case dget0 route ''input_policy'' of JObj p \<Rightarrow> truthy (dget0 p ''allow_defensive_secret_instructions'') | _ \<Rightarrow> False)
         (route_label r ''input_policy.allow_defensive_secret_instructions''),
       errE (kind_of E route \<notin> set route_kinds) (route_label r ''kind''),
       errE (\<not> nonblank (dget0 route ''required_capability'')) (route_label r ''required_capability''),
       strings_errors (or_empty_list (dget0 route ''allowed_capabilities'')) (route_label r ''allowed_capabilities'')]"

text \<open>The aliases of a route, given those of the routes before it.\<close>

fun alias_errors :: "string \<Rightarrow> (string \<times> string) list \<Rightarrow> json list \<Rightarrow> string list \<times> (string \<times> string) list" where
  "alias_errors r seen [] = ([], seen)"
| "alias_errors r seen (a # as) =
     (if \<not> nonblank a then (let (es, seen') = alias_errors r seen as in (route_label r ''aliases'' # es, seen'))
      else let n = str_or_blank a;
               clash = (case map_of seen n of None \<Rightarrow> False | Some r' \<Rightarrow> r' \<noteq> r);
               (es, seen') = alias_errors r (AList.update n r seen) as
           in (err clash ''route alias'' @ es, seen'))"

definition route_alias_errors :: "string \<Rightarrow> (string \<times> string) list \<Rightarrow> dict \<Rightarrow> string list \<times> (string \<times> string) list" where
  "route_alias_errors r seen route = (case or_empty_list (dget0 route ''aliases'') of
       JList as \<Rightarrow> alias_errors r seen as
     | _ \<Rightarrow> ([route_label r ''aliases''], seen))"

definition caller_errors :: "string \<Rightarrow> dict \<Rightarrow> errs" where
  "caller_errors r route = errE (case dget route ''allowed_callers'' (JList []) of
       JList (x # xs) \<Rightarrow> \<not> list_all nonblank (x # xs) | _ \<Rightarrow> True) (route_label r ''allowed_callers'')"

definition input_policy_errors :: "string \<Rightarrow> dict \<Rightarrow> errs" where
  "input_policy_errors r route = (case dget route ''input_policy'' (JObj []) of
       JNull \<Rightarrow> Inr []
     | JObj policy \<Rightarrow> allE [
         bool_field policy ''require_x_research_request'' (route_label r ''input_policy.require_x_research_request''),
         int_field policy ''max_x_query_chars'' (\<lambda>n. 0 < n) (route_label r ''input_policy.max_x_query_chars''),
         int_field policy ''max_x_question_chars'' (\<lambda>n. 0 < n) (route_label r ''input_policy.max_x_question_chars''),
         int_field policy ''max_x_results'' (\<lambda>n. 1 \<le> n \<and> n \<le> 50) (route_label r ''input_policy.max_x_results'')]
     | _ \<Rightarrow> errE True (route_label r ''input_policy''))"

definition report_policy_bool_fields :: "string list" where
  "report_policy_bool_fields = [''forward_audit_receipt'', ''return_audit_receipt'', ''include_structured_extract'', ''notify_on_block'']"

definition report_policy_errors :: "env \<Rightarrow> string \<Rightarrow> dict \<Rightarrow> errs" where
  "report_policy_errors E r route = (case dget route ''report_policy'' (JObj []) of
       JNull \<Rightarrow> Inr []
     | JObj policy \<Rightarrow> allE (map (\<lambda>field. bool_field policy field (route_label r (''report_policy.'' @ field))) report_policy_bool_fields @
         [errE (truthy (dget0 policy ''forward_audit_receipt'') \<and> kind_of E route \<notin> {''http_json'', ''openai_chat_completions''})
            (route_label r ''report_policy.forward_audit_receipt''),
          int_field policy ''max_receipts_per_minute'' (\<lambda>n. 0 < n) (route_label r ''report_policy.max_receipts_per_minute'')])
     | _ \<Rightarrow> errE True (route_label r ''report_policy''))"

definition operations_error :: "dict \<Rightarrow> bool" where
  "operations_error policy = (case dget policy ''allowed_operations'' (JList []) of
       JList ops \<Rightarrow> \<not> list_all (\<lambda>op. op \<in> set (map JStr [''submit'', ''metadata'', ''content'', ''review''])) ops
     | _ \<Rightarrow> True)"

definition statuses_errors :: "string \<Rightarrow> json \<Rightarrow> errs" where
  "statuses_errors label v = (case v of
       JList (x # xs) \<Rightarrow> allE (map (\<lambda>s. bindE (member s artifact_statuses) (\<lambda>known. errE (\<not> known) label)) (x # xs))
     | _ \<Rightarrow> errE True label)"

definition release_error :: "json \<Rightarrow> bool" where
  "release_error v = (case v of
       JList (x # xs) \<Rightarrow> \<not> list_all (\<lambda>c. c \<in> set (map JStr warning_release_prefixes)) (x # xs) | _ \<Rightarrow> True)"

definition artifact_policy_errors :: "string \<Rightarrow> dict \<Rightarrow> errs" where
  "artifact_policy_errors r route = (case dget route ''artifact_policy'' (JObj []) of
       JNull \<Rightarrow> Inr []
     | JObj policy \<Rightarrow> allE [
         errE (operations_error policy) (route_label r ''artifact_policy.allowed_operations''),
         if has_key policy ''allowed_statuses''
         then statuses_errors (route_label r ''artifact_policy.allowed_statuses'') (dget0 policy ''allowed_statuses'') else Inr [],
         bool_field policy ''review_injection_as_warning'' (route_label r ''artifact_policy.review_injection_as_warning''),
         errE (has_key policy ''warning_release_categories'' \<and> release_error (dget0 policy ''warning_release_categories''))
           (route_label r ''artifact_policy.warning_release_categories''),
         int_field policy ''max_artifact_bytes'' (\<lambda>n. 0 < n) (route_label r ''artifact_policy.max_artifact_bytes'')]
     | _ \<Rightarrow> errE True (route_label r ''artifact_policy''))"

definition output_policy_errors :: "env \<Rightarrow> string \<Rightarrow> dict \<Rightarrow> errs" where
  "output_policy_errors E r route = (case dget0 route ''output_policy'' of
       JObj policy \<Rightarrow>
         errE (has_key policy ''untrusted_tool_result'' \<and>
             (case dget0 policy ''untrusted_tool_result'' of
                JBool on \<Rightarrow> on \<and> kind_of E route \<noteq> ''http_json'' | _ \<Rightarrow> True))
           (route_label r ''output_policy.untrusted_tool_result'')
     | _ \<Rightarrow> Inr [])"

section \<open>The backend of a route\<close>

definition signature_errors :: "env \<Rightarrow> dict \<Rightarrow> string \<Rightarrow> dict \<Rightarrow> errs" where
  "signature_errors E cfg label backend =
     allE [bool_field backend ''require_signature'' label,
       if truthy (dget0 backend ''require_signature'')
       then (let key_name = py_str E (py_or (dget cfg ''backend_hmac_key_env'' (JStr [])) (JStr [])) in
             errE (key_name = [] \<or> e_getenv E key_name = []) label)
       else Inr []]"

fun any_undroppable :: "json list \<Rightarrow> bool res" where
  "any_undroppable [] = Inr False"
| "any_undroppable (x # xs) = bindE (member x droppable_fields) (\<lambda>ok. if ok then any_undroppable xs else Inr True)"

definition dropped_errors :: "env \<Rightarrow> string \<Rightarrow> dict \<Rightarrow> dict \<Rightarrow> errs" where
  "dropped_errors E label route backend =
     (if \<not> has_key backend ''drop_response_message_fields'' then Inr []
      else if kind_of E route \<noteq> ''openai_chat_completions'' then errE True label
      else case dget0 backend ''drop_response_message_fields'' of
          JList (x # xs) \<Rightarrow> bindE (any_undroppable (x # xs)) (\<lambda>b. errE b label)
        | _ \<Rightarrow> errE True label)"

definition base_url_errors :: "env \<Rightarrow> string \<Rightarrow> dict \<Rightarrow> errs" where
  "base_url_errors E label backend =
     bindE (urlsplit E (py_str E (dget backend ''base_url'' (JStr [])))) (\<lambda>u.
       errE (u_scheme u \<notin> {''http'', ''https'', ''mock''} \<or> (u_netloc u = [] \<and> u_scheme u \<noteq> ''mock'')) label)"

definition passthrough_errors :: "env \<Rightarrow> string \<Rightarrow> dict \<Rightarrow> dict \<Rightarrow> errs" where
  "passthrough_errors E label route backend =
     errE (has_key backend ''passthrough_error_codes'' \<and>
         (kind_of E route \<noteq> ''http_json'' \<or>
          (case dget0 backend ''passthrough_error_codes'' of
             JList (x # xs) \<Rightarrow> \<not> list_all (\<lambda>c. case c of JStr s \<Rightarrow> error_code_ok s | _ \<Rightarrow> False) (x # xs)
           | _ \<Rightarrow> True))) label"

definition max_timeout :: int where "max_timeout = 1800"

definition http_backend_errors :: "env \<Rightarrow> dict \<Rightarrow> string \<Rightarrow> dict \<Rightarrow> dict \<Rightarrow> errs" where
  "http_backend_errors E cfg r route backend =
     (let label = (\<lambda>f. route_label r (''backend.'' @ f)); kind = kind_of E route;
          mode = py_str E (dget backend ''mode'' (JStr ''http'')) in
      allE [signature_errors E cfg (label ''require_signature'') backend,
        dropped_errors E (label ''drop_response_message_fields'') route backend,
        errE (mode \<notin> {''http'', ''command''}) (label ''mode''),
        errE (kind = ''artifact_review'' \<and> mode \<noteq> ''http'') (label ''mode''),
        errE ((kind = ''command'' \<or> mode = ''command'') \<and>
              \<not> truthy (dget route ''enabled'' (dget backend ''enabled'' (JBool False)))) (route_label r ''enabled''),
        if mode = ''http''
        then allE [base_url_errors E (label ''base_url'') backend,
               errE (kind = ''http_json'' \<and> upper_ascii (py_str E (dget backend ''method'' (JStr ''POST''))) \<noteq> ''POST'') (label ''method'')]
        else Inr [],
        int_error (dget backend ''timeout_seconds'' (JInt 180)) 180 (\<lambda>n. 1 \<le> n \<and> n \<le> max_timeout) (label ''timeout_seconds''),
        passthrough_errors E (label ''passthrough_error_codes'') route backend,
        int_field backend ''max_review_chars'' (\<lambda>n. 0 < n) (label ''max_review_chars'')])"

definition backend_errors :: "env \<Rightarrow> dict \<Rightarrow> string \<Rightarrow> dict \<Rightarrow> errs" where
  "backend_errors E cfg r route =
     (if kind_of E route = ''canary''
      then allE [errE (truthy (dget0 route ''backend'')) (route_label r ''backend''), errE (\<not> canary_enabled cfg) (route_label r ''kind'')]
      else if kind_of E route = ''inspect_only'' then Inr []
      else case dget route ''backend'' (JObj []) of
          JObj backend \<Rightarrow> http_backend_errors E cfg r route backend
        | _ \<Rightarrow> errE True (route_label r ''backend''))"

definition route_errors :: "env \<Rightarrow> dict \<Rightarrow> (string \<times> string) list \<Rightarrow> string \<Rightarrow> dict \<Rightarrow> errs \<times> (string \<times> string) list" where
  "route_errors E cfg seen r route =
     (let (alias_es, seen') = route_alias_errors r seen route in
      (allE [capability_errors E r route, Inr alias_es, caller_errors r route, input_policy_errors r route,
         report_policy_errors E r route, artifact_policy_errors r route, output_policy_errors E r route,
         backend_errors E cfg r route], seen'))"

fun routes_errors :: "env \<Rightarrow> dict \<Rightarrow> (string \<times> string) list \<Rightarrow> dict \<Rightarrow> errs" where
  "routes_errors E cfg seen [] = Inr []"
| "routes_errors E cfg seen ((r, v) # rs) =
     (if py_strip r = [] then alsoE (errE True ''routes'') (routes_errors E cfg seen rs)
      else case v of
          JObj route \<Rightarrow> (let (es, seen') = route_errors E cfg seen r route in alsoE es (routes_errors E cfg seen' rs))
        | _ \<Rightarrow> alsoE (errE True (dotted [''routes'', r])) (routes_errors E cfg seen rs))"

section \<open>Agents and runs\<close>

definition agent_label :: "string \<Rightarrow> string \<Rightarrow> string" where
  "agent_label a field = dotted [''agents'', a, field]"

definition token_hash_ok :: "string \<Rightarrow> bool" where
  \<comment> \<open>\<open>re.fullmatch(r"[a-fA-F0-9]{64}", s)\<close>\<close>
  "token_hash_ok s \<longleftrightarrow> length s = 64 \<and> list_all is_hex s"

definition known_routes_errors :: "string \<Rightarrow> dict \<Rightarrow> json list \<Rightarrow> errs" where
  "known_routes_errors label routes xs = allE (map (\<lambda>x. bindE (key_in x routes) (\<lambda>known. errE (\<not> known) label)) xs)"

definition cidr_errors :: "host \<Rightarrow> env \<Rightarrow> string \<Rightarrow> dict \<Rightarrow> errs" where
  "cidr_errors H E label agent =
     bindE (py_iter (or_empty_list (dget0 agent ''allowed_client_cidrs''))) (\<lambda>xs.
       allE (map (\<lambda>x. errE (\<not> h_network H (py_str E x)) label) xs))"

definition agent_errors :: "host \<Rightarrow> env \<Rightarrow> dict \<Rightarrow> string \<times> json \<Rightarrow> errs" where
  "agent_errors H E routes = (\<lambda>(a, v).
     if py_strip a = [] then errE True ''agents''
     else case v of
         JObj agent \<Rightarrow>
           (let token = py_str E (dget agent ''token_sha256'' (JStr [])) in
            allE [errE (token \<noteq> [] \<and> \<not> token_hash_ok token) (agent_label a ''token_sha256''),
              bool_field agent ''run_scoped'' (agent_label a ''run_scoped''),
              errE (CHR ''@'' \<in> set a) (dotted [''agents'', a]),
              strings_errors (dget agent ''allowed_capabilities'' (JList [])) (agent_label a ''allowed_capabilities''),
              (case dget agent ''allowed_routes'' (JList []) of
                 JList rs \<Rightarrow> known_routes_errors (agent_label a ''allowed_routes'') routes rs
               | _ \<Rightarrow> errE True (agent_label a ''allowed_routes'')),
              cidr_errors H E (agent_label a ''allowed_client_cidrs'') agent])
       | _ \<Rightarrow> errE True (dotted [''agents'', a]))"

definition run_label :: "string \<Rightarrow> string \<Rightarrow> string" where
  "run_label r field = dotted [''runs'', r, field]"

definition run_routes_errors :: "dict \<Rightarrow> string \<Rightarrow> dict \<Rightarrow> string \<Rightarrow> errs" where
  "run_routes_errors routes r run field = (case dget run field (JList []) of
       JList xs \<Rightarrow> known_routes_errors (run_label r field) routes xs
     | v \<Rightarrow> errE (truthy v) (run_label r field))"

definition run_errors :: "env \<Rightarrow> dict \<Rightarrow> dict \<Rightarrow> string \<times> json \<Rightarrow> errs" where
  "run_errors E agents routes = (\<lambda>(r, v).
     alsoE (errE (\<not> run_id_ok r) ''runs'')
     (case v of
        JObj run \<Rightarrow>
          allE [errE (case dget run ''allowed_callers'' (JList []) of
                 JList cs \<Rightarrow> \<not> list_all (\<lambda>c. case c of JStr s \<Rightarrow> has_key agents s | _ \<Rightarrow> False) cs | _ \<Rightarrow> True) (run_label r ''allowed_callers''),
            run_routes_errors routes r run ''allowed_routes'', run_routes_errors routes r run ''denied_routes'',
            if has_key run ''expires_at''
            then errE (case parse_datetime E (py_str E (dget0 run ''expires_at'')) of Inl _ \<Rightarrow> True | Inr t \<Rightarrow> False) (run_label r ''expires_at'')
            else Inr []]
      | _ \<Rightarrow> errE True (dotted [''runs'', r])))"

section \<open>The other sections\<close>

definition canary_errors :: "host \<Rightarrow> env \<Rightarrow> dict \<Rightarrow> errs" where
  "canary_errors H E cfg =
     (if canary_enabled cfg
      then allE [errE (case hmac_key E cfg of Inl _ \<Rightarrow> True | Inr k \<Rightarrow> False) ''canary'', errE (\<not> h_registry H) ''canary.registry_file'']
      else Inr [])"

text \<open>\<open>(cfg.get("routes") or {}).items()\<close> raises when the routes are neither absent nor an object.\<close>

definition action_policy_errors :: "dict \<Rightarrow> errs" where
  "action_policy_errors cfg =
     bindE (py_items (py_or (dget0 cfg ''routes'') (JObj []))) (\<lambda>routes.
       allE (map (\<lambda>(r, v). case v of
          JObj route \<Rightarrow> (case dget0 route ''action_policy'' of
              JObj policy \<Rightarrow>
                errE (has_key policy ''read_only_model'' \<and>
                    (case dget0 policy ''read_only_model'' of
                       JBool on \<Rightarrow> on \<and> dget0 route ''kind'' \<noteq> JStr ''openai_chat_completions'' | _ \<Rightarrow> True))
                  (route_label r ''action_policy.read_only_model'')
            | _ \<Rightarrow> Inr [])
        | _ \<Rightarrow> Inr []) routes))"

definition snippet_errors :: "dict \<Rightarrow> errs" where
  "snippet_errors cfg = (case dget0 cfg ''llm_snippet_check'' of
       JNull \<Rightarrow> Inr []
     | JObj snippet \<Rightarrow>
         allE ([bool_field snippet ''enabled'' ''llm_snippet_check.enabled'',
           errE (case dget snippet ''categories'' (JList []) of
               JList cs \<Rightarrow> \<not> list_all is_str cs \<or> \<not> set cs \<subseteq> set (map JStr snippet_downgradable) | _ \<Rightarrow> True)
             ''llm_snippet_check.categories'',
           bool_field snippet ''apply_to_output'' ''llm_snippet_check.apply_to_output''] @
           map (\<lambda>key. int_field snippet key (\<lambda>n. 0 < n) (''llm_snippet_check.'' @ key))
             [''timeout_seconds'', ''max_tokens'', ''context_chars'', ''max_checks''])
     | _ \<Rightarrow> errE True ''llm_snippet_check'')"

definition or_empty_dict :: "json \<Rightarrow> json" where
  "or_empty_dict v = py_or v (JObj [])"

definition validate_test_modes :: "dict \<Rightarrow> errs" where
  "validate_test_modes cfg = (case dget0 cfg ''test_modes'' of
       JNull \<Rightarrow> Inr []
     | JObj modes \<Rightarrow>
         if \<not> set (map fst modes) \<subseteq> {log_only} then errE True ''test_modes''
         else (case dget0 modes log_only of
             JNull \<Rightarrow> Inr []
           | JObj settings \<Rightarrow>
               allE [errE (\<not> is_bool (dget settings ''enabled'' (JBool False))) ''test_modes.enabled'',
                 names_error (dget0 settings ''routes'') (or_empty_dict (dget0 cfg ''routes'')) ''test_modes.routes'',
                 names_error (dget0 settings ''allowed_registrars'') (or_empty_dict (dget0 cfg ''agents'')) ''test_modes.allowed_registrars'',
                 errE (has_key settings ''evidence_file'' \<and> \<not> nonblank (dget0 settings ''evidence_file'')) ''test_modes.evidence_file'',
                 strict_int_error (dget settings ''max_ttl_seconds'' (JInt 3600)) (\<lambda>n. 60 \<le> n \<and> n \<le> 86400) ''test_modes.max_ttl_seconds'']
           | _ \<Rightarrow> errE True ''test_modes'')
     | _ \<Rightarrow> errE True ''test_modes'')"

definition quarantined_route_errors :: "dict \<Rightarrow> json \<Rightarrow> errs" where
  "quarantined_route_errors configured x =
     (let route = dget0 configured (str_or_blank x);
          read_only = (case route of JObj d \<Rightarrow> (case dget0 d ''action_policy'' of
              JObj policy \<Rightarrow> dget0 policy ''read_only_model'' = JBool True | _ \<Rightarrow> False) | _ \<Rightarrow> False) in
      bindE (py_get route ''kind'' JNull) (\<lambda>kind.
        errE (kind \<noteq> JStr ''openai_chat_completions'' \<or> \<not> read_only) ''quarantined_read.routes''))"

definition validate_quarantined_read :: "dict \<Rightarrow> errs" where
  "validate_quarantined_read cfg = (case dget0 cfg ''quarantined_read'' of
       JNull \<Rightarrow> Inr []
     | JObj settings \<Rightarrow>
         allE [errE (\<not> is_bool (dget settings ''enabled'' (JBool False))) ''quarantined_read.enabled'',
           bindE (names_error (dget0 settings ''routes'') (or_empty_dict (dget0 cfg ''routes'')) ''quarantined_read.routes'') (\<lambda>es.
             if es \<noteq> [] then Inr es
             else case dget0 settings ''routes'' of
                 JList rs \<Rightarrow> allE (map (quarantined_route_errors (cfg_routes cfg)) rs) | _ \<Rightarrow> Inr []),
           names_error (dget0 settings ''allowed_registrars'') (or_empty_dict (dget0 cfg ''agents'')) ''quarantined_read.allowed_registrars'',
           strict_int_error (dget settings ''max_risk_score'' (JInt 40)) (\<lambda>n. 1 \<le> n \<and> n \<le> 200) ''quarantined_read.max_risk_score'']
     | _ \<Rightarrow> errE True ''quarantined_read'')"

section \<open>The whole check\<close>

definition config_errors :: "host \<Rightarrow> env \<Rightarrow> dict \<Rightarrow> errs" where
  "config_errors H E cfg =
     (let agents = dict_or_empty (dget0 cfg ''agents''); routes = dict_or_empty (dget0 cfg ''routes''); runs = dget0 cfg ''runs'' in
      allE [process_errors H E cfg, run_store_errors cfg, quota_errors cfg, artifact_store_errors cfg,
        errE (\<not> is_dict (dget0 cfg ''agents'')) ''agents'', errE (routes = []) ''routes'',
        errE (runs \<noteq> JNull \<and> \<not> is_dict runs) ''runs'',
        routes_errors E cfg [] routes,
        allE (map (agent_errors H E routes) agents),
        allE (map (run_errors E agents routes) (dict_or_empty runs)),
        canary_errors H E cfg, action_policy_errors cfg, snippet_errors cfg, validate_test_modes cfg, validate_quarantined_read cfg])"

definition validate_config :: "host \<Rightarrow> env \<Rightarrow> dict \<Rightarrow> unit res" where
  "validate_config H E cfg = bindE (config_errors H E cfg) (\<lambda>errors. raise_if (errors \<noteq> []) (PyError ''ValueError''))"

definition config_warnings :: "dict \<Rightarrow> string list" where
  "config_warnings cfg = err (dget0 cfg ''require_known_run_id'' = JBool False) ''require_known_run_id''"

text \<open>
  The file, when there is one, is read as JSON (\<open>None\<close> is \<open>JSONDecodeError\<close>, a \<open>ValueError\<close>) and laid
  over the built-in configuration.
\<close>

definition load_config :: "host \<Rightarrow> env \<Rightarrow> dict \<Rightarrow> json option option \<Rightarrow> dict res" where
  "load_config H E built_in content =
     bindE (case content of
         None \<Rightarrow> Inr built_in
       | Some (Some (JObj user)) \<Rightarrow> Inr (deep_update built_in user)
       | Some _ \<Rightarrow> Inl (PyError ''ValueError'')) (\<lambda>cfg.
     thenE (validate_config H E cfg) (Inr cfg))"

section \<open>What an accepted configuration is\<close>

named_theorems accepted \<open>what it means that a check complains about nothing\<close>

lemma errE_ok [accepted]: "errE b label = Inr [] \<longleftrightarrow> \<not> b"
  by (simp add: errE_def err_def)

lemma alsoE_ok [accepted]: "alsoE a b = Inr [] \<longleftrightarrow> a = Inr [] \<and> b = Inr []"
  by (auto simp: alsoE_def bindE_Inr)

lemma allE_ok [accepted]: "allE ms = Inr [] \<longleftrightarrow> (\<forall>m\<in>set ms. m = Inr [])"
  by (induction ms) (auto simp: alsoE_ok)

lemma int_error_ok [accepted]: "int_error v d good label = Inr [] \<longleftrightarrow> (\<exists>n. parse_int v d = Inr (n, True) \<and> good n)"
  by (auto simp: int_error_def bindE_Inr errE_ok)

lemma strings_ok [accepted]: "strings_errors v label = Inr [] \<longleftrightarrow> (\<exists>xs. v = JList xs \<and> (\<forall>x\<in>set xs. nonblank x))"
  by (cases v) (auto simp: strings_errors_def accepted)

lemma key_ok [accepted]:
  "bindE (key_in x d) (\<lambda>known. errE (\<not> known) label) = Inr [] \<longleftrightarrow> (\<exists>s. x = JStr s \<and> has_key d s)"
  by (cases x) (auto simp: key_in_def hashable_def errE_ok)

lemma known_routes_ok [accepted]:
  "known_routes_errors label routes xs = Inr [] \<longleftrightarrow> (\<forall>x\<in>set xs. \<exists>s. x = JStr s \<and> has_key routes s)"
  by (simp add: known_routes_errors_def allE_ok key_ok)

lemma nonblank_JStr: "nonblank j \<Longrightarrow> \<exists>s. j = JStr s"
  by (cases j) (auto simp: nonblank_def)

lemma accepted_no_errors: "validate_config H E cfg = Inr () \<longleftrightarrow> config_errors H E cfg = Inr []"
  by (auto simp: validate_config_def bindE_Inr raise_if_Inr)

lemma accepted_parts:
  assumes "validate_config H E cfg = Inr ()"
  shows "quota_errors cfg = Inr []" "run_store_errors cfg = Inr []" "artifact_store_errors cfg = Inr []"
    "is_dict (dget0 cfg ''agents'')" "routes_errors E cfg [] (dict_or_empty (dget0 cfg ''routes'')) = Inr []"
    "\<And>a v. (a, v) \<in> set (dict_or_empty (dget0 cfg ''agents'')) \<Longrightarrow>
       agent_errors H E (dict_or_empty (dget0 cfg ''routes'')) (a, v) = Inr []"
  using assms by (auto simp: accepted_no_errors config_errors_def Let_def accepted)

subsection \<open>Aliases\<close>

text \<open>The aliases a route lists.\<close>

definition aliases_of :: "json \<Rightarrow> string list" where
  "aliases_of v = (case v of
       JObj route \<Rightarrow> (case or_empty_list (dget0 route ''aliases'') of JList as \<Rightarrow> map str_or_blank as | _ \<Rightarrow> [])
     | _ \<Rightarrow> [])"

lemma alias_errors_Cons:
  assumes "alias_errors r seen (a # as) = ([], seen')"
  shows "nonblank a \<and> map_of seen (str_or_blank a) \<in> {None, Some r} \<and>
    alias_errors r (AList.update (str_or_blank a) r seen) as = ([], seen')"
  using assms by (auto simp: Let_def err_def split: if_split_asm prod.split_asm option.split_asm)

lemma alias_errors_ok:
  "alias_errors r seen as = ([], seen') \<Longrightarrow>
     (\<forall>a\<in>set as. nonblank a) \<and> (\<forall>n\<in>set (map str_or_blank as). map_of seen n \<in> {None, Some r}) \<and>
     (\<forall>n. map_of seen' n = (if n \<in> set (map str_or_blank as) then Some r else map_of seen n))"
proof (induction as arbitrary: seen seen')
  case (Cons a as)
  note here = alias_errors_Cons[OF Cons.prems]
  then have "alias_errors r (AList.update (str_or_blank a) r seen) as = ([], seen')" by blast
  note later = Cons.IH[OF this]
  have "\<forall>n\<in>set (map str_or_blank as). map_of seen n \<in> {None, Some r}"
  proof
    fix n
    assume "n \<in> set (map str_or_blank as)"
    with later have "map_of (AList.update (str_or_blank a) r seen) n \<in> {None, Some r}" by blast
    with here show "map_of seen n \<in> {None, Some r}" by (cases "n = str_or_blank a") simp_all
  qed
  with here later show ?case by simp
qed simp

lemma route_errors_ok:
  assumes "route_errors E cfg seen r route = (Inr [], seen')"
  shows "\<exists>as. or_empty_list (dget0 route ''aliases'') = JList as \<and> alias_errors r seen as = ([], seen')"
  using assms by (auto simp: route_errors_def route_alias_errors_def accepted split: prod.splits json.splits)

lemma routes_errors_Cons:
  assumes "routes_errors E cfg seen ((r, v) # rs) = Inr []"
  obtains route seen' where "v = JObj route" "route_errors E cfg seen r route = (Inr [], seen')"
    "routes_errors E cfg seen' rs = Inr []"
  using assms by (auto simp: accepted split: if_splits json.splits prod.splits)

text \<open>No alias belongs to two routes, nor to a route other than the one it was seen at before.\<close>

lemma aliases_unambiguous:
  assumes "routes_errors E cfg seen rs = Inr []"
  shows "\<forall>(r, v)\<in>set rs. is_dict v \<and> (\<forall>n\<in>set (aliases_of v). map_of seen n \<in> {None, Some r} \<and>
           (\<forall>(r', v')\<in>set rs. n \<in> set (aliases_of v') \<longrightarrow> r' = r))"
  using assms
proof (induction rs arbitrary: seen)
  case (Cons p rs)
  obtain r v where p: "p = (r, v)" by fastforce
  obtain route seen' as where v: "v = JObj route" and rest: "routes_errors E cfg seen' rs = Inr []"
    and as: "or_empty_list (dget0 route ''aliases'') = JList as" "alias_errors r seen as = ([], seen')"
    using Cons.prems unfolding p by (metis routes_errors_Cons route_errors_ok)
  have own: "aliases_of v = map str_or_blank as" by (simp add: aliases_of_def v as)
  note here = alias_errors_ok[OF as(2), folded own]
  have step: "map_of seen' n = (if n \<in> set (aliases_of v) then Some r else map_of seen n)" for n
    using here by blast
  note later = Cons.IH[OF rest, unfolded step]
  show ?case using here later by (fastforce simp: p v split: if_splits)
qed simp

lemma foldl_update: "map_of (foldl (\<lambda>d (k, v). AList.update k v d) d l) = map_of d ++ map_of (rev l)"
  by (induction l arbitrary: d) (auto simp: map_add_def fun_eq_iff split: option.splits)

lemma route_aliases_accepted:
  assumes "routes_errors E cfg seen rs = Inr []" "(r, v) \<in> set rs"
  shows "route_aliases E (r, v) = Inr (map (\<lambda>n. (n, r)) (aliases_of v))"
  using assms
proof (induction rs arbitrary: seen)
  case (Cons p rs)
  obtain r' v' where p: "p = (r', v')" by fastforce
  obtain route seen' as where v: "v' = JObj route" and rest: "routes_errors E cfg seen' rs = Inr []"
    and as: "or_empty_list (dget0 route ''aliases'') = JList as" "alias_errors r' seen as = ([], seen')"
    using Cons.prems(1) unfolding p by (metis routes_errors_Cons route_errors_ok)
  have names: "map (py_str E) as = map str_or_blank as"
    using alias_errors_ok[OF as(2)] nonblank_JStr by fastforce
  have "route_aliases E (r', v') = Inr (map (\<lambda>n. (n, r')) (aliases_of v'))"
    using as(1) names by (simp add: route_aliases_def v aliases_of_def str_items_def or_empty_list_def)
  with Cons.IH[OF rest] Cons.prems(2) p show ?case by auto
qed simp

lemma accepted_aliases:
  assumes "validate_config H E cfg = Inr ()"
  shows "\<exists>m. route_alias_map E cfg = Inr m \<and>
    (\<forall>alias r. map_of m alias = Some r \<longleftrightarrow> (\<exists>v. (r, v) \<in> set (cfg_routes cfg) \<and> alias \<in> set (aliases_of v)))"
proof -
  let ?rs = "cfg_routes cfg"
  let ?l = "map (\<lambda>(r, v). map (\<lambda>n. (n, r)) (aliases_of v)) ?rs"
  have rs: "routes_errors E cfg [] ?rs = Inr []" using accepted_parts(5)[OF assms] by (simp add: cfg_routes_def)
  have "mapE (route_aliases E) ?rs = Inr ?l"
    using route_aliases_accepted[OF rs] by (auto simp: mapE_Inr list_all2_map2 list_all2_same)
  then have m: "route_alias_map E cfg = Inr (foldl (\<lambda>d (k, v). AList.update k v d) [] (concat ?l))"
    by (simp add: route_alias_map_def)
  have pairs: "(n, r) \<in> set (concat ?l) \<longleftrightarrow> (\<exists>v. (r, v) \<in> set ?rs \<and> n \<in> set (aliases_of v))" for n r by force
  have one: "r = r'" if "(n, r) \<in> set (concat ?l)" "(n, r') \<in> set (concat ?l)" for n r r'
    using that aliases_unambiguous[OF rs] unfolding pairs by fast
  have "map_of (rev (concat ?l)) n = Some r \<longleftrightarrow> (n, r) \<in> set (concat ?l)" for n r
  proof
    show "map_of (rev (concat ?l)) n = Some r \<Longrightarrow> (n, r) \<in> set (concat ?l)" by (metis map_of_SomeD set_rev)
  next
    assume r: "(n, r) \<in> set (concat ?l)"
    then have "map_of (rev (concat ?l)) n \<noteq> None" by (metis map_of_eq_None_iff image_eqI fst_conv set_rev)
    then obtain r' where r': "map_of (rev (concat ?l)) n = Some r'" by blast
    then have "(n, r') \<in> set (concat ?l)" by (metis map_of_SomeD set_rev)
    with one[OF r] r' show "map_of (rev (concat ?l)) n = Some r" by simp
  qed
  then have "map_of (foldl (\<lambda>d (k, v). AList.update k v d) [] (concat ?l)) n = Some r \<longleftrightarrow>
      (\<exists>v. (r, v) \<in> set ?rs \<and> n \<in> set (aliases_of v))" for n r
    unfolding foldl_update pairs by simp
  then show ?thesis using m by blast
qed

subsection \<open>Agents and limits\<close>

lemma accepted_agent:
  assumes "agent_errors H E routes (a, v) = Inr []"
  obtains agent rs where "v = JObj agent" "CHR ''@'' \<notin> set a" "py_strip a \<noteq> []"
    "str_items E (dget0 agent ''allowed_routes'') = Inr rs" "\<forall>r\<in>set rs. has_key routes r"
proof -
  from assms obtain agent where v: "v = JObj agent" and a: "CHR ''@'' \<notin> set a" "py_strip a \<noteq> []"
    and known: "\<exists>xs. dget agent ''allowed_routes'' (JList []) = JList xs \<and> (\<forall>x\<in>set xs. \<exists>s. x = JStr s \<and> has_key routes s)"
    by (auto simp: agent_errors_def Let_def accepted split: if_splits json.splits)
  from known obtain xs where xs: "dget agent ''allowed_routes'' (JList []) = JList xs"
    "\<forall>x\<in>set xs. \<exists>s. x = JStr s \<and> has_key routes s" by blast
  have "str_items E (dget0 agent ''allowed_routes'') = Inr (map (py_str E) xs)"
    using xs(1) by (auto simp: str_items_def py_or_def dget_def split: option.splits)
  moreover have "\<forall>r\<in>set (map (py_str E) xs). has_key routes r" using xs(2) by fastforce
  ultimately show thesis using that v a by blast
qed

lemma accepted_agents:
  assumes "validate_config H E cfg = Inr ()" "(a, v) \<in> set (cfg_agents cfg)"
  obtains agent rs where "v = JObj agent" "CHR ''@'' \<notin> set a"
    "str_items E (dget0 agent ''allowed_routes'') = Inr rs" "\<forall>r\<in>set rs. has_key (cfg_routes cfg) r"
proof -
  have "(a, v) \<in> set (dict_or_empty (dget0 cfg ''agents''))"
    using assms(2) by (auto simp: cfg_agents_def py_or_def split: if_splits)
  from accepted_parts(6)[OF assms(1) this] show thesis
    using that by (metis accepted_agent cfg_routes_def)
qed

lemma accepted_limits:
  assumes "validate_config H E cfg = Inr ()"
  shows "\<exists>q. run_model_quota_settings cfg = Inr q" "\<exists>n>0. run_store_max_ttl_seconds cfg = Inr n"
    "\<exists>n>0. artifact_retention_days cfg = Inr n"
proof -
  show "\<exists>q. run_model_quota_settings cfg = Inr q"
    using accepted_parts(1)[OF assms]
    by (auto simp: quota_errors_def run_model_quota_settings_def Let_def accepted split: json.splits if_splits)
  show "\<exists>n>0. run_store_max_ttl_seconds cfg = Inr n"
    using accepted_parts(2)[OF assms]
    by (auto simp: run_store_errors_def run_store_max_ttl_seconds_def default_run_ttl_def accepted split: json.splits)
  show "\<exists>n>0. artifact_retention_days cfg = Inr n"
    using accepted_parts(3)[OF assms]
    by (auto simp: artifact_store_errors_def artifact_retention_days_def artifact_store_options_def default_retention_days_def accepted
      split: json.splits)
qed

subsection \<open>Rejections\<close>

text \<open>
  Two aliases of the same name are refused; routes that are an array raise \<open>AttributeError\<close>, since
  the last loop over them (\<open>action_policy_errors\<close>) does not see that they were refused before.
\<close>

lemma shared_alias_refused:
  assumes "(r, v) \<in> set (cfg_routes cfg)" "(r', v') \<in> set (cfg_routes cfg)" "r \<noteq> r'"
    "n \<in> set (aliases_of v)" "n \<in> set (aliases_of v')"
  shows "validate_config H E cfg \<noteq> Inr ()"
proof
  assume "validate_config H E cfg = Inr ()"
  from aliases_unambiguous[OF accepted_parts(5)[OF this]] assms show False
    unfolding cfg_routes_def by fast
qed

lemma routes_array_raises:
  "action_policy_errors (AList.update ''routes'' (JList [JStr r]) cfg) = Inl (PyError ''AttributeError'')"
  by (simp add: action_policy_errors_def py_or_def)

text \<open>C39: In an accepted configuration an alias leads to the one route that lists it, every agent names existing routes
  only, no configured agent has the form of a per-run identity, and reading the model quota, the longest life of a run and
  the retention of artifacts does not raise and gives positive limits.\<close>

theorem accepted_config_consistent:
  assumes "load_config H E built_in content = Inr cfg"
  shows "(\<exists>m. route_alias_map E cfg = Inr m \<and>
      (\<forall>alias r. map_of m alias = Some r \<longleftrightarrow> (\<exists>v. (r, v) \<in> set (cfg_routes cfg) \<and> alias \<in> set (aliases_of v)))) \<and>
    (\<forall>(a, v) \<in> set (cfg_agents cfg). \<exists>agent rs. v = JObj agent \<and> str_items E (dget0 agent ''allowed_routes'') = Inr rs \<and>
       (\<forall>r\<in>set rs. has_key (cfg_routes cfg) r) \<and> (\<forall>template run. a \<noteq> scoped_identity template run)) \<and>
    (\<exists>quota ttl days. run_model_quota_settings cfg = Inr quota \<and> (\<forall>n. quota = Some n \<longrightarrow> 0 < n) \<and>
       run_store_max_ttl_seconds cfg = Inr ttl \<and> 0 < ttl \<and> artifact_retention_days cfg = Inr days \<and> 0 < days)"
proof (intro conjI)
  have ok: "validate_config H E cfg = Inr ()"
    using assms by (auto simp: load_config_def bindE_Inr thenE_Inr)
  show "\<forall>(a, v) \<in> set (cfg_agents cfg). \<exists>agent rs. v = JObj agent \<and> str_items E (dget0 agent ''allowed_routes'') = Inr rs \<and>
       (\<forall>r\<in>set rs. has_key (cfg_routes cfg) r) \<and> (\<forall>template run. a \<noteq> scoped_identity template run)"
  proof (safe)
    fix a v
    assume "(a, v) \<in> set (cfg_agents cfg)"
    from accepted_agents[OF ok this] show "\<exists>agent rs. v = JObj agent \<and> str_items E (dget0 agent ''allowed_routes'') = Inr rs \<and>
       (\<forall>r\<in>set rs. has_key (cfg_routes cfg) r) \<and> (\<forall>template run. a \<noteq> scoped_identity template run)"
      by (metis append_Cons in_set_conv_decomp scoped_identity_def)
  qed
  have "\<forall>n. quota = Some n \<longrightarrow> 0 < n" if "run_model_quota_settings cfg = Inr quota" for quota
    using that by (auto simp: run_model_quota_settings_def bindE_Inr split: json.splits if_splits)
  then show "\<exists>quota ttl days. run_model_quota_settings cfg = Inr quota \<and> (\<forall>n. quota = Some n \<longrightarrow> 0 < n) \<and>
       run_store_max_ttl_seconds cfg = Inr ttl \<and> 0 < ttl \<and> artifact_retention_days cfg = Inr days \<and> 0 < days"
    using accepted_limits[OF ok] by blast
  show "\<exists>m. route_alias_map E cfg = Inr m \<and>
      (\<forall>alias r. map_of m alias = Some r \<longleftrightarrow> (\<exists>v. (r, v) \<in> set (cfg_routes cfg) \<and> alias \<in> set (aliases_of v)))"
    by (rule accepted_aliases[OF ok])
qed

definition demo_host :: host where
  "demo_host = \<lparr>h_loopback = (\<lambda>s. False), h_network = (\<lambda>s. True), h_registry = False\<rparr>"

definition demo_config :: dict where
  "demo_config = [(''bind'', JStr ''127.0.0.1''), (''port'', JInt 8788), (''max_body_bytes'', JInt 524288),
     (''agents'', JObj [(''a'', JObj [(''allowed_routes'', JList [JStr ''r''])])]),
     (''routes'', JObj [(''r'', JObj [(''kind'', JStr ''inspect_only''), (''required_capability'', JStr ''inspect''),
        (''aliases'', JList [JStr ''x'']), (''allowed_callers'', JList [JStr ''a''])])])]"

lemma demo_config_accepted: "load_config demo_host demo_http_env demo_config None = Inr demo_config"
  by code_simp

theorem accepted_config_consistent_witness:
  "(\<exists>m. route_alias_map demo_http_env demo_config = Inr m \<and> map_of m ''x'' = Some ''r'' \<and> map_of m ''y'' = None) \<and>
   (\<forall>template run. ''a'' \<noteq> scoped_identity template run)"
proof -
  note c = accepted_config_consistent[OF demo_config_accepted]
  have routes: "set (cfg_routes demo_config) = {(''r'', dget0 (cfg_routes demo_config) ''r'')}" by code_simp
  have names: "aliases_of (dget0 (cfg_routes demo_config) ''r'') = [''x'']" by code_simp
  have "(''a'', dget0 (cfg_agents demo_config) ''a'') \<in> set (cfg_agents demo_config)" by code_simp
  then show ?thesis using c by (auto simp: routes names not_Some_eq[symmetric] simp del: not_Some_eq)
qed

end
