(* ===== verification/Proxy_Policy.thy ===== *)
theory Proxy_Policy
  imports Config_Check Output_Guard
begin

text \<open>
  The capability policies of the standalone proxy (proxy.py): the policy a capability has, whether
  it may be forwarded at all (\<open>capability_allows_forward\<close>) or only after a review
  (\<open>forward_requires_review\<close>), the manifest exported for a backend
  (\<open>build_backend_policy_manifest\<close>), and the proxy's own check of its configuration
  (\<open>validate_config\<close>, here \<open>proxy_validate_config\<close>). Turning a text into a float is a parameter.
\<close>

definition proxy_name :: string where "proxy_name = ''agent-security-gateway''"

section \<open>Bounded numbers\<close>

definition bounded_int :: "json \<Rightarrow> int \<Rightarrow> int \<Rightarrow> int option \<Rightarrow> int res" where
  "bounded_int v d lo hi = bindE (parse_int v d) (\<lambda>(n, _).
     let n = max lo n in Inr (case hi of None \<Rightarrow> n | Some h \<Rightarrow> min n h))"

text \<open>\<open>float(value)\<close>; an integer that no double comes near raises \<open>OverflowError\<close>.\<close>

type_synonym float_reader = "string \<Rightarrow> pyfloat option"  \<comment> \<open>\<open>float(s)\<close>; \<open>None\<close> is \<open>ValueError\<close>\<close>

fun py_float :: "float_reader \<Rightarrow> json \<Rightarrow> pyfloat res" where
  "py_float R (JFloat x) = Inr x"
| "py_float R (JInt i) = (if \<bar>i\<bar> < 2 ^ 1024 - 2 ^ 970 then Inr (Fin (of_int i)) else Inl (PyError ''OverflowError''))"
| "py_float R (JBool b) = Inr (Fin (if b then 1 else 0))"
| "py_float R (JStr s) = (case R s of None \<Rightarrow> Inl (PyError ''ValueError'') | Some x \<Rightarrow> Inr x)"
| "py_float R _ = Inl (PyError ''TypeError'')"

fun float_less :: "pyfloat \<Rightarrow> pyfloat \<Rightarrow> bool" where
  "float_less NaN y = False"
| "float_less x NaN = False"
| "float_less (Fin x) (Fin y) = (x < y)"
| "float_less NegInf y = (y \<noteq> NegInf)"
| "float_less x PosInf = (x \<noteq> PosInf)"
| "float_less _ _ = False"

definition clamp :: "pyfloat \<Rightarrow> pyfloat \<Rightarrow> pyfloat \<Rightarrow> pyfloat" where
  \<comment> \<open>\<open>max(lo, min(hi, x))\<close>: \<open>min\<close> and \<open>max\<close> keep their first argument unless the second is strictly better\<close>
  "clamp lo hi x = (let m = (if float_less x hi then x else hi) in if float_less lo m then m else lo)"

definition bounded_float :: "float_reader \<Rightarrow> json \<Rightarrow> rat \<Rightarrow> rat \<Rightarrow> rat \<Rightarrow> pyfloat res" where
  "bounded_float R v d lo hi =
     (case py_float R v of
        Inr x \<Rightarrow> Inr (clamp (Fin lo) (Fin hi) x)
      | Inl e \<Rightarrow> if e \<in> {PyError ''TypeError'', PyError ''ValueError''} then Inr (clamp (Fin lo) (Fin hi) (Fin d)) else Inl e)"

section \<open>The policy of a capability\<close>

definition max_http_max_tokens :: int where "max_http_max_tokens = 8192"

definition configured_capability_names :: "dict \<Rightarrow> string list" where
  "configured_capability_names cfg = (case dget0 cfg ''capabilities'' of
       JObj capabilities \<Rightarrow> filter (\<lambda>n. n \<noteq> ''_default'') (map fst capabilities) | _ \<Rightarrow> [])"

definition capability_is_defined :: "dict \<Rightarrow> string \<Rightarrow> bool" where
  "capability_is_defined cfg capability \<longleftrightarrow> capability \<in> set (configured_capability_names cfg)"

definition backend_tool_name :: "json \<Rightarrow> string" where
  "backend_tool_name tool =
     (let t = dict_or_empty tool; fn = dict_or_empty (dget0 t ''function'') in
      case dget0 fn ''name'' of
        JStr s \<Rightarrow> py_strip s
      | _ \<Rightarrow> (case dget0 t ''name'' of JStr s \<Rightarrow> py_strip s | _ \<Rightarrow> []))"

definition backend_tool_names :: "dict \<Rightarrow> string list res" where
  "backend_tool_names policy = bindE (py_iter (or_empty_list (dget0 policy ''backend_tools''))) (\<lambda>tools.
     Inr (foldl (\<lambda>names tool. let n = backend_tool_name tool in if n \<noteq> [] \<and> n \<notin> set names then names @ [n] else names) [] tools))"

definition backend_tool_policy_text :: "env \<Rightarrow> json \<Rightarrow> string" where
  "backend_tool_policy_text E tool = (if is_dict tool then e_render E (sort_keys tool) else [])"

definition capability_allows_forward :: "dict \<Rightarrow> string \<Rightarrow> bool res" where
  "capability_allows_forward cfg capability =
     (if \<not> capability_is_defined cfg capability then Inr False
      else let policy = capability_policy cfg capability; raw = dget policy ''max_tokens'' (JInt 0) in
        if dget policy ''allow_forward'' (JBool True) \<noteq> JBool True \<or> is_bool raw then Inr False
        else bindE (parse_int raw 0) (\<lambda>(n, ok). Inr (ok \<and> 0 < n \<and> n \<le> max_http_max_tokens)))"

definition capability_requires_human_approval :: "dict \<Rightarrow> string \<Rightarrow> bool" where
  "capability_requires_human_approval cfg capability = flag (capability_policy cfg capability) ''requires_human_approval'' False"

definition fixed_response_format :: "dict \<Rightarrow> dict" where
  \<comment> \<open>an absent or empty format counts as none\<close>
  "fixed_response_format policy = dict_or_empty (dget0 policy ''response_format'')"

definition output_url_policy :: "env \<Rightarrow> dict \<Rightarrow> dict \<Rightarrow> string" where
  "output_url_policy E cfg policy = py_str E (dget policy ''output_url_policy''
     (dget (output_guard_cfg cfg) ''output_url_policy'' (JStr ''no_query_no_fragment'')))"

definition sealed :: "env \<Rightarrow> string \<Rightarrow> dict \<Rightarrow> dict" where
  \<comment> \<open>the dictionary with the hash of its compact JSON text\<close>
  "sealed E key d = AList.update key (JStr (e_sha256 E (e_canon E (sort_keys (JObj d))))) d"

definition backend_capability_policy :: "float_reader \<Rightarrow> env \<Rightarrow> dict \<Rightarrow> string \<Rightarrow> dict res" where
  "backend_capability_policy R E cfg capability =
     (let policy = capability_policy cfg capability;
          allow_forward = flag policy ''allow_forward'' True;
          requires_human_approval = flag policy ''requires_human_approval'' False;
          fixed = fixed_response_format policy in
      bindE (str_items E (dget0 policy ''allowed_tools'')) (\<lambda>tools.
      bindE (backend_tool_names policy) (\<lambda>names.
      bindE (str_items E (dget0 policy ''allowed_domains'')) (\<lambda>domains.
      bindE (str_items E (dget0 policy ''allowed_response_format_types'')) (\<lambda>formats.
      bindE (bounded_int (dget0 policy ''max_tokens'') 1500 0 (Some max_http_max_tokens)) (\<lambda>max_tokens.
      bindE (bounded_float R (dget0 policy ''temperature'') 0 0 2) (\<lambda>temperature.
        Inr (sealed E ''policy_sha256'' [(''capability'', JStr capability), (''allow_forward'', JBool allow_forward),
          (''automated_forward_allowed'', JBool (allow_forward \<and> \<not> requires_human_approval)),
          (''allowed_tools'', JList (map JStr tools)), (''backend_tool_names'', JList (map JStr names)),
          (''allowed_domains'', JList (map JStr domains)),
          (''allow_external_write'', JBool (flag policy ''allow_external_write'' False)),
          (''allow_local_files'', JBool (flag policy ''allow_local_files'' False)),
          (''allow_response_format'', JBool (flag policy ''allow_response_format'' False)),
          (''allowed_response_format_types'', JList (map JStr formats)),
          (''caller_supplied_response_format_forwarded'', JBool False),
          (''fixed_response_format_sha256'',
             if fixed = [] then JNull else JStr (e_sha256 E (e_canon E (sort_keys (JObj fixed))))),
          (''response_format_type'', if fixed = [] then JNull else JStr (py_str E (dget fixed ''type'' (JStr [])))),
          (''max_tokens'', JInt max_tokens), (''temperature'', JFloat temperature),
          (''output_url_policy'', JStr (output_url_policy E cfg policy)),
          (''requires_review_above_risk'', dget0 policy ''requires_review_above_risk''),
          (''requires_human_approval'', JBool requires_human_approval),
          (''caller_supplied_tools_forwarded'', JBool False), (''caller_supplied_stream_forwarded'', JBool False),
          (''caller_supplied_model_forwarded'', JBool False)]))))))))"

definition agent_manifest :: "env \<Rightarrow> string \<times> json \<Rightarrow> (string \<times> json) list res" where
  "agent_manifest E = (\<lambda>(agent_id, v). case v of
       JObj agent \<Rightarrow>
         bindE (str_items E (dget0 agent ''allowed_capabilities'')) (\<lambda>capabilities.
         bindE (str_items E (dget0 agent ''allowed_client_cidrs'')) (\<lambda>cidrs.
           Inr [(agent_id, JObj [(''trust_tier'', dget0 agent ''trust_tier''), (''allowed_capabilities'', JList (map JStr capabilities)),
             (''allowed_client_cidrs'', JList (map JStr cidrs))])]))
     | _ \<Rightarrow> Inr [])"

definition capability_manifest :: "float_reader \<Rightarrow> env \<Rightarrow> dict \<Rightarrow> string \<Rightarrow> (string \<times> json) res" where
  "capability_manifest R E cfg n = bindE (backend_capability_policy R E cfg n) (\<lambda>p. Inr (n, JObj p))"

definition build_backend_policy_manifest :: "float_reader \<Rightarrow> env \<Rightarrow> dict \<Rightarrow> string list \<Rightarrow> dict res" where
  "build_backend_policy_manifest R E cfg capabilities =
     (let names = (if capabilities = [] then configured_capability_names cfg else capabilities);
          target = cfg_section cfg ''target'' in
      thenE (raise_if (\<exists>n\<in>set names. n \<notin> set (configured_capability_names cfg)) (PyError ''ValueError''))
     (bindE (py_items (py_or (dget0 cfg ''agents'') (JObj []))) (\<lambda>agents.
      bindE (mapE (agent_manifest E) agents) (\<lambda>agent_entries.
      bindE (bounded_int (dget0 target ''http_max_tokens'') 1500 1 (Some max_http_max_tokens)) (\<lambda>max_tokens.
      bindE (mapE (capability_manifest R E cfg) names) (\<lambda>policies.
        Inr (sealed E ''manifest_sha256'' [(''schema_version'', JInt 1), (''service'', JStr proxy_name),
          (''target'', JObj [(''mode'', JStr (py_str E (dget target ''mode'' (JStr ''command'')))),
             (''forward_raw_content'', JBool (flag target ''forward_raw_content'' False)),
             (''http_model'', JStr (py_str E (dget target ''http_model'' (JStr ''backend-agent'')))),
             (''http_max_tokens'', JInt max_tokens)]),
          (''agents'', JObj (concat agent_entries)), (''capabilities'', JObj (set_fields [] policies))])))))))"

definition forward_requires_review :: "dict \<Rightarrow> dict \<Rightarrow> scan_result \<Rightarrow> string \<Rightarrow> bool res" where
  "forward_requires_review agent cfg scan capability =
     (let threshold = dget0 (capability_policy cfg capability) ''requires_review_above_risk'';
          trusted = flag agent ''allow_forward_on_review'' False;
          on_review = Inr (s_review scan \<and> flag (cfg_section cfg ''review_policy'') ''block_forward'' True \<and> \<not> trusted) in
      if threshold = JNull then on_review
      else bindE (bounded_int threshold 4 0 None) (\<lambda>n. if n \<le> s_score scan then Inr (\<not> trusted) else on_review))"

section \<open>Checking the proxy's configuration\<close>

definition response_format_types :: "string list" where
  "response_format_types = [''text'', ''json_object'', ''json_schema'']"

definition output_url_policies :: "string list" where
  "output_url_policies = [''no_query_no_fragment'', ''public_web'', ''block_all'']"

definition normalize_config_lint_text :: "env \<Rightarrow> string \<Rightarrow> string" where
  "normalize_config_lint_text E txt =
     filter (\<lambda>c. \<not> is_format c \<and> (\<not> is_control c \<or> c \<in> {newline, CHR 0x0D, CHR 0x09})) (e_nfkc E txt)"

definition lint_rules :: "string list" where
  "lint_rules = [''ignore_instructions'', ''role_reassignment'', ''secret_exfiltration'', ''policy_bypass'']"

text \<open>\<open>walk\<close>: the complaints about one string, and about everything below a value up to depth 64.\<close>

definition lint_text :: "env \<Rightarrow> string \<Rightarrow> string option \<Rightarrow> string \<Rightarrow> string list" where
  "lint_text E path key s = (let n = normalize_config_lint_text E s in
     err (key = Some ''description'' \<and> 512 < length n) path @
     concat (map (\<lambda>rule. err (re_search E (''RESPONSE_FORMAT_SUSPICIOUS_TEXT_PATTERNS:'' @ rule) n) path) lint_rules))"

lemma enumerate_smaller [termination_simp]: "(i, v) \<in> set (enumerate n l) \<Longrightarrow> size v < Suc (size_list size l)"
proof (induction l arbitrary: n)
  case (Cons a l)
  show ?case using Cons.prems Cons.IH[of "Suc n"] by fastforce
qed simp

fun lint_walk :: "env \<Rightarrow> string \<Rightarrow> string option \<Rightarrow> nat \<Rightarrow> json \<Rightarrow> string list" where
  "lint_walk E path key depth (JObj d) =
     (if 64 < depth then [path]
      else concat (map (\<lambda>(k, v). lint_walk E (path @ ''.'' @ k) (Some k) (Suc depth) v) d))"
| "lint_walk E path key depth (JList l) =
     (if 64 < depth then [path]
      else concat (map (\<lambda>(i, v). lint_walk E (path @ ''['' @ int_str (int i) @ '']'') key (Suc depth) v) (enumerate 0 l)))"
| "lint_walk E path key depth (JStr s) = (if 64 < depth then [path] else lint_text E path key s)"
| "lint_walk E path key depth _ = err (64 < depth) path"

definition response_format_schema_lint_errors :: "env \<Rightarrow> dict \<Rightarrow> string \<Rightarrow> string list" where
  "response_format_schema_lint_errors E d label = lint_walk E label None 0 (JObj d)"

definition fixed_response_format_errors :: "env \<Rightarrow> dict \<Rightarrow> string \<Rightarrow> string list" where
  "fixed_response_format_errors E format label =
     (let type = py_str E (dget format ''type'' (JStr [])) in
      if type \<notin> set response_format_types then [dotted [label, ''type'']]
      else if type \<noteq> ''json_schema'' then []
      else case dget0 format ''json_schema'' of
          JObj schema \<Rightarrow>
            err (\<not> nonblank (dget0 schema ''name'')) (dotted [label, ''json_schema.name'']) @
            (if is_dict (dget0 schema ''schema'') then response_format_schema_lint_errors E schema (dotted [label, ''json_schema''])
             else [dotted [label, ''json_schema.schema'']]) @
            err (has_key schema ''strict'' \<and> \<not> is_bool (dget0 schema ''strict'')) (dotted [label, ''json_schema.strict''])
        | _ \<Rightarrow> [dotted [label, ''json_schema'']])"

text \<open>\<open>bounded_int(n, ...) != n\<close> after \<open>parse_int\<close>: out of the bounds.\<close>

definition target_errors :: "env \<Rightarrow> dict \<Rightarrow> errs" where
  "target_errors E cfg = (case dget cfg ''target'' (JObj []) of
       JObj target \<Rightarrow>
         (let mode = py_str E (dget target ''mode'' (JStr ''command'')) in
          allE [errE (mode \<notin> {''command'', ''http''}) ''target.mode'',
            errE (flag target ''ignore_rules'' False \<and> \<not> flag target ''allow_ignore_rules'' False) ''target.ignore_rules'',
            int_error (dget target ''timeout_seconds'' (JInt 180)) 180 (\<lambda>n. 1 \<le> n \<and> n \<le> 600) ''target.timeout_seconds'',
            int_error (dget target ''http_max_tokens'' (JInt 1500)) 1500 (\<lambda>n. 1 \<le> n \<and> n \<le> max_http_max_tokens) ''target.http_max_tokens'',
            if mode = ''http''
            then bindE (urlsplit E (py_str E (dget target ''http_base_url'' (JStr [])))) (\<lambda>u.
              errE (u_scheme u \<notin> {''http'', ''https''} \<or> u_netloc u = []) ''target.http_base_url'')
            else Inr []])
     | _ \<Rightarrow> errE True ''target'')"

definition capability_label :: "string \<Rightarrow> string \<Rightarrow> string" where
  "capability_label name field = dotted [''capabilities'', name, field]"

definition policy_field_errors :: "env \<Rightarrow> dict \<Rightarrow> string \<Rightarrow> dict \<Rightarrow> errs" where
  "policy_field_errors E cfg name policy =
     allE (errE (output_url_policy E cfg policy \<notin> set output_url_policies) (capability_label name ''output_url_policy'') #
       map (\<lambda>f. errE (has_key policy f \<and> \<not> is_list (dget0 policy f)) (capability_label name f))
         [''allowed_tools'', ''allowed_domains'', ''backend_tools'', ''allowed_response_format_types''] @
       map (\<lambda>f. bool_field policy f (capability_label name f))
         [''allow_external_write'', ''allow_forward'', ''allow_local_files'', ''allow_response_format'', ''requires_human_approval''] @
       [errE (case or_empty_list (dget0 policy ''allowed_tools'') of JList xs \<Rightarrow> \<not> list_all nonblank xs | _ \<Rightarrow> False)
          (capability_label name ''allowed_tools'')])"

definition str_set :: "env \<Rightarrow> json list \<Rightarrow> string set" where
  "str_set E xs = set (map (py_str E) xs)"

definition response_format_errors :: "env \<Rightarrow> string \<Rightarrow> dict \<Rightarrow> errs" where
  "response_format_errors E name policy =
     (let raw = or_empty_list (dget0 policy ''allowed_response_format_types'');
          listed = (case raw of JList xs \<Rightarrow> xs | _ \<Rightarrow> []);
          label = capability_label name ''response_format'' in
      allE [errE (\<not> list_all (\<lambda>x. x \<in> set (map JStr response_format_types)) listed) (capability_label name ''allowed_response_format_types''),
        errE (has_key policy ''response_format'' \<and> \<not> is_dict (dget0 policy ''response_format'')) label,
        if \<not> flag policy ''allow_response_format'' False then Inr []
        else case dget0 policy ''response_format'' of
            JObj format \<Rightarrow> Inr (fixed_response_format_errors E format label @
              err (listed \<noteq> [] \<and> py_str E (dget format ''type'' (JStr [])) \<notin> str_set E listed) (dotted [label, ''type'']))
          | _ \<Rightarrow> errE True (capability_label name ''allow_response_format'')])"

definition tool_errors :: "env \<Rightarrow> string \<Rightarrow> string list \<Rightarrow> bool \<Rightarrow> json \<Rightarrow> string list" where
  "tool_errors E label allowed may_write tool =
     (let n = backend_tool_name tool in
      if n = [] then [label]
      else err (allowed \<noteq> [] \<and> n \<notin> set allowed) label @
           err (\<not> may_write \<and> re_search E ''WRITE_TOOL_PATTERN'' (backend_tool_policy_text E tool)) label)"

text \<open>
  The names of the allowed tools are taken from the value \<open>allowed_tools\<close> has, or the empty list:
  a string would give its characters, anything that cannot be iterated raises.
\<close>

definition tools_errors :: "env \<Rightarrow> string \<Rightarrow> dict \<Rightarrow> errs" where
  "tools_errors E name policy =
     (let label = capability_label name ''backend_tools'' in
      case or_empty_list (dget0 policy ''backend_tools'') of
        JList (t # ts) \<Rightarrow>
          bindE (py_iter (or_empty_list (dget0 policy ''allowed_tools''))) (\<lambda>xs.
            let allowed = map (py_strip \<circ> str_or_blank) (filter is_str xs) in
            Inr (err (allowed = []) label @
              concat (map (tool_errors E label allowed (flag policy ''allow_external_write'' False)) (t # ts))))
      | _ \<Rightarrow> Inr [])"

definition temperature_ok :: "pyfloat \<Rightarrow> bool" where
  "temperature_ok x = (case x of Fin r \<Rightarrow> 0 \<le> r \<and> r \<le> 2 | _ \<Rightarrow> False)"

definition policy_consistency_errors :: "float_reader \<Rightarrow> dict \<Rightarrow> string \<Rightarrow> dict \<Rightarrow> errs" where
  "policy_consistency_errors R cfg name policy =
     (let label = capability_label name; approval = flag policy ''requires_human_approval'' False;
          allow_forward = flag policy ''allow_forward'' True;
          target = cfg_section cfg ''target'' in
      alsoE (allE [errE (flag policy ''allow_external_write'' False \<and> \<not> approval) (label ''allow_external_write''),
         errE (flag policy ''allow_local_files'' False \<and> \<not> approval) (label ''allow_local_files'')])
     (bindE (parse_int (dget policy ''max_tokens'' (JInt 1500)) 1500) (\<lambda>(raw, ok).
      let value = min (max 0 raw) max_http_max_tokens in
      bindE (bounded_int (dget0 target ''http_max_tokens'') 1500 1 (Some max_http_max_tokens)) (\<lambda>target_max.
      allE [errE (has_key policy ''max_tokens'' \<and> (\<not> ok \<or> value \<noteq> raw)) (label ''max_tokens''),
        errE (allow_forward \<and> value \<le> 0) (label ''allow_forward''),
        errE (\<not> allow_forward \<and> (case dget0 policy ''backend_tools'' of JList (t # ts) \<Rightarrow> True | _ \<Rightarrow> False)) (label ''allow_forward''),
        errE (target_max < value) (label ''max_tokens''),
        if has_key policy ''temperature''
        then (case py_float R (dget0 policy ''temperature'') of
            Inr x \<Rightarrow> errE (\<not> temperature_ok x) (label ''temperature'')
          | Inl e \<Rightarrow> if e \<in> {PyError ''TypeError'', PyError ''ValueError''} then errE True (label ''temperature'') else Inl e)
        else Inr []]))))"

definition capability_errors_proxy :: "float_reader \<Rightarrow> env \<Rightarrow> dict \<Rightarrow> string \<times> json \<Rightarrow> errs" where
  "capability_errors_proxy R E cfg = (\<lambda>(name, v). case v of
       JObj policy \<Rightarrow> allE [policy_field_errors E cfg name policy, response_format_errors E name policy,
         tools_errors E name policy, policy_consistency_errors R cfg name policy]
     | _ \<Rightarrow> errE True (dotted [''capabilities'', name]))"

definition proxy_agent_errors :: "host \<Rightarrow> env \<Rightarrow> dict \<Rightarrow> string \<times> json \<Rightarrow> errs" where
  "proxy_agent_errors H E cfg = (\<lambda>(a, v). case v of
       JObj agent \<Rightarrow>
         (let token = py_str E (dget agent ''token_sha256'' (JStr [])); label = agent_label a ''allowed_capabilities'' in
          allE [errE (token \<noteq> [] \<and> \<not> token_hash_ok token) (agent_label a ''token_sha256''),
            (if has_key agent ''allowed_capabilities'' \<and> \<not> is_list (dget0 agent ''allowed_capabilities'') then errE True label
             else case or_empty_list (dget0 agent ''allowed_capabilities'') of
                JList xs \<Rightarrow> allE (map (\<lambda>x. errE (\<not> nonblank x \<or> \<not> capability_is_defined cfg (str_or_blank x)) label) xs)
              | _ \<Rightarrow> Inr []),
            cidr_errors H E (agent_label a ''allowed_client_cidrs'') agent])
     | _ \<Rightarrow> errE True (dotted [''agents'', a]))"

definition proxy_agents_errors :: "host \<Rightarrow> env \<Rightarrow> dict \<Rightarrow> errs" where
  "proxy_agents_errors H E cfg = (case dget cfg ''agents'' (JObj []) of
       JObj agents \<Rightarrow> allE (map (proxy_agent_errors H E cfg) agents)
     | v \<Rightarrow> errE (truthy v) ''agents'')"

definition output_guard_errors :: "env \<Rightarrow> dict \<Rightarrow> errs" where
  "output_guard_errors E cfg = (case dget cfg ''output_guard'' (JObj []) of
       JObj guard \<Rightarrow> allE [
         errE (py_str E (dget guard ''output_url_policy'' (JStr ''no_query_no_fragment'')) \<notin> set output_url_policies)
           ''output_guard.output_url_policy'',
         errE (has_key guard ''allowed_domains'' \<and> \<not> is_list (dget0 guard ''allowed_domains'')) ''output_guard.allowed_domains'']
     | _ \<Rightarrow> Inr [])"

definition proxy_config_errors :: "float_reader \<Rightarrow> host \<Rightarrow> env \<Rightarrow> dict \<Rightarrow> errs" where
  "proxy_config_errors R H E cfg =
     (let bind = py_str E (dget cfg ''bind'' (JStr [])) in
      allE [errE (bind = [] \<or> \<not> is_loopback_bind H (JStr bind)) ''bind'', target_errors E cfg,
        (case dget cfg ''capabilities'' (JObj []) of
           JObj capabilities \<Rightarrow> allE (map (capability_errors_proxy R E cfg) capabilities)
         | _ \<Rightarrow> errE True ''capabilities''),
        proxy_agents_errors H E cfg, output_guard_errors E cfg])"

definition proxy_validate_config :: "float_reader \<Rightarrow> host \<Rightarrow> env \<Rightarrow> dict \<Rightarrow> unit res" where
  "proxy_validate_config R H E cfg = bindE (proxy_config_errors R H E cfg) (\<lambda>errors. raise_if (errors \<noteq> []) (PyError ''ValueError''))"

definition proxy_load_config :: "float_reader \<Rightarrow> host \<Rightarrow> env \<Rightarrow> dict \<Rightarrow> json option option \<Rightarrow> dict res" where
  "proxy_load_config R H E built_in content =
     bindE (case content of
         None \<Rightarrow> Inr built_in
       | Some None \<Rightarrow> Inl (PyError ''ValueError'')
       | Some (Some v) \<Rightarrow> bindE (py_items v) (\<lambda>user. Inr (deep_update built_in user))) (\<lambda>cfg.
     thenE (proxy_validate_config R H E cfg) (Inr cfg))"

section \<open>Lemmas\<close>

lemma bounded_int_bounds:
  "bounded_int v d lo hi = Inr n \<Longrightarrow> (\<forall>h. hi = Some h \<longrightarrow> lo \<le> h) \<Longrightarrow> lo \<le> n \<and> (\<forall>h. hi = Some h \<longrightarrow> n \<le> h)"
  by (auto simp: bounded_int_def bindE_Inr Let_def split: option.splits)

lemma clamp_bounds: "lo \<le> hi \<Longrightarrow> \<exists>r. clamp (Fin lo) (Fin hi) x = Fin r \<and> lo \<le> r \<and> r \<le> hi"
  by (cases x) (auto simp: clamp_def Let_def)

lemma bounded_float_bounds: "bounded_float R v d lo hi = Inr x \<Longrightarrow> lo \<le> hi \<Longrightarrow> \<exists>r. x = Fin r \<and> lo \<le> r \<and> r \<le> hi"
  using clamp_bounds by (fastforce simp: bounded_float_def split: sum.splits if_splits)

lemma allows_forward_True:
  assumes "capability_allows_forward cfg capability = Inr True"
  shows "capability_is_defined cfg capability"
    "\<exists>n. parse_int (dget (capability_policy cfg capability) ''max_tokens'' (JInt 0)) 0 = Inr (n, True) \<and> 0 < n \<and> n \<le> max_http_max_tokens"
  using assms by (auto simp: capability_allows_forward_def Let_def bindE_Inr split: if_splits)

text \<open>
  A capability without \<open>max_tokens\<close> is never forwarded, since \<open>capability_allows_forward\<close> takes 0
  for it; the check of the configuration and the exported manifest take 1500 and call it forwardable.
\<close>

lemma no_max_tokens_never_forwarded:
  assumes "\<not> has_key (capability_policy cfg capability) ''max_tokens''"
  shows "capability_allows_forward cfg capability = Inr False"
  using assms by (auto simp: capability_allows_forward_def Let_def has_key_def dget_def is_bool_iff)

lemma no_max_tokens_manifest:
  assumes "\<not> has_key (capability_policy cfg capability) ''max_tokens''"
    "\<not> has_key (capability_policy cfg capability) ''allow_forward''"
    "backend_capability_policy R E cfg capability = Inr p"
  shows "dget0 p ''allow_forward'' = JBool True \<and> dget0 p ''max_tokens'' = JInt 1500"
  using assms
  by (auto simp: backend_capability_policy_def Let_def bindE_Inr sealed_def flag_def has_key_def dget_def bounded_int_def parse_int_def
      max_http_max_tokens_def)

end
