(* ===== verification/Structured_Extract.thy ===== *)
theory Structured_Extract
  imports Artifact_Check
begin

text \<open>
  The structured extract of a scanned text (\<open>build_structured_extract\<close> of proxy.py): what a
  reader gets of a text that must not be quoted whole. Its claims and recommendations are the
  sentences without a security pattern, URLs replaced; what looks like an instruction appears
  only as a redacted excerpt.
\<close>

section \<open>Sentences and excerpts\<close>

text \<open>\<open>re.split\<close>: the text between the matches of a pattern without groups.\<close>

fun between :: "string \<Rightarrow> nat \<Rightarrow> (nat \<times> nat) list \<Rightarrow> string list" where
  "between s pos [] = [drop pos s]"
| "between s pos ((a, b) # ms) = slice s pos a # between s b ms"

definition squeeze :: "string \<Rightarrow> string" where
  "squeeze s = py_strip (join_spaces False s)"

definition sentence_candidates :: "env \<Rightarrow> string \<Rightarrow> string list" where
  "sentence_candidates E txt =
     filter (\<lambda>s. 12 \<le> length s) (map squeeze (between txt 0 (e_finditer E ''SENTENCE_SPLIT'' txt)))"

definition excerpt_around_match :: "string \<Rightarrow> nat \<Rightarrow> nat \<Rightarrow> int \<Rightarrow> string" where
  "excerpt_around_match txt start stop max_chars =
     (let half = nat (max 20 (max_chars div 2))
      in squeeze (slice txt (start - half) (min (length txt) (stop + half))))"

text \<open>
  Here the patterns of secrets are matched without regard to case, unlike in \<open>scan_text\<close>: they are
  patterns of their own, \<open>secret_any_case\<close>.
\<close>

definition contains_security_pattern :: "env \<Rightarrow> string \<Rightarrow> bool" where
  "contains_security_pattern E txt \<longleftrightarrow>
     list_ex (\<lambda>(n, s). re_search E (''prompt_injection:'' @ n) txt) prompt_injection_patterns \<or>
     list_ex (\<lambda>(n, s). re_search E (''obfuscation:'' @ n) txt) obfuscation_patterns \<or>
     list_ex (\<lambda>(n, s). re_search E (''secret_any_case:'' @ n) txt) secret_patterns"

definition redact_urls :: "env \<Rightarrow> string \<Rightarrow> string" where
  "redact_urls E txt = re_sub E ''URL_PATTERN'' ''[url]'' txt"

definition redact_structured_excerpt :: "env \<Rightarrow> string \<Rightarrow> string" where
  "redact_structured_excerpt E txt =
     foldl (\<lambda>t (n, s). re_sub E (''secret_any_case:'' @ n) ''[redacted_secret]'' t) (redact_urls E txt) secret_patterns"

section \<open>The parts of an extract\<close>

text \<open>The URLs by their digest, up to the first \<open>max_urls\<close> (at least one).\<close>

fun report_urls :: "env \<Rightarrow> int \<Rightarrow> string list \<Rightarrow> string list \<Rightarrow> dict list" where
  "report_urls E max_urls [] seen = []"
| "report_urls E max_urls (u # us) seen =
     (let h = e_sha256 E u in
      if h \<in> set seen then report_urls E max_urls us seen
      else sanitize_url_for_report E u #
        (if max_urls \<le> int (length seen) + 1 then [] else report_urls E max_urls us (h # seen)))"

type_synonym suspicion = "string \<times> int \<times> string"   \<comment> \<open>category, severity and excerpt\<close>

fun add_suspicions :: "env \<Rightarrow> int \<Rightarrow> suspicion list \<Rightarrow> string list \<times> suspicion list \<Rightarrow> string list \<times> suspicion list" where
  "add_suspicions E max_n [] st = st"
| "add_suspicions E max_n ((name, severity, excerpt) # ms) (seen, out) =
     (let key = e_sha256 E (name @ CHR '':'' # excerpt) in
      if key \<in> set seen then add_suspicions E max_n ms (seen, out)
      else let st = (key # seen, out @ [(name, severity, excerpt)]) in
           if max_n \<le> int (length (snd st)) then st else add_suspicions E max_n ms st)"

definition match_suspicions :: "env \<Rightarrow> string \<Rightarrow> int \<Rightarrow> string \<Rightarrow> string \<times> int \<Rightarrow> suspicion list" where
  "match_suspicions E txt max_chars pfx = (\<lambda>(name, severity).
     map (\<lambda>(a, b). (name, severity, redact_structured_excerpt E (excerpt_around_match txt a b max_chars)))
       (e_finditer E (pfx @ name) txt))"

fun pattern_suspicions :: "env \<Rightarrow> int \<Rightarrow> suspicion list list \<Rightarrow> string list \<times> suspicion list \<Rightarrow> string list \<times> suspicion list" where
  "pattern_suspicions E max_n [] st = st"
| "pattern_suspicions E max_n (ms # mss) st =
     (let st = add_suspicions E max_n ms st in
      if max_n \<le> int (length (snd st)) then st else pattern_suspicions E max_n mss st)"

definition llm_findings :: "scan_result \<Rightarrow> finding list" where
  "llm_findings scan = filter (\<lambda>f. prefix ''llm_inspector:'' (f_category f)) (s_findings scan)"

definition suspicious_instructions :: "env \<Rightarrow> scan_result \<Rightarrow> int \<Rightarrow> int \<Rightarrow> suspicion list" where
  "suspicious_instructions E scan max_n max_chars =
     (let txt = s_text scan;
          st = pattern_suspicions E max_n
                 (map (match_suspicions E txt max_chars ''prompt_injection:'') prompt_injection_patterns @
                  map (match_suspicions E txt max_chars ''obfuscation:'') obfuscation_patterns) ([], []);
          excerpt = redact_structured_excerpt E (py_take max_chars txt)
      in snd (add_suspicions E max_n (map (\<lambda>f. (f_category f, f_severity f, excerpt)) (llm_findings scan)) st))"

text \<open>
  Claims and recommendations. A sentence is compared with the cut ones kept so far, so a longer
  sentence that is said twice is kept twice.
\<close>

fun sort_sentences :: "env \<Rightarrow> int \<Rightarrow> int \<Rightarrow> int \<Rightarrow> string list \<Rightarrow> string list \<times> string list \<Rightarrow> string list \<times> string list" where
  "sort_sentences E max_chars max_claims max_recs [] st = st"
| "sort_sentences E max_chars max_claims max_recs (s # ss) (claims, recs) =
     (let go = sort_sentences E max_chars max_claims max_recs ss;
          check = (\<lambda>(c, r). if max_claims \<le> int (length c) \<and> max_recs \<le> int (length r) then (c, r) else go (c, r));
          t = squeeze (redact_urls E s)
      in if contains_security_pattern E s \<or> length t < 12 then go (claims, recs)
         else if re_search E ''RECOMMENDATION_MARKERS'' t
         then let r = (if t \<in> set recs then recs else recs @ [py_take max_chars t]) in
              if max_recs \<le> int (length r) then go (claims, r) else check (claims, r)
         else if t \<in> set claims then check (claims, recs)
         else check (claims @ [py_take max_chars t], recs))"

definition suspicion_json :: "env \<Rightarrow> suspicion \<Rightarrow> json" where
  "suspicion_json E = (\<lambda>(name, severity, excerpt).
     JObj [(''category'', JStr name), (''severity'', JInt severity), (''excerpt'', JStr excerpt),
       (''excerpt_sha256'', JStr (e_sha256 E excerpt))])"

definition extract_sentences :: "env \<Rightarrow> scan_result \<Rightarrow> int \<Rightarrow> int \<Rightarrow> int \<Rightarrow> string list \<times> string list" where
  "extract_sentences E scan max_chars max_claims max_recs =
     (if llm_findings scan \<noteq> [] then ([], [])
      else sort_sentences E max_chars max_claims max_recs (sentence_candidates E (s_text scan)) ([], []))"

definition build_structured_extract :: "env \<Rightarrow> scan_result \<Rightarrow> dict \<Rightarrow> dict res" where
  "build_structured_extract E scan cfg =
     (let options = cfg_section cfg ''structured_extract'' in
      bindE (cfg_int options ''max_claims'' 12) (\<lambda>max_claims.
      bindE (cfg_int options ''max_recommendations'' 12) (\<lambda>max_recs.
      bindE (cfg_int options ''max_suspicious_instructions'' 12) (\<lambda>max_susp.
      bindE (cfg_int options ''max_urls'' 20) (\<lambda>max_urls.
      bindE (cfg_int options ''max_excerpt_chars'' 240) (\<lambda>max_chars.
        let (claims, recs) = extract_sentences E scan max_chars max_claims max_recs in
        Inr [(''content_sha256'', JStr (s_normalized scan)),
          (''summary_limits'', JObj [(''max_claims'', JInt max_claims), (''max_recommendations'', JInt max_recs),
             (''max_suspicious_instructions'', JInt max_susp), (''max_urls'', JInt max_urls)]),
          (''urls'', JList (map JObj (report_urls E max_urls (re_matches E ''URL_PATTERN'' (s_text scan)) []))),
          (''claims'', JList (map JStr (py_take max_claims claims))),
          (''recommendations'', JList (map JStr (py_take max_recs recs))),
          (''suspicious_instructions'',
            JList (map (suspicion_json E) (py_take max_susp (suspicious_instructions E scan max_susp max_chars)))),
          (''scan_findings'', JList (map finding_json (s_findings scan)))]))))))"

text \<open>The scan of a payload with its extract, and what the route's policy makes of the scan.\<close>

definition scan_inbound :: "env \<Rightarrow> json \<Rightarrow> dict \<Rightarrow> (inbound_scan \<times> dict) res" where
  "scan_inbound E payload cfg =
     bindE (scan_inbound_payload E payload cfg) (\<lambda>inbound.
     bindE (build_structured_extract E (in_scan inbound) cfg) (\<lambda>x. Inr (inbound, x)))"

definition scan_and_extract_for_route :: "env \<Rightarrow> dict \<Rightarrow> dict \<Rightarrow> route_decision \<Rightarrow> (inbound_scan \<times> dict \<times> route_decision) res" where
  "scan_and_extract_for_route E payload cfg d =
     bindE (scan_inbound E (JObj payload) cfg) (\<lambda>(inbound, x).
     bindE (apply_route_inbound_scan_policy E inbound d cfg) (\<lambda>(inbound, d). Inr (inbound, x, d)))"

section \<open>What an extract can hold\<close>










end
