(* ===== verification/Request.thy ===== *)
theory Request
  imports Structured_Extract
begin

text \<open>
  What the handlers of the gateway share (\<open>GatewayHandler\<close> of gateway.py): the state of one
  request, the kill switch, admission, reading the body, forwarding, and the two ways a request
  ends that was not answered (\<open>deny\<close>, \<open>internal_error\<close>). A handler is an action on that state
  that ends with the answer it writes. The text of an error message is fixed in the source for
  some error codes; for the others, which quote the request or the configuration or have several
  wordings, it is a parameter.
\<close>

section \<open>One request\<close>

text \<open>
  What reading the body gives: the bytes the client sent, or, when the read deadline cut the
  connection, those that had arrived, or an \<open>OSError\<close>.
\<close>

datatype body_read = Body string | CutOff string | ReadFails

text \<open>The request, and the surroundings of the process while it is handled.\<close>

record call =
  c_target :: string                            \<comment> \<open>\<open>self.path\<close>\<close>
  c_headers :: headers
  c_ip :: string
  c_body :: body_read
  c_id :: string                                \<comment> \<open>\<open>"req_" + uuid4().hex\<close>\<close>
  c_fresh :: string                             \<comment> \<open>the further random identifier a request draws\<close>
  c_now :: int                                  \<comment> \<open>wall clock, in microseconds\<close>
  c_clock :: rat                                \<comment> \<open>\<open>time.monotonic()\<close>\<close>
  c_trace :: string                             \<comment> \<open>\<open>traceback.format_exc()\<close>\<close>
  c_env :: env
  c_cfg :: dict
  c_words :: "string \<Rightarrow> string"                 \<comment> \<open>the Japanese words of a receipt\<close>
  c_warning :: string                           \<comment> \<open>the sign in front of a defanged URL\<close>
  c_send :: sender                              \<comment> \<open>the HTTP backends\<close>
  c_writable :: "string \<Rightarrow> bool"              \<comment> \<open>whether the directory of a store can be written\<close>
  c_message :: "nat \<Rightarrow> string \<Rightarrow> string"    \<comment> \<open>the message of the error of a status and code, where it is not fixed\<close>
  c_encodes :: "string \<Rightarrow> bool"               \<comment> \<open>whether \<open>str.encode("utf-8")\<close> takes a text\<close>
  c_run :: "string list \<Rightarrow> string \<Rightarrow> command_end" \<comment> \<open>\<open>subprocess.run\<close>\<close>

text \<open>
  The state: the world, the attributes \<open>_admitted\<close> and \<open>_read_expired\<close> of the handler object,
  the locals \<open>verified\<close> and \<open>decision\<close> that the exception handlers read, the \<open>audit_extra\<close> of
  the exception under way, and, for the statements below, what was handed to \<open>forward\<close> so far.
\<close>

record hstate =
  h_world :: world
  h_admitted :: bool
  h_expired :: bool
  h_verified :: "verified_agent option"
  h_decision :: "route_decision option"
  h_extra :: dict
  h_forwarded :: "(route_decision \<times> dict) list"

text \<open>A connection carries one request.\<close>

definition fresh_request :: "world \<Rightarrow> hstate" where
  "fresh_request w = \<lparr>h_world = w, h_admitted = False, h_expired = False, h_verified = None, h_decision = None,
     h_extra = [], h_forwarded = []\<rparr>"

datatype answer =
    Answer nat dict
  | FileAnswer nat string string headers        \<comment> \<open>content, media type, further headers\<close>
  | NoAnswer                                    \<comment> \<open>the connection is closed\<close>

type_synonym 'a handler = "(hstate, 'a) act"

definition worldA :: "(world, 'a) act \<Rightarrow> 'a handler" where
  "worldA m = (\<lambda>s. let (r, w) = m (h_world s) in (r, s\<lparr>h_world := w\<rparr>))"

definition readA :: "(world \<Rightarrow> 'a res) \<Rightarrow> 'a handler" where
  "readA f = worldA (getsA f)"

definition audit :: "call \<Rightarrow> dict \<Rightarrow> unit handler" where
  "audit C event = thenA (worldA (write_audit (c_env C) (c_now C) event)) (retA ())"

definition knows_agent :: "verified_agent \<Rightarrow> unit handler" where
  "knows_agent v = modA (\<lambda>s. s\<lparr>h_verified := Some v\<rparr>)"

definition knows_route :: "route_decision \<Rightarrow> unit handler" where
  "knows_route d = modA (\<lambda>s. s\<lparr>h_decision := Some d\<rparr>)"

text \<open>\<open>raise input_guard_error(...)\<close>: the scan goes to the audit log with the denial.\<close>

definition raise_scan :: "call \<Rightarrow> inbound_scan \<Rightarrow> 'a handler" where
  "raise_scan C inbound =
     thenA (modA (\<lambda>s. s\<lparr>h_extra := [(''scan'', JObj (public_scan_for_audit (c_cfg C) (in_scan inbound)))]\<rparr>))
       (raiseA (GatewayError 403 ''blocked_by_input_guard''))"

section \<open>Answers\<close>

definition json_error :: "string \<Rightarrow> string \<Rightarrow> string \<Rightarrow> dict" where
  "json_error err message request_id =
     [(''error'', JObj [(''code'', JStr err), (''message'', JStr message), (''request_id'', JStr request_id)])]"

text \<open>The messages of the error codes that have one constant message in the source.\<close>

definition fixed_messages :: "(string \<times> string) list" where
  "fixed_messages =
     [(''kill_switch_active'', ''kill switch is active''), (''not_found'', ''not found''), (''internal_error'', ''internal error''),
      (''request_timeout'', ''request body read failed''), (''capability_required'', ''capability is required''),
      (''route_required'', ''route_id is required''), (''approval_required'', ''action requires a matching approval artifact''),
      (''self_approval_denied'', ''agents cannot approve their own actions''),
      (''artifact_reinspection_required'', ''stored artifact no longer passes content inspection''),
      (''artifact_integrity_error'', ''artifact content hash does not match manifest''), (''unknown_artifact'', ''unknown artifact''),
      (''backend_signature_required'', ''backend signature key is required for this route''),
      (''canary_unavailable'', ''canary detection is enabled but not usable'')]"

definition error_message :: "call \<Rightarrow> nat \<Rightarrow> string \<Rightarrow> string" where
  "error_message C n err = (case map_of fixed_messages err of Some t \<Rightarrow> t | None \<Rightarrow> c_message C n err)"

definition error_body :: "call \<Rightarrow> nat \<Rightarrow> string \<Rightarrow> dict" where
  "error_body C n err = json_error err (error_message C n err) (c_id C)"

text \<open>
  \<open>json.dumps(body, ensure_ascii=False).encode("utf-8")\<close> raises on a lone surrogate in a string or
  key of the body. ASCII text always encodes, the request's own identifier (hex digits) too; for other
  text it is left open, since a surrogate is no code point the model keeps.
\<close>

definition encodes :: "call \<Rightarrow> string \<Rightarrow> bool" where
  "encodes C t \<longleftrightarrow> list_all (\<lambda>c. \<not> digit7 c) t \<or> t = c_id C \<or> c_encodes C t"

definition body_encodes :: "call \<Rightarrow> dict \<Rightarrow> bool" where
  "body_encodes C body = list_all (encodes C) (json_strings (JObj body))"

definition encode_error :: exn where
  "encode_error = PyError ''UnicodeEncodeError''"

definition write_json :: "call \<Rightarrow> nat \<Rightarrow> dict \<Rightarrow> answer handler" where
  "write_json C n body = (\<lambda>s.
     if h_expired s then (Inr NoAnswer, s)
     else if body_encodes C body then (Inr (Answer n body), s) else (Inl encode_error, s))"

lemma ascii_encodes: "list_all (\<lambda>c. \<not> digit7 c) t \<Longrightarrow> encodes C t"
  by (simp add: encodes_def)

lemma fixed_error_encodes:
  assumes "map_of fixed_messages err = Some t"
  shows "error_message C n err = t" "body_encodes C (error_body C n err)"
proof -
  have "list_all (\<lambda>(err, t). list_all (\<lambda>c. \<not> digit7 c) err \<and> list_all (\<lambda>c. \<not> digit7 c) t) fixed_messages" by code_simp
  then have "list_all (\<lambda>c. \<not> digit7 c) err" "list_all (\<lambda>c. \<not> digit7 c) t"
    using map_of_SomeD[OF assms] by (auto simp: list_all_iff)
  moreover show e: "error_message C n err = t" using assms by (simp add: error_message_def)
  moreover have "encodes C ''error''" "encodes C ''code''" "encodes C ''message''" "encodes C ''request_id''" "encodes C (c_id C)"
    by (simp_all add: encodes_def)
  ultimately show "body_encodes C (error_body C n err)"
    by (simp add: body_encodes_def error_body_def json_error_def ascii_encodes)
qed

definition ignoreA :: "'a handler \<Rightarrow> unit handler" where
  \<comment> \<open>\<open>try: ... except Exception: pass\<close>\<close>
  "ignoreA m = (\<lambda>s. (Inr (), snd (m s)))"

definition deny :: "call \<Rightarrow> nat \<Rightarrow> string \<Rightarrow> verified_agent option \<Rightarrow> route_decision option \<Rightarrow> dict \<Rightarrow> answer handler" where
  "deny C n err v d extra = (\<lambda>s.
     thenA (ignoreA (audit C ([(''event'', JStr ''deny''), (''reason'', JStr err)] @ audit_base (c_id C) v (c_ip C) d @
              h_extra s @ extra)))
       (write_json C n (error_body C n err)) s)"

definition internal_error :: "call \<Rightarrow> string \<Rightarrow> answer handler" where
  "internal_error C name =
     thenA (ignoreA (audit C [(''event'', JStr ''internal_error''), (''request_id'', JStr (c_id C)), (''client_ip'', JStr (c_ip C)),
              (''error_type'', JStr name), (''traceback_sha256'', JStr (e_sha256 (c_env C) (c_trace C)))]))
       (write_json C 500 (error_body C 500 ''internal_error''))"

text \<open>The \<open>try\<close> of a handler with its two \<open>except\<close> clauses.\<close>

definition guarded :: "call \<Rightarrow> dict \<Rightarrow> answer handler \<Rightarrow> answer handler" where
  "guarded C extra body = catchA body (\<lambda>e s. case e of
       GatewayError n err \<Rightarrow> deny C n err (h_verified s) (h_decision s) extra s
     | PyError name \<Rightarrow> internal_error C name s)"

section \<open>Admission\<close>

definition check_kill_switch :: "call \<Rightarrow> unit handler" where
  "check_kill_switch C = (\<lambda>s.
     if g_kill (h_world s)
     then thenA (audit C [(''event'', JStr ''deny''), (''reason'', JStr ''kill_switch_active''),
                  (''request_id'', JStr (c_id C)), (''client_ip'', JStr (c_ip C))])
            (raiseA (GatewayError 503 ''kill_switch_active'')) s
     else (Inr (), s))"

definition authenticate :: "call \<Rightarrow> verified_agent handler" where
  "authenticate C = readA (\<lambda>w. verify_agent (c_env C) (c_cfg C) (g_runs w) (g_revoked w) (c_now C) (c_headers C) (c_ip C))"

definition admit_agent :: "call \<Rightarrow> verified_agent \<Rightarrow> unit handler" where
  "admit_agent C v =
     bindA (worldA (limiterA (rate_check (''agent:'' @ va_agent_id v @ CHR '':'' # c_ip C) (c_cfg C) [] (c_clock C)))) (\<lambda>(allowed, _).
       if allowed then modA (\<lambda>s. s\<lparr>h_admitted := True\<rparr>) else raiseA rate_limited)"

definition check_rate_limit :: "call \<Rightarrow> verified_agent \<Rightarrow> unit handler" where
  "check_rate_limit C v = (\<lambda>s. if h_admitted s then (Inr (), s) else admit_agent C v s)"

section \<open>The body\<close>

definition body_length :: "call \<Rightarrow> int res" where
  "body_length C =
     thenE (raise_if (header_get (c_headers C) ''Transfer-Encoding'' \<noteq> [] \<or>
              length (header_all (c_headers C) ''Content-Length'') \<noteq> 1) bad_request)
    (case int_of_str (header_get (c_headers C) ''Content-Length'') of
       Inl _ \<Rightarrow> Inl bad_request
     | Inr n \<Rightarrow> bindE (cfg_int (c_cfg C) ''max_body_bytes'' 524288) (\<lambda>limit.
         thenE (raise_if (n < 0 \<or> limit < n) (GatewayError 413 ''request_too_large'')) (Inr n)))"

definition receive :: "call \<Rightarrow> int \<Rightarrow> string handler" where
  "receive C n = (case c_body C of
       Body raw \<Rightarrow> retA (take (nat n) raw)
     | CutOff raw \<Rightarrow> thenA (modA (\<lambda>s. s\<lparr>h_expired := True\<rparr>)) (retA (take (nat n) raw))
     | ReadFails \<Rightarrow> thenA (modA (\<lambda>s. s\<lparr>h_expired := True\<rparr>)) (raiseA (GatewayError 408 ''request_timeout'')))"

text \<open>Bytes that are no UTF-8 raise \<open>UnicodeDecodeError\<close>, which the handler does not catch.\<close>

definition parse_body :: "env \<Rightarrow> int \<Rightarrow> string \<Rightarrow> dict res" where
  "parse_body E n raw =
     thenE (raise_if (int (length raw) \<noteq> n) bad_request)
    (case e_utf8 E raw of
       None \<Rightarrow> Inl (PyError ''UnicodeDecodeError'')
     | Some t \<Rightarrow> (case e_loads E t of Some (JObj payload) \<Rightarrow> Inr payload | _ \<Rightarrow> Inl bad_request))"

definition read_json_body :: "call \<Rightarrow> dict handler" where
  "read_json_body C =
     bindA (authenticate C) (\<lambda>v.
     thenA (admit_agent C v)
    (bindA (liftA (body_length C)) (\<lambda>n.
     bindA (receive C n) (\<lambda>raw.
     bindA (liftA (parse_body (c_env C) n raw)) (\<lambda>payload.
     thenA (worldA (enforce_canary (c_env C) (c_now C) (c_cfg C) (JObj payload) (Some (va_agent_id v)) (c_ip C) ''request''))
       (retA payload))))))"

section \<open>Route\<close>

text \<open>
  \<open>enforce_route_policy\<close> appends to the warnings of the decision the handler holds; when the
  taint check fails after that, the denial still shows the warning.
\<close>

definition warned :: "call \<Rightarrow> verified_agent \<Rightarrow> route_decision \<Rightarrow> world \<Rightarrow> route_decision" where
  "warned C v d w =
     (if dget0 (rd_route d) ''kind'' = JStr ''canary'' \<or> \<not> okE (caller_checks (c_env C) v d) then d
      else case enforce_run_scope (c_env C) (g_runs w) (c_now C) (c_cfg C) d (role v) of Inl _ \<Rightarrow> d | Inr d' \<Rightarrow> d')"

definition route_policy :: "call \<Rightarrow> verified_agent \<Rightarrow> route_decision \<Rightarrow> route_decision handler" where
  "route_policy C v d = (\<lambda>s.
     thenA (knows_route (warned C v d (h_world s)))
       (worldA (enforce_route_policy (c_env C) (c_now C) (c_cfg C) v d)) s)"

definition resolve_route :: "call \<Rightarrow> dict \<Rightarrow> route_decision handler" where
  "resolve_route C payload = bindA (liftA (resolve_route_decision (c_env C) (c_headers C) payload (c_cfg C))) (\<lambda>d.
     thenA (knows_route d) (retA d))"

text \<open>The common start of the handlers: who asks, and for which route.\<close>

definition identify :: "call \<Rightarrow> verified_agent handler" where
  "identify C = bindA (authenticate C) (\<lambda>v. thenA (knows_agent v) (retA v))"

section \<open>Forwarding\<close>

definition forward :: "call \<Rightarrow> dict \<Rightarrow> route_decision \<Rightarrow> verified_agent \<Rightarrow> string \<Rightarrow> (nat \<times> dict) handler" where
  "forward C payload d v request_id =
     (let E = c_env C; cfg = c_cfg C; kind = py_str E (dget0 (rd_route d) ''kind'') in
      thenA (modA (\<lambda>s. s\<lparr>h_forwarded := h_forwarded s @ [(d, payload)]\<rparr>))
     (if kind = ''inspect_only'' then
        bindA (liftA (scan_inbound E (JObj payload) cfg)) (\<lambda>(inbound, x).
          retA (200, [(''request_id'', JStr request_id), (''route_id'', JStr (rd_route_id d)),
             (''scan'', JObj (scan_public_dict (in_scan inbound))), (''structured_extract'', JObj x)]))
      else if kind = ''openai_chat_completions'' then
        worldA (forward_openai_chat E (c_words C) (c_send C) (c_fresh C) (c_now C) cfg payload d v)
      else if kind = ''http_json'' then liftA (forward_http_json E (c_send C) (c_now C) cfg payload d v)
      else if kind = ''command'' then liftA (forward_command E (c_run C) (c_fresh C) (c_now C) payload d)
      else if kind = ''artifact_review'' then
        worldA (forward_artifact_review E (c_send C) (c_fresh C) (c_now C) cfg payload d v request_id (c_ip C))
      else raiseA backend_error))"

definition deliver_result_audit_receipt :: "call \<Rightarrow> dict \<Rightarrow> route_decision \<Rightarrow> verified_agent \<Rightarrow> dict handler" where
  "deliver_result_audit_receipt C receipt d v =
     bindA (forward C receipt d v (''req_'' @ c_fresh C)) (\<lambda>(n, upstream).
     bindA (worldA (enforce_output_guard (c_env C) (c_now C) (c_cfg C) d upstream)) (\<lambda>scan.
       if output_guard_blocks scan (c_cfg C) d then raiseA (GatewayError 403 ''blocked_by_output_guard'')
       else retA [(''ok'', JBool True), (''backend_status'', JInt (int n)),
              (''output_scan'', JObj (public_scan_for_audit (c_cfg C) scan))]))"

definition set_delivery :: "string \<Rightarrow> json \<Rightarrow> dict \<Rightarrow> dict" where
  "set_delivery k v receipt =
     AList.update ''delivery'' (JObj (AList.update k v (dict_or_empty (dget0 receipt ''delivery'')))) receipt"

definition note_delivery :: "string \<Rightarrow> dict \<Rightarrow> dict \<Rightarrow> dict" where
  "note_delivery k delivery receipt = (if has_key delivery k then set_delivery k (dget0 delivery k) receipt else receipt)"

definition try_delivery :: "call \<Rightarrow> dict \<Rightarrow> route_decision \<Rightarrow> verified_agent \<Rightarrow> dict handler" where
  "try_delivery C receipt d v = catchA (deliver_result_audit_receipt C receipt d v) (\<lambda>e. case e of
       GatewayError n err \<Rightarrow> retA [(''ok'', JBool False), (''error'', JStr err), (''status'', JInt (int n))]
     | PyError name \<Rightarrow> raiseA (PyError name))"

definition maybe_deliver_block_receipt ::
    "call \<Rightarrow> verified_agent \<Rightarrow> route_decision \<Rightarrow> inbound_scan \<Rightarrow> dict \<Rightarrow> action_result \<Rightarrow> string \<Rightarrow> string \<Rightarrow> json \<Rightarrow>
      (dict \<times> dict option) handler" where
  "maybe_deliver_block_receipt C v d inbound x action receipt_decision reason message_type =
     (let notify = report_policy_notify_on_block d in
      bindA (liftA (result_audit_receipt (c_words C) (c_id C) v (c_ip C) d inbound action (c_cfg C) receipt_decision (Some reason)
              (if notify then ''audit_receipt'' else ''none'') None
              (if report_policy_enabled d ''include_structured_extract'' then Some (JObj x) else None) message_type)) (\<lambda>receipt.
      if \<not> notify then retA (receipt, None)
      else bindA (try_delivery C receipt d v) (\<lambda>delivery.
        retA (note_delivery ''error'' delivery (note_delivery ''backend_status'' delivery receipt), Some delivery))))"

section \<open>What a step leaves alone\<close>

text \<open>
  A calm step hands nothing to a backend and leaves the table of model calls as it is.
\<close>

definition calm :: "hstate \<Rightarrow> hstate \<Rightarrow> bool" where
  "calm s t \<longleftrightarrow> h_forwarded t = h_forwarded s \<and> g_quota (h_world t) = g_quota (h_world s)"

definition same_quota :: "world \<Rightarrow> world \<Rightarrow> bool" where
  "same_quota w w' \<longleftrightarrow> g_quota w' = g_quota w"

lemma calm_order: "reflp calm" "transp calm"
  by (auto simp: calm_def reflp_def transp_def)

lemma same_quota_order: "reflp same_quota" "transp same_quota"
  by (auto simp: same_quota_def reflp_def transp_def)

named_theorems frame_intros

lemmas calm_basic [frame_intros] = stable_pure[OF calm_order(1)] stable_bindA[OF calm_order(2)] stable_thenA[OF calm_order(2)]
lemmas quota_basic [frame_intros] = stable_pure[OF same_quota_order(1)] stable_bindA[OF same_quota_order(2)] stable_thenA[OF same_quota_order(2)]

lemma stable_if [frame_intros]: "(b \<Longrightarrow> stable R m) \<Longrightarrow> (\<not> b \<Longrightarrow> stable R n) \<Longrightarrow> stable R (if b then m else n)"
  by simp

lemma stable_cases [frame_intros]:
  "(\<And>e. stable R (f e)) \<Longrightarrow> (\<And>y. stable R (g y)) \<Longrightarrow> stable R (case x of Inl e \<Rightarrow> f e | Inr y \<Rightarrow> g y)"
  "stable R m \<Longrightarrow> (\<And>y. stable R (k y)) \<Longrightarrow> stable R (case z of None \<Rightarrow> m | Some y \<Rightarrow> k y)"
  "(\<And>a b. stable R (h a b)) \<Longrightarrow> stable R (case p of (a, b) \<Rightarrow> h a b)"
  by (auto split: sum.split option.split prod.split)

lemma stable_raise [frame_intros]: "stable calm (raiseA e)" "stable same_quota (raiseA e)"
  by (auto simp: raiseA_def intro!: frame_intros)

lemma stable_worldA [frame_intros]: "stable same_quota m \<Longrightarrow> stable calm (worldA m)"
  by (auto simp: stable_def same_quota_def calm_def worldA_def split_beta Let_def)

lemma stable_modA [frame_intros]:
  "(\<And>s. calm s (f s)) \<Longrightarrow> stable calm (modA f)" "(\<And>w. same_quota w (g w)) \<Longrightarrow> stable same_quota (modA g)"
  by (auto simp: stable_def)

lemma stable_readA [frame_intros]: "stable calm (readA f)"
  by (auto simp: readA_def intro!: frame_intros)

lemma stable_write_audit [frame_intros]: "stable same_quota (write_audit E now event)"
  by (auto simp: stable_def same_quota_def write_audit_def split: prod.splits)

lemma stable_audit [frame_intros]: "stable calm (audit C event)"
  by (auto simp: audit_def intro!: frame_intros)

lemma stable_ignoreA [frame_intros]: "stable calm m \<Longrightarrow> stable calm (ignoreA m)"
  by (simp add: stable_def ignoreA_def)

lemma stable_write_json [frame_intros]: "stable calm (write_json C n body)"
  by (simp add: stable_def write_json_def calm_def)

lemma stable_knows [frame_intros]: "stable calm (knows_agent v)" "stable calm (knows_route d)"
  by (auto simp: knows_agent_def knows_route_def calm_def intro!: frame_intros)

lemma stable_state: "(\<And>s. stable R (m s)) \<Longrightarrow> stable R (\<lambda>s. m s s)"
  by (simp add: stable_def)

lemma stable_catch [frame_intros]: "stable calm m \<Longrightarrow> (\<And>e. stable calm (h e)) \<Longrightarrow> stable calm (catchA m h)"
  unfolding stable_def catchA_def
  by (auto simp: calm_def split: prod.splits sum.splits) (metis snd_conv)+

lemma stable_deny [frame_intros]: "stable calm (deny C n err v d extra)"
  unfolding deny_def by (rule stable_state) (intro frame_intros)

lemma stable_internal_error [frame_intros]: "stable calm (internal_error C name)"
  unfolding internal_error_def by (intro frame_intros)

lemma stable_guarded [frame_intros]: "stable calm m \<Longrightarrow> stable calm (guarded C extra m)"
  unfolding guarded_def
proof (rule stable_catch)
  fix e
  show "stable calm (\<lambda>s. case e of GatewayError n err \<Rightarrow> deny C n err (h_verified s) (h_decision s) extra s
     | PyError name \<Rightarrow> internal_error C name s)"
    using stable_deny stable_internal_error by (cases e) (simp_all add: stable_def)
qed

lemma stable_canary [frame_intros]: "stable same_quota (enforce_canary E now cfg node a ip src)"
  unfolding stable_def enforce_canary_def
  by (auto simp: same_quota_def Let_def thenA_def bindA_def write_audit_def raiseA_def liftA_def split: prod.splits sum.splits)

lemma stable_limiter [frame_intros]: "stable same_quota (limiterA m)"
  by (auto simp: stable_def same_quota_def limiterA_def Let_def split: prod.splits)

lemma stable_policy [frame_intros]: "stable same_quota (enforce_route_policy E now cfg v d)"
  unfolding stable_def enforce_route_policy_def trip_decoy_def
  by (auto simp: same_quota_def Let_def thenA_def bindA_def write_audit_def raiseA_def liftA_def getsA_def retA_def
      split: prod.splits sum.splits)

lemma stable_artifacts [frame_intros]: "stable same_quota (artifactsA m)"
  by (auto simp: stable_def same_quota_def artifactsA_def Let_def split: prod.splits)

lemma stable_drop_fields [frame_intros]: "stable same_quota (drop_response_message_fields E now cfg parsed backend)"
  unfolding drop_response_message_fields_def by (cases "dget0 backend ''drop_response_message_fields''") (auto intro!: frame_intros)

lemma stable_chat [frame_intros]: "stable same_quota (forward_openai_chat E words send fresh now cfg payload d v)"
proof -
  have r: "stable same_quota (chat_reply E now cfg backend reply)" for backend reply
    by (cases reply) (auto split: option.split json.split intro!: frame_intros)
  show ?thesis unfolding forward_openai_chat_def Let_def by (intro frame_intros r)
qed

lemma stable_review [frame_intros]:
  "stable same_quota (forward_artifact_review E send fresh now cfg payload d v request_id ip)"
proof -
  have a: "stable same_quota (authorize_artifact_scope E now manifest d v cfg)" for manifest d
    unfolding authorize_artifact_scope_def by (intro frame_intros)
  have o: "stable same_quota (open_for_review E now cfg payload d v)"
    unfolding open_for_review_def by (intro frame_intros a)
  have n: "stable same_quota (needs_review E now request_id v ip d i manifest reason extra)" for d i manifest reason extra
    unfolding needs_review_def by (intro frame_intros)
  have t: "stable same_quota (store_summary E now fresh cfg request_id v ip d i manifest reviewed content insp)"
    for d i manifest reviewed content insp
    unfolding store_summary_def Let_def by (intro frame_intros)
  show ?thesis unfolding forward_artifact_review_def Let_def
    by (intro frame_intros o n t)
qed

text \<open>A steady step also leaves alone what the policy checks read.\<close>

definition same_rules :: "world \<Rightarrow> world \<Rightarrow> bool" where
  "same_rules w w' \<longleftrightarrow> g_runs w' = g_runs w \<and> g_revoked w' = g_revoked w \<and> g_approvals w' = g_approvals w \<and>
     g_kill w' = g_kill w \<and> g_quota w' = g_quota w \<and> g_artifacts w' = g_artifacts w"

definition steady :: "hstate \<Rightarrow> hstate \<Rightarrow> bool" where
  "steady s t \<longleftrightarrow> h_forwarded t = h_forwarded s \<and> same_rules (h_world s) (h_world t)"

lemma rules_order: "reflp same_rules" "transp same_rules" "reflp steady" "transp steady"
  by (auto simp: same_rules_def steady_def reflp_def transp_def)

lemma steady_trans: "steady s t \<Longrightarrow> steady t u \<Longrightarrow> steady s u"
  using rules_order(4) by (blast dest: transpD)

lemma steady_refl [simp]: "steady s s"
  using rules_order(3) by (blast dest: reflpD)

lemma steady_calm: "steady s t \<Longrightarrow> calm s t"
  by (simp add: steady_def calm_def same_rules_def)

lemmas rules_basic [frame_intros] = stable_pure[OF rules_order(1)] stable_bindA[OF rules_order(2)] stable_thenA[OF rules_order(2)]
lemmas steady_basic [frame_intros] = stable_pure[OF rules_order(3)] stable_bindA[OF rules_order(4)] stable_thenA[OF rules_order(4)]

lemma steady_steps [frame_intros]:
  "stable same_rules m \<Longrightarrow> stable steady (worldA m)" "stable steady (readA f)" "stable steady (raiseA e)"
  "stable same_rules (raiseA e)" "stable same_rules (write_audit E now event)" "stable same_rules (limiterA l)"
  "stable steady (knows_agent v)" "stable steady (knows_route d)" "stable steady (write_json C n body)"
  "(\<And>s. steady s (f' s)) \<Longrightarrow> stable steady (modA f')" "(\<And>w. same_rules w (g w)) \<Longrightarrow> stable same_rules (modA g)"
  by (auto simp: stable_def same_rules_def steady_def worldA_def readA_def raiseA_def write_audit_def limiterA_def
      knows_agent_def knows_route_def write_json_def split_beta Let_def)

lemma steady_audit [frame_intros]: "stable steady (audit C event)"
  by (auto simp: audit_def intro!: frame_intros)

lemma canary_passes: "enforce_canary E now cfg node a ip src w = (Inr (), w') \<Longrightarrow> same_rules w w'"
  by (auto simp: enforce_canary_def same_rules_def Let_def thenA_Inr raiseA_def liftA_def split: if_splits prod.splits sum.splits)

lemma policy_passes: "enforce_route_policy E now cfg v d w = (Inr d', w') \<Longrightarrow> w' = w"
  using route_policy_exact[of E now cfg v d w d' w'] by blast

lemma worldA_Inr: "worldA m s = (Inr x, t) \<longleftrightarrow> (\<exists>w. m (h_world s) = (Inr x, w) \<and> t = s\<lparr>h_world := w\<rparr>)"
  by (auto simp: worldA_def split: prod.splits)

lemma readA_apply: "readA f s = (f (h_world s), s)"
  by (simp add: readA_def worldA_def)

lemma steady_admit [frame_intros]: "stable steady (admit_agent C v)"
  unfolding admit_agent_def by (intro frame_intros) (simp add: steady_def same_rules_def)

lemma steady_receive [frame_intros]: "stable steady (receive C n)"
  unfolding receive_def by (cases "c_body C") (auto intro!: frame_intros simp: steady_def same_rules_def)

text \<open>What a body that was read shows.\<close>

definition body_of :: "call \<Rightarrow> dict \<Rightarrow> bool" where
  "body_of C payload \<longleftrightarrow> (\<exists>n raw. body_length C = Inr n \<and> parse_body (c_env C) n raw = Inr payload \<and>
     (\<exists>sent. c_body C \<in> {Body sent, CutOff sent} \<and> raw = take (nat n) sent))"

text \<open>
  The caller was within its rate, which leaves the limiter as \<open>L\<close>, and no canary was found in the body.
\<close>

definition admits :: "call \<Rightarrow> world \<Rightarrow> dict \<Rightarrow> verified_agent \<Rightarrow> limiter \<Rightarrow> bool" where
  "admits C w payload v L \<longleftrightarrow>
     (\<exists>retry. rate_check (''agent:'' @ va_agent_id v @ CHR '':'' # c_ip C) (c_cfg C) [] (c_clock C) (g_limiter w) = (Inr (True, retry), L)) \<and>
     (canary_enabled (c_cfg C) \<longrightarrow>
       (\<exists>c. canary_find (c_env C) (c_cfg C) (g_registry w) (JObj payload) (g_cache w) = (Inr [], c)))"

lemma admit_agent_Inr:
  assumes "admit_agent C v s = (Inr (), t)"
  shows "\<exists>retry L. rate_check (''agent:'' @ va_agent_id v @ CHR '':'' # c_ip C) (c_cfg C) [] (c_clock C) (g_limiter (h_world s)) =
      (Inr (True, retry), L) \<and> t = s\<lparr>h_world := (h_world s)\<lparr>g_limiter := L\<rparr>, h_admitted := True\<rparr>"
  using assms by (auto simp: admit_agent_def bindA_Inr worldA_Inr limiterA_def raiseA_def Let_def split: if_splits prod.splits)

lemma canary_clear:
  assumes "enforce_canary E now cfg node a ip src w = (Inr (), w')"
  shows "canary_enabled cfg \<longrightarrow> (\<exists>c. canary_find E cfg (g_registry w) node (g_cache w) = (Inr [], c))"
    and "g_limiter w' = g_limiter w"
  using assms by (auto simp: enforce_canary_def Let_def thenA_Inr raiseA_def liftA_def split: if_splits prod.splits sum.splits)

lemma read_json_body_Inr:
  assumes "read_json_body C s = (Inr payload, t)"
  shows "steady s t \<and> body_of C payload \<and> h_admitted t"
    and "\<exists>v L. verify_agent (c_env C) (c_cfg C) (g_runs (h_world s)) (g_revoked (h_world s)) (c_now C) (c_headers C) (c_ip C) = Inr v \<and>
      admits C (h_world s) payload v L \<and> g_limiter (h_world t) = L"
proof -
  from assms obtain v t1 n raw t2 where
    v: "verify_agent (c_env C) (c_cfg C) (g_runs (h_world s)) (g_revoked (h_world s)) (c_now C) (c_headers C) (c_ip C) = Inr v"
    and a: "admit_agent C v s = (Inr (), t1)" and n: "body_length C = Inr n" and r: "receive C n t1 = (Inr raw, t2)"
    and p: "parse_body (c_env C) n raw = Inr payload"
    and c: "worldA (enforce_canary (c_env C) (c_now C) (c_cfg C) (JObj payload) (Some (va_agent_id v)) (c_ip C) ''request'') t2 = (Inr (), t)"
    by (auto simp: read_json_body_def authenticate_def readA_apply bindA_Inr thenA_Inr)
  obtain retry L where l: "rate_check (''agent:'' @ va_agent_id v @ CHR '':'' # c_ip C) (c_cfg C) [] (c_clock C) (g_limiter (h_world s)) =
      (Inr (True, retry), L)" and t1: "t1 = s\<lparr>h_world := (h_world s)\<lparr>g_limiter := L\<rparr>, h_admitted := True\<rparr>"
    using admit_agent_Inr[OF a] by blast
  have t2: "h_world t2 = h_world t1" "h_admitted t2 = h_admitted t1"
    using r by (cases "c_body C"; auto simp: receive_def thenA_Inr raiseA_def)+
  obtain w where w: "enforce_canary (c_env C) (c_now C) (c_cfg C) (JObj payload) (Some (va_agent_id v)) (c_ip C) ''request'' (h_world t2) = (Inr (), w)"
    and t: "t = t2\<lparr>h_world := w\<rparr>" using c by (auto simp: worldA_Inr)
  have "steady s t1" "steady t1 t2"
    using a r by (auto intro: stableD[OF steady_admit] stableD[OF steady_receive])
  moreover have "steady t2 t"
    using canary_passes[OF w] t by (simp add: steady_def)
  moreover have "body_of C payload"
    using n p r unfolding body_of_def receive_def by (cases "c_body C") (auto simp: thenA_Inr raiseA_def)
  moreover have "h_admitted t" using t t1 t2 by simp
  ultimately show "steady s t \<and> body_of C payload \<and> h_admitted t" by (blast intro: steady_trans)
  have "g_limiter (h_world t) = L" using canary_clear(2)[OF w] t t1 t2 by simp
  moreover have "admits C (h_world s) payload v L"
    using l canary_clear(1)[OF w] t1 t2 by (simp add: admits_def)
  ultimately show "\<exists>v L. verify_agent (c_env C) (c_cfg C) (g_runs (h_world s)) (g_revoked (h_world s)) (c_now C) (c_headers C) (c_ip C) = Inr v \<and>
      admits C (h_world s) payload v L \<and> g_limiter (h_world t) = L" using v by blast
qed

lemma kill_switch_passes: "check_kill_switch C s = (Inr (), t) \<Longrightarrow> t = s \<and> \<not> g_kill (h_world s)"
  by (auto simp: check_kill_switch_def thenA_Inr raiseA_def split: if_splits)

text \<open>A call of \<open>forward\<close> is logged once, and counts nothing by itself.\<close>

lemma forward_logs:
  "forward C payload d v i s = (r, t) \<Longrightarrow> h_forwarded t = h_forwarded s @ [(d, payload)] \<and> g_quota (h_world t) = g_quota (h_world s)"
proof -
  assume f: "forward C payload d v i s = (r, t)"
  define m :: "(nat \<times> dict) handler" where "m = (let E = c_env C; cfg = c_cfg C; kind = py_str E (dget0 (rd_route d) ''kind'') in
     if kind = ''inspect_only'' then
        bindA (liftA (scan_inbound E (JObj payload) cfg)) (\<lambda>(inbound, x).
          retA (200, [(''request_id'', JStr i), (''route_id'', JStr (rd_route_id d)),
             (''scan'', JObj (scan_public_dict (in_scan inbound))), (''structured_extract'', JObj x)]))
      else if kind = ''openai_chat_completions'' then
        worldA (forward_openai_chat E (c_words C) (c_send C) (c_fresh C) (c_now C) cfg payload d v)
      else if kind = ''http_json'' then liftA (forward_http_json E (c_send C) (c_now C) cfg payload d v)
      else if kind = ''command'' then liftA (forward_command E (c_run C) (c_fresh C) (c_now C) payload d)
      else if kind = ''artifact_review'' then
        worldA (forward_artifact_review E (c_send C) (c_fresh C) (c_now C) cfg payload d v i (c_ip C))
      else raiseA backend_error)"
  have "stable calm m" unfolding m_def Let_def
    by (intro frame_intros)
  moreover have "m (s\<lparr>h_forwarded := h_forwarded s @ [(d, payload)]\<rparr>) = (r, t)"
    using f by (simp add: forward_def m_def Let_def)
  ultimately show ?thesis by (auto simp: calm_def dest!: stableD)
qed

section \<open>Every handler answers\<close>

text \<open>A handler step whose answers go out unless the read deadline closed the connection.\<close>

definition answers :: "answer handler \<Rightarrow> bool" where
  "answers m \<longleftrightarrow> (\<forall>s a t. m s = (Inr a, t) \<longrightarrow> a = NoAnswer \<longrightarrow> h_expired t)"

named_theorems answer_intros

lemma answers_steps [answer_intros]:
  "(\<And>x. answers (f x)) \<Longrightarrow> answers (bindA m f)" "answers k \<Longrightarrow> answers (thenA m' k)"
  "answers (write_json C n body)" "answers (raiseA e)" "answers (retA (FileAnswer n c media hs))"
  "(b \<Longrightarrow> answers k1) \<Longrightarrow> (\<not> b \<Longrightarrow> answers k2) \<Longrightarrow> answers (if b then k1 else k2)"
  "(\<And>x y. answers (g x y)) \<Longrightarrow> answers (case p of (x, y) \<Rightarrow> g x y)"
  by (auto simp: answers_def bindA_Inr thenA_Inr write_json_def raiseA_def split: if_splits prod.split)

lemma answers_raise_scan [answer_intros]: "answers (raise_scan C inbound)"
  unfolding raise_scan_def by (intro answer_intros)

text \<open>A handler answers, unless the deadline cut the connection or the body of the error cannot be encoded.\<close>

definition answered :: "call \<Rightarrow> answer handler \<Rightarrow> hstate \<Rightarrow> bool" where
  "answered C m s \<longleftrightarrow> (\<exists>a t. m s = (Inr a, t) \<and> (a = NoAnswer \<longrightarrow> h_expired t)) \<or>
     (\<exists>n err t. m s = (Inl encode_error, t) \<and> \<not> body_encodes C (error_body C n err))"

lemma answered_steps [answer_intros]:
  "body_encodes C body \<Longrightarrow> answered C (write_json C n body) s"
  "(b \<Longrightarrow> answered C k1 s) \<Longrightarrow> (\<not> b \<Longrightarrow> answered C k2 s) \<Longrightarrow> answered C (if b then k1 else k2) s"
  by (auto simp: answered_def write_json_def)

lemma ignored_then: "thenA (ignoreA m) k s = k (snd (m s))"
  by (simp add: ignoreA_def thenA_def bindA_def)

lemma write_error_answers: "answered C (thenA (ignoreA m) (write_json C k (error_body C n err))) s"
  by (auto simp: answered_def ignored_then write_json_def)

lemma deny_answers: "answered C (deny C n err v d extra) s"
  using write_error_answers by (simp add: answered_def deny_def)

lemma internal_error_answers: "answered C (internal_error C name) s"
  unfolding internal_error_def by (rule write_error_answers)

text \<open>A denial whose message cannot be encoded ends without a response.\<close>

lemma unencodable_denial_unanswered:
  assumes "\<not> h_expired s" and "\<not> body_encodes C (error_body C n err)"
  shows "fst (deny C n err v d extra s) = Inl encode_error"
proof -
  have "\<not> h_expired (snd (audit C event s))" for event
    using assms(1) by (simp add: audit_def thenA_def bindA_def worldA_def split_beta split: sum.split)
  then show ?thesis using assms(2) by (simp add: deny_def ignored_then write_json_def)
qed

lemma guarded_answers:
  assumes "answers m"
  shows "answered C (guarded C extra m) s"
proof -
  obtain r t where m: "m s = (r, t)" by fastforce
  show ?thesis
  proof (cases r)
    case (Inr a)
    then show ?thesis using assms m by (auto simp: answered_def guarded_def answers_def)
  next
    case (Inl e)
    then show ?thesis using m deny_answers internal_error_answers by (cases e) (simp_all add: answered_def guarded_def)
  qed
qed

section \<open>Audit events and refusals\<close>

definition logged :: "store \<Rightarrow> hstate \<Rightarrow> hstate" where
  "logged a s = s\<lparr>h_world := (h_world s)\<lparr>g_audit := a\<rparr>\<rparr>"

lemma logged_simps [simp]:
  "h_world (logged a s) = (h_world s)\<lparr>g_audit := a\<rparr>" "h_expired (logged a s) = h_expired s" "logged b (logged a s) = logged b s"
  "h_forwarded (logged a s) = h_forwarded s"
  by (simp_all add: logged_def)

lemma logged_self: "logged (g_audit (h_world s)) s = s"
  by (simp add: logged_def)

lemma audit_cases:
  obtains (written) a where "audit C event s = (Inr (), logged a s)"
    "\<exists>event'. audit_write (c_env C) (e_isosec (c_env C) (c_now C)) event (g_audit (h_world s)) = (Inr event', a)"
  | (failed) name where "audit C event s = (Inl (PyError name), s)"
proof -
  have l: "last_hash (c_env C) f = Inl e \<Longrightarrow> \<exists>n. e = PyError n" for f e
    by (auto simp: last_hash_def bindE_Inl split: if_splits option.splits elim: py_get.elims)
  show thesis
  proof (cases "last_hash (c_env C) (g_audit (h_world s))")
    case (Inl e)
    then obtain n where "e = PyError n" using l by blast
    with Inl have "audit C event s = (Inl (PyError n), s)"
      by (simp add: audit_def worldA_def write_audit_def audit_write_def thenA_def bindA_def)
    then show thesis by (rule failed)
  next
    case (Inr h)
    then show thesis
      by (intro written) (auto simp: audit_def worldA_def write_audit_def audit_write_def thenA_def bindA_def Let_def logged_def)
  qed
qed

lemma ignored_audit: "\<exists>a. ignoreA (audit C event) s = (Inr (), logged a s)"
  by (rule audit_cases[of C event s]) (auto simp: ignoreA_def intro: logged_self[symmetric])

lemma answer_after_audit:
  assumes "\<not> h_expired s" and "body_encodes C body"
  shows "\<exists>a. thenA (ignoreA (audit C event)) (write_json C n body) s = (Inr (Answer n body), logged a s)"
proof -
  obtain a where "ignoreA (audit C event) s = (Inr (), logged a s)" using ignored_audit by blast
  then show ?thesis using assms by (auto simp: write_json_def)
qed

lemma deny_logs:
  "\<not> h_expired s \<Longrightarrow> map_of fixed_messages err = Some msg \<Longrightarrow>
     \<exists>a. deny C n err v d extra s = (Inr (Answer n (error_body C n err)), logged a s)"
  unfolding deny_def by (rule answer_after_audit[OF _ fixed_error_encodes(2)])

lemma internal_error_logs:
  "\<not> h_expired s \<Longrightarrow> \<exists>a. internal_error C name s = (Inr (Answer 500 (error_body C 500 ''internal_error'')), logged a s)"
  unfolding internal_error_def by (rule answer_after_audit[OF _ fixed_error_encodes(2)]) (simp_all add: fixed_messages_def)

lemma kill_switch_denies:
  assumes "g_kill (h_world s)" and "\<not> h_expired s"
  shows "\<exists>n err a. guarded C extra (thenA (check_kill_switch C) m) s = (Inr (Answer n (error_body C n err)), logged a s) \<and> n \<in> {500, 503}"
proof (rule audit_cases[of C "[(''event'', JStr ''deny''), (''reason'', JStr ''kill_switch_active''),
                  (''request_id'', JStr (c_id C)), (''client_ip'', JStr (c_ip C))]" s])
  fix a
  assume "audit C [(''event'', JStr ''deny''), (''reason'', JStr ''kill_switch_active''),
                  (''request_id'', JStr (c_id C)), (''client_ip'', JStr (c_ip C))] s = (Inr (), logged a s)"
  then have "thenA (check_kill_switch C) m s = (Inl (GatewayError 503 ''kill_switch_active''), logged a s)"
    using assms(1) by (simp add: check_kill_switch_def thenA_def bindA_def)
  then show ?thesis
    using deny_logs[of "logged a s" "''kill_switch_active''" "''kill switch is active''" C 503 "h_verified (logged a s)" "h_decision (logged a s)" extra] assms(2)
    by (auto simp: guarded_def fixed_messages_def)
next
  fix name
  assume "audit C [(''event'', JStr ''deny''), (''reason'', JStr ''kill_switch_active''),
                  (''request_id'', JStr (c_id C)), (''client_ip'', JStr (c_ip C))] s = (Inl (PyError name), s)"
  then have "thenA (check_kill_switch C) m s = (Inl (PyError name), s)"
    using assms(1) by (simp add: check_kill_switch_def thenA_def bindA_def)
  then show ?thesis using internal_error_logs[of s C name] assms(2) by (auto simp: guarded_def)
qed

section \<open>A concrete process\<close>

definition demo_call :: call where
  "demo_call = \<lparr>c_target = ''/healthz'', c_headers = [], c_ip = ''10.0.0.1'', c_body = Body [], c_id = ''req_1'', c_fresh = ''f'',
     c_now = 0, c_clock = 0, c_trace = [], c_env = demo_http_env, c_cfg = [], c_words = id, c_warning = [],
     c_send = (\<lambda>url hs body. Timeout), c_writable = (\<lambda>n. True), c_message = (\<lambda>n err. []), c_encodes = (\<lambda>t. False), c_run = (\<lambda>cs i. CommandTimeout)\<rparr>"

definition demo_empty_world :: world where
  "demo_empty_world = \<lparr>g_audit = None, g_runs = None, g_approvals = None, g_warnings = None, g_revoked = None,
     g_registry = None, g_cache = None, g_kill = False, g_limiter = limiter_reset, g_evidence = None, g_artifacts = [],
     g_quota = \<lparr>q_calls = [], q_seen = []\<rparr>\<rparr>"

end
