(* ===== verification/Routed_Request.thy ===== *)
theory Routed_Request
  imports Request
begin

text \<open>
  \<open>handle_routed_request\<close> of gateway.py, the handler of \<open>/v1/chat/completions\<close>, \<open>/v1/tasks\<close> and
  \<open>/v1/results\<close>: from the policy checks over the two guards to the backend and its answer.
\<close>

section \<open>What is known of a request when the guards decide\<close>

record examined =
  x_agent :: verified_agent
  x_route :: route_decision
  x_inbound :: inbound_scan
  x_extract :: dict
  x_action :: action_result
  x_type :: json                                \<comment> \<open>\<open>message_type\<close>\<close>

definition authorize :: "call \<Rightarrow> dict \<Rightarrow> (verified_agent \<times> route_decision) handler" where
  "authorize C payload =
     bindA (identify C) (\<lambda>v.
     bindA (resolve_route C payload) (\<lambda>d.
     thenA (check_rate_limit C v)
    (bindA (route_policy C v d) (\<lambda>d. retA (v, d)))))"

definition examine :: "call \<Rightarrow> dict \<Rightarrow> verified_agent \<Rightarrow> route_decision \<Rightarrow> examined handler" where
  "examine C payload v d =
     thenA (readA (\<lambda>w. enforce_run_model_quota (c_cfg C) d (g_quota w)))
    (thenA (liftA (enforce_input_policy (c_env C) payload d))
    (bindA (liftA (scan_and_extract_for_route (c_env C) payload (c_cfg C) d)) (\<lambda>(inbound, x, d).
     thenA (knows_route d)
    (bindA (liftA (bindE (action_guard (c_env C) (c_headers C) payload (c_cfg C)) (\<lambda>r.
        apply_route_action_guard_policy (c_env C) r d payload))) (\<lambda>(action, d).
     thenA (knows_route d)
       (retA \<lparr>x_agent = v, x_route = d, x_inbound = inbound, x_extract = x, x_action = action,
              x_type = JStr (payload_message_type payload)\<rparr>))))))"

definition flagged :: "examined \<Rightarrow> bool" where
  "flagged X \<longleftrightarrow> s_blocked (in_scan (x_inbound X)) \<or> s_review (in_scan (x_inbound X))"

definition request_event :: "call \<Rightarrow> examined \<Rightarrow> dict" where
  "request_event C X =
     audit_base (c_id C) (Some (x_agent X)) (c_ip C) (Some (x_route X)) @
     [(''content_sha256'', JStr (s_normalized (in_scan (x_inbound X)))),
      (''content_length'', JInt (int (length (in_text (x_inbound X))))),
      (''scan'', JObj (public_scan_for_audit (c_cfg C) (in_scan (x_inbound X)))),
      (''action_guard'', JObj (action_public_dict (x_action X)))]"

definition would_block :: "examined \<Rightarrow> dict" where
  "would_block X = [(''input_guard_would_block'', JBool (s_blocked (in_scan (x_inbound X)))),
     (''input_guard_would_review'', JBool (s_review (in_scan (x_inbound X))))]"

section \<open>Test mode and quarantined read\<close>

text \<open>Whether the test mode is on, the request is read in quarantine, and the event so far.\<close>

definition evidence :: "call \<Rightarrow> examined \<Rightarrow> string \<Rightarrow> string \<Rightarrow> finding list \<Rightarrow> string option \<Rightarrow> unit handler" where
  "evidence C X stage txt fs output =
     worldA (modA (write_test_mode_evidence (c_env C) (c_now C) (c_cfg C) (x_route X) (c_id C) stage txt fs output))"

definition scanned_text :: "examined \<Rightarrow> string" where
  "scanned_text X = s_text (in_scan (x_inbound X))"

definition enter_test_mode :: "call \<Rightarrow> examined \<Rightarrow> dict \<Rightarrow> dict handler" where
  "enter_test_mode C X event =
     (let event = event @ [(''test_mode'', JStr log_only)] in
      if \<not> flagged X then retA event
      else let event = event @ would_block X in
        thenA (audit C ([(''event'', JStr ''test_mode_input_guard_bypass''), (''reason'', JStr ''input_guard_log_only'')] @ event))
       (thenA (evidence C X ''input_guard'' (scanned_text X) (s_findings (in_scan (x_inbound X))) None)
         (retA event)))"

definition enter_quarantine :: "call \<Rightarrow> examined \<Rightarrow> dict \<Rightarrow> dict handler" where
  "enter_quarantine C X event =
     (let event = event @ [(''read_mode'', JStr ''quarantined'')] in
      if \<not> flagged X then retA event
      else let event = event @ would_block X in
        thenA (audit C ([(''event'', JStr ''quarantined_read_pass''), (''reason'', JStr ''quarantined_read'')] @ event))
          (retA event))"

definition quarantine_ok :: "call \<Rightarrow> examined \<Rightarrow> world \<Rightarrow> bool res" where
  "quarantine_ok C X w =
     bindE (active_quarantined_read (c_env C) (c_cfg C) (g_runs w) (x_route X)) (\<lambda>q. case q of
       None \<Rightarrow> Inr False
     | Some settings \<Rightarrow> if settings = [] then Inr False else quarantine_eligible (in_scan (x_inbound X)) settings)"

datatype read_mode = Normal | TestMode | Quarantined

definition enter_mode :: "call \<Rightarrow> examined \<Rightarrow> (read_mode \<times> dict) handler" where
  "enter_mode C X =
     (let event = request_event C X in
      bindA (readA (\<lambda>w. active_input_guard_test_mode (c_env C) (c_now C) (c_cfg C) (g_runs w) (x_route X))) (\<lambda>test.
      if test then bindA (enter_test_mode C X event) (\<lambda>event. retA (TestMode, event))
      else bindA (readA (quarantine_ok C X)) (\<lambda>ok.
        if ok then bindA (enter_quarantine C X event) (\<lambda>event. retA (Quarantined, event))
        else retA (Normal, event))))"

section \<open>The guards\<close>

definition block_on_review :: "call \<Rightarrow> route_decision \<Rightarrow> bool" where
  "block_on_review C d = truthy (dget (route_input_policy d) ''block_on_review''
     (dget (cfg_section (c_cfg C) ''review_policy'') ''block_forward'' (JBool False)))"

definition run_warningA :: "call \<Rightarrow> examined \<Rightarrow> string \<Rightarrow> string \<Rightarrow> finding list \<Rightarrow> int \<Rightarrow> string \<Rightarrow> unit handler" where
  "run_warningA C X stage outcome fs risk txt =
     worldA (modA (record_run_warning (c_env C) (c_warning C) (c_now C) (x_route X) stage outcome fs risk txt))"

definition input_outcome :: "call \<Rightarrow> examined \<Rightarrow> read_mode \<Rightarrow> string" where
  "input_outcome C X mode =
     (let scan = in_scan (x_inbound X) in
      if s_blocked scan \<or> s_review scan \<and> block_on_review C (x_route X)
      then (case mode of TestMode \<Rightarrow> ''test_mode_pass'' | Quarantined \<Rightarrow> ''quarantined_pass'' | Normal \<Rightarrow> ''blocked'')
      else if s_review scan then ''allowed_review'' else ''allowed'')"

definition warn_of_input :: "call \<Rightarrow> examined \<Rightarrow> read_mode \<Rightarrow> unit handler" where
  "warn_of_input C X mode =
     (let scan = in_scan (x_inbound X) in
      if 0 < s_score scan
      then run_warningA C X ''input_guard'' (input_outcome C X mode) (s_findings scan) (s_score scan) (scanned_text X)
      else retA ())"

text \<open>Blocked by a guard: the notice of it, the audit event and the answer.\<close>

definition refuse :: "call \<Rightarrow> examined \<Rightarrow> dict \<Rightarrow> string \<Rightarrow> string \<Rightarrow> string \<Rightarrow> nat \<Rightarrow> answer handler" where
  "refuse C X event verdict reason message n =
     bindA (maybe_deliver_block_receipt C (x_agent X) (x_route X) (x_inbound X) (x_extract X) (x_action X) verdict reason (x_type X))
       (\<lambda>(receipt, delivery).
        thenA (audit C ([(''event'', JStr verdict), (''reason'', JStr reason)] @ event @
                (case delivery of None \<Rightarrow> [] | Some d \<Rightarrow> [(''receipt_delivery'', JObj d)])))
          (write_json C n (if report_policy_enabled (x_route X) ''return_audit_receipt'' then receipt else json_error reason message (c_id C))))"

datatype guard_result = Pass dict | Refused answer

text \<open>The input guard; \<open>input_guard_log_only\<close> is that a mode was entered for a flagged request.\<close>

definition input_guard_stage :: "call \<Rightarrow> examined \<Rightarrow> read_mode \<Rightarrow> dict \<Rightarrow> guard_result handler" where
  "input_guard_stage C X mode event =
     (let scan = in_scan (x_inbound X) in
      if mode \<noteq> Normal then retA (Pass event)
      else if s_blocked scan
      then bindA (refuse C X event ''deny'' ''blocked_by_input_guard'' ''request was blocked by input guard'' 403) (\<lambda>a. retA (Refused a))
      else if s_review scan \<and> block_on_review C (x_route X)
      then bindA (refuse C X event ''review_required'' ''manual_review_required'' ''request requires manual review'' 403) (\<lambda>a. retA (Refused a))
      else retA (Pass event))"

definition action_guard_stage :: "call \<Rightarrow> examined \<Rightarrow> read_mode \<Rightarrow> dict \<Rightarrow> guard_result handler" where
  "action_guard_stage C X mode event = (\<lambda>s.
     case enforce_action_guard (c_env C) (c_now C) (g_approvals (h_world s)) (x_route X) (x_agent X) (x_action X) of
       Inr _ \<Rightarrow> (Inr (Pass event), s)
     | Inl (PyError name) \<Rightarrow> (Inl (PyError name), s)
     | Inl (GatewayError n err) \<Rightarrow>
         if mode = TestMode \<and> err = ''blocked_by_action_guard''
         then (let event = event @ [(''action_guard_would_block'', JBool True)] in
           thenA (run_warningA C X ''action_guard'' ''test_mode_pass'' (ag_findings (x_action X)) 10 (scanned_text X))
          (thenA (audit C ([(''event'', JStr ''test_mode_action_guard_bypass''), (''reason'', JStr ''input_guard_log_only'')] @ event))
          (thenA (evidence C X ''action_guard'' (scanned_text X) (ag_findings (x_action X)) None)
             (retA (Pass event)))) s)
         else thenA (run_warningA C X ''action_guard'' ''blocked'' (ag_findings (x_action X)) 10 (scanned_text X))
                (bindA (refuse C X event ''deny'' err (error_message C n err) n) (\<lambda>a. retA (Refused a))) s)"

section \<open>The backend\<close>

definition allow_receipt :: "call \<Rightarrow> examined \<Rightarrow> dict res" where
  "allow_receipt C X =
     result_audit_receipt (c_words C) (c_id C) (x_agent X) (c_ip C) (x_route X) (x_inbound X) (x_action X) (c_cfg C) ''allow'' None
       (if report_policy_enabled (x_route X) ''forward_audit_receipt'' then ''audit_receipt'' else ''raw'') None
       (if report_policy_enabled (x_route X) ''include_structured_extract'' then Some (JObj (x_extract X)) else None) (x_type X)"

definition forward_mode :: "examined \<Rightarrow> string" where
  "forward_mode X = (if report_policy_enabled (x_route X) ''forward_audit_receipt'' then ''audit_receipt'' else ''raw'')"

definition answer_facts :: "call \<Rightarrow> examined \<Rightarrow> nat \<Rightarrow> scan_result \<Rightarrow> dict" where
  "answer_facts C X n scan = [(''backend_status'', JInt (int n)), (''forward_payload_mode'', JStr (forward_mode X)),
     (''output_scan'', JObj (public_scan_for_audit (c_cfg C) scan))]"

definition block_output :: "call \<Rightarrow> examined \<Rightarrow> read_mode \<Rightarrow> dict \<Rightarrow> nat \<Rightarrow> dict \<Rightarrow> scan_result \<Rightarrow> answer handler" where
  "block_output C X mode event n upstream scan =
     thenA (if mode = TestMode
            then bindA (liftA (extract_openai_response_text (c_env C) upstream)) (\<lambda>t. evidence C X ''output_guard'' [] [] (Some t))
            else retA ())
    (thenA (run_warningA C X ''output_guard'' ''blocked'' (s_findings scan) (s_score scan) [])
    (thenA (audit C ([(''event'', JStr ''deny''), (''reason'', JStr ''blocked_by_output_guard'')] @ event @ answer_facts C X n scan))
       (write_json C 403 (json_error ''blocked_by_output_guard'' ''backend output was blocked by output guard'' (c_id C)))))"

definition answer_from_backend :: "call \<Rightarrow> examined \<Rightarrow> read_mode \<Rightarrow> dict \<Rightarrow> dict \<Rightarrow> nat \<times> dict \<Rightarrow> answer handler" where
  "answer_from_backend C X mode event receipt = (\<lambda>(n, upstream).
     bindA (worldA (enforce_output_guard (c_env C) (c_now C) (c_cfg C) (x_route X) upstream)) (\<lambda>scan.
     if output_guard_blocks scan (c_cfg C) (x_route X) then block_output C X mode event n upstream scan
     else thenA (audit C ([(''event'', JStr ''allow''), (''decision'', JStr ''forward'')] @ event @ answer_facts C X n scan @
              backend_model_audit_fields (c_env C) (x_route X) (JObj upstream)))
            (write_json C 200 (if report_policy_enabled (x_route X) ''return_audit_receipt''
               then set_delivery ''backend_status'' (JInt (int n)) receipt else upstream))))"

definition count_model_call :: "call \<Rightarrow> route_decision \<Rightarrow> unit handler" where
  "count_model_call C d = worldA (modA (\<lambda>w. w\<lparr>g_quota := record_run_model_call d (c_clock C) (g_quota w)\<rparr>))"

definition pass_on :: "call \<Rightarrow> dict \<Rightarrow> examined \<Rightarrow> read_mode \<Rightarrow> dict \<Rightarrow> answer handler" where
  "pass_on C payload X mode event =
     bindA (liftA (allow_receipt C X)) (\<lambda>receipt.
     thenA (count_model_call C (x_route X))
    (bindA (forward C (if report_policy_enabled (x_route X) ''forward_audit_receipt'' then receipt else payload)
        (x_route X) (x_agent X) (c_id C)) (answer_from_backend C X mode event receipt)))"

section \<open>The handler\<close>

text \<open>From the guards on, in a mode.\<close>

definition after_guards :: "call \<Rightarrow> dict \<Rightarrow> examined \<Rightarrow> read_mode \<Rightarrow> guard_result \<Rightarrow> answer handler" where
  "after_guards C payload X mode r = (case r of Refused a \<Rightarrow> retA a | Pass event \<Rightarrow> pass_on C payload X mode event)"

definition guards :: "call \<Rightarrow> dict \<Rightarrow> examined \<Rightarrow> read_mode \<Rightarrow> dict \<Rightarrow> answer handler" where
  "guards C payload X mode event = bindA (input_guard_stage C X mode event) (\<lambda>r. case r of
       Refused a \<Rightarrow> retA a
     | Pass event \<Rightarrow> bindA (action_guard_stage C X mode event) (after_guards C payload X mode))"

definition judge :: "call \<Rightarrow> dict \<Rightarrow> examined \<Rightarrow> answer handler" where
  "judge C payload X =
     thenA (worldA (check_report_receipt_rate_limit (c_clock C) (x_agent X) (x_route X)))
    (bindA (enter_mode C X) (\<lambda>(mode, event). thenA (warn_of_input C X mode) (guards C payload X mode event)))"

definition handle_routed_request :: "call \<Rightarrow> answer handler" where
  "handle_routed_request C = guarded C []
     (thenA (check_kill_switch C)
     (bindA (read_json_body C) (\<lambda>payload.
      bindA (authorize C payload) (\<lambda>(v, d).
      bindA (examine C payload v d) (judge C payload)))))"

section \<open>What reaches a backend\<close>

lemma mode_frames [frame_intros]:
  "same_rules w (record_run_warning E warning now d stage outcome fs risk txt w)"
  "same_rules w (write_test_mode_evidence E now cfg d i stage txt fs output w)"
  by (auto simp: same_rules_def record_run_warning_def write_test_mode_evidence_def Let_def split: option.split json.split)

lemma steady_modes [frame_intros]:
  "stable steady (evidence C X stage txt fs output)" "stable steady (run_warningA C X stage outcome fs' risk txt')"
  by (auto simp: evidence_def run_warningA_def intro!: frame_intros)

lemma calm_modes [frame_intros]:
  "stable calm (evidence C X stage txt fs output)" "stable calm (run_warningA C X stage outcome fs' risk txt')"
  using steady_modes steady_calm by (auto simp: stable_def)

lemma steady_enter [frame_intros]:
  "stable steady (enter_mode C X)" "stable steady (warn_of_input C X mode)"
  unfolding enter_mode_def enter_test_mode_def enter_quarantine_def warn_of_input_def Let_def
  by (intro frame_intros)+

lemma steady_receipt_limit [frame_intros]: "stable same_rules (check_report_receipt_rate_limit clock v d)"
  unfolding check_report_receipt_rate_limit_def Let_def by (intro frame_intros)

text \<open>The mode a request is read in.\<close>

definition mode_of :: "call \<Rightarrow> examined \<Rightarrow> world \<Rightarrow> read_mode \<Rightarrow> bool" where
  "mode_of C X w mode \<longleftrightarrow>
     (case active_input_guard_test_mode (c_env C) (c_now C) (c_cfg C) (g_runs w) (x_route X) of
        Inr True \<Rightarrow> mode = TestMode
      | Inr False \<Rightarrow> (case quarantine_ok C X w of Inr ok \<Rightarrow> mode = (if ok then Quarantined else Normal) | Inl _ \<Rightarrow> False)
      | Inl _ \<Rightarrow> False)"

lemma enter_mode_Inr: "enter_mode C X s = (Inr (mode, event), t) \<Longrightarrow> mode_of C X (h_world s) mode"
  by (auto simp: enter_mode_def Let_def readA_apply bindA_Inr mode_of_def split: if_splits)

text \<open>
  What the two guards let through: without a mode no finding that blocks; and no unapproved
  action, except that a test run only logs the action guard's verdict.
\<close>

definition input_passes :: "call \<Rightarrow> examined \<Rightarrow> bool" where
  "input_passes C X \<longleftrightarrow> \<not> s_blocked (in_scan (x_inbound X)) \<and>
     \<not> (s_review (in_scan (x_inbound X)) \<and> block_on_review C (x_route X))"

definition action_passes :: "call \<Rightarrow> examined \<Rightarrow> world \<Rightarrow> read_mode \<Rightarrow> bool" where
  "action_passes C X w mode \<longleftrightarrow>
     (case enforce_action_guard (c_env C) (c_now C) (g_approvals w) (x_route X) (x_agent X) (x_action X) of
        Inr _ \<Rightarrow> True
      | Inl (GatewayError n err) \<Rightarrow> mode = TestMode \<and> err = ''blocked_by_action_guard''
      | Inl (PyError _) \<Rightarrow> False)"

definition sent_as :: "call \<Rightarrow> dict \<Rightarrow> examined \<Rightarrow> dict \<Rightarrow> bool" where
  "sent_as C payload X p \<longleftrightarrow>
     (if report_policy_enabled (x_route X) ''forward_audit_receipt'' then allow_receipt C X = Inr p else p = payload)"

definition block_notice :: "call \<Rightarrow> examined \<Rightarrow> dict \<Rightarrow> bool" where
  "block_notice C X p \<longleftrightarrow> report_policy_notify_on_block (x_route X) \<and> (\<exists>verdict reason.
     verdict \<in> {''deny'', ''review_required''} \<and>
     result_audit_receipt (c_words C) (c_id C) (x_agent X) (c_ip C) (x_route X) (x_inbound X) (x_action X) (c_cfg C) verdict (Some reason)
       ''audit_receipt'' None (if report_policy_enabled (x_route X) ''include_structured_extract'' then Some (JObj (x_extract X)) else None)
       (x_type X) = Inr p)"

definition sends :: "hstate \<Rightarrow> route_decision \<Rightarrow> dict \<Rightarrow> hstate \<Rightarrow> bool" where
  "sends s d p t \<longleftrightarrow> h_forwarded t = h_forwarded s @ [(d, p)] \<and> g_quota (h_world t) = g_quota (h_world s)"

lemma sends_then_calm: "sends s d p t \<Longrightarrow> calm t u \<Longrightarrow> sends s d p u"
  by (simp add: sends_def calm_def)

lemma calm_then_sends: "calm s t \<Longrightarrow> sends t d p u \<Longrightarrow> sends s d p u"
  by (simp add: sends_def calm_def)

lemma calm_trans: "calm s t \<Longrightarrow> calm t u \<Longrightarrow> calm s u"
  by (simp add: calm_def)

lemma stable_output_guard [frame_intros]: "stable same_quota (enforce_output_guard E now cfg d upstream)"
  unfolding enforce_output_guard_def by (intro frame_intros)

lemma try_delivery_sends: "try_delivery C receipt d v s = (r, t) \<Longrightarrow> sends s d receipt t"
proof -
  assume a: "try_delivery C receipt d v s = (r, t)"
  obtain r1 t1 where d: "deliver_result_audit_receipt C receipt d v s = (r1, t1)" by fastforce
  obtain r2 t2 where f: "forward C receipt d v (''req_'' @ c_fresh C) s = (r2, t2)" by fastforce
  have rest: "stable calm ((\<lambda>(n, upstream). bindA (worldA (enforce_output_guard (c_env C) (c_now C) (c_cfg C) d upstream)) (\<lambda>scan.
       if output_guard_blocks scan (c_cfg C) d then raiseA (GatewayError 403 ''blocked_by_output_guard'')
       else retA [(''ok'', JBool True), (''backend_status'', JInt (int n)),
              (''output_scan'', JObj (public_scan_for_audit (c_cfg C) scan))])) x)" for x
    by (cases x) (auto intro!: frame_intros)
  have "sends s d receipt t2" using forward_logs[OF f] by (simp add: sends_def)
  moreover have "calm t2 t1"
    using d f rest by (cases r2) (auto simp: deliver_result_audit_receipt_def dest: stableD intro: reflpD[OF calm_order(1)])
  moreover have "t = t1"
    using a d by (cases r1) (auto simp: try_delivery_def raiseA_def split: exn.splits)
  ultimately show ?thesis by (blast intro: sends_then_calm)
qed

definition notified :: "call \<Rightarrow> examined \<Rightarrow> hstate \<Rightarrow> hstate \<Rightarrow> bool" where
  "notified C X s t \<longleftrightarrow> calm s t \<or> (\<exists>p. block_notice C X p \<and> sends s (x_route X) p t)"

lemma notified_steps:
  "calm s t \<Longrightarrow> notified C X t u \<Longrightarrow> notified C X s u" "notified C X s t \<Longrightarrow> calm t u \<Longrightarrow> notified C X s u"
  by (auto simp: notified_def intro: calm_trans calm_then_sends sends_then_calm)

lemma maybe_deliver_notifies:
  assumes "maybe_deliver_block_receipt C (x_agent X) (x_route X) (x_inbound X) (x_extract X) (x_action X) verdict reason (x_type X) s = (r, t)"
    and "verdict \<in> {''deny'', ''review_required''}"
  shows "notified C X s t"
proof (cases "report_policy_notify_on_block (x_route X)")
  case True
  let ?r = "result_audit_receipt (c_words C) (c_id C) (x_agent X) (c_ip C) (x_route X) (x_inbound X) (x_action X) (c_cfg C) verdict (Some reason)
       ''audit_receipt'' None (if report_policy_enabled (x_route X) ''include_structured_extract'' then Some (JObj (x_extract X)) else None)
       (x_type X)"
  show ?thesis
  proof (cases ?r)
    case (Inr p)
    then have "block_notice C X p" unfolding block_notice_def using True assms(2) by blast
    moreover obtain r' t' where d: "try_delivery C p (x_route X) (x_agent X) s = (r', t')" by fastforce
    moreover from d have "t = t'"
      using assms(1) True Inr by (cases r') (auto simp: maybe_deliver_block_receipt_def)
    ultimately show ?thesis by (auto simp: notified_def dest: try_delivery_sends)
  next
    case (Inl e)
    then have "t = s" using assms(1) True by (simp add: maybe_deliver_block_receipt_def bindA_def)
    then show ?thesis by (simp add: notified_def calm_def)
  qed
next
  case False
  then have "t = s" using assms(1)
    by (auto simp: maybe_deliver_block_receipt_def bindA_def split: prod.splits sum.splits)
  then show ?thesis by (simp add: notified_def calm_def)
qed

lemma refuse_notifies:
  assumes "refuse C X event verdict reason message n s = (r, t)" and "verdict \<in> {''deny'', ''review_required''}"
  shows "notified C X s t"
proof -
  obtain r1 t1 where m: "maybe_deliver_block_receipt C (x_agent X) (x_route X) (x_inbound X) (x_extract X) (x_action X) verdict reason
      (x_type X) s = (r1, t1)" by fastforce
  have "stable calm ((\<lambda>(receipt, delivery).
        thenA (audit C ([(''event'', JStr verdict), (''reason'', JStr reason)] @ event @
                (case delivery of None \<Rightarrow> [] | Some d \<Rightarrow> [(''receipt_delivery'', JObj d)])))
          (write_json C n (if report_policy_enabled (x_route X) ''return_audit_receipt'' then receipt else json_error reason message (c_id C)))) x)" for x
    by (cases x) (auto intro!: frame_intros)
  then have "calm t1 t"
    using assms(1) m by (cases r1) (auto simp: refuse_def dest: stableD intro: reflpD[OF calm_order(1)])
  then show ?thesis using maybe_deliver_notifies[OF m assms(2)] by (rule notified_steps(2)[rotated])
qed

lemma input_guard_stage_cases:
  assumes "input_guard_stage C X mode event s = (r, t)"
  shows "(r = Inr (Pass event) \<and> t = s \<and> (mode = Normal \<longrightarrow> input_passes C X)) \<or>
     ((\<forall>event'. r \<noteq> Inr (Pass event')) \<and> notified C X s t)"
proof (cases "mode \<noteq> Normal \<or> input_passes C X")
  case True
  then show ?thesis using assms by (cases mode) (auto simp: input_guard_stage_def input_passes_def Let_def)
next
  case False
  then obtain verdict reason message where v: "verdict \<in> {''deny'', ''review_required''}"
    and b: "bindA (refuse C X event verdict reason message 403) (\<lambda>a. retA (Refused a)) s = (r, t)"
  proof (cases "s_blocked (in_scan (x_inbound X))")
    case True
    with False assms show ?thesis by (intro that[of "''deny''" "''blocked_by_input_guard''" "''request was blocked by input guard''"]) (auto simp: input_guard_stage_def)
  next
    case unblocked: False
    with False assms show ?thesis
      by (intro that[of "''review_required''" "''manual_review_required''" "''request requires manual review''"]) (auto simp: input_guard_stage_def input_passes_def)
  qed
  obtain r1 t1 where f: "refuse C X event verdict reason message 403 s = (r1, t1)" by fastforce
  with b have "t1 = t" "\<forall>event'. r \<noteq> Inr (Pass event')" by (cases r1; auto)+
  then show ?thesis using refuse_notifies[OF f v] by simp
qed

lemma action_guard_stage_cases:
  assumes "action_guard_stage C X mode event s = (r, t)"
  shows "((\<exists>event'. r = Inr (Pass event')) \<and> steady s t \<and> action_passes C X (h_world s) mode) \<or>
     ((\<forall>event'. r \<noteq> Inr (Pass event')) \<and> notified C X s t)"
proof (cases "enforce_action_guard (c_env C) (c_now C) (g_approvals (h_world s)) (x_route X) (x_agent X) (x_action X)")
  case (Inr u)
  then show ?thesis using assms by (auto simp: action_guard_stage_def action_passes_def)
next
  case (Inl e)
  show ?thesis
  proof (cases e)
    case (PyError name)
    then show ?thesis using assms Inl by (auto simp: action_guard_stage_def notified_def calm_def)
  next
    case (GatewayError n err)
    show ?thesis
    proof (cases "mode = TestMode \<and> err = ''blocked_by_action_guard''")
      case True
      define event' where "event' = event @ [(''action_guard_would_block'', JBool True)]"
      define m :: "guard_result handler" where "m =
        thenA (run_warningA C X ''action_guard'' ''test_mode_pass'' (ag_findings (x_action X)) 10 (scanned_text X))
       (thenA (audit C ([(''event'', JStr ''test_mode_action_guard_bypass''), (''reason'', JStr ''input_guard_log_only'')] @ event'))
       (thenA (evidence C X ''action_guard'' (scanned_text X) (ag_findings (x_action X)) None)
             (retA (Pass event'))))"
      have "stable steady m" unfolding m_def by (intro frame_intros)
      moreover have m: "m s = (r, t)"
        using assms Inl GatewayError True by (simp add: action_guard_stage_def m_def event'_def Let_def)
      ultimately have st: "steady s t" by (blast dest: stableD)
      have "action_passes C X (h_world s) mode" using Inl GatewayError True by (simp add: action_passes_def)
      moreover have "r = Inr (Pass event') \<or> (\<forall>event'. r \<noteq> Inr (Pass event'))"
        using m by (cases r) (auto simp: m_def thenA_Inr)
      ultimately show ?thesis using st steady_calm by (auto simp: notified_def)
    next
      case False
      have b: "thenA (run_warningA C X ''action_guard'' ''blocked'' (ag_findings (x_action X)) 10 (scanned_text X))
                (bindA (refuse C X event ''deny'' err (error_message C n err) n) (\<lambda>a. retA (Refused a))) s = (r, t)"
        using assms Inl GatewayError False by (simp add: action_guard_stage_def)
      obtain r1 t1 where w: "run_warningA C X ''action_guard'' ''blocked'' (ag_findings (x_action X)) 10 (scanned_text X) s = (r1, t1)"
        by fastforce
      then have c: "calm s t1" by (auto intro: steady_calm stableD[OF steady_modes(2)])
      have "r1 = Inr ()" using w by (auto simp: run_warningA_def worldA_def)
      obtain r2 t2 where f: "refuse C X event ''deny'' err (error_message C n err) n t1 = (r2, t2)" by fastforce
      have "t2 = t \<and> (\<forall>event'. r \<noteq> Inr (Pass event'))" using b w f \<open>r1 = Inr ()\<close> by (cases r2; auto)+
      then show ?thesis using refuse_notifies[OF f] c by (auto intro: notified_steps)
    qed
  qed
qed

text \<open>The model call is counted before the backend is asked.\<close>

definition passed :: "call \<Rightarrow> dict \<Rightarrow> examined \<Rightarrow> hstate \<Rightarrow> hstate \<Rightarrow> bool" where
  "passed C payload X s t \<longleftrightarrow> (\<exists>p. sent_as C payload X p \<and> h_forwarded t = h_forwarded s @ [(x_route X, p)]) \<and>
     g_quota (h_world t) = record_run_model_call (x_route X) (c_clock C) (g_quota (h_world s))"

lemma stable_answer: "stable calm (answer_from_backend C X mode event receipt x)"
proof -
  have "stable calm (block_output C X mode event n upstream scan)" for n upstream scan
    unfolding block_output_def by (intro frame_intros)
  then show ?thesis unfolding answer_from_backend_def by (cases x) (auto intro!: frame_intros)
qed

lemma pass_on_passed:
  assumes "pass_on C payload X mode event s = (r, t)" and "allow_receipt C X = Inr receipt"
  shows "passed C payload X s t"
proof -
  define p where "p = (if report_policy_enabled (x_route X) ''forward_audit_receipt'' then receipt else payload)"
  define s1 where "s1 = s\<lparr>h_world := (h_world s)\<lparr>g_quota := record_run_model_call (x_route X) (c_clock C) (g_quota (h_world s))\<rparr>\<rparr>"
  obtain r2 t2 where f: "forward C p (x_route X) (x_agent X) (c_id C) s1 = (r2, t2)" by fastforce
  have "bindA (forward C p (x_route X) (x_agent X) (c_id C)) (answer_from_backend C X mode event receipt) s1 = (r, t)"
    using assms by (simp add: pass_on_def p_def s1_def count_model_call_def worldA_def thenA_def bindA_def)
  then have "calm t2 t"
    using f by (cases r2) (auto intro: stableD[OF stable_answer] reflpD[OF calm_order(1)])
  moreover have "sent_as C payload X p" using assms(2) by (simp add: sent_as_def p_def)
  ultimately show ?thesis using forward_logs[OF f] by (auto simp: passed_def calm_def s1_def)
qed

lemma pass_on_sends:
  assumes "pass_on C payload X mode event s = (r, t)"
  shows "calm s t \<or> passed C payload X s t"
proof (cases "allow_receipt C X")
  case (Inl e)
  then show ?thesis using assms by (simp add: pass_on_def calm_def)
next
  case (Inr receipt)
  then show ?thesis using pass_on_passed[OF assms] by simp
qed

lemma bindA_cases:
  assumes "bindA m f s = (r, t)"
  obtains (raised) e where "m s = (Inl e, t)" "r = Inl e" | (went_on) x u where "m s = (Inr x, u)" "f x u = (r, t)"
  using assms by (auto simp: bindA_def split: prod.splits sum.splits)

lemma steady_passes:
  assumes "steady s u"
  shows "passed C payload X u t \<Longrightarrow> passed C payload X s t"
    and "action_passes C X (h_world u) mode \<Longrightarrow> action_passes C X (h_world s) mode"
  using assms by (auto simp: passed_def action_passes_def steady_def same_rules_def)

lemma steady_mode_of:
  assumes "steady s u"
  shows "mode_of C X (h_world u) mode \<longleftrightarrow> mode_of C X (h_world s) mode"
proof -
  have runs: "g_runs (h_world u) = g_runs (h_world s)" using assms by (simp add: steady_def same_rules_def)
  then have "quarantine_ok C X (h_world u) = quarantine_ok C X (h_world s)" by (simp add: quarantine_ok_def)
  then show ?thesis unfolding mode_of_def runs by metis
qed

lemma action_stage_sends:
  assumes "bindA (action_guard_stage C X mode event) (after_guards C payload X mode) s = (r, t)"
  shows "notified C X s t \<or> action_passes C X (h_world s) mode \<and> passed C payload X s t"
  using assms
proof (cases rule: bindA_cases)
  case (raised e)
  then show ?thesis using action_guard_stage_cases[OF raised(1)] by auto
next
  case (went_on g u)
  show ?thesis
  proof (cases g)
    case (Refused a)
    then show ?thesis using action_guard_stage_cases[OF went_on(1)] went_on(2) by (auto simp: after_guards_def)
  next
    case (Pass event')
    then have g: "steady s u" "action_passes C X (h_world s) mode" using action_guard_stage_cases[OF went_on(1)] by auto
    have "pass_on C payload X mode event' u = (r, t)" using went_on(2) Pass by (simp add: after_guards_def)
    from pass_on_sends[OF this] show ?thesis
      using g calm_trans[OF steady_calm[OF g(1)]] by (auto simp: notified_def passed_def steady_def same_rules_def)
  qed
qed

lemma guards_send:
  assumes "guards C payload X mode event s = (r, t)"
  shows "notified C X s t \<or> (mode = Normal \<longrightarrow> input_passes C X) \<and> action_passes C X (h_world s) mode \<and> passed C payload X s t"
  using assms unfolding guards_def
proof (cases rule: bindA_cases)
  case (raised e)
  then show ?thesis using input_guard_stage_cases[OF raised(1)] by auto
next
  case (went_on g u)
  then show ?thesis using input_guard_stage_cases[OF went_on(1)] action_stage_sends[of C X mode event payload s r t]
    by (cases g) auto
qed

lemma judge_sends:
  assumes "judge C payload X s = (r, t)"
  shows "calm s t \<or>
    fst (check_report_receipt_rate_limit (c_clock C) (x_agent X) (x_route X) (h_world s)) = Inr () \<and>
    (notified C X s t \<or>
    (\<exists>mode. mode_of C X (h_world s) mode \<and> (mode = Normal \<longrightarrow> input_passes C X) \<and> action_passes C X (h_world s) mode \<and>
      passed C payload X s t))"
  using assms unfolding judge_def thenA_def
proof (cases rule: bindA_cases)
  case (raised e)
  then have "steady s t" by (blast intro: stableD[OF steady_steps(1)[OF steady_receipt_limit]])
  then show ?thesis using steady_calm by blast
next
  case (went_on x u)
  have su: "steady s u" using went_on(1) by (auto intro: stableD steady_steps(1)[OF steady_receipt_limit])
  have limit: "fst (check_report_receipt_rate_limit (c_clock C) (x_agent X) (x_route X) (h_world s)) = Inr ()"
    using went_on(1) by (auto simp: worldA_Inr)
  show ?thesis using went_on(2)
  proof (cases rule: bindA_cases)
    case (raised e)
    then show ?thesis using steady_calm[OF steady_trans[OF su stableD[OF steady_enter(1)]]] by simp
  next
    case (went_on x u2)
    obtain mode event where x: "x = (mode, event)" by fastforce
    have s2: "steady s u2" using su went_on(1) by (blast intro: steady_trans stableD[OF steady_enter(1)])
    have m: "mode_of C X (h_world s) mode"
      using enter_mode_Inr[of C X u mode event u2] went_on(1) x steady_mode_of[OF su] by simp
    have "thenA (warn_of_input C X mode) (guards C payload X mode event) u2 = (r, t)" using went_on(2) x by (simp add: thenA_def)
    then show ?thesis unfolding thenA_def
    proof (cases rule: bindA_cases)
      case (raised e)
      then show ?thesis using steady_calm[OF steady_trans[OF s2 stableD[OF steady_enter(2)]]] by simp
    next
      case (went_on y u3)
      have s3: "steady s u3" using s2 went_on(1) by (blast intro: steady_trans stableD[OF steady_enter(2)])
      from guards_send[OF went_on(2)] show ?thesis
        using m limit notified_steps(1)[OF steady_calm[OF s3]] steady_passes[OF s3] by blast
    qed
  qed
qed

text \<open>The receipt limit reads and changes nothing but the limiter.\<close>

lemma receipt_limit_by_limiter:
  assumes "g_limiter w = g_limiter w'"
  shows "fst (check_report_receipt_rate_limit clock v d w) = fst (check_report_receipt_rate_limit clock v d w')"
  using assms by (auto simp: check_report_receipt_rate_limit_def Let_def bindA_def limiterA_def raiseA_def split: prod.splits sum.splits)

section \<open>Only authorized requests reach a backend\<close>

text \<open>The checks before the guards, in the world a request finds.\<close>

definition authorized :: "call \<Rightarrow> world \<Rightarrow> dict \<Rightarrow> verified_agent \<Rightarrow> route_decision \<Rightarrow> bool" where
  "authorized C w payload v d \<longleftrightarrow> \<not> g_kill w \<and>
     verify_agent (c_env C) (c_cfg C) (g_runs w) (g_revoked w) (c_now C) (c_headers C) (c_ip C) = Inr v \<and>
     (\<exists>d0. resolve_route_decision (c_env C) (c_headers C) payload (c_cfg C) = Inr d0 \<and>
        enforce_route_policy (c_env C) (c_now C) (c_cfg C) v d0 w = (Inr d, w))"

text \<open>The request as the guards see it.\<close>

definition examined_as :: "call \<Rightarrow> world \<Rightarrow> dict \<Rightarrow> verified_agent \<Rightarrow> route_decision \<Rightarrow> examined \<Rightarrow> bool" where
  "examined_as C w payload v d X \<longleftrightarrow>
     enforce_run_model_quota (c_cfg C) d (g_quota w) = Inr () \<and> enforce_input_policy (c_env C) payload d = Inr () \<and>
     x_agent X = v \<and> x_type X = JStr (payload_message_type payload) \<and>
     (\<exists>d1 raw. scan_and_extract_for_route (c_env C) payload (c_cfg C) d = Inr (x_inbound X, x_extract X, d1) \<and>
        action_guard (c_env C) (c_headers C) payload (c_cfg C) = Inr raw \<and>
        apply_route_action_guard_policy (c_env C) raw d1 payload = Inr (x_action X, x_route X))"

lemma examine_Inr:
  "examine C payload v d s = (Inr X, t) \<Longrightarrow> steady s t \<and> h_world t = h_world s \<and> examined_as C (h_world s) payload v d X"
  by (auto simp: examine_def examined_as_def thenA_Inr bindA_Inr bindE_Inr readA_apply knows_route_def steady_def same_rules_def)

lemma stable_rate [frame_intros]: "stable steady (check_rate_limit C v)"
  unfolding check_rate_limit_def using steady_admit[of C v] by (auto simp: stable_def)

lemma policy_by_runs:
  "enforce_route_policy E now cfg v d w = (Inr d', w1) \<Longrightarrow> g_runs w' = g_runs w \<Longrightarrow>
     enforce_route_policy E now cfg v d w' = (Inr d', w')"
  by (auto simp: enforce_route_policy_def thenA_Inr bindA_Inr trip_decoy_def raiseA_def split_beta Let_def split: if_splits)

lemma authorize_Inr:
  assumes "authorize C payload s = (Inr (v, d), t)"
  shows "steady s t \<and> verify_agent (c_env C) (c_cfg C) (g_runs (h_world s)) (g_revoked (h_world s)) (c_now C) (c_headers C) (c_ip C) = Inr v \<and>
     (\<exists>d0. resolve_route_decision (c_env C) (c_headers C) payload (c_cfg C) = Inr d0 \<and>
        (\<forall>w. same_rules (h_world s) w \<longrightarrow> enforce_route_policy (c_env C) (c_now C) (c_cfg C) v d0 w = (Inr d, w))) \<and>
     (h_admitted s \<longrightarrow> g_limiter (h_world t) = g_limiter (h_world s))"
proof -
  from assms obtain d0 t1 w where
    v: "verify_agent (c_env C) (c_cfg C) (g_runs (h_world s)) (g_revoked (h_world s)) (c_now C) (c_headers C) (c_ip C) = Inr v"
    and d0: "resolve_route_decision (c_env C) (c_headers C) payload (c_cfg C) = Inr d0"
    and r: "check_rate_limit C v (s\<lparr>h_verified := Some v, h_decision := Some d0\<rparr>) = (Inr (), t1)"
    and p: "enforce_route_policy (c_env C) (c_now C) (c_cfg C) v d0 (h_world t1) = (Inr d, w)"
    and t: "t = t1\<lparr>h_decision := Some (warned C v d0 (h_world t1)), h_world := w\<rparr>"
    by (auto simp: authorize_def identify_def authenticate_def resolve_route_def route_policy_def thenA_Inr bindA_Inr readA_apply
        worldA_Inr knows_agent_def knows_route_def)
  have w: "w = h_world t1" using policy_passes[OF p] .
  have st: "steady s t1" using stableD[OF stable_rate r] by (simp add: steady_def)
  then have "enforce_route_policy (c_env C) (c_now C) (c_cfg C) v d0 w' = (Inr d, w')" if "same_rules (h_world s) w'" for w'
    using that by (intro policy_by_runs[OF p]) (auto simp: steady_def same_rules_def)
  moreover have "steady s t" using st t w by (simp add: steady_def)
  moreover have "h_admitted s \<longrightarrow> g_limiter (h_world t) = g_limiter (h_world s)"
    using r t w by (auto simp: check_rate_limit_def)
  ultimately show ?thesis using v d0 by blast
qed

lemma sends_late:
  assumes "bindA m f s = (r, t)" and "stable calm m" and "\<not> calm s t"
  shows "\<exists>x u. m s = (Inr x, u) \<and> f x u = (r, t) \<and> \<not> calm u t"
  using assms(1)
proof (cases rule: bindA_cases)
  case (raised e)
  then show ?thesis using assms(2,3) by (auto dest: stableD)
next
  case (went_on x u)
  then show ?thesis using assms(2,3) calm_trans by (blast dest: stableD)
qed

lemma calm_checks [frame_intros]:
  "stable calm (check_kill_switch C)" "stable calm (read_json_body C)" "stable calm (authorize C payload)"
  "stable calm (examine C payload v d)"
proof -
  have a: "stable calm (authenticate C)" "stable calm (resolve_route C payload)"
    unfolding authenticate_def resolve_route_def by (intro frame_intros)+
  have b: "stable calm (admit_agent C v)" "stable calm (receive C n)" "stable calm (check_rate_limit C v)" for v n
    using steady_admit steady_receive stable_rate steady_calm by (auto simp: stable_def)
  have "stable calm (thenA (knows_route x) (worldA (enforce_route_policy (c_env C) (c_now C) (c_cfg C) v d)))" for x v d
    by (intro frame_intros)
  then have p: "stable calm (route_policy C v d)" for v d by (simp add: route_policy_def stable_def)
  have "stable calm (thenA (audit C event) (raiseA x :: unit handler))" for event x
    by (intro frame_intros)
  then show "stable calm (check_kill_switch C)"
    by (simp add: check_kill_switch_def stable_def reflpD[OF calm_order(1)])
  show "stable calm (read_json_body C)" unfolding read_json_body_def by (intro frame_intros a b)
  show "stable calm (authorize C payload)" unfolding authorize_def identify_def by (intro frame_intros a b p)
  show "stable calm (examine C payload v d)" unfolding examine_def by (intro frame_intros)
qed

lemma guarded_rest:
  assumes "guarded C extra m s = (r, t)"
  obtains r1 t1 where "m s = (r1, t1)" "calm t1 t"
proof -
  obtain r1 t1 where m: "m s = (r1, t1)" by fastforce
  have "calm t1 t"
  proof (cases r1)
    case (Inr a)
    then show ?thesis using assms m by (simp add: guarded_def calm_def)
  next
    case (Inl e)
    then show ?thesis using assms m
      by (cases e) (auto simp: guarded_def intro: stableD[OF stable_deny] stableD[OF stable_internal_error])
  qed
  then show thesis using m that by blast
qed

text \<open>C27: Whatever a request hands to a backend, it hands over once, and only if the kill switch was off, its caller was
  authenticated and within its rate, the body was read whole and (where detection is on) holds no canary that is found, the
  route policy, the model call quota, the input policy and the receipt limit of the route passed. Either the two guards let
  the request pass and the call is counted against the quota of its run; a run read in quarantine or in test mode, which is
  what its registration allows for this request, skips the input guard, and in test mode also an action that is blocked (not
  one that needs an approval). Or a guard blocked the request, the route asks for notices of blocked reports, and what is sent
  is that notice, never the payload; the notice is not counted.\<close>

theorem only_authorized_requests_forwarded:
  assumes "handle_routed_request C (fresh_request w) = (r, t)" and "h_forwarded t \<noteq> []"
  shows "\<exists>payload v d X p L.
    body_of C payload \<and> authorized C w payload v d \<and> admits C w payload v L \<and> examined_as C w payload v d X \<and>
    fst (check_report_receipt_rate_limit (c_clock C) v (x_route X) (w\<lparr>g_limiter := L\<rparr>)) = Inr () \<and>
    h_forwarded t = [(x_route X, p)] \<and>
    (block_notice C X p \<and> g_quota (h_world t) = g_quota w \<or>
     sent_as C payload X p \<and> g_quota (h_world t) = record_run_model_call (x_route X) (c_clock C) (g_quota w) \<and>
     (\<exists>mode. mode_of C X w mode \<and> (mode = Normal \<longrightarrow> input_passes C X) \<and> action_passes C X w mode))"
proof -
  obtain r1 t1 where m: "thenA (check_kill_switch C) (bindA (read_json_body C) (\<lambda>payload.
      bindA (authorize C payload) (\<lambda>(v, d). bindA (examine C payload v d) (judge C payload)))) (fresh_request w) = (r1, t1)"
    and c: "calm t1 t" using assms(1) unfolding handle_routed_request_def by (rule guarded_rest)
  have sent: "h_forwarded t1 \<noteq> []" using c assms(2) by (simp add: calm_def)
  have quiet: "\<not> calm (fresh_request w) t1" using sent by (auto simp: calm_def fresh_request_def)
  obtain payload s1 v d s2 X s3 where kill: "\<not> g_kill w" and b: "read_json_body C (fresh_request w) = (Inr payload, s1)"
    and a: "authorize C payload s1 = (Inr (v, d), s2)" and e: "examine C payload v d s2 = (Inr X, s3)"
    and j: "judge C payload X s3 = (r1, t1)"
  proof -
    obtain u s0 where k: "check_kill_switch C (fresh_request w) = (Inr u, s0)" and quiet: "\<not> calm s0 t1"
      and m: "bindA (read_json_body C) (\<lambda>payload.
        bindA (authorize C payload) (\<lambda>(v, d). bindA (examine C payload v d) (judge C payload))) s0 = (r1, t1)"
      using sends_late[OF m[unfolded thenA_def] calm_checks(1) quiet] by blast
    have s0: "s0 = fresh_request w" "\<not> g_kill w" using kill_switch_passes[of C "fresh_request w" s0] k by (auto simp: fresh_request_def)
    obtain payload s1 where b: "read_json_body C s0 = (Inr payload, s1)" and quiet: "\<not> calm s1 t1"
      and m: "bindA (authorize C payload) (\<lambda>(v, d). bindA (examine C payload v d) (judge C payload)) s1 = (r1, t1)"
      using sends_late[OF m calm_checks(2) quiet] by blast
    obtain vd s2 where a: "authorize C payload s1 = (Inr vd, s2)" and quiet: "\<not> calm s2 t1"
      and m: "(case vd of (v, d) \<Rightarrow> bindA (examine C payload v d) (judge C payload)) s2 = (r1, t1)"
      using sends_late[OF m calm_checks(3) quiet] by blast
    obtain v d where vd: "vd = (v, d)" by fastforce
    have "bindA (examine C payload v d) (judge C payload) s2 = (r1, t1)" using m vd by simp
    from sends_late[OF this calm_checks(4) quiet] obtain X s3 where
      "examine C payload v d s2 = (Inr X, s3)" "judge C payload X s3 = (r1, t1)" by blast
    then show thesis using that s0 b a vd by blast
  qed
  have s1: "steady (fresh_request w) s1" "body_of C payload" "h_admitted s1" using read_json_body_Inr(1)[OF b] by auto
  note s2 = authorize_Inr[OF a] and s3 = examine_Inr[OF e]
  have s3': "steady (fresh_request w) s3" using s1 s2 s3 by (blast intro: steady_trans)
  have rules: "same_rules w (h_world s1)" "same_rules w (h_world s2)" "same_rules w (h_world s3)" "h_forwarded s3 = []"
    using s1 s3' steady_trans[of "fresh_request w" s1 s2] s2 by (auto simp: steady_def fresh_request_def)
  have v: "verify_agent (c_env C) (c_cfg C) (g_runs w) (g_revoked w) (c_now C) (c_headers C) (c_ip C) = Inr v"
    using s2 rules(1) by (simp add: same_rules_def)
  then obtain L where L: "admits C w payload v L" "g_limiter (h_world s1) = L"
    using read_json_body_Inr(2)[OF b] by (auto simp: fresh_request_def)
  have lim: "g_limiter (h_world s3) = L" using s2 s3 s1(3) L(2) by simp
  have quiet3: "\<not> calm s3 t1" using sent rules(4) by (auto simp: calm_def)
  have ag: "x_agent X = v" using s3 by (simp add: examined_as_def)
  note js = judge_sends[OF j]
  have "fst (check_report_receipt_rate_limit (c_clock C) v (x_route X) (w\<lparr>g_limiter := L\<rparr>)) = Inr ()"
    using js quiet3 ag receipt_limit_by_limiter[of "h_world s3" "w\<lparr>g_limiter := L\<rparr>"] lim by auto
  moreover have "body_of C payload" "authorized C w payload v d" "examined_as C w payload v d X"
    using kill s1(2) s2 s3 rules v by (auto simp: authorized_def examined_as_def same_rules_def)
  moreover from js quiet3 have "notified C X s3 t1 \<or> (\<exists>mode. mode_of C X (h_world s3) mode \<and> (mode = Normal \<longrightarrow> input_passes C X) \<and>
      action_passes C X (h_world s3) mode \<and> passed C payload X s3 t1)" by blast
  then have "h_forwarded t1 = [] \<or>
      (\<exists>p. h_forwarded t1 = [(x_route X, p)] \<and> (block_notice C X p \<and> g_quota (h_world t1) = g_quota w \<or>
     sent_as C payload X p \<and> g_quota (h_world t1) = record_run_model_call (x_route X) (c_clock C) (g_quota w) \<and>
     (\<exists>mode. mode_of C X w mode \<and> (mode = Normal \<longrightarrow> input_passes C X) \<and> action_passes C X w mode)))"
  proof (elim disjE)
    assume "notified C X s3 t1"
    then show ?thesis using rules by (auto simp: notified_def sends_def calm_def same_rules_def)
  next
    assume "\<exists>mode. mode_of C X (h_world s3) mode \<and> (mode = Normal \<longrightarrow> input_passes C X) \<and>
      action_passes C X (h_world s3) mode \<and> passed C payload X s3 t1"
    then obtain mode where j: "mode_of C X (h_world s3) mode" "mode = Normal \<longrightarrow> input_passes C X"
      "action_passes C X (h_world s3) mode" "passed C payload X s3 t1" by blast
    have "mode_of C X w mode" "action_passes C X w mode"
      using j(1,3) steady_mode_of[OF s3'] steady_passes(2)[OF s3'] by (simp_all add: fresh_request_def)
    then show ?thesis using j(2,4) rules by (auto simp: passed_def same_rules_def)
  qed
  ultimately show ?thesis using c sent L(1) unfolding calm_def by (metis (no_types, lifting))
qed

lemma stage_answers:
  "input_guard_stage C X mode event s = (Inr (Refused a), t) \<Longrightarrow> a = NoAnswer \<Longrightarrow> h_expired t"
  "action_guard_stage C X mode event s = (Inr (Refused a), t) \<Longrightarrow> a = NoAnswer \<Longrightarrow> h_expired t"
proof -
  have r: "answers (refuse C X event verdict reason message n)" for event verdict reason message n
    unfolding refuse_def by (intro answer_intros)
  then show "input_guard_stage C X mode event s = (Inr (Refused a), t) \<Longrightarrow> a = NoAnswer \<Longrightarrow> h_expired t"
    by (auto simp: input_guard_stage_def Let_def bindA_Inr answers_def split: if_splits)
  show "action_guard_stage C X mode event s = (Inr (Refused a), t) \<Longrightarrow> a = NoAnswer \<Longrightarrow> h_expired t"
    using r by (auto simp: action_guard_stage_def Let_def bindA_Inr thenA_Inr answers_def split: if_splits sum.splits exn.splits)
qed

lemma handle_routed_answers: "answered C (handle_routed_request C) s"
proof -
  have p: "answers (pass_on C payload X mode event)" for payload X mode event
    unfolding pass_on_def answer_from_backend_def[abs_def] block_output_def by (intro answer_intros)
  have a: "h_expired t" if "bindA (action_guard_stage C X mode event) (after_guards C payload X mode) s = (Inr NoAnswer, t)"
    for payload X mode event s t
  proof -
    from that obtain r u where g: "action_guard_stage C X mode event s = (Inr r, u)" and f: "after_guards C payload X mode r u = (Inr NoAnswer, t)"
      by (auto simp: bindA_Inr)
    show ?thesis
    proof (cases r)
      case (Pass event')
      then show ?thesis using f p by (simp add: after_guards_def answers_def)
    next
      case (Refused b)
      then show ?thesis using f g stage_answers(2) by (auto simp: after_guards_def)
    qed
  qed
  have g: "answers (guards C payload X mode event)" for payload X mode event
    unfolding answers_def
  proof (intro allI impI)
    fix s b t
    assume "guards C payload X mode event s = (Inr b, t)" "b = NoAnswer"
    then obtain r u where g: "input_guard_stage C X mode event s = (Inr r, u)"
      and f: "(case r of Refused a \<Rightarrow> retA a | Pass event \<Rightarrow>
        bindA (action_guard_stage C X mode event) (after_guards C payload X mode)) u = (Inr NoAnswer, t)"
      by (auto simp: guards_def bindA_Inr)
    show "h_expired t"
    proof (cases r)
      case (Pass event')
      then show ?thesis using f a by simp
    next
      case (Refused b)
      then show ?thesis using f g stage_answers(1) by auto
    qed
  qed
  show ?thesis unfolding handle_routed_request_def judge_def by (rule guarded_answers) (intro answer_intros g)
qed

section \<open>A concrete request\<close>

definition demo_task :: dict where
  "demo_task = [(''route_id'', JStr ''r''), (''capability'', JStr ''c''), (''note'', JStr ''ok'')]"

definition demo_task_env :: env where
  "demo_task_env = demo_http_env\<lparr>e_loads := (\<lambda>s. Some (JObj demo_task)), e_render := (\<lambda>j. []), e_canon := (\<lambda>j. []), e_sha256 := (\<lambda>s. ''h''), e_repr := (\<lambda>j. [])\<rparr>"

definition demo_task_cfg :: dict where
  "demo_task_cfg = [(''agents'', JObj [(''a'', JObj [(''token_sha256'', JStr ''h''), (''allowed_routes'', JList [JStr ''r'']),
       (''allowed_capabilities'', JList [JStr ''c''])])]),
     (''routes'', JObj [(''r'', JObj [(''kind'', JStr ''http_json''), (''allowed_callers'', JList [JStr ''a'']),
       (''required_capability'', JStr ''c''), (''input_policy'', JObj [(''allow_missing_taint'', JBool True)]),
       (''backend'', JObj [(''dry_run'', JBool True)])])])]"

definition demo_task_call :: call where
  "demo_task_call = demo_call\<lparr>c_target := ''/v1/tasks'', c_body := Body ''{}'', c_env := demo_task_env, c_cfg := demo_task_cfg,
     c_headers := [(''Authorization'', ''Bearer tok''), (''Content-Length'', ''2'')]\<rparr>"

definition demo_state1 :: hstate where
  "demo_state1 = (fresh_request demo_empty_world)\<lparr>h_admitted := True, h_world := demo_empty_world\<lparr>g_limiter :=
     \<lparr>rl_events = [(''agent:a:10.0.0.1'', [0])], rl_expires = [(''agent:a:10.0.0.1'', 60)]\<rparr>\<rparr>\<rparr>"
definition demo_agent :: verified_agent where
  "demo_agent = \<lparr>va_agent_id = ''a'', va_agent = dict_or_empty (dget0 (cfg_agents demo_task_cfg) ''a''), va_principal = [], va_bound_run_id = []\<rparr>"
definition demo_decision :: route_decision where
  "demo_decision = \<lparr>rd_route_id = ''r'', rd_route = dict_or_empty (dget0 (cfg_routes demo_task_cfg) ''r''), rd_capability = ''c'', rd_run_id = None, rd_task_id = None,
      rd_taint = [], rd_warnings = []\<rparr>"

definition demo_state2 :: hstate where
  "demo_state2 = demo_state1\<lparr>h_verified := Some demo_agent, h_decision := Some demo_decision\<rparr>"

definition demo_task_text :: string where
  "demo_task_text = py_join [newline] [''capability'', ''c'', ''note'', ''ok'', ''route_id'', ''r'']"

definition demo_task_scan :: scan_result where
  "demo_task_scan = \<lparr>s_original = ''h'', s_normalized = ''h'', s_text = demo_task_text,
     s_removed = \<lparr>rm_format = 0, rm_control = 0, rm_truncated = 0\<rparr>, s_findings = [], s_score = 0, s_blocked = False,
     s_review = False, s_checks = [], s_relaxed = []\<rparr>"

definition demo_examined :: examined where
  "demo_examined = \<lparr>x_agent = demo_agent, x_route = demo_decision, x_inbound = \<lparr>in_text = demo_task_text, in_scan = demo_task_scan\<rparr>,
     x_extract = [(''content_sha256'', JStr ''h''),
       (''summary_limits'', JObj [(''max_claims'', JInt 12), (''max_recommendations'', JInt 12),
          (''max_suspicious_instructions'', JInt 12), (''max_urls'', JInt 20)]), (''urls'', JList []),
       (''claims'', JList [JStr ''capability c note ok route_id r'']), (''recommendations'', JList []),
       (''suspicious_instructions'', JList []), (''scan_findings'', JList [])],
     x_action = \<lparr>ag_hash = ''sha256:h'', ag_findings = []\<rparr>, x_type = JStr []\<rparr>"

lemma demo_read: "read_json_body demo_task_call (fresh_request demo_empty_world) = (Inr demo_task, demo_state1)"
  by code_simp

lemma demo_authorize: "authorize demo_task_call demo_task demo_state1 = (Inr (demo_agent, demo_decision), demo_state2)"
  by code_simp

lemma demo_examine: "examine demo_task_call demo_task demo_agent demo_decision demo_state2 = (Inr demo_examined, demo_state2)"
  by code_simp

lemma demo_mode: "enter_mode demo_task_call demo_examined demo_state2 = (Inr (Normal, request_event demo_task_call demo_examined), demo_state2)"
proof -
  have t: "active_input_guard_test_mode (c_env demo_task_call) (c_now demo_task_call) (c_cfg demo_task_call)
      (g_runs (h_world demo_state2)) (x_route demo_examined) = Inr False" by code_simp
  have q: "quarantine_ok demo_task_call demo_examined (h_world demo_state2) = Inr False" by code_simp
  show ?thesis by (simp add: enter_mode_def Let_def bindA_def readA_apply t q)
qed

lemma demo_guards:
  "input_guard_stage demo_task_call demo_examined Normal event s = (Inr (Pass event), s)"
  "action_guard_stage demo_task_call demo_examined Normal event s = (Inr (Pass event), s)"
proof -
  show "input_guard_stage demo_task_call demo_examined Normal event s = (Inr (Pass event), s)"
    by (simp add: input_guard_stage_def demo_examined_def demo_task_scan_def Let_def)
  have "enforce_action_guard E now f d v (x_action demo_examined) = Inr ()" for E now f d v
    by (simp add: enforce_action_guard_def demo_examined_def ag_blocked_def)
  then show "action_guard_stage demo_task_call demo_examined Normal event s = (Inr (Pass event), s)"
    by (simp add: action_guard_stage_def)
qed

lemma demo_receipt: "\<exists>receipt. allow_receipt demo_task_call demo_examined = Inr receipt"
proof -
  have "case allow_receipt demo_task_call demo_examined of Inr receipt \<Rightarrow> True | Inl e \<Rightarrow> False" by code_simp
  then show ?thesis by (cases "allow_receipt demo_task_call demo_examined") simp_all
qed

lemma demo_forwards: "h_forwarded (snd (handle_routed_request demo_task_call (fresh_request demo_empty_world))) \<noteq> []"
proof -
  let ?C = demo_task_call and ?X = demo_examined
  obtain r t where h: "handle_routed_request ?C (fresh_request demo_empty_world) = (r, t)" by fastforce
  obtain r1 t1 where p: "pass_on ?C demo_task ?X Normal (request_event ?C ?X) demo_state2 = (r1, t1)" by fastforce
  obtain receipt where "allow_receipt ?C ?X = Inr receipt" using demo_receipt by blast
  then have f: "h_forwarded t1 \<noteq> []" using pass_on_passed[OF p] by (auto simp: passed_def)
  have k: "check_kill_switch ?C (fresh_request demo_empty_world) = (Inr (), fresh_request demo_empty_world)"
    by (simp add: check_kill_switch_def fresh_request_def demo_empty_world_def)
  have l: "worldA (check_report_receipt_rate_limit (c_clock ?C) (x_agent ?X) (x_route ?X)) demo_state2 = (Inr (), demo_state2)"
    by code_simp
  have w: "warn_of_input ?C ?X Normal demo_state2 = (Inr (), demo_state2)"
    by (simp add: warn_of_input_def demo_examined_def demo_task_scan_def)
  have "judge ?C demo_task ?X demo_state2 = (r1, t1)"
    using p by (simp add: judge_def l demo_mode w guards_def demo_guards after_guards_def)
  then have "handle_routed_request ?C (fresh_request demo_empty_world) = guarded ?C [] (\<lambda>s. (r1, t1)) (fresh_request demo_empty_world)"
    by (simp add: handle_routed_request_def guarded_def catchA_def k demo_read demo_authorize demo_examine)
  then obtain r2 t2 where "(r1, t1) = (r2, t2)" "calm t2 t" using guarded_rest[of ?C "[]" "\<lambda>s. (r1, t1)"] h by metis
  then show ?thesis using f h by (auto simp: calm_def)
qed

theorem only_authorized_requests_forwarded_witness:
  "\<exists>payload v d X p L.
    body_of demo_task_call payload \<and> authorized demo_task_call demo_empty_world payload v d \<and>
    admits demo_task_call demo_empty_world payload v L \<and> examined_as demo_task_call demo_empty_world payload v d X \<and>
    h_forwarded (snd (handle_routed_request demo_task_call (fresh_request demo_empty_world))) = [(x_route X, p)]"
proof -
  obtain r t where h: "handle_routed_request demo_task_call (fresh_request demo_empty_world) = (r, t)" by fastforce
  then have "h_forwarded t \<noteq> []" using demo_forwards by simp
  from only_authorized_requests_forwarded[OF h this] show ?thesis unfolding h snd_conv by blast
qed

text \<open>
  A chat request for an unknown alias that holds a lone surrogate ends without a response: the
  denial quotes the alias, and its body cannot be encoded (the character 0xFF stands for the surrogate).
\<close>

definition demo_alias :: dict where
  "demo_alias = [(''capability'', JStr ''c''), (''model'', JStr ''asg/x'')]"

definition demo_alias_call :: call where
  "demo_alias_call = demo_task_call\<lparr>c_target := ''/v1/chat/completions'',
     c_env := demo_task_env\<lparr>e_loads := (\<lambda>s. Some (JObj demo_alias))\<rparr>, c_message := (\<lambda>n err. ''unknown route alias '' @ [CHR 0xFF])\<rparr>"

lemma unknown_alias_unanswered:
  "fst (handle_routed_request demo_alias_call (fresh_request demo_empty_world)) = Inl encode_error"
proof -
  let ?C = demo_alias_call
  have k: "check_kill_switch ?C (fresh_request demo_empty_world) = (Inr (), fresh_request demo_empty_world)"
    by (simp add: check_kill_switch_def fresh_request_def demo_empty_world_def)
  have r: "read_json_body ?C (fresh_request demo_empty_world) = (Inr demo_alias, demo_state1)" by code_simp
  have "case authorize ?C demo_alias demo_state1 of (r, t) \<Rightarrow> (case r of
      Inl e \<Rightarrow> e = GatewayError 400 ''unknown_route_alias'' \<and> \<not> h_expired t | Inr x \<Rightarrow> False)" by code_simp
  then obtain t where a: "authorize ?C demo_alias demo_state1 = (Inl (GatewayError 400 ''unknown_route_alias''), t)" and t: "\<not> h_expired t"
    by (auto split: prod.splits sum.splits)
  have b: "\<not> body_encodes ?C (error_body ?C 400 ''unknown_route_alias'')" by code_simp
  show ?thesis
    by (simp add: handle_routed_request_def guarded_def catchA_def k r a unencodable_denial_unanswered[OF t b])
qed

end
