(* ===== verification/Endpoints.thy ===== *)
theory Endpoints
  imports Routed_Request
begin

text \<open>
  The other handlers of \<open>GatewayHandler\<close> (gateway.py): inspection, the list of routes, approvals,
  the registration of runs, the submission of artifacts and the two ways of reading one; and the
  dispatch of a request by its method and path.
\<close>

section \<open>Inspection and routes\<close>

definition capability_denied :: exn where
  "capability_denied = GatewayError 403 ''capability_denied''"

definition inspect_event :: "call \<Rightarrow> verified_agent \<Rightarrow> string \<Rightarrow> inbound_scan \<Rightarrow> action_result \<Rightarrow> string list \<Rightarrow> dict" where
  "inspect_event C v capability inbound action taint =
     [(''event'', JStr ''inspect''), (''decision'', JStr ''allow'')] @ audit_base (c_id C) (Some v) (c_ip C) None @
     [(''capability'', JStr capability), (''content_sha256'', JStr (s_normalized (in_scan inbound))),
      (''content_length'', JInt (int (length (in_text inbound)))), (''scan'', JObj (public_scan_for_audit (c_cfg C) (in_scan inbound))),
      (''action_guard'', JObj (action_public_dict action)), (''taint'', JList (map JStr taint))]"

definition handle_inspect :: "call \<Rightarrow> answer handler" where
  "handle_inspect C = (let E = c_env C; cfg = c_cfg C in guarded C []
     (thenA (check_kill_switch C)
     (bindA (read_json_body C) (\<lambda>payload.
      bindA (identify C) (\<lambda>v.
      bindA (liftA (resolve_capability (c_headers C) payload True)) (\<lambda>capability.
      thenA (liftA (raise_if (capability \<noteq> ''inspect'') capability_denied))
     (bindA (liftA (str_items E (dget0 (va_agent v) ''allowed_capabilities''))) (\<lambda>allowed.
      thenA (liftA (raise_if (capability \<notin> set allowed) capability_denied))
     (bindA (liftA (scan_inbound E (JObj payload) cfg)) (\<lambda>(inbound, x).
      bindA (liftA (action_guard E (c_headers C) payload cfg)) (\<lambda>action.
      bindA (liftA (resolve_taint payload)) (\<lambda>taint.
      thenA (audit C (inspect_event C v capability inbound action taint))
        (write_json C 200 [(''request_id'', JStr (c_id C)), (''scan'', JObj (scan_public_dict (in_scan inbound))),
           (''structured_extract'', JObj x), (''action_guard'', JObj (action_public_dict action))])))))))))))))"

definition public_route_fields :: "string list" where
  "public_route_fields = [''description'', ''kind'', ''required_capability'', ''allowed_capabilities'', ''aliases'']"

definition public_route :: "string \<Rightarrow> dict \<Rightarrow> dict" where
  "public_route route_id route = (''route_id'', JStr route_id) # pick_fields route public_route_fields"

definition visible_route :: "env \<Rightarrow> verified_agent \<Rightarrow> string list \<Rightarrow> string \<times> json \<Rightarrow> json list res" where
  "visible_route E v allowed_routes = (\<lambda>(route_id, route).
     bindE (py_items route) (\<lambda>r.
     bindE (str_items E (dget0 r ''allowed_callers'')) (\<lambda>callers.
       Inr (if route_id \<in> set allowed_routes \<and> (''*'' \<in> set callers \<or> role v \<in> set callers)
            then [JObj (public_route route_id r)] else []))))"

definition handle_routes :: "call \<Rightarrow> answer handler" where
  "handle_routes C = guarded C []
     (thenA (check_kill_switch C)
     (bindA (authenticate C) (\<lambda>v.
      bindA (liftA (str_items (c_env C) (dget0 (va_agent v) ''allowed_routes''))) (\<lambda>allowed.
      bindA (liftA (mapE (visible_route (c_env C) v allowed) (cfg_routes (c_cfg C)))) (\<lambda>visible.
      thenA (audit C ([(''event'', JStr ''routes''), (''decision'', JStr ''allow'')] @ audit_base (c_id C) (Some v) (c_ip C) None))
        (write_json C 200 [(''routes'', JList (concat visible)), (''request_id'', JStr (c_id C))]))))))"

section \<open>Approvals and runs\<close>

definition route_denied :: exn where
  "route_denied = GatewayError 403 ''route_denied''"

text \<open>Up to the route: the two endpoints serve one fixed route each and check no rate again.\<close>

definition authorize_fixed :: "call \<Rightarrow> dict \<Rightarrow> string \<Rightarrow> (verified_agent \<times> route_decision) handler" where
  "authorize_fixed C payload route_id =
     bindA (identify C) (\<lambda>v.
     bindA (resolve_route C payload) (\<lambda>d.
     thenA (liftA (raise_if (rd_route_id d \<noteq> route_id) route_denied))
    (bindA (route_policy C v d) (\<lambda>d. retA (v, d)))))"

definition approval_event :: "call \<Rightarrow> verified_agent \<Rightarrow> route_decision \<Rightarrow> dict \<Rightarrow> inbound_scan \<Rightarrow> dict" where
  "approval_event C v d rec inbound =
     [(''event'', JStr ''approval''), (''decision'', JStr ''stored'')] @ audit_base (c_id C) (Some v) (c_ip C) (Some d) @
     map (\<lambda>k. (k, dget0 rec k)) [''approval_id'', ''target_agent_id'', ''target_route_id'', ''target_capability'', ''approved_categories''] @
     [(''scan'', JObj (public_scan_for_audit (c_cfg C) (in_scan inbound)))]"

text \<open>The checks on an approval, and its record in the approval store.\<close>

definition store_approval :: "call \<Rightarrow> dict \<Rightarrow> verified_agent \<Rightarrow> route_decision \<Rightarrow> answer handler" where
  "store_approval C payload v d = (let E = c_env C; cfg = c_cfg C in
      thenA (liftA (enforce_input_policy E payload d))
     (bindA (liftA (approval_checks E cfg v payload)) (\<lambda>approved.
      bindA (liftA (scan_inbound E (JObj payload) cfg)) (\<lambda>(inbound, x).
      if s_blocked (in_scan inbound) then raise_scan C inbound
      else let rec = approval_record E (c_now C) v payload approved in
        thenA (worldA (modA (g_approvals_update (append_jsonl_record E (JObj rec)))))
       (thenA (audit C (approval_event C v d rec inbound))
         (write_json C 200 [(''ok'', JBool True), (''request_id'', JStr (c_id C)), (''approval_id'', dget0 rec ''approval_id'')]))))))"

definition handle_approval :: "call \<Rightarrow> answer handler" where
  "handle_approval C = guarded C []
     (thenA (check_kill_switch C)
     (bindA (read_json_body C) (\<lambda>payload.
      bindA (authorize_fixed C payload ''security.approvals.create'') (\<lambda>(v, d). store_approval C payload v d))))"

definition registration_event :: "call \<Rightarrow> verified_agent \<Rightarrow> route_decision \<Rightarrow> dict \<Rightarrow> inbound_scan \<Rightarrow> dict" where
  "registration_event C v d rec inbound =
     (let listed = (\<lambda>k. case dget0 rec k of JList l \<Rightarrow> l | _ \<Rightarrow> []);
          modes = (\<lambda>k k'. if truthy (dget0 rec k) then [(k, dget0 rec k), (k', dget0 rec k')] else []) in
      [(''event'', JStr ''run_registration''), (''decision'', JStr ''stored'')] @ audit_base (c_id C) (Some v) (c_ip C) (Some d) @
      [(''registered_run_id'', dget0 rec ''run_id''), (''registered_allowed_routes'', JList (take 10 (listed ''allowed_routes''))),
       (''registered_allowed_route_count'', JInt (int (length (listed ''allowed_routes'')))),
       (''registered_denied_route_count'', JInt (int (length (listed ''denied_routes'')))),
       (''registered_allowed_callers'', dget0 rec ''allowed_callers''), (''registered_expires_at'', dget0 rec ''expires_at''),
       (''registered_run_agents'', JList (map JStr (sort (map fst (dict_or_empty (dget0 rec ''run_agents''))))))] @
      modes ''test_mode'' ''test_mode_routes'' @ modes ''read_mode'' ''quarantined_routes'' @
      only_if (truthy (dget0 rec ''fetch_hosts'')) (''fetch_hosts'', dget0 rec ''fetch_hosts'') @
      [(''reason'', dget0 rec ''reason''), (''scan'', JObj (public_scan_for_audit (c_cfg C) (in_scan inbound)))])"

definition registration_answer :: "dict \<Rightarrow> dict" where
  "registration_answer rec =
     map (\<lambda>k. (k, dget0 rec k)) [''run_id'', ''expires_at'', ''allowed_routes'', ''denied_routes'', ''allowed_callers''] @
     [(''run_agents'', JList (map JStr (sort (map fst (dict_or_empty (dget0 rec ''run_agents''))))))]"

definition unscanned_registration_fields :: "string list" where
  "unscanned_registration_fields = [''run_agents'', ''test_mode'', ''read_mode'', ''fetch_hosts'']"

definition store_run :: "call \<Rightarrow> dict \<Rightarrow> verified_agent \<Rightarrow> route_decision \<Rightarrow> answer handler" where
  "store_run C payload v d = (let E = c_env C; cfg = c_cfg C in
      thenA (liftA (enforce_input_policy E payload d))
     (bindA (liftA (build_run_registration_record E (c_now C) (c_fresh C) payload cfg v)) (\<lambda>rec.
      bindA (liftA (scan_inbound E (JObj (filter (\<lambda>(k, _). k \<notin> set unscanned_registration_fields) payload)) cfg)) (\<lambda>(inbound, x).
      if s_blocked (in_scan inbound) then raise_scan C inbound
      else thenA (worldA (modA (g_runs_update (append_jsonl_record E (JObj rec)))))
          (thenA (audit C (registration_event C v d rec inbound))
            (write_json C 200 (registration_answer rec)))))))"

definition handle_run_register :: "call \<Rightarrow> answer handler" where
  "handle_run_register C = guarded C []
     (thenA (check_kill_switch C)
     (bindA (read_json_body C) (\<lambda>payload.
      bindA (authorize_fixed C (AList.delete ''run_id'' payload) ''security.runs.register'') (\<lambda>(v, d). store_run C payload v d))))"

section \<open>Submitting an artifact\<close>

definition scan_metadata :: "call \<Rightarrow> dict \<Rightarrow> verified_agent \<Rightarrow> route_decision \<Rightarrow> (inbound_scan \<times> action_result \<times> route_decision) handler" where
  "scan_metadata C payload v d =
     (let E = c_env C; cfg = c_cfg C; meta = artifact_policy_payload payload in
      bindA (liftA (scan_and_extract_for_route E meta cfg d)) (\<lambda>(inbound, x, d).
      thenA (knows_route d)
     (bindA (liftA (bindE (action_guard E (c_headers C) meta cfg) (\<lambda>r. apply_route_action_guard_policy E r d meta))) (\<lambda>(action, d).
      thenA (knows_route d)
     (if s_blocked (in_scan inbound) then raise_scan C inbound
      else if s_review (in_scan inbound) \<and> block_on_review C d then raiseA (GatewayError 403 ''manual_review_required'')
      else thenA (readA (\<lambda>w. enforce_action_guard E (c_now C) (g_approvals w) d v action)) (retA (inbound, action, d)))))))"

text \<open>The warning of an answer released with findings becomes a part of its manifest.\<close>

definition mark_warned :: "json option \<Rightarrow> dict \<Rightarrow> dict res" where
  "mark_warned wopt manifest = (case wopt of
       None \<Rightarrow> Inr manifest
     | Some wn \<Rightarrow>
         bindE (py_iter (py_or (dget0 manifest ''asg_warnings'') (JList []))) (\<lambda>ws.
         bindE (py_iter (py_or (dget0 manifest ''taint'') (JList []))) (\<lambda>ts.
         bindE (mapE (\<lambda>t. case t of JStr x \<Rightarrow> Inr x | _ \<Rightarrow> Inl (PyError ''TypeError'')) ts) (\<lambda>taint.
           Inr (set_fields manifest [(''asg_warnings'', JList (ws @ [wn])),
                 (''taint'', JList (map JStr (sort (remdups (''describes_untrusted_instructions'' # taint)))))])))))"

definition store_artifact ::
    "call \<Rightarrow> dict \<Rightarrow> verified_agent \<Rightarrow> route_decision \<Rightarrow> string \<Rightarrow> inspection \<Rightarrow> json option \<Rightarrow> dict handler" where
  "store_artifact C payload v d content insp wopt =
     (let E = c_env C; now = c_now C; cfg = c_cfg C in
      bindA (readA (\<lambda>w. build_artifact_manifest E now (c_fresh C) (g_warnings w) (c_id C) v d payload content insp cfg)) (\<lambda>manifest.
      bindA (liftA (artifact_blob_path (py_str E (dget0 manifest ''content_sha256'')))) (\<lambda>blob.
      thenA (worldA (artifactsA (write_blob_once blob content)))
     (bindA (worldA (artifactsA (write_artifact_manifest E now manifest))) (\<lambda>manifest.
      bindA (worldA (artifactsA (write_artifact_index E now manifest))) (\<lambda>manifest.
      bindA (liftA (mark_warned wopt (finalize_artifact_manifest E now manifest insp cfg))) (\<lambda>manifest.
      bindA (worldA (artifactsA (write_artifact_manifest E now manifest))) (\<lambda>manifest.
        worldA (artifactsA (write_artifact_index E now manifest))))))))))"

definition artifact_event :: "call \<Rightarrow> string \<Rightarrow> verified_agent \<Rightarrow> route_decision \<Rightarrow> dict \<Rightarrow> dict" where
  "artifact_event C verdict v d more_fields =
     [(''event'', JStr ''artifact''), (''decision'', JStr verdict)] @ audit_base (c_id C) (Some v) (c_ip C) (Some d) @ more_fields"

definition stored_facts :: "call \<Rightarrow> dict \<Rightarrow> inbound_scan \<Rightarrow> action_result \<Rightarrow> dict" where
  "stored_facts C manifest inbound action =
     [(''artifact_id'', dget0 manifest ''artifact_id''), (''artifact_status'', dget0 manifest ''status''),
      (''artifact_reason'', dget0 manifest ''reason'')] @
     map (\<lambda>k. (k, dget0 manifest k)) [''content_sha256'', ''size_bytes'', ''media_type'', ''detected_media_type''] @
     [(''metadata_scan'', JObj (public_scan_for_audit (c_cfg C) (in_scan inbound))),
      (''artifact_scan'', dget0 (dict_or_empty (dget0 manifest ''inspection'')) ''scan''), (''action_guard'', JObj (action_public_dict action))]"

definition handle_artifact_submit :: "call \<Rightarrow> answer handler" where
  "handle_artifact_submit C = (let E = c_env C; cfg = c_cfg C in guarded C []
     (thenA (check_kill_switch C)
     (bindA (read_json_body C) (\<lambda>payload.
      bindA (authorize C payload) (\<lambda>(v, d).
      thenA (liftA (enforce_artifact_operation d ''submit''))
     (thenA (liftA (enforce_input_policy E payload d))
     (bindA (scan_metadata C payload v d) (\<lambda>(inbound, action, d).
      bindA (liftA (decode_artifact_content E payload)) (\<lambda>content.
      bindA (liftA (artifact_max_bytes cfg d)) (\<lambda>limit.
      thenA (liftA (raise_if (limit < int (length content)) (GatewayError 413 ''request_too_large'')))
     (bindA (liftA (bindE (normalize_media_type (dget0 payload ''media_type'')) (\<lambda>media. inspect_artifact_content E content media cfg)))
       (\<lambda>insp. let (insp, wopt) = apply_injection_review_warning E insp d in
      bindA (store_artifact C payload v d content insp wopt) (\<lambda>manifest.
      thenA (audit C (artifact_event C ''stored'' v d (stored_facts C manifest inbound action)))
        (write_json C 200
          [(''ok'', JBool (dget0 manifest ''status'' \<in> set (map JStr [''verified'', ''verified_with_warnings'', ''needs_review'']))),
           (''request_id'', JStr (c_id C)), (''artifact_ref'', JObj (public_artifact_ref E manifest)),
           (''manifest'', JObj (public_artifact_manifest E manifest))]))))))))))))))"

section \<open>Reading an artifact\<close>

text \<open>The manifest is loaded before the caller is known.\<close>

definition open_artifact :: "call \<Rightarrow> string \<Rightarrow> string \<Rightarrow> (verified_agent \<times> route_decision \<times> dict) handler" where
  "open_artifact C i operation =
     bindA (readA (\<lambda>w. load_artifact_manifest (g_artifacts w) i)) (\<lambda>manifest.
     bindA (identify C) (\<lambda>v.
     let access = artifact_access_payload (c_headers C) manifest in
     bindA (resolve_route C access) (\<lambda>d.
     thenA (check_rate_limit C v)
    (bindA (route_policy C v d) (\<lambda>d.
     thenA (liftA (enforce_artifact_operation d operation))
    (thenA (liftA (enforce_input_policy (c_env C) access d))
    (thenA (liftA (enforce_artifact_access_policy (c_env C) (c_now C) manifest d (c_cfg C)))
      (retA (v, d, manifest)))))))))"

definition handle_artifact_metadata :: "call \<Rightarrow> string \<Rightarrow> answer handler" where
  "handle_artifact_metadata C i = guarded C [(''artifact_id'', JStr i)]
     (thenA (check_kill_switch C)
     (bindA (open_artifact C i ''metadata'') (\<lambda>(v, d, manifest).
      thenA (audit C (artifact_event C ''metadata'' v d [(''artifact_id'', JStr i), (''artifact_status'', dget0 manifest ''status''),
               (''content_sha256'', dget0 manifest ''content_sha256'')]))
        (write_json C 200 [(''ok'', JBool True), (''request_id'', JStr (c_id C)),
           (''manifest'', JObj (public_artifact_manifest (c_env C) manifest))]))))"

definition content_headers :: "call \<Rightarrow> string \<Rightarrow> dict \<Rightarrow> headers" where
  "content_headers C i manifest =
     (let name = safe_artifact_filename (dget0 manifest ''filename''); shown = (if name = [] then i else name) in
      [(''Content-Disposition'', ''attachment; filename='' @ [CHR 0x22] @ shown @ [CHR 0x22]),
       (''X-ASG-Artifact-Id'', i), (''X-ASG-Artifact-SHA256'', py_str (c_env C) (dget0 manifest ''content_sha256'')),
       (''X-ASG-Artifact-Status'', py_str (c_env C) (dget0 manifest ''status''))])"

definition handle_artifact_content :: "call \<Rightarrow> string \<Rightarrow> answer handler" where
  "handle_artifact_content C i = guarded C [(''artifact_id'', JStr i)]
     (thenA (check_kill_switch C)
     (bindA (open_artifact C i ''content'') (\<lambda>(v, d, manifest).
      bindA (readA (\<lambda>w. read_artifact_blob (c_env C) (g_artifacts w) manifest)) (\<lambda>content.
      thenA (liftA (verify_stored_artifact_content (c_env C) content manifest (c_cfg C)))
     (thenA (audit C (artifact_event C ''download'' v d ([(''artifact_id'', JStr i), (''artifact_status'', dget0 manifest ''status'')] @
               map (\<lambda>k. (k, dget0 manifest k)) [''content_sha256'', ''size_bytes'', ''media_type''])))
     (bindA (liftA (normalize_media_type (dget0 manifest ''media_type''))) (\<lambda>media.
        retA (FileAnswer 200 content media (content_headers C i manifest)))))))))"

section \<open>Dispatch\<close>

definition app_name :: string where "app_name = ''agent-security-gateway''"
definition app_version :: string where "app_version = ''0.1.0''"

definition health :: "call \<Rightarrow> dict" where
  "health C = [(''ok'', JBool True), (''app'', JStr app_name), (''version'', JStr app_version),
     (''routes'', JInt (int (length (cfg_routes (c_cfg C)))))]"

text \<open>\<open>c_writable\<close> tells whether the directory of a store exists and is writable.\<close>

definition readiness_checks :: "call \<Rightarrow> world \<Rightarrow> (string \<times> bool) list" where
  "readiness_checks C w =
     [(''config_loaded'', True), (''routes_present'', truthy (dget0 (c_cfg C) ''routes'')),
      (''audit_parent_writable'', c_writable C ''audit''), (''approval_parent_writable'', c_writable C ''approval''),
      (''run_store_parent_writable'', c_writable C ''run_store''), (''artifact_store_parent_writable'', c_writable C ''artifact_store''),
      (''kill_switch_inactive'', \<not> g_kill w)]"

definition readiness_status :: "call \<Rightarrow> world \<Rightarrow> bool \<times> dict" where
  "readiness_status C w =
     (let checks = readiness_checks C w; ok = list_all snd checks in
      (ok, [(''ok'', JBool ok), (''app'', JStr app_name), (''version'', JStr app_version),
            (''checks'', JObj (map (\<lambda>(k, b). (k, JBool b)) checks))]))"

definition parse_artifact_get_path :: "string \<Rightarrow> (string \<times> string) option" where
  "parse_artifact_get_path p = (case split_on CHR ''/'' (strip_by (\<lambda>c. c = CHR ''/'') p) of
       [a, b, i, operation] \<Rightarrow>
         if a = ''v1'' \<and> b = ''artifacts'' \<and> operation \<in> {''metadata'', ''content''} \<and> artifact_id_ok i then Some (i, operation) else None
     | _ \<Rightarrow> None)"

definition not_found :: "call \<Rightarrow> answer handler" where
  "not_found C = write_json C 404 (error_body C 404 ''not_found'')"

definition do_GET :: "call \<Rightarrow> answer handler" where
  "do_GET C = bindA (liftA (urlsplit (c_env C) (c_target C))) (\<lambda>u.
     if u_path u = ''/healthz'' then write_json C 200 (health C)
     else if u_path u = ''/readyz'' then (\<lambda>s. let (ok, body) = readiness_status C (h_world s) in
       write_json C (if ok then 200 else 503) body s)
     else if u_path u = ''/routes'' then handle_routes C
     else case parse_artifact_get_path (u_path u) of
       Some (i, operation) \<Rightarrow> if operation = ''metadata'' then handle_artifact_metadata C i else handle_artifact_content C i
     | None \<Rightarrow> not_found C)"

definition do_POST :: "call \<Rightarrow> answer handler" where
  "do_POST C = bindA (liftA (urlsplit (c_env C) (c_target C))) (\<lambda>u.
     if u_path u = ''/inspect'' then handle_inspect C
     else if u_path u \<in> {''/v1/chat/completions'', ''/v1/tasks'', ''/v1/results''} then handle_routed_request C
     else if u_path u = ''/v1/artifacts'' then handle_artifact_submit C
     else if u_path u = ''/v1/approvals'' then handle_approval C
     else if u_path u = ''/v1/runs'' then handle_run_register C
     else not_found C)"

datatype http_method = GET | POST

definition serve :: "http_method \<Rightarrow> call \<Rightarrow> answer handler" where
  "serve meth C = (case meth of GET \<Rightarrow> do_GET C | POST \<Rightarrow> do_POST C)"

section \<open>Every request is answered\<close>


text \<open>The bodies written outside a \<open>try\<close> are constants of the source.\<close>

lemma public_bodies_encode:
  "body_encodes C (health C)" "body_encodes C (snd (readiness_status C w))" "body_encodes C (error_body C 404 ''not_found'')"
proof -
  have "list_all (list_all (\<lambda>c. \<not> digit7 c)) [''ok'', ''app'', ''version'', ''routes'', ''checks'', app_name, app_version,
      ''config_loaded'', ''routes_present'', ''audit_parent_writable'', ''approval_parent_writable'', ''run_store_parent_writable'',
      ''artifact_store_parent_writable'', ''kill_switch_inactive'']" by code_simp
  then show "body_encodes C (health C)" "body_encodes C (snd (readiness_status C w))"
    unfolding body_encodes_def health_def readiness_status_def readiness_checks_def Let_def
    by (simp_all add: ascii_encodes)
  show "body_encodes C (error_body C 404 ''not_found'')"
    by (rule fixed_error_encodes(2)) (simp add: fixed_messages_def)
qed



section \<open>The kill switch stops everything\<close>

definition refused :: "call \<Rightarrow> answer handler \<Rightarrow> hstate \<Rightarrow> bool" where
  "refused C m s \<longleftrightarrow> (\<exists>n err a. m s = (Inr (Answer n (error_body C n err)), logged a s) \<and> n \<in> {404, 500, 503})"

lemma refused_steps:
  assumes "g_kill (h_world s)" "\<not> h_expired s"
  shows "refused C (guarded C extra (thenA (check_kill_switch C) m)) s" "refused C (not_found C) s"
    "(b \<Longrightarrow> refused C k1 s) \<Longrightarrow> (\<not> b \<Longrightarrow> refused C k2 s) \<Longrightarrow> refused C (if b then k1 else k2) s"
proof -
  show "refused C (guarded C extra (thenA (check_kill_switch C) m)) s"
    using kill_switch_denies[OF assms, of C extra m] unfolding refused_def by blast
  have "s = logged (g_audit (h_world s)) s" by (simp add: logged_self)
  then show "refused C (not_found C) s"
    using assms(2) public_bodies_encode(3)[of C] by (auto simp: refused_def not_found_def write_json_def)
qed simp

text \<open>C29: While the kill switch is on, no request but the two health checks does anything: the answer is an error,
  nothing is handed to a backend, and of the whole state only the audit log grows.\<close>

theorem kill_switch_stops_requests:
  assumes "g_kill w" and "urlsplit (c_env C) (c_target C) = Inr u" and "u_path u \<notin> {''/healthz'', ''/readyz''}"
  shows "\<exists>n err a. serve meth C (fresh_request w) =
      (Inr (Answer n (json_error err (error_message C n err) (c_id C))), (fresh_request w)\<lparr>h_world := w\<lparr>g_audit := a\<rparr>\<rparr>) \<and> n \<in> {404, 500, 503}"
proof -
  let ?s = "fresh_request w"
  have k: "g_kill (h_world ?s)" "\<not> h_expired ?s" using assms(1) by (simp_all add: fresh_request_def)
  note r = refused_steps[OF k]
  have h: "refused C (handle_inspect C) ?s" "refused C (handle_routes C) ?s" "refused C (handle_approval C) ?s"
    "refused C (handle_run_register C) ?s" "refused C (handle_artifact_submit C) ?s" "refused C (handle_routed_request C) ?s"
    "refused C (handle_artifact_metadata C i) ?s" "refused C (handle_artifact_content C i) ?s" for i
    unfolding handle_inspect_def handle_routes_def handle_approval_def handle_run_register_def handle_artifact_submit_def
      handle_artifact_metadata_def handle_artifact_content_def handle_routed_request_def Let_def by (rule r(1))+
  have bind: "refused C (f u) ?s \<Longrightarrow> refused C (bindA (liftA (urlsplit (c_env C) (c_target C))) f) ?s" for f
    by (simp add: refused_def bindA_def assms(2))
  have artifact: "refused C (case parse_artifact_get_path p of
       Some (i, operation) \<Rightarrow> if operation = ''metadata'' then handle_artifact_metadata C i else handle_artifact_content C i
     | None \<Rightarrow> not_found C) ?s" for p
    by (auto simp: h r(2) split: option.split)
  have "refused C (serve meth C) ?s"
  proof (cases meth)
    case GET
    have "refused C (do_GET C) ?s" unfolding do_GET_def by (rule bind) (use assms(3) h artifact in simp)
    then show ?thesis by (simp add: serve_def GET)
  next
    case POST
    show ?thesis unfolding serve_def POST http_method.case do_POST_def by (intro bind r(3) h r(2))
  qed
  then show ?thesis by (auto simp: refused_def logged_def fresh_request_def error_body_def)
qed

theorem kill_switch_stops_requests_witness:
  "\<exists>n err msg a. serve POST (demo_call\<lparr>c_target := ''/v1/tasks''\<rparr>) (fresh_request (demo_trip_world\<lparr>g_kill := True\<rparr>)) =
      (Inr (Answer n (json_error err msg ''req_1'')),
       (fresh_request (demo_trip_world\<lparr>g_kill := True\<rparr>))\<lparr>h_world := demo_trip_world\<lparr>g_kill := True, g_audit := a\<rparr>\<rparr>) \<and> n \<in> {404, 500, 503}"
proof -
  let ?u = "\<lparr>u_scheme = [], u_netloc = [], u_host = [], u_path = ''/v1/tasks'', u_query = [], u_fragment = [],
       u_userinfo = False, u_port = Some None\<rparr>"
  have "urlsplit (c_env (demo_call\<lparr>c_target := ''/v1/tasks''\<rparr>)) (c_target (demo_call\<lparr>c_target := ''/v1/tasks''\<rparr>)) = Inr ?u"
    by (simp add: urlsplit_def demo_call_def demo_http_env_def)
  from kill_switch_stops_requests[where w = "demo_trip_world\<lparr>g_kill := True\<rparr>" and meth = POST, OF _ this]
  obtain n err a where "serve POST (demo_call\<lparr>c_target := ''/v1/tasks''\<rparr>) (fresh_request (demo_trip_world\<lparr>g_kill := True\<rparr>)) =
      (Inr (Answer n (json_error err (error_message (demo_call\<lparr>c_target := ''/v1/tasks''\<rparr>) n err) (c_id (demo_call\<lparr>c_target := ''/v1/tasks''\<rparr>)))),
       (fresh_request (demo_trip_world\<lparr>g_kill := True\<rparr>))\<lparr>h_world := demo_trip_world\<lparr>g_kill := True, g_audit := a\<rparr>\<rparr>)"
    "n \<in> {404, 500, 503}" by auto
  moreover have "c_id (demo_call\<lparr>c_target := ''/v1/tasks''\<rparr>) = ''req_1''" by (simp add: demo_call_def)
  ultimately show ?thesis by metis
qed

section \<open>What releases an artifact\<close>

lemma guarded_file:
  assumes "guarded C extra m s = (Inr (FileAnswer n content media hs), t)"
  shows "m s = (Inr (FileAnswer n content media hs), t)"
proof -
  obtain r u where m: "m s = (r, u)" by fastforce
  have d: "\<not> (thenA k (write_json C n' body) u' = (Inr (FileAnswer n content media hs), t))" for k :: "unit handler" and n' body u'
    by (auto simp: thenA_Inr write_json_def)
  show ?thesis
  proof (cases r)
    case (Inl e)
    then show ?thesis using assms m d by (cases e) (auto simp: guarded_def deny_def internal_error_def)
  next
    case (Inr a)
    then show ?thesis using assms m by (simp add: guarded_def)
  qed
qed

lemma check_rate_limit_frame: "check_rate_limit C v s = (Inr (), t) \<Longrightarrow> \<exists>L. h_world t = (h_world s)\<lparr>g_limiter := L\<rparr>"
  by (auto simp: check_rate_limit_def admit_agent_def bindA_Inr worldA_Inr limiterA_def raiseA_def Let_def
      intro: exI[of _ "g_limiter (h_world s)"] split: if_splits prod.splits)

text \<open>Everything \<open>open_artifact\<close> has checked, in the world it found.\<close>

definition may_open :: "call \<Rightarrow> world \<Rightarrow> string \<Rightarrow> string \<Rightarrow> verified_agent \<Rightarrow> route_decision \<Rightarrow> dict \<Rightarrow> bool" where
  "may_open C w i operation v d manifest \<longleftrightarrow>
     load_artifact_manifest (g_artifacts w) i = Inr manifest \<and>
     verify_agent (c_env C) (c_cfg C) (g_runs w) (g_revoked w) (c_now C) (c_headers C) (c_ip C) = Inr v \<and>
     (\<exists>d0. resolve_route_decision (c_env C) (c_headers C) (artifact_access_payload (c_headers C) manifest) (c_cfg C) = Inr d0 \<and>
        enforce_route_policy (c_env C) (c_now C) (c_cfg C) v d0 w = (Inr d, w)) \<and>
     enforce_artifact_operation d operation = Inr () \<and>
     enforce_input_policy (c_env C) (artifact_access_payload (c_headers C) manifest) d = Inr () \<and>
     enforce_artifact_access_policy (c_env C) (c_now C) manifest d (c_cfg C) = Inr ()"

lemma open_artifact_Inr:
  assumes "open_artifact C i operation s = (Inr (v, d, manifest), t)"
  shows "may_open C (h_world s) i operation v d manifest \<and> (\<exists>L. h_world t = (h_world s)\<lparr>g_limiter := L\<rparr>)"
proof -
  from assms obtain d0 t1 w where
    m: "load_artifact_manifest (g_artifacts (h_world s)) i = Inr manifest"
    and v: "verify_agent (c_env C) (c_cfg C) (g_runs (h_world s)) (g_revoked (h_world s)) (c_now C) (c_headers C) (c_ip C) = Inr v"
    and d0: "resolve_route_decision (c_env C) (c_headers C) (artifact_access_payload (c_headers C) manifest) (c_cfg C) = Inr d0"
    and r: "check_rate_limit C v (s\<lparr>h_verified := Some v, h_decision := Some d0\<rparr>) = (Inr (), t1)"
    and p: "enforce_route_policy (c_env C) (c_now C) (c_cfg C) v d0 (h_world t1) = (Inr d, w)"
    and rest: "enforce_artifact_operation d operation = Inr ()"
      "enforce_input_policy (c_env C) (artifact_access_payload (c_headers C) manifest) d = Inr ()"
      "enforce_artifact_access_policy (c_env C) (c_now C) manifest d (c_cfg C) = Inr ()" and t: "h_world t = w"
    by (auto simp: open_artifact_def identify_def authenticate_def resolve_route_def route_policy_def thenA_Inr bindA_Inr readA_apply
        worldA_Inr knows_agent_def knows_route_def Let_def)
  obtain L where L: "h_world t1 = (h_world s)\<lparr>g_limiter := L\<rparr>" using check_rate_limit_frame[OF r] by auto
  have "w = h_world t1" using policy_passes[OF p] .
  moreover have "enforce_route_policy (c_env C) (c_now C) (c_cfg C) v d0 (h_world s) = (Inr d, h_world s)"
    using policy_by_runs[OF p] L by simp
  ultimately show ?thesis using m v d0 rest t L by (auto simp: may_open_def)
qed

lemma read_blob_digest:
  assumes "read_artifact_blob E store manifest = Inr content"
  shows "dget0 manifest ''content_sha256'' = JStr (e_sha_bytes E content)"
proof -
  from assms obtain p where "(case map_of store p of
       Some (RawFile content) \<Rightarrow>
         if JStr (e_sha_bytes E content) \<noteq> dget0 manifest ''content_sha256'' then Inl (GatewayError 500 ''artifact_integrity_error'')
         else Inr content
     | _ \<Rightarrow> Inl store_error) = Inr content"
    unfolding read_artifact_blob_def bindE_Inr by blast
  then show ?thesis by (cases "map_of store p") (auto split: afile.splits if_splits)
qed

text \<open>C30: The content of an artifact leaves the gateway only for an authenticated caller whose route may read content,
  under the scope and within the retention of the artifact and only in a status the route allows; the bytes have the digest
  of the manifest, and the download is in the audit log. Content in status \<open>verified\<close> was inspected again just now and is
  verified, and content in status \<open>verified_with_warnings\<close> was too, or its findings are of the kind a warning covers;
  content in any other status that the route allows is released without a new inspection.\<close>

theorem artifact_content_released:
  assumes "handle_artifact_content C i (fresh_request w) = (Inr (FileAnswer n content media hs), t)"
  shows "\<exists>v d manifest event. \<not> g_kill w \<and> may_open C w i ''content'' v d manifest \<and>
    py_str (c_env C) (dget manifest ''status'' (JStr [])) \<in> set (artifact_allowed_statuses (c_env C) d) \<and>
    enforce_artifact_retention (c_env C) (c_now C) manifest (c_cfg C) = Inr () \<and>
    dget0 manifest ''content_sha256'' = JStr (e_sha_bytes (c_env C) content) \<and>
    (dget0 manifest ''status'' = JStr ''verified'' \<longrightarrow>
      (\<exists>insp. inspect_artifact_content (c_env C) content media (c_cfg C) = Inr insp \<and> i_status insp = ''verified'')) \<and>
    (dget0 manifest ''status'' = JStr ''verified_with_warnings'' \<longrightarrow>
      (\<exists>insp. inspect_artifact_content (c_env C) content media (c_cfg C) = Inr insp \<and> (i_status insp = ''verified'' \<or>
         i_status insp = ''needs_review'' \<and> i_reason insp = ''artifact_scan_requires_review'' \<and>
         artifact_warning_eligible (i_scan insp) warning_release_prefixes))) \<and>
    n = 200 \<and> normalize_media_type (dget0 manifest ''media_type'') = Inr media \<and>
    audit_write (c_env C) (e_isosec (c_env C) (c_now C)) (artifact_event C ''download'' v d
      ([(''artifact_id'', JStr i), (''artifact_status'', dget0 manifest ''status'')] @
       map (\<lambda>k. (k, dget0 manifest k)) [''content_sha256'', ''size_bytes'', ''media_type''])) (g_audit w) = (Inr event, g_audit (h_world t))"
proof -
  from guarded_file[OF assms[unfolded handle_artifact_content_def]] obtain s0 v d manifest s1 s2 where
    k: "check_kill_switch C (fresh_request w) = (Inr (), s0)" and o: "open_artifact C i ''content'' s0 = (Inr (v, d, manifest), s1)"
    and b: "read_artifact_blob (c_env C) (g_artifacts (h_world s1)) manifest = Inr content"
    and vs: "verify_stored_artifact_content (c_env C) content manifest (c_cfg C) = Inr ()"
    and a: "audit C (artifact_event C ''download'' v d
      ([(''artifact_id'', JStr i), (''artifact_status'', dget0 manifest ''status'')] @
       map (\<lambda>k. (k, dget0 manifest k)) [''content_sha256'', ''size_bytes'', ''media_type''])) s1 = (Inr (), s2)"
    and m: "normalize_media_type (dget0 manifest ''media_type'') = Inr media" "n = 200" "t = s2"
    by (auto simp: thenA_Inr bindA_Inr readA_apply)
  have s0: "h_world s0 = w" "\<not> g_kill w" using kill_switch_passes[OF k] by (simp_all add: fresh_request_def)
  note o' = open_artifact_Inr[OF o, unfolded s0(1)]
  then have e: "enforce_artifact_access_policy (c_env C) (c_now C) manifest d (c_cfg C) = Inr ()" by (simp add: may_open_def)
  have "dget0 manifest ''content_sha256'' = JStr (e_sha_bytes (c_env C) content)"
    using b by (rule read_blob_digest)
  moreover have "\<exists>insp. inspect_artifact_content (c_env C) content media (c_cfg C) = Inr insp \<and> i_status insp = ''verified''"
    if "dget0 manifest ''status'' = JStr ''verified''"
    using vs m(1) that by (auto simp: verify_stored_artifact_content_def member_def bindE_Inr raise_if_Inr split: if_splits)
  moreover have "\<exists>insp. inspect_artifact_content (c_env C) content media (c_cfg C) = Inr insp \<and> (i_status insp = ''verified'' \<or>
      i_status insp = ''needs_review'' \<and> i_reason insp = ''artifact_scan_requires_review'' \<and>
      artifact_warning_eligible (i_scan insp) warning_release_prefixes)"
    if "dget0 manifest ''status'' = JStr ''verified_with_warnings''"
    using vs m(1) that by (auto simp: verify_stored_artifact_content_def member_def bindE_Inr raise_if_Inr split: if_splits)
  moreover obtain L where L: "h_world s1 = w\<lparr>g_limiter := L\<rparr>" using o' by blast
  moreover have "\<exists>event. audit_write (c_env C) (e_isosec (c_env C) (c_now C)) (artifact_event C ''download'' v d
      ([(''artifact_id'', JStr i), (''artifact_status'', dget0 manifest ''status'')] @
       map (\<lambda>k. (k, dget0 manifest k)) [''content_sha256'', ''size_bytes'', ''media_type''])) (g_audit w) = (Inr event, g_audit (h_world s2))"
    using a L by (auto simp: audit_def thenA_Inr worldA_Inr write_audit_def split: prod.splits)
  moreover have "py_str (c_env C) (dget manifest ''status'' (JStr [])) \<in> set (artifact_allowed_statuses (c_env C) d)"
    "enforce_artifact_retention (c_env C) (c_now C) manifest (c_cfg C) = Inr ()"
    using e by (auto simp: enforce_artifact_access_policy_def thenE_Inr raise_if_Inr)
  ultimately show ?thesis
    using s0(2) o' m unfolding m(3) by blast
qed

definition demo_file_cfg :: dict where
  "demo_file_cfg = [(''agents'', JObj [(''a'', JObj [(''token_sha256'', JStr ''h''), (''allowed_routes'', JList [JStr ''r'']),
       (''allowed_capabilities'', JList [JStr ''download_artifact''])])]),
     (''routes'', JObj [(''r'', JObj [(''kind'', JStr ''artifact''), (''allowed_callers'', JList [JStr ''a'']),
       (''required_capability'', JStr ''download_artifact''), (''input_policy'', JObj [(''allow_missing_taint'', JBool True)]),
       (''artifact_policy'', JObj [(''allowed_operations'', JList [JStr ''content'']), (''allowed_statuses'', JList [JStr ''verified''])])])])]"

definition demo_file_manifest :: dict where
  "demo_file_manifest = [(''artifact_id'', JStr demo_art), (''status'', JStr ''verified''), (''media_type'', JStr ''text/plain''),
     (''content_sha256'', JStr demo_digest), (''created_at'', JStr ''0''), (''taint'', JList [])]"

definition demo_file_world :: world where
  "demo_file_world = demo_empty_world\<lparr>g_artifacts := [([''manifests'', json_name demo_art], JsonFile (JObj demo_file_manifest)),
     ([''blobs'', ''sha256'', take 2 demo_digest, demo_digest], RawFile ''ok'')]\<rparr>"

definition demo_file_call :: call where
  "demo_file_call = demo_call\<lparr>c_env := demo_task_env\<lparr>e_sha_bytes := (\<lambda>s. demo_digest)\<rparr>, c_cfg := demo_file_cfg,
     c_headers := [(''Authorization'', ''Bearer tok''), (''X-ASG-Route'', ''r''), (''X-Agent-Capability'', ''download_artifact'')]\<rparr>"

definition demo_reader :: verified_agent where
  "demo_reader = \<lparr>va_agent_id = ''a'', va_agent = dict_or_empty (dget0 (cfg_agents demo_file_cfg) ''a''), va_principal = [], va_bound_run_id = []\<rparr>"

definition demo_file_route :: route_decision where
  "demo_file_route = \<lparr>rd_route_id = ''r'', rd_route = route_dict demo_file_cfg ''r'', rd_capability = ''download_artifact'',
     rd_run_id = None, rd_task_id = None, rd_taint = [], rd_warnings = []\<rparr>"

definition demo_file_state :: hstate where
  "demo_file_state = (fresh_request (demo_file_world\<lparr>g_limiter :=
     \<lparr>rl_events = [(''agent:a:10.0.0.1'', [0])], rl_expires = [(''agent:a:10.0.0.1'', 60)]\<rparr>\<rparr>))
     \<lparr>h_admitted := True, h_verified := Some demo_reader, h_decision := Some demo_file_route\<rparr>"

lemma demo_open: "open_artifact demo_file_call demo_art ''content'' (fresh_request demo_file_world) =
    (Inr (demo_reader, demo_file_route, demo_file_manifest), demo_file_state)"
  by code_simp

lemma demo_blob: "read_artifact_blob (c_env demo_file_call) (g_artifacts (h_world demo_file_state)) demo_file_manifest = Inr ''ok''"
  by code_simp

lemma demo_reinspection: "verify_stored_artifact_content (c_env demo_file_call) ''ok'' demo_file_manifest (c_cfg demo_file_call) = Inr ()"
  by code_simp

lemma audit_empty:
  assumes "g_audit (h_world s) = None"
  shows "\<exists>a. audit C event s = (Inr (), logged a s)"
proof (rule audit_cases[of C event s])
  fix name
  assume "audit C event s = (Inl (PyError name), s)"
  then show ?thesis
    using assms by (simp add: audit_def thenA_def bindA_def worldA_def write_audit_def audit_write_def last_hash_def no_audit_lines Let_def
      split: prod.splits)
qed blast

theorem artifact_content_released_witness:
  "\<exists>n content media hs v d. fst (handle_artifact_content demo_file_call demo_art (fresh_request demo_file_world)) =
      Inr (FileAnswer n content media hs) \<and> may_open demo_file_call demo_file_world demo_art ''content'' v d demo_file_manifest"
proof -
  let ?s = "fresh_request demo_file_world"
  have k: "check_kill_switch demo_file_call ?s = (Inr (), ?s)"
    by (simp add: check_kill_switch_def fresh_request_def demo_file_world_def demo_empty_world_def)
  have m: "normalize_media_type (dget0 demo_file_manifest ''media_type'') = Inr ''text/plain''" by code_simp
  have a: "\<exists>a. audit demo_file_call event demo_file_state = (Inr (), logged a demo_file_state)" for event
    by (rule audit_empty) (simp add: demo_file_state_def fresh_request_def demo_file_world_def demo_empty_world_def)
  obtain t hs where h: "handle_artifact_content demo_file_call demo_art ?s = (Inr (FileAnswer 200 ''ok'' ''text/plain'' hs), t)"
  proof -
    obtain a where "audit demo_file_call (artifact_event demo_file_call ''download'' demo_reader demo_file_route
      ([(''artifact_id'', JStr demo_art), (''artifact_status'', dget0 demo_file_manifest ''status'')] @
       map (\<lambda>k. (k, dget0 demo_file_manifest k)) [''content_sha256'', ''size_bytes'', ''media_type''])) demo_file_state =
      (Inr (), logged a demo_file_state)" using a by blast
    then show thesis
      using that by (simp add: handle_artifact_content_def guarded_def k demo_open readA_apply demo_blob demo_reinspection m bindA_def thenA_def)
  qed
  obtain v d manifest where "may_open demo_file_call demo_file_world demo_art ''content'' v d manifest"
    using artifact_content_released[OF h] by blast
  moreover have "load_artifact_manifest (g_artifacts demo_file_world) demo_art = Inr demo_file_manifest" by code_simp
  ultimately show ?thesis using h by (fastforce simp: may_open_def)
qed

end
