(* ===== verification/Endpoint_Effects.thy ===== *)
theory Endpoint_Effects
  imports Endpoints
begin

text \<open>
  Which endpoint changes which store. The locale states what a part of the world must not depend
  on for a handler to leave it alone; the approval store and the run store are its two instances.
\<close>

section \<open>A part of the world most handlers leave alone\<close>

locale kept_part =
  fixes part :: "world \<Rightarrow> 'p"
  assumes part_audit: "part (w\<lparr>g_audit := a\<rparr>) = part w"
    and part_canary: "part (w\<lparr>g_cache := c, g_revoked := r, g_kill := k\<rparr>) = part w"
    and part_cache: "part (w\<lparr>g_cache := c\<rparr>) = part w"
    and part_trip: "part (w\<lparr>g_revoked := r, g_kill := k\<rparr>) = part w"
    and part_limiter: "part (w\<lparr>g_limiter := L\<rparr>) = part w"
    and part_artifacts: "part (w\<lparr>g_artifacts := s\<rparr>) = part w"
    and part_evidence: "part (w\<lparr>g_evidence := e\<rparr>) = part w"
    and part_warnings: "part (w\<lparr>g_warnings := e\<rparr>) = part w"
    and part_quota: "part (w\<lparr>g_quota := q\<rparr>) = part w"
begin

definition kept :: "world \<Rightarrow> world \<Rightarrow> bool" where
  "kept w w' \<longleftrightarrow> part w' = part w"

definition keeps :: "hstate \<Rightarrow> hstate \<Rightarrow> bool" where
  "keeps s t \<longleftrightarrow> part (h_world t) = part (h_world s)"

lemmas part_laws = part_audit part_canary part_cache part_trip part_limiter part_artifacts part_evidence part_warnings part_quota

lemma kept_order: "reflp kept" "transp kept" "reflp keeps" "transp keeps"
  by (auto simp: kept_def keeps_def reflp_def transp_def)

lemmas kept_basic = stable_pure[OF kept_order(1)] stable_bindA[OF kept_order(2)] stable_thenA[OF kept_order(2)]
  stable_pure[OF kept_order(3)] stable_bindA[OF kept_order(4)] stable_thenA[OF kept_order(4)] stable_if stable_cases

lemma kept_world:
  "stable kept (raiseA e)" "stable kept (write_audit E now event)" "stable kept (limiterA l)" "stable kept (artifactsA m)"
  "stable kept (enforce_canary E now cfg node a ip src)" "stable kept (enforce_route_policy E now cfg v d)"
  "(\<And>w. kept w (g w)) \<Longrightarrow> stable kept (modA g)"
  by (auto simp: stable_def kept_def raiseA_def write_audit_def limiterA_def artifactsA_def enforce_canary_def
      enforce_route_policy_def trip_decoy_def thenA_def bindA_def liftA_def getsA_def retA_def Let_def part_laws
      split: prod.splits sum.splits)

lemma kept_handler:
  "stable kept m \<Longrightarrow> stable keeps (worldA m)" "stable keeps (readA f)" "stable keeps (raiseA e)"
  "stable keeps (knows_agent v)" "stable keeps (knows_route d)" "stable keeps (write_json C n body)"
  "(\<And>s. keeps s (h s)) \<Longrightarrow> stable keeps (modA h)" "stable keeps k \<Longrightarrow> stable keeps (ignoreA k)"
  by (auto simp: stable_def kept_def keeps_def worldA_def readA_def raiseA_def knows_agent_def knows_route_def write_json_def
      ignoreA_def split_beta Let_def)

lemma kept_audit: "stable keeps (audit C event)"
  by (auto simp: audit_def intro!: kept_basic kept_handler kept_world)

lemmas kept_intros = kept_basic kept_handler kept_audit kept_world

lemma kept_catch: "stable keeps m \<Longrightarrow> (\<And>e. stable keeps (h e)) \<Longrightarrow> stable keeps (catchA m h)"
  unfolding stable_def catchA_def by (auto simp: keeps_def split: prod.splits sum.splits) (metis snd_conv)+

lemma kept_deny: "stable keeps (deny C n err v d extra)" "stable keeps (internal_error C name)"
proof -
  have "stable keeps (thenA (ignoreA (audit C event)) (write_json C n body))" for event n body by (intro kept_intros)
  then show "stable keeps (deny C n err v d extra)" "stable keeps (internal_error C name)"
    by (simp_all add: deny_def internal_error_def stable_def)
qed

lemma kept_guarded: "stable keeps m \<Longrightarrow> stable keeps (guarded C extra m)"
  unfolding guarded_def
proof (rule kept_catch)
  fix e
  show "stable keeps (\<lambda>s. case e of GatewayError n err \<Rightarrow> deny C n err (h_verified s) (h_decision s) extra s
     | PyError name \<Rightarrow> internal_error C name s)"
    using kept_deny by (cases e) (simp_all add: stable_def)
qed

section \<open>The steps of a handler\<close>

lemma kept_start:
  "stable keeps (check_kill_switch C)" "stable keeps (read_json_body C)" "stable keeps (identify C)" "stable keeps (authenticate C)"
  "stable keeps (resolve_route C payload)" "stable keeps (check_rate_limit C v)" "stable keeps (route_policy C v d)"
  "stable keeps (raise_scan C inbound)"
proof -
  have a: "stable keeps (authenticate C)" unfolding authenticate_def by (intro kept_intros)
  have b: "stable keeps (admit_agent C v)" for v unfolding admit_agent_def by (intro kept_intros) (simp add: keeps_def)
  have c: "stable keeps (receive C n)" for n
    unfolding receive_def by (cases "c_body C") (auto intro!: kept_intros simp: keeps_def)
  have d: "stable keeps (thenA (audit C event) (raiseA e :: unit handler))" for event e by (intro kept_intros)
  have p: "stable keeps (thenA (knows_route x) (worldA (enforce_route_policy (c_env C) (c_now C) (c_cfg C) v d)))" for x v d
    by (intro kept_intros)
  show "stable keeps (authenticate C)" by (rule a)
  show "stable keeps (check_kill_switch C)" using d by (simp add: check_kill_switch_def stable_def reflpD[OF kept_order(3)])
  show "stable keeps (read_json_body C)" unfolding read_json_body_def by (intro kept_intros a b c)
  show "stable keeps (identify C)" unfolding identify_def by (intro kept_intros a)
  show "stable keeps (resolve_route C payload)" unfolding resolve_route_def by (intro kept_intros)
  show "stable keeps (check_rate_limit C v)" using b[of v] by (simp add: check_rate_limit_def stable_def reflpD[OF kept_order(3)])
  show "stable keeps (route_policy C v d)" using p by (simp add: route_policy_def stable_def)
  show "stable keeps (raise_scan C inbound)" unfolding raise_scan_def by (intro kept_intros) (simp add: keeps_def)
qed

lemma kept_authorize: "stable keeps (authorize C payload)" "stable keeps (authorize_fixed C payload i)"
  unfolding authorize_def authorize_fixed_def by (intro kept_intros kept_start)+

lemma kept_backends:
  "stable kept (forward_openai_chat E words send fresh now cfg payload d v)"
  "stable kept (forward_artifact_review E send fresh now cfg payload d v request_id ip)"
  "stable kept (enforce_output_guard E now cfg d upstream)"
proof -
  have f: "stable kept (drop_response_message_fields E now cfg parsed backend)" for parsed backend
    unfolding drop_response_message_fields_def
    by (cases "dget0 backend ''drop_response_message_fields''") (auto intro!: kept_intros)
  have r: "stable kept (chat_reply E now cfg backend reply)" for backend reply
    by (cases reply) (auto split: option.split json.split intro!: kept_intros f)
  show "stable kept (forward_openai_chat E words send fresh now cfg payload d v)"
    unfolding forward_openai_chat_def Let_def by (intro kept_intros r)
  have a: "stable kept (authorize_artifact_scope E now manifest d v cfg)" for manifest d
    unfolding authorize_artifact_scope_def by (intro kept_intros)
  have o: "stable kept (open_for_review E now cfg payload d v)" for d
    unfolding open_for_review_def by (intro kept_intros a)
  have n: "stable kept (needs_review E now request_id v ip d i manifest reason extra)" for d i manifest reason extra
    unfolding needs_review_def by (intro kept_intros)
  have t: "stable kept (store_summary E now fresh cfg request_id v ip d i manifest reviewed content insp)"
    for d i manifest reviewed content insp
    unfolding store_summary_def Let_def by (intro kept_intros)
  show "stable kept (forward_artifact_review E send fresh now cfg payload d v request_id ip)"
    unfolding forward_artifact_review_def Let_def by (intro kept_intros o n t)
  show "stable kept (enforce_output_guard E now cfg d upstream)" unfolding enforce_output_guard_def by (intro kept_intros)
qed

lemma kept_forward: "stable keeps (forward C payload d v i)" "stable keeps (try_delivery C receipt d v)"
proof -
  have f: "stable keeps (forward C payload d v i)" for payload i
    unfolding forward_def Let_def by (intro kept_intros kept_backends) (simp add: keeps_def)
  then show "stable keeps (forward C payload d v i)" .
  have "stable keeps (deliver_result_audit_receipt C receipt d v)"
    unfolding deliver_result_audit_receipt_def by (intro kept_intros kept_backends f)
  moreover have "stable keeps (case e of GatewayError n err \<Rightarrow> retA [(''ok'', JBool False), (''error'', JStr err), (''status'', JInt (int n))]
     | PyError name \<Rightarrow> raiseA (PyError name))" for e
    by (cases e) (auto intro: kept_intros)
  ultimately show "stable keeps (try_delivery C receipt d v)" unfolding try_delivery_def by (intro kept_catch)
qed

lemma kept_modes:
  "stable keeps (evidence C X stage body fs output)" "stable keeps (run_warningA C X stage outcome fs' risk txt')"
  "stable keeps (count_model_call C d)"
  by (auto simp: evidence_def run_warningA_def count_model_call_def kept_def record_run_warning_def write_test_mode_evidence_def
      Let_def part_laws split: option.split json.split intro!: kept_intros)

lemma kept_refuse: "stable keeps (refuse C X event verdict reason message n)"
  unfolding refuse_def maybe_deliver_block_receipt_def Let_def by (intro kept_intros kept_forward)

lemma kept_action_stage: "stable keeps (action_guard_stage C X mode event)"
proof -
  have t: "stable keeps (thenA (run_warningA C X ''action_guard'' o' fs 10 body) (thenA (audit C ev) (thenA (evidence C X ''action_guard'' body fs None)
      (retA (Pass event')))))" for o' fs body ev event' by (intro kept_intros kept_modes)
  have r: "stable keeps (thenA (run_warningA C X ''action_guard'' o' fs 10 body) (bindA (refuse C X event ''deny'' err message n) (\<lambda>a. retA (Refused a))))"
    for o' fs body err message n by (intro kept_intros kept_modes kept_refuse)
  have "keeps s s" for s by (simp add: keeps_def)
  then show ?thesis using t r by (auto simp: stable_def action_guard_stage_def Let_def split: sum.split exn.split)
qed

lemma kept_routed: "stable keeps (handle_routed_request C)"
proof -
  have x: "stable keeps (examine C payload v d)" for payload v d unfolding examine_def by (intro kept_intros)
  have g: "stable keeps (input_guard_stage C X mode event)" for X mode event
    unfolding input_guard_stage_def Let_def by (intro kept_intros kept_refuse)
  have e: "stable keeps (enter_mode C X)" "stable keeps (warn_of_input C X mode)" for X mode
    unfolding enter_mode_def enter_test_mode_def enter_quarantine_def warn_of_input_def Let_def by (intro kept_intros kept_modes)+
  have l: "stable kept (check_report_receipt_rate_limit clock v d)" for clock v d
    unfolding check_report_receipt_rate_limit_def Let_def by (intro kept_intros)
  have p: "stable keeps (pass_on C payload X mode event)" for payload X mode event
    unfolding pass_on_def answer_from_backend_def[abs_def] block_output_def by (intro kept_intros kept_modes kept_backends kept_forward)
  have a: "stable keeps (after_guards C payload X mode r)" for payload X mode r
    unfolding after_guards_def by (cases r) (auto intro!: kept_intros p)
  have "stable keeps (case r of Refused a \<Rightarrow> retA a | Pass event \<Rightarrow>
      bindA (action_guard_stage C X mode event) (after_guards C payload X mode))" for payload X mode r
    by (cases r) (auto intro!: kept_intros kept_action_stage a)
  then have "stable keeps (judge C payload X)" for payload X
    unfolding judge_def guards_def by (intro kept_intros e l g)
  then show ?thesis unfolding handle_routed_request_def by (intro kept_guarded kept_intros kept_start kept_authorize x)
qed

lemma kept_reading: "stable keeps (handle_inspect C)" "stable keeps (handle_routes C)" "stable keeps (handle_artifact_metadata C i)"
  "stable keeps (handle_artifact_content C i)" "stable keeps (not_found C)"
proof -
  have o: "stable keeps (open_artifact C i operation)" for operation
    unfolding open_artifact_def Let_def by (intro kept_intros kept_start)
  show "stable keeps (handle_inspect C)" "stable keeps (handle_routes C)" "stable keeps (handle_artifact_metadata C i)"
    "stable keeps (handle_artifact_content C i)" "stable keeps (not_found C)"
    unfolding handle_inspect_def handle_routes_def handle_artifact_metadata_def handle_artifact_content_def not_found_def Let_def
    by (intro kept_guarded kept_intros kept_start o)+
qed

lemma kept_submit: "stable keeps (handle_artifact_submit C)"
proof -
  have m: "stable keeps (scan_metadata C payload v d)" for payload v d
    unfolding scan_metadata_def Let_def by (intro kept_intros kept_start)
  have t: "stable keeps (store_artifact C payload v d content insp wopt)" for payload v d content insp wopt
    unfolding store_artifact_def Let_def by (intro kept_intros)
  show ?thesis unfolding handle_artifact_submit_def Let_def
    by (intro kept_guarded kept_intros kept_start kept_authorize m t)
qed

lemma kept_stores:
  "(\<And>f w. kept w (g_approvals_update f w)) \<Longrightarrow> stable keeps (handle_approval C)"
  "(\<And>f w. kept w (g_runs_update f w)) \<Longrightarrow> stable keeps (handle_run_register C)"
  unfolding handle_approval_def handle_run_register_def store_approval_def store_run_def Let_def
  by (intro kept_guarded kept_intros kept_start kept_authorize; assumption)+

lemma kept_get: "stable keeps (do_GET C)"
proof -
  have r: "stable keeps (\<lambda>s. let (ok, body) = readiness_status C (h_world s) in write_json C (if ok then 200 else 503) body s)"
    by (simp add: stable_def write_json_def keeps_def readiness_status_def Let_def)
  show ?thesis unfolding do_GET_def by (intro kept_intros kept_reading r)
qed

end

interpretation approvals: kept_part g_approvals by unfold_locales simp_all
interpretation runs: kept_part g_runs by unfold_locales simp_all

section \<open>Approvals and runs are stored only at their endpoints\<close>

lemma guarded_kept:
  assumes "guarded C extra m s = (r, t)"
  obtains r1 t1 where "m s = (r1, t1)" "approvals.keeps t1 t" "runs.keeps t1 t"
proof -
  obtain r1 t1 where m: "m s = (r1, t1)" by fastforce
  have "approvals.keeps t1 t \<and> runs.keeps t1 t"
  proof (cases r1)
    case (Inr a)
    then show ?thesis using assms m by (simp add: guarded_def approvals.keeps_def runs.keeps_def)
  next
    case (Inl e)
    then show ?thesis using assms m
      by (cases e) (auto simp: guarded_def intro: stableD[OF approvals.kept_deny(1)] stableD[OF approvals.kept_deny(2)]
        stableD[OF runs.kept_deny(1)] stableD[OF runs.kept_deny(2)])
  qed
  then show thesis using m that by blast
qed

lemma authorize_fixed_Inr:
  assumes "authorize_fixed C payload i s = (Inr (v, d), t)" and "\<not> g_kill (h_world s)"
  shows "authorized C (h_world s) payload v d \<and> h_world t = h_world s \<and> rd_route_id d = i"
proof -
  from assms(1) obtain d0 w where
    v: "verify_agent (c_env C) (c_cfg C) (g_runs (h_world s)) (g_revoked (h_world s)) (c_now C) (c_headers C) (c_ip C) = Inr v"
    and d0: "resolve_route_decision (c_env C) (c_headers C) payload (c_cfg C) = Inr d0" "rd_route_id d0 = i"
    and p: "enforce_route_policy (c_env C) (c_now C) (c_cfg C) v d0 (h_world s) = (Inr d, w)" and t: "h_world t = w"
    by (auto simp: authorize_fixed_def identify_def authenticate_def resolve_route_def route_policy_def thenA_Inr bindA_Inr readA_apply
        worldA_Inr knows_agent_def knows_route_def raise_if_Inr)
  have w: "w = h_world s" using policy_passes[OF p] .
  have "rd_route_id d = i" using d0 p w route_policy_exact[of "c_env C" "c_now C" "c_cfg C" v d0 "h_world s" d w]
    by (auto simp: warn_def split: if_splits)
  then show ?thesis using v d0 p w t assms(2) by (auto simp: authorized_def)
qed

text \<open>What the approval endpoint stores, and for whom.\<close>

definition approval_stored :: "call \<Rightarrow> world \<Rightarrow> store \<Rightarrow> bool" where
  "approval_stored C w after \<longleftrightarrow> (\<exists>payload v d approved inbound x.
     body_of C payload \<and> authorized C w payload v d \<and> rd_route_id d = ''security.approvals.create'' \<and>
     enforce_input_policy (c_env C) payload d = Inr () \<and>
     approval_checks (c_env C) (c_cfg C) v payload = Inr approved \<and>
     scan_inbound (c_env C) (JObj payload) (c_cfg C) = Inr (inbound, x) \<and> \<not> s_blocked (in_scan inbound) \<and>
     after = append_jsonl_record (c_env C) (JObj (approval_record (c_env C) (c_now C) v payload approved)) (g_approvals w))"

definition run_stored :: "call \<Rightarrow> world \<Rightarrow> store \<Rightarrow> bool" where
  "run_stored C w after \<longleftrightarrow> (\<exists>payload v d rec inbound x.
     body_of C payload \<and> authorized C w (AList.delete ''run_id'' payload) v d \<and> rd_route_id d = ''security.runs.register'' \<and>
     enforce_input_policy (c_env C) payload d = Inr () \<and>
     build_run_registration_record (c_env C) (c_now C) (c_fresh C) payload (c_cfg C) v = Inr rec \<and>
     scan_inbound (c_env C) (JObj (filter (\<lambda>(k, _). k \<notin> set unscanned_registration_fields) payload)) (c_cfg C) = Inr (inbound, x) \<and>
     \<not> s_blocked (in_scan inbound) \<and> after = append_jsonl_record (c_env C) (JObj rec) (g_runs w))"

lemma changed_late:
  assumes "bindA m f s = (r, t)" and "stable R m" and "\<not> R s t" and "transp R"
  shows "\<exists>x u. m s = (Inr x, u) \<and> f x u = (r, t) \<and> R s u \<and> \<not> R u t"
  using assms(1)
proof (cases rule: bindA_cases)
  case (raised e)
  then show ?thesis using assms(2,3) by (auto dest: stableD)
next
  case (went_on x u)
  then show ?thesis using assms(2-4) by (blast dest: stableD transpD)
qed

lemma authorized_same:
  assumes "authorized C w' q v d" and "same_rules w w'"
  shows "authorized C w q v d"
proof -
  have g: "g_runs w' = g_runs w" "g_revoked w' = g_revoked w" "g_kill w' = g_kill w" using assms(2) by (simp_all add: same_rules_def)
  from assms(1) obtain d0 where d0: "resolve_route_decision (c_env C) (c_headers C) q (c_cfg C) = Inr d0"
    "enforce_route_policy (c_env C) (c_now C) (c_cfg C) v d0 w' = (Inr d, w')" by (auto simp: authorized_def)
  have "enforce_route_policy (c_env C) (c_now C) (c_cfg C) v d0 w = (Inr d, w)" by (rule policy_by_runs[OF d0(2)]) (simp add: g)
  then show ?thesis using assms(1) d0(1) g by (auto simp: authorized_def)
qed

text \<open>The common start of the two endpoints, when a store changes after it.\<close>

lemma fixed_start:
  assumes "thenA (check_kill_switch C) (bindA (read_json_body C) (\<lambda>payload.
      bindA (authorize_fixed C (q payload) i) (\<lambda>(v, d). k payload v d))) (fresh_request w) = (r, t)"
    and "stable R (check_kill_switch C)" "stable R (read_json_body C)" "\<And>payload. stable R (authorize_fixed C payload i)"
    and "\<not> R (fresh_request w) t" and trans: "transp R"
  obtains payload v d s where "body_of C payload" "authorized C w (q payload) v d" "rd_route_id d = i"
    "k payload v d s = (r, t)" "same_rules w (h_world s)"
proof -
  obtain u s0 where k: "check_kill_switch C (fresh_request w) = (Inr u, s0)" and c: "\<not> R s0 t"
    and m: "bindA (read_json_body C) (\<lambda>payload. bindA (authorize_fixed C (q payload) i) (\<lambda>(v, d). k payload v d)) s0 = (r, t)"
    using changed_late[OF assms(1)[unfolded thenA_def] assms(2,5) trans] by blast
  have s0: "s0 = fresh_request w" "\<not> g_kill w" using kill_switch_passes[of C "fresh_request w" s0] k by (auto simp: fresh_request_def)
  obtain payload s1 where b: "read_json_body C s0 = (Inr payload, s1)" and c: "\<not> R s1 t"
    and m: "bindA (authorize_fixed C (q payload) i) (\<lambda>(v, d). k payload v d) s1 = (r, t)"
    using changed_late[OF m assms(3) c trans] by blast
  obtain vd s2 where a: "authorize_fixed C (q payload) i s1 = (Inr vd, s2)" and m: "(case vd of (v, d) \<Rightarrow> k payload v d) s2 = (r, t)"
    using changed_late[OF m assms(4) c trans] by blast
  obtain v d where vd: "vd = (v, d)" by fastforce
  have s1: "same_rules w (h_world s1)" "body_of C payload"
    using read_json_body_Inr[OF b] s0 by (auto simp: steady_def fresh_request_def)
  have "\<not> g_kill (h_world s1)" using s1(1) s0(2) by (simp add: same_rules_def)
  with authorize_fixed_Inr[of C "q payload" i s1 v d s2] a vd
  have z: "authorized C (h_world s1) (q payload) v d" "h_world s2 = h_world s1" "rd_route_id d = i" by auto
  have "k payload v d s2 = (r, t)" "same_rules w (h_world s2)" using m vd s1 z by simp_all
  then show thesis using that[OF s1(2) authorized_same[OF z(1) s1(1)] z(3)] by blast
qed

lemma answer_keeps:
  assumes "thenA (audit C ev) (write_json C n body) s = (r, t)"
  shows "g_approvals (h_world t) = g_approvals (h_world s) \<and> g_runs (h_world t) = g_runs (h_world s)"
proof -
  have "stable approvals.keeps (thenA (audit C ev) (write_json C n body))" "stable runs.keeps (thenA (audit C ev) (write_json C n body))"
    by (intro approvals.kept_intros runs.kept_intros)+
  then show ?thesis using assms by (auto simp: approvals.keeps_def runs.keeps_def dest!: stableD)
qed

lemma store_approval_effect:
  assumes "store_approval C payload v d s = (r, t)" and "g_approvals (h_world t) \<noteq> g_approvals (h_world s)"
  shows "\<exists>approved inbound x. enforce_input_policy (c_env C) payload d = Inr () \<and>
     approval_checks (c_env C) (c_cfg C) v payload = Inr approved \<and>
     scan_inbound (c_env C) (JObj payload) (c_cfg C) = Inr (inbound, x) \<and> \<not> s_blocked (in_scan inbound) \<and>
     g_approvals (h_world t) =
       append_jsonl_record (c_env C) (JObj (approval_record (c_env C) (c_now C) v payload approved)) (g_approvals (h_world s))"
proof (cases "enforce_input_policy (c_env C) payload d")
  case (Inl e)
  then show ?thesis using assms by (simp add: store_approval_def Let_def thenA_def bindA_def)
next
  case p: (Inr u)
  show ?thesis
  proof (cases "approval_checks (c_env C) (c_cfg C) v payload")
    case (Inl e)
    then show ?thesis using assms p by (simp add: store_approval_def Let_def)
  next
    case a: (Inr approved)
    show ?thesis
    proof (cases "scan_inbound (c_env C) (JObj payload) (c_cfg C)")
      case (Inl e)
      then show ?thesis using assms p a by (simp add: store_approval_def Let_def)
    next
      case i: (Inr ix)
      obtain inbound x where ix: "ix = (inbound, x)" by fastforce
      let ?rec = "approval_record (c_env C) (c_now C) v payload approved"
      have "\<not> s_blocked (in_scan inbound)"
        using assms p a i ix by (auto simp: store_approval_def Let_def raise_scan_def thenA_def bindA_def)
      then show ?thesis
        using assms(1) p a i ix by (auto simp: store_approval_def Let_def worldA_def dest: answer_keeps)
    qed
  qed
qed

lemma approval_effect:
  assumes "handle_approval C (fresh_request w) = (r, t)" and "g_approvals (h_world t) \<noteq> g_approvals w"
  shows "approval_stored C w (g_approvals (h_world t))"
proof -
  from assms(1) obtain r1 t1 where
    m: "thenA (check_kill_switch C) (bindA (read_json_body C) (\<lambda>payload.
      bindA (authorize_fixed C payload ''security.approvals.create'') (\<lambda>(v, d). store_approval C payload v d)))
      (fresh_request w) = (r1, t1)" and k: "approvals.keeps t1 t"
    unfolding handle_approval_def by (rule guarded_kept)
  have c: "\<not> approvals.keeps (fresh_request w) t1"
    using k assms(2) by (simp add: approvals.keeps_def fresh_request_def)
  from fixed_start[where q = "\<lambda>p. p", OF m approvals.kept_start(1,2) approvals.kept_authorize(2) c approvals.kept_order(4)]
  obtain payload v d s where b: "body_of C payload" "authorized C w payload v d" "rd_route_id d = ''security.approvals.create''"
    "store_approval C payload v d s = (r1, t1)" "same_rules w (h_world s)" by blast
  have e: "g_approvals (h_world s) = g_approvals w" "g_approvals (h_world t1) = g_approvals (h_world t)"
    using b(5) k by (simp_all add: same_rules_def approvals.keeps_def)
  show ?thesis unfolding approval_stored_def
    using store_approval_effect[OF b(4)] assms(2) b(1-3) unfolding e by blast
qed

lemma store_run_effect:
  assumes "store_run C payload v d s = (r, t)" and "g_runs (h_world t) \<noteq> g_runs (h_world s)"
  shows "\<exists>rec inbound x. enforce_input_policy (c_env C) payload d = Inr () \<and>
     build_run_registration_record (c_env C) (c_now C) (c_fresh C) payload (c_cfg C) v = Inr rec \<and>
     scan_inbound (c_env C) (JObj (filter (\<lambda>(k, _). k \<notin> set unscanned_registration_fields) payload)) (c_cfg C) = Inr (inbound, x) \<and>
     \<not> s_blocked (in_scan inbound) \<and>
     g_runs (h_world t) = append_jsonl_record (c_env C) (JObj rec) (g_runs (h_world s))"
proof (cases "enforce_input_policy (c_env C) payload d")
  case (Inl e)
  then show ?thesis using assms by (simp add: store_run_def Let_def thenA_def bindA_def)
next
  case p: (Inr u)
  show ?thesis
  proof (cases "build_run_registration_record (c_env C) (c_now C) (c_fresh C) payload (c_cfg C) v")
    case (Inl e)
    then show ?thesis using assms p by (simp add: store_run_def Let_def)
  next
    case a: (Inr rec)
    let ?scanned = "JObj (filter (\<lambda>(k, _). k \<notin> set unscanned_registration_fields) payload)"
    show ?thesis
    proof (cases "scan_inbound (c_env C) ?scanned (c_cfg C)")
      case (Inl e)
      then show ?thesis using assms p a by (simp add: store_run_def Let_def)
    next
      case i: (Inr ix)
      obtain inbound x where ix: "ix = (inbound, x)" by fastforce
      have "\<not> s_blocked (in_scan inbound)"
        using assms p a i ix by (auto simp: store_run_def Let_def raise_scan_def thenA_def bindA_def)
      then show ?thesis
        using assms(1) p a i ix by (auto simp: store_run_def Let_def worldA_def dest: answer_keeps)
    qed
  qed
qed

lemma run_effect:
  assumes "handle_run_register C (fresh_request w) = (r, t)" and "g_runs (h_world t) \<noteq> g_runs w"
  shows "run_stored C w (g_runs (h_world t))"
proof -
  from assms(1) obtain r1 t1 where
    m: "thenA (check_kill_switch C) (bindA (read_json_body C) (\<lambda>payload.
      bindA (authorize_fixed C (AList.delete ''run_id'' payload) ''security.runs.register'') (\<lambda>(v, d). store_run C payload v d)))
      (fresh_request w) = (r1, t1)" and k: "runs.keeps t1 t"
    unfolding handle_run_register_def by (rule guarded_kept)
  have c: "\<not> runs.keeps (fresh_request w) t1"
    using k assms(2) by (simp add: runs.keeps_def fresh_request_def)
  from fixed_start[where q = "AList.delete ''run_id''", OF m runs.kept_start(1,2) runs.kept_authorize(2) c runs.kept_order(4)]
  obtain payload v d s where b: "body_of C payload" "authorized C w (AList.delete ''run_id'' payload) v d"
    "rd_route_id d = ''security.runs.register''" "store_run C payload v d s = (r1, t1)" "same_rules w (h_world s)" by blast
  have e: "g_runs (h_world s) = g_runs w" "g_runs (h_world t1) = g_runs (h_world t)"
    using b(5) k by (simp_all add: same_rules_def runs.keeps_def)
  show ?thesis unfolding run_stored_def
    using store_run_effect[OF b(4)] assms(2) b(1-3) unfolding e by blast
qed

text \<open>C37: The approval store and the run store change only at their own endpoint, by one appended record, and only for an
  authenticated caller whose route is that endpoint's route, with a valid payload that the input guard does not block; no
  other request, whatever its outcome, touches them.\<close>

theorem grants_stored_only_at_endpoint:
  assumes "serve meth C (fresh_request w) = (r, t)" and "urlsplit (c_env C) (c_target C) = Inr u"
  shows "(g_approvals (h_world t) = g_approvals w \<or>
      meth = POST \<and> u_path u = ''/v1/approvals'' \<and> approval_stored C w (g_approvals (h_world t))) \<and>
    (g_runs (h_world t) = g_runs w \<or>
      meth = POST \<and> u_path u = ''/v1/runs'' \<and> run_stored C w (g_runs (h_world t)))"
proof (cases meth)
  case GET
  then have "do_GET C (fresh_request w) = (r, t)" using assms(1) by (simp add: serve_def)
  then have "approvals.keeps (fresh_request w) t" "runs.keeps (fresh_request w) t"
    by (auto intro: stableD[OF approvals.kept_get] stableD[OF runs.kept_get])
  then show ?thesis by (simp add: approvals.keeps_def runs.keeps_def fresh_request_def)
next
  case POST
  have kept: "g_approvals (h_world t) = g_approvals w \<and> g_runs (h_world t) = g_runs w"
    if "stable approvals.keeps m" "stable runs.keeps m" "m (fresh_request w) = (r, t)" for m :: "answer handler"
    using stableD[OF that(1,3)] stableD[OF that(2,3)] by (simp add: approvals.keeps_def runs.keeps_def fresh_request_def)
  have a: "stable runs.keeps (handle_approval C)" by (rule runs.kept_stores) (simp add: runs.kept_def)
  have b: "stable approvals.keeps (handle_run_register C)" by (rule approvals.kept_stores) (simp add: approvals.kept_def)
  have p: "(if u_path u = ''/inspect'' then handle_inspect C
     else if u_path u \<in> {''/v1/chat/completions'', ''/v1/tasks'', ''/v1/results''} then handle_routed_request C
     else if u_path u = ''/v1/artifacts'' then handle_artifact_submit C
     else if u_path u = ''/v1/approvals'' then handle_approval C
     else if u_path u = ''/v1/runs'' then handle_run_register C
     else not_found C) (fresh_request w) = (r, t)"
    using assms POST by (simp add: serve_def do_POST_def bindA_def)
  consider (approval) "u_path u = ''/v1/approvals''" | (run) "u_path u = ''/v1/runs''"
    | (other) "u_path u \<notin> {''/v1/approvals'', ''/v1/runs''}" by blast
  then show ?thesis
  proof cases
    case approval
    then have h: "handle_approval C (fresh_request w) = (r, t)" using p by simp
    have "g_runs (h_world t) = g_runs w" using stableD[OF a h] by (simp add: runs.keeps_def fresh_request_def)
    then show ?thesis using approval_effect[OF h] POST approval by blast
  next
    case run
    then have h: "handle_run_register C (fresh_request w) = (r, t)" using p by simp
    have "g_approvals (h_world t) = g_approvals w" using stableD[OF b h] by (simp add: approvals.keeps_def fresh_request_def)
    then show ?thesis using run_effect[OF h] POST run by blast
  next
    case other
    let ?m = "if u_path u = ''/inspect'' then handle_inspect C
     else if u_path u \<in> {''/v1/chat/completions'', ''/v1/tasks'', ''/v1/results''} then handle_routed_request C
     else if u_path u = ''/v1/artifacts'' then handle_artifact_submit C else not_found C"
    have "stable approvals.keeps ?m" "stable runs.keeps ?m"
      by (intro stable_if approvals.kept_reading approvals.kept_routed approvals.kept_submit
        runs.kept_reading runs.kept_routed runs.kept_submit)+
    moreover have "?m (fresh_request w) = (r, t)" using p other by (auto split: if_splits)
    ultimately have "g_approvals (h_world t) = g_approvals w \<and> g_runs (h_world t) = g_runs w" by (rule kept)
    then show ?thesis by blast
  qed
qed

theorem grants_stored_only_at_endpoint_witness:
  "g_approvals (h_world (snd (serve GET demo_call (fresh_request demo_trip_world)))) = None \<and>
   g_runs (h_world (snd (serve GET demo_call (fresh_request demo_trip_world)))) = None"
proof -
  let ?u = "\<lparr>u_scheme = [], u_netloc = [], u_host = [], u_path = ''/healthz'', u_query = [], u_fragment = [],
       u_userinfo = False, u_port = Some None\<rparr>"
  obtain r t where s: "serve GET demo_call (fresh_request demo_trip_world) = (r, t)" by fastforce
  have "urlsplit (c_env demo_call) (c_target demo_call) = Inr ?u"
    by (simp add: urlsplit_def demo_call_def demo_http_env_def)
  from grants_stored_only_at_endpoint[OF s this] s show ?thesis by (simp add: demo_trip_world_def)
qed

end
