(* ===== verification/Research_Fetch.thy ===== *)
theory Research_Fetch
  imports Backend
begin

text \<open>
  The research service, the only internet-facing part of a researcher's run
  (\<open>setup/research-service/research_service.py\<close>): which URLs it accepts, what it takes out of a page,
  and the operations \<open>do_fetch\<close> and \<open>do_search\<close> on the state of a run. Its exception
  \<open>Denied(status, code)\<close> is written with the constructor \<^term>\<open>GatewayError\<close>. The configuration is
  the record \<open>settings\<close>, whose fields have the types of \<open>DEFAULTS\<close>.
\<close>

section \<open>Configuration, addresses and the network\<close>

record settings =
  c_backend_hmac_key_env :: string
  c_register_key_env :: string
  c_allowed_agents :: "string list"
  c_route_ids :: "(string \<times> string) list"
  c_blocked_hosts :: "string list"
  c_blocked_suffixes :: "string list"
  c_blocked_url_regex :: "string list"
  c_max_results :: int
  c_snippet_chars :: int
  c_title_chars :: int
  c_query_chars :: int
  c_limits :: "(string \<times> int) list"
  c_limit_caps :: "(string \<times> int) list"
  c_run_ttl_seconds :: rat
  c_max_page_bytes :: int
  c_max_redirects :: int
  c_allowed_content_types :: "string list"
  c_searxng_url :: string

definition default_settings :: settings where
  "default_settings = \<lparr>c_backend_hmac_key_env = ''ASG_BACKEND_HMAC_KEY'', c_register_key_env = ''ASG_RESEARCH_REGISTER_KEY'',
     c_allowed_agents = [''fc_worker''], c_route_ids = [(''/search'', ''fc.search''), (''/fetch'', ''fc.fetch'')],
     c_blocked_hosts = [], c_blocked_suffixes = [''.onion'', ''.local'', ''.internal'', ''.lan'', ''.localhost''],
     c_blocked_url_regex = [], c_max_results = 8, c_snippet_chars = 300, c_title_chars = 160, c_query_chars = 300,
     c_limits = [(''searches'', 25), (''fetches'', 60), (''bytes'', 8 * 1024 * 1024), (''hosts'', 25), (''page_chars'', 12000), (''links'', 40)],
     c_limit_caps = [(''searches'', 60), (''fetches'', 150), (''bytes'', 32 * 1024 * 1024), (''hosts'', 60), (''page_chars'', 20000), (''links'', 80)],
     c_run_ttl_seconds = 4500, c_max_page_bytes = 1024 * 1024, c_max_redirects = 3,
     c_allowed_content_types = [''text/html'', ''text/plain'', ''text/markdown'', ''application/xhtml+xml''],
     c_searxng_url = ''http://127.0.0.1:8080''\<rparr>"

text \<open>The properties of an \<open>ipaddress\<close> object, its text, and those of the IPv4 address it maps.\<close>

record ip_flags =
  is_private :: bool
  is_loopback :: bool
  is_link_local :: bool
  is_reserved :: bool
  is_multicast :: bool
  is_unspecified :: bool
  is_global :: bool

record address =
  ad_text :: string
  ad_flags :: ip_flags
  ad_mapped :: "ip_flags option"

text \<open>One connection of \<open>http_get_pinned\<close>: the address, the name TLS verifies, what is asked for.\<close>

record connection =
  cn_url :: string
  cn_address :: address
  cn_host :: string
  cn_target :: string

datatype html_event = StartTag string "(string \<times> string option) list" | EndTag string | Chars string

text \<open>
  What lies outside: libraries and the network. The network may answer differently each time, so
  an answer also depends on the number of exchanges before it.
\<close>

record net =
  n_env :: env
  n_unescape :: "string \<Rightarrow> string"                  \<comment> \<open>\<open>html.unescape\<close>\<close>
  n_userinfo :: "string \<Rightarrow> bool"                    \<comment> \<open>the URL has a user name or a password, possibly empty\<close>
  n_ip_address :: "string \<Rightarrow> address option"        \<comment> \<open>\<open>ipaddress.ip_address\<close>; \<open>None\<close> is \<open>ValueError\<close>\<close>
  n_ipv6 :: "string \<Rightarrow> address option"              \<comment> \<open>\<open>ipaddress.IPv6Address\<close>; \<open>None\<close> is \<open>ValueError\<close>\<close>
  n_urljoin :: "string \<Rightarrow> string \<Rightarrow> string option"  \<comment> \<open>\<open>urllib.parse.urljoin\<close>; \<open>None\<close> is \<open>ValueError\<close>\<close>
  n_urlencode :: "(string \<times> string) list \<Rightarrow> string"
  n_html :: "string \<Rightarrow> html_event list"             \<comment> \<open>the events of \<open>HTMLParser\<close> until it ends or raises\<close>
  n_decode :: "string \<Rightarrow> string \<Rightarrow> string option"   \<comment> \<open>\<open>bytes.decode(charset, "replace")\<close>; \<open>None\<close> is \<open>LookupError\<close>\<close>
  n_charset :: "string \<Rightarrow> string option"            \<comment> \<open>group 1 of the search for \<open>charset=\<close>\<close>
  n_hmac_bytes :: "string \<Rightarrow> string \<Rightarrow> string"      \<comment> \<open>\<open>hmac.new\<close> with a message of bytes\<close>
  n_resolve :: "nat \<Rightarrow> string \<Rightarrow> address list option"  \<comment> \<open>\<open>getaddrinfo\<close>; \<open>None\<close> is \<open>OSError\<close>\<close>
  n_connect :: "nat \<Rightarrow> connection \<Rightarrow> bool"      \<comment> \<open>the connection and its TLS handshake succeed\<close>
  n_exchange :: "nat \<Rightarrow> connection \<Rightarrow> (nat \<times> headers \<times> string) option" \<comment> \<open>\<open>None\<close> is a transport error\<close>
  n_searx :: "nat \<Rightarrow> string \<Rightarrow> (nat \<times> string) option" \<comment> \<open>the search backend, by the path asked for\<close>

definition decode_utf8 :: "net \<Rightarrow> string \<Rightarrow> string" where  \<comment> \<open>\<open>b.decode("utf-8", "replace")\<close>, a codec that exists\<close>
  "decode_utf8 N b = (case n_decode N ''utf-8'' b of None \<Rightarrow> [] | Some s \<Rightarrow> s)"

section \<open>Text that leaves the service\<close>

definition non_global :: "ip_flags \<Rightarrow> bool" where
  "non_global ip \<longleftrightarrow> is_private ip \<or> is_loopback ip \<or> is_link_local ip \<or> is_reserved ip \<or> is_multicast ip \<or> is_unspecified ip"

text \<open>\<open>pattern.sub(function, text)\<close>\<close>

definition re_sub_by :: "env \<Rightarrow> string \<Rightarrow> (string \<Rightarrow> string) \<Rightarrow> string \<Rightarrow> string" where
  "re_sub_by E pattern f s =
     (let (out, pos) = foldl (\<lambda>(out, pos) (a, b). (out @ slice s pos a @ f (slice s a b), b)) ([], 0) (e_finditer E pattern s)
      in out @ drop pos s)"

definition keep_addresses :: "string list" where "keep_addresses = [''127.0.0.1'']"
definition redacted_v4 :: string where "redacted_v4 = ''private-address.invalid''"
definition redacted_v6 :: string where "redacted_v6 = ''ipv6-address.invalid''"

definition redact_v4 :: "net \<Rightarrow> string \<Rightarrow> string" where
  "redact_v4 N m = (case n_ip_address N m of
       None \<Rightarrow> m
     | Some ip \<Rightarrow> if non_global (ad_flags ip) \<and> ad_text ip \<notin> set keep_addresses then redacted_v4 else m)"

text \<open>Group 1 of a bracketed match is what stands between the brackets.\<close>

definition redact_v6_bracket :: "net \<Rightarrow> string \<Rightarrow> string" where
  "redact_v6_bracket N m =
     (case n_ipv6 N (hd (split_on CHR ''%'' (butlast (drop 1 m)))) of None \<Rightarrow> m | Some _ \<Rightarrow> redacted_v6)"

definition redact_v6_bare :: "net \<Rightarrow> string \<Rightarrow> string" where
  "redact_v6_bare N m =
     (if length (filter (\<lambda>c. c = CHR '':'') m) < 2 \<or> length m < 5 \<and> m \<noteq> ''::1'' then m
      else case n_ipv6 N m of
        None \<Rightarrow> m
      | Some ip \<Rightarrow> if non_global (ad_flags ip) \<or> (case ad_mapped ip of None \<Rightarrow> False | Some f \<Rightarrow> non_global f)
                   then redacted_v6 else m)"

definition redact_addresses :: "net \<Rightarrow> string \<Rightarrow> string" where
  "redact_addresses N txt = re_sub_by (n_env N) ''V6_BARE_RE'' (redact_v6_bare N)
     (re_sub_by (n_env N) ''V4_RE'' (redact_v4 N) (re_sub_by (n_env N) ''V6_BRACKET_RE'' (redact_v6_bracket N) txt))"

text \<open>\<open>CTRL_RE\<close>, below code point 256.\<close>

definition is_ctrl :: "char \<Rightarrow> bool" where
  "is_ctrl c \<longleftrightarrow> code_in 0 8 c \<or> code_in 11 31 c \<or> c = CHR 0x7F"

definition clean_text :: "net \<Rightarrow> json \<Rightarrow> int \<Rightarrow> string" where
  "clean_text N v limit = py_take limit (py_strip (redact_addresses N
     (filter (\<lambda>c. \<not> is_ctrl c) (n_unescape N (py_str (n_env N) (py_or v (JStr [])))))))"

section \<open>Which URLs are acceptable\<close>

definition rstrip_char :: "char \<Rightarrow> string \<Rightarrow> string" where
  "rstrip_char c s = rev (dropWhile (\<lambda>x. x = c) (rev s))"

definition bare_host :: "parsed_url \<Rightarrow> string" where
  "bare_host u = rstrip_char CHR ''.'' (py_lower (u_host u))"

definition norm_url :: "net \<Rightarrow> string \<Rightarrow> string res" where
  "norm_url N url = bindE (urlsplit (n_env N) url) (\<lambda>u. Inr (e_urlunsplit (n_env N)
     \<lparr>u_scheme = ''https'', u_netloc = bare_host u, u_host = bare_host u,
      u_path = (if u_path u = [] then ''/'' else u_path u), u_query = u_query u, u_fragment = [],
      u_userinfo = False, u_port = Some None\<rparr>))"

text \<open>\<open>[a-z0-9-]+(\.[a-z0-9-]+)+\<close>: labels with a dot between them.\<close>

definition host_shape_ok :: "string \<Rightarrow> bool" where
  "host_shape_ok host \<longleftrightarrow> (let labels = split_on CHR ''.'' host in
     2 \<le> length labels \<and> list_all (\<lambda>l. l \<noteq> [] \<and> list_all (\<lambda>c. code_in 97 122 c \<or> is_digit c \<or> c = CHR ''-'') l) labels)"

definition url_problem_of :: "net \<Rightarrow> settings \<Rightarrow> string \<Rightarrow> string option" where
  "url_problem_of N cfg url =
     (if 1000 < length url \<or> list_ex is_ctrl url \<or> list_ex py_isspace url then Some ''malformed''
      else case e_urlsplit (n_env N) url of
        None \<Rightarrow> Some ''malformed''
      | Some u \<Rightarrow> (case u_port u of
          None \<Rightarrow> Some ''malformed''
        | Some port \<Rightarrow> (let host = bare_host u in
            if u_scheme u \<noteq> ''https'' \<or> host = [] then Some ''scheme''
            else if n_userinfo N url then Some ''userinfo''
            else if port \<noteq> None \<and> port \<noteq> Some 443 then Some ''port''
            else if n_ip_address N host \<noteq> None then Some ''ip_literal''
            else if \<not> host_shape_ok host then Some ''host''
            else if host \<in> set (map py_lower (c_blocked_hosts cfg)) \<or> list_ex (\<lambda>s. suffix s host) (c_blocked_suffixes cfg)
            then Some ''blocked_host''
            else if list_ex (\<lambda>rx. re_search (n_env N) rx url) (c_blocked_url_regex cfg) then Some ''blocked_url''
            else None)))"

definition url_problem :: "net \<Rightarrow> settings \<Rightarrow> json \<Rightarrow> string option" where
  "url_problem N cfg url = (case url of JStr s \<Rightarrow> url_problem_of N cfg s | _ \<Rightarrow> Some ''malformed'')"

definition acceptable_address :: "address \<Rightarrow> bool" where
  "acceptable_address a \<longleftrightarrow> is_global (ad_flags a) \<and> \<not> is_multicast (ad_flags a)"

text \<open>Each address once, by its text, in the order of the answers.\<close>

fun collect_addresses :: "address list \<Rightarrow> address list \<Rightarrow> address list res" where
  "collect_addresses acc [] = Inr acc"
| "collect_addresses acc (a # as) =
     (if \<not> acceptable_address a then Inl (GatewayError 403 ''non_public_address'')
      else collect_addresses (if ad_text a \<in> set (map ad_text acc) then acc else acc @ [a]) as)"

definition public_addresses :: "net \<Rightarrow> nat \<Rightarrow> string \<Rightarrow> address list res" where
  "public_addresses N k host = (case n_resolve N k host of
       None \<Rightarrow> Inl (GatewayError 502 ''dns_failed'')
     | Some infos \<Rightarrow> bindE (collect_addresses [] infos) (\<lambda>addrs.
         if addrs = [] then Inl (GatewayError 502 ''dns_failed'') else Inr addrs))"

section \<open>Search results\<close>

text \<open>What one hit becomes, and the loop over the hits with its early end.\<close>

definition result_entry :: "net \<Rightarrow> settings \<Rightarrow> dict \<Rightarrow> string \<Rightarrow> json" where
  "result_entry N cfg item key = JObj [(''url'', JStr key), (''title'', JStr (clean_text N (dget0 item ''title'') (c_title_chars cfg))),
     (''snippet'', JStr (clean_text N (dget0 item ''content'') (c_snippet_chars cfg)))]"

fun filter_loop :: "net \<Rightarrow> settings \<Rightarrow> (string \<times> json) list \<Rightarrow> json list \<Rightarrow> (string \<times> json) list res" where
  "filter_loop N cfg out [] = Inr out"
| "filter_loop N cfg out (JObj item # items) =
     (case dget0 item ''url'' of
        JStr url \<Rightarrow>
          if url_problem_of N cfg url \<noteq> None then filter_loop N cfg out items
          else bindE (norm_url N url) (\<lambda>key.
            if key \<in> set (map fst out) then filter_loop N cfg out items
            else let out = out @ [(key, result_entry N cfg item key)] in
              if c_max_results cfg \<le> int (length out) then Inr out else filter_loop N cfg out items)
      | _ \<Rightarrow> filter_loop N cfg out items)"
| "filter_loop N cfg out (_ # items) = filter_loop N cfg out items"

text \<open>The keys with the results; the keys seen are those of the results.\<close>

definition filter_results :: "net \<Rightarrow> settings \<Rightarrow> json \<Rightarrow> (string \<times> json) list res" where
  "filter_results N cfg raw =
     bindE (py_iter (py_or (case raw of JObj d \<Rightarrow> dget0 d ''results'' | _ \<Rightarrow> JNull) (JList []))) (filter_loop N cfg [])"

section \<open>What is read out of a page\<close>

record link_parser =
  lp_parts :: "string list"
  lp_links :: "string list"
  lp_title :: "string list"
  lp_skip :: nat
  lp_in_title :: bool

definition skip_tags :: "string list" where
  "skip_tags = [''script'', ''style'', ''noscript'', ''svg'', ''head'', ''template'']"

text \<open>\<open>dict(attrs).get("href")\<close>: the last one counts. \<open>None\<close> is the exception of \<open>urljoin\<close>.\<close>

definition handle_starttag :: "net \<Rightarrow> string \<Rightarrow> string \<Rightarrow> (string \<times> string option) list \<Rightarrow> link_parser \<Rightarrow> link_parser \<times> bool" where
  "handle_starttag N base tag attrs p =
     (let p = (if tag = ''title'' then p\<lparr>lp_in_title := True\<rparr> else p);
          p = (if tag \<in> set skip_tags then p\<lparr>lp_skip := lp_skip p + 1\<rparr> else p)
      in if tag = ''a'' then
           (case map_of (rev attrs) ''href'' of
              Some (Some href) \<Rightarrow>
                if href \<noteq> [] \<and> length (lp_links p) < 400
                then (case n_urljoin N base href of
                        None \<Rightarrow> (p, False)
                      | Some url \<Rightarrow> (p\<lparr>lp_links := lp_links p @ [url]\<rparr>, True))
                else (p, True)
            | _ \<Rightarrow> (p, True))
         else (p, True))"

definition handle_endtag :: "string \<Rightarrow> link_parser \<Rightarrow> link_parser" where
  "handle_endtag tag p =
     (let p = (if tag = ''title'' then p\<lparr>lp_in_title := False\<rparr> else p)
      in if tag \<in> set skip_tags then p\<lparr>lp_skip := lp_skip p - 1\<rparr> else p)"

definition handle_data :: "string \<Rightarrow> link_parser \<Rightarrow> link_parser" where
  "handle_data s p = (if lp_in_title p then p\<lparr>lp_title := lp_title p @ [s]\<rparr>
     else if lp_skip p = 0 then p\<lparr>lp_parts := lp_parts p @ [s]\<rparr> else p)"

text \<open>An exception inside a handler ends the parse; what was collected stays.\<close>

fun feed :: "net \<Rightarrow> string \<Rightarrow> html_event list \<Rightarrow> link_parser \<Rightarrow> link_parser" where
  "feed N base [] p = p"
| "feed N base (StartTag tag attrs # es) p =
     (case handle_starttag N base tag attrs p of (q, ok) \<Rightarrow> if ok then feed N base es q else q)"
| "feed N base (EndTag tag # es) p = feed N base es (handle_endtag tag p)"
| "feed N base (Chars s # es) p = feed N base es (handle_data s p)"

definition extract_page :: "net \<Rightarrow> string \<Rightarrow> string \<Rightarrow> string \<Rightarrow> string \<times> string \<times> string list" where
  "extract_page N body base_url content_type =
     (if content_type \<in> {''text/plain'', ''text/markdown''} then ([], py_strip (join_spaces False body), [])
      else let p = feed N base_url (n_html N body) \<lparr>lp_parts = [], lp_links = [], lp_title = [], lp_skip = 0, lp_in_title = False\<rparr>
        in (py_join '' '' (lp_title p), py_strip (join_spaces False (py_join '' '' (lp_parts p))), lp_links p))"

text \<open>The links of a page that may be followed: the loop of \<open>do_fetch\<close> with its early end.\<close>

fun collect_links :: "net \<Rightarrow> settings \<Rightarrow> int \<Rightarrow> string list \<Rightarrow> string list \<Rightarrow> string list res" where
  "collect_links N cfg most links [] = Inr links"
| "collect_links N cfg most links (l # ls) =
     (if url_problem_of N cfg l \<noteq> None then collect_links N cfg most links ls
      else bindE (norm_url N l) (\<lambda>key.
        let links = (if key \<in> set links then links else links @ [key]) in
        if most \<le> int (length links) then Inr links else collect_links N cfg most links ls))"

section \<open>The state of a run\<close>

record run_state =
  rs_limits :: "(string \<times> int) list"
  rs_expires :: rat
  rs_eligible :: "string set"
  rs_hosts :: "string set"
  rs_searches :: int
  rs_fetches :: int
  rs_bytes :: int

text \<open>\<open>run.limits[key]\<close>\<close>

definition limit_of :: "run_state \<Rightarrow> string \<Rightarrow> int res" where
  "limit_of run k = (case map_of (rs_limits run) k of None \<Rightarrow> Inl (PyError ''KeyError'') | Some n \<Rightarrow> Inr n)"

text \<open>\<open>urlsplit(url).hostname\<close> of a list of URLs, as a set.\<close>

definition new_run_state :: "net \<Rightarrow> (string \<times> int) list \<Rightarrow> rat \<Rightarrow> rat \<Rightarrow> string list \<Rightarrow> run_state res" where
  "new_run_state N limits ttl now seeds =
     bindE (mapE (norm_url N) seeds) (\<lambda>keys. bindE (mapE (urlsplit (n_env N)) seeds) (\<lambda>us.
       Inr \<lparr>rs_limits = limits, rs_expires = now + ttl, rs_eligible = set keys, rs_hosts = set (map u_host us),
            rs_searches = 0, rs_fetches = 0, rs_bytes = 0\<rparr>))"

definition check_eligible :: "net \<Rightarrow> settings \<Rightarrow> run_state \<Rightarrow> string \<Rightarrow> bool \<Rightarrow> string res" where
  "check_eligible N cfg run url strict_host_cap =
     (case url_problem_of N cfg url of
        Some reason \<Rightarrow> Inl (GatewayError 403 (''url_'' @ reason))
      | None \<Rightarrow> bindE (norm_url N url) (\<lambda>key.
          if key \<notin> rs_eligible run then Inl (GatewayError 403 ''url_not_eligible'')
          else bindE (urlsplit (n_env N) url) (\<lambda>u.
            if strict_host_cap \<and> bare_host u \<notin> rs_hosts run
            then bindE (limit_of run ''hosts'') (\<lambda>most.
              if most \<le> int (card (rs_hosts run)) then Inl (GatewayError 429 ''host_quota_exceeded'') else Inr (bare_host u))
            else Inr (bare_host u))))"

section \<open>Fetching a page\<close>

text \<open>
  \<open>http_get_pinned\<close>: the first of the checked addresses, and TLS for the name of the URL. The
  request line is encoded as ASCII, which raises for other characters.
\<close>

definition connection_for :: "string \<Rightarrow> parsed_url \<Rightarrow> address list \<Rightarrow> connection" where
  "connection_for url u addrs = \<lparr>cn_url = url, cn_address = hd addrs, cn_host = u_host u,
     cn_target = (if u_path u = [] then ''/'' else u_path u) @ (if u_query u = [] then [] else ''?'' @ u_query u)\<rparr>"

definition http_get_pinned ::
    "net \<Rightarrow> settings \<Rightarrow> string \<Rightarrow> address list \<Rightarrow> (connection list, nat \<times> headers \<times> string) act" where
  "http_get_pinned N cfg url addrs sent = (case urlsplit (n_env N) url of
       Inl e \<Rightarrow> (Inl e, sent)
     | Inr u \<Rightarrow> (let cn = connection_for url u addrs; k = length sent; sent = sent @ [cn] in
         if \<not> n_connect N k cn then (Inl (GatewayError 502 ''fetch_failed''), sent)
         else if \<not> list_all (\<lambda>c. of_char c < (128 :: nat)) (cn_target cn) then (Inl (PyError ''UnicodeEncodeError''), sent)
         else case n_exchange N k cn of
           None \<Rightarrow> (Inl (GatewayError 502 ''fetch_failed''), sent)
         | Some (st, hs, body) \<Rightarrow> (Inr (st, map (\<lambda>(k, v). (py_lower k, v)) hs, py_take (c_max_page_bytes cfg) body), sent)))"

text \<open>The answer's headers as a dictionary, in which the last of equal names counts.\<close>

definition answer_header :: "headers \<Rightarrow> string \<Rightarrow> string" where
  "answer_header hs k = (case map_of (rev hs) k of None \<Rightarrow> [] | Some v \<Rightarrow> v)"

definition fetch_once :: "net \<Rightarrow> settings \<Rightarrow> string \<Rightarrow> (connection list, nat \<times> headers \<times> string) act" where
  "fetch_once N cfg current =
     bindA (getsA (\<lambda>sent. bindE (urlsplit (n_env N) current) (\<lambda>u. public_addresses N (length sent) (u_host u))))
       (http_get_pinned N cfg current)"

definition redirects :: "nat \<Rightarrow> headers \<Rightarrow> bool" where
  "redirects st hs \<longleftrightarrow> st \<in> {301, 302, 303, 307, 308} \<and> answer_header hs ''location'' \<noteq> []"

definition redirect_target :: "net \<Rightarrow> settings \<Rightarrow> string set \<Rightarrow> string \<Rightarrow> headers \<Rightarrow> string res" where
  "redirect_target N cfg eligible current hs =
     (case n_urljoin N current (answer_header hs ''location'') of
        None \<Rightarrow> Inl (PyError ''ValueError'')
      | Some nxt \<Rightarrow>
          bindE (urlsplit (n_env N) nxt) (\<lambda>un. bindE (urlsplit (n_env N) current) (\<lambda>uc.
          let same_host = (py_lower (u_host un) = py_lower (u_host uc)) in
          if url_problem_of N cfg nxt \<noteq> None then Inl (GatewayError 403 ''redirect_not_allowed'')
          else if same_host then Inr nxt
          else bindE (norm_url N nxt) (\<lambda>key.
            if key \<in> eligible then Inr nxt else Inl (GatewayError 403 ''redirect_not_allowed'')))))"

text \<open>The loop over redirects, from a URL that passed, with the number of hops so far.\<close>

function fetch_loop ::
    "net \<Rightarrow> settings \<Rightarrow> string set \<Rightarrow> string \<Rightarrow> int \<Rightarrow> connection list \<Rightarrow>
       (string \<times> nat \<times> headers \<times> string) res \<times> connection list" where
  "fetch_loop N cfg eligible current hops sent =
     (case fetch_once N cfg current sent of
        (Inl e, sent) \<Rightarrow> (Inl e, sent)
      | (Inr (st, hs, body), sent) \<Rightarrow>
          if redirects st hs then
            if c_max_redirects cfg < hops + 1 then (Inl (GatewayError 502 ''too_many_redirects''), sent)
            else (case redirect_target N cfg eligible current hs of
                Inl e \<Rightarrow> (Inl e, sent)
              | Inr nxt \<Rightarrow> fetch_loop N cfg eligible nxt (hops + 1) sent)
          else (Inr (current, st, hs, body), sent))"
  by pat_completeness auto
termination
  by (relation "measure (\<lambda>(N, cfg, eligible, current, hops, sent). nat (c_max_redirects cfg - hops))") auto

declare fetch_loop.simps [simp del]

text \<open>What \<open>do_fetch\<close> does under the lock before and after the exchange.\<close>

definition begin_fetch :: "net \<Rightarrow> settings \<Rightarrow> string \<Rightarrow> run_state \<Rightarrow> run_state res" where
  "begin_fetch N cfg url run =
     bindE (limit_of run ''fetches'') (\<lambda>fetches.
     thenE (raise_if (fetches \<le> rs_fetches run) (GatewayError 429 ''fetch_quota_exceeded''))
     (bindE (limit_of run ''bytes'') (\<lambda>bytes.
     thenE (raise_if (bytes \<le> rs_bytes run) (GatewayError 429 ''byte_quota_exceeded''))
     (bindE (check_eligible N cfg run url True) (\<lambda>host.
       Inr (run\<lparr>rs_hosts := insert host (rs_hosts run), rs_fetches := rs_fetches run + 1\<rparr>))))))"

definition count_bytes :: "string \<Rightarrow> run_state \<Rightarrow> run_state" where
  "count_bytes body run = run\<lparr>rs_bytes := rs_bytes run + int (length body)\<rparr>"

definition allow_urls :: "string list \<Rightarrow> run_state \<Rightarrow> run_state" where
  "allow_urls keys run = run\<lparr>rs_eligible := rs_eligible run \<union> set keys\<rparr>"

definition content_type_of :: "headers \<Rightarrow> string" where
  "content_type_of hs = py_lower (py_strip (hd (split_on CHR '';'' (answer_header hs ''content-type''))))"

definition decode_body :: "net \<Rightarrow> headers \<Rightarrow> string \<Rightarrow> string" where
  "decode_body N hs body =
     (case n_charset N (answer_header hs ''content-type'') of
        None \<Rightarrow> decode_utf8 N body
      | Some charset \<Rightarrow> (case n_decode N charset body of None \<Rightarrow> decode_utf8 N body | Some s \<Rightarrow> s))"

text \<open>After the exchange: the state of the run so far, and the answer or an exception.\<close>

definition finish_fetch ::
    "net \<Rightarrow> settings \<Rightarrow> string \<Rightarrow> string \<times> nat \<times> headers \<times> string \<Rightarrow> (run_state, dict) act" where
  "finish_fetch N cfg url = (\<lambda>(current, st, hs, body).
     thenA (liftA (raise_if (content_type_of hs \<notin> set (c_allowed_content_types cfg)) (GatewayError 415 ''content_type_not_allowed'')))
     (thenA (modA (count_bytes body))
     (case extract_page N (decode_body N hs body) current (content_type_of hs) of (title, txt, raw_links) \<Rightarrow>
       bindA (getsA (\<lambda>run. bindE (limit_of run ''links'') (\<lambda>most. collect_links N cfg most [] raw_links))) (\<lambda>links.
       bindA (liftA (norm_url N current)) (\<lambda>final.
       thenA (modA (allow_urls (links @ [final])))
       (bindA (liftA (norm_url N url)) (\<lambda>key.
       bindA (getsA (\<lambda>run. limit_of run ''page_chars'')) (\<lambda>page_chars.
       retA [(''url'', JStr key), (''final_url'', JStr final), (''status'', JInt (int st)),
             (''title'', JStr (clean_text N (JStr title) 200)), (''text'', JStr (clean_text N (JStr txt) page_chars)),
             (''links'', JList (map JStr links))]))))))))"

definition do_fetch :: "net \<Rightarrow> settings \<Rightarrow> string \<Rightarrow> (run_state \<times> connection list, dict) act" where
  "do_fetch N cfg url = (\<lambda>(run, sent). case begin_fetch N cfg url run of
       Inl e \<Rightarrow> (Inl e, run, sent)
     | Inr run \<Rightarrow> (case fetch_loop N cfg (rs_eligible run) url 0 sent of
         (Inl e, sent) \<Rightarrow> (Inl e, run, sent)
       | (Inr page, sent) \<Rightarrow> (case finish_fetch N cfg url page run of (r, run) \<Rightarrow> (r, run, sent))))"

section \<open>Searching\<close>

text \<open>\<open>searx_query\<close>: the path asked for at the configured backend, and its answer.\<close>

definition searx_path :: "net \<Rightarrow> settings \<Rightarrow> string \<Rightarrow> string res" where
  "searx_path N cfg query = bindE (urlsplit (n_env N) (c_searxng_url cfg)) (\<lambda>su.
     Inr (rstrip_char CHR ''/'' (u_path su) @ ''/search?'' @
       n_urlencode N [(''q'', query), (''format'', ''json''), (''safesearch'', ''1'')]))"

definition searx_query :: "net \<Rightarrow> settings \<Rightarrow> nat \<Rightarrow> string \<Rightarrow> json res" where
  "searx_query N cfg k query = bindE (searx_path N cfg query) (\<lambda>path. case n_searx N k path of
       None \<Rightarrow> Inl (GatewayError 502 ''search_backend_error'')
     | Some (st, data) \<Rightarrow>
         if st \<noteq> 200 then Inl (GatewayError 502 ''search_backend_error'')
         else case e_loads (n_env N) (decode_utf8 N (py_take (2 * 1024 * 1024) data)) of
           None \<Rightarrow> Inl (GatewayError 502 ''search_backend_error'')
         | Some j \<Rightarrow> Inr j)"

definition begin_search :: "run_state \<Rightarrow> run_state res" where
  "begin_search run = bindE (limit_of run ''searches'') (\<lambda>searches.
     thenE (raise_if (searches \<le> rs_searches run) (GatewayError 429 ''search_quota_exceeded''))
     (Inr (run\<lparr>rs_searches := rs_searches run + 1\<rparr>)))"

definition do_search :: "net \<Rightarrow> settings \<Rightarrow> nat \<Rightarrow> json \<Rightarrow> (run_state, dict) act" where
  "do_search N cfg k query run =
     (let query = clean_text N query (c_query_chars cfg) in
      if query = [] then (Inl (GatewayError 400 ''empty_query''), run)
      else case begin_search run of
        Inl e \<Rightarrow> (Inl e, run)
      | Inr run \<Rightarrow> (case bindE (searx_query N cfg k query) (filter_results N cfg) of
          Inl e \<Rightarrow> (Inl e, run)
        | Inr results \<Rightarrow> (Inr [(''query'', JStr query), (''results'', JList (map snd results))], allow_urls (map fst results) run)))"

end
