(* ===== verification/Signed_Headers.thy ===== *)
theory Signed_Headers
  imports Backend
begin

text \<open>
  What a receiver finds in the headers the gateway signs (\<open>backend_headers\<close> of gateway.py), whatever
  their order and the optional ones: shared by the services that check the signature.
\<close>

lemma lower_names:
  "py_lower ''Content-Type'' = ''content-type''" "py_lower ''X-ASG-Agent-Id'' = ''x-asg-agent-id''"
  "py_lower ''X-ASG-Route-Id'' = ''x-asg-route-id''" "py_lower ''X-ASG-Request-SHA256'' = ''x-asg-request-sha256''"
  "py_lower ''X-ASG-Timestamp'' = ''x-asg-timestamp''" "py_lower ''X-ASG-Run-Id'' = ''x-asg-run-id''"
  "py_lower ''X-ASG-Task-Id'' = ''x-asg-task-id''" "py_lower ''Authorization'' = ''authorization''"
  "py_lower ''X-ASG-Signature'' = ''x-asg-signature''"
  by code_simp+

definition ascii_text :: "string \<Rightarrow> bool" where
  "ascii_text s \<longleftrightarrow> list_all (\<lambda>c. of_char c < (128 :: nat)) s"

lemma compare_digest_same: "ascii_text s \<Longrightarrow> compare_digest s s = Inr True"
  by (simp add: compare_digest_def ascii_text_def)

lemma header_get_Nil [simp]: "header_get [] k = []"
  by (simp add: header_get_def)

lemma header_get_Cons [simp]: "header_get ((n, v) # hs) k = (if py_lower n = py_lower k then v else header_get hs k)"
  by (simp add: header_get_def)

lemma signed_header_values:
  assumes "backend_headers E now hub d v body backend path = Inr hs"
    and "secret_named E hub ''backend_hmac_key_env'' = key" "key \<noteq> []" and "rd_run_id d = Some run" "run \<noteq> []"
  shows "header_get hs ''X-ASG-Agent-Id'' = va_agent_id v" "header_get hs ''X-ASG-Route-Id'' = rd_route_id d"
    "header_get hs ''X-ASG-Request-SHA256'' = e_sha256 E body" "header_get hs ''X-ASG-Timestamp'' = e_isosec E now"
    "header_get hs ''X-ASG-Run-Id'' = run" "header_get hs ''X-ASG-Task-Id'' = str_or_empty (rd_task_id d)"
    "header_get hs ''X-ASG-Signature'' = ''sha256='' @ e_hmac E key (backend_signature_canonical ''POST'' path (e_sha256 E body)
      (va_agent_id v) (rd_route_id d) run (str_or_empty (rd_task_id d)) (e_isosec E now))"
proof -
  define sig where "sig = ''sha256='' @ e_hmac E key (backend_signature_canonical ''POST'' path (e_sha256 E body)
      (va_agent_id v) (rd_route_id d) run (str_or_empty (rd_task_id d)) (e_isosec E now))"
  define task api where "task = str_or_empty (rd_task_id d)" and "api = secret_named E backend ''api_key_env''"
  have run: "str_or_empty (rd_run_id d) = run" using assms(4) by (simp add: str_or_empty_def)
  have hs: "hs = [(''Content-Type'', ''application/json''), (''X-ASG-Agent-Id'', va_agent_id v), (''X-ASG-Route-Id'', rd_route_id d),
                (''X-ASG-Request-SHA256'', e_sha256 E body), (''X-ASG-Timestamp'', e_isosec E now), (''X-ASG-Run-Id'', run)] @
               only_if (task \<noteq> []) (''X-ASG-Task-Id'', task) @
               only_if (api \<noteq> []) (''Authorization'', ''Bearer '' @ api) @ [(''X-ASG-Signature'', sig)]"
    using assms(1) assms(3,5) unfolding backend_headers_def Let_def assms(2) run sig_def task_def api_def
    by (auto simp: only_if_def split: if_splits)
  show "header_get hs ''X-ASG-Agent-Id'' = va_agent_id v" "header_get hs ''X-ASG-Route-Id'' = rd_route_id d"
    "header_get hs ''X-ASG-Request-SHA256'' = e_sha256 E body" "header_get hs ''X-ASG-Timestamp'' = e_isosec E now"
    "header_get hs ''X-ASG-Run-Id'' = run"
    unfolding hs by (simp_all add: lower_names)
  show "header_get hs ''X-ASG-Task-Id'' = str_or_empty (rd_task_id d)"
    unfolding hs task_def[symmetric] by (simp add: lower_names only_if_def)
  show "header_get hs ''X-ASG-Signature'' = ''sha256='' @ e_hmac E key (backend_signature_canonical ''POST'' path (e_sha256 E body)
      (va_agent_id v) (rd_route_id d) run (str_or_empty (rd_task_id d)) (e_isosec E now))"
    unfolding hs sig_def[symmetric] by (simp add: lower_names only_if_def)
qed

end
