(* ===== verification/Research_Service.thy ===== *)
theory Research_Service
  imports Research_Fetch
begin

text \<open>
  The research service as the hub and the orchestrator see it
  (\<open>setup/research-service/research_service.py\<close>): its configuration file, the registry of runs, the two signatures, and the
  handler \<open>do_POST\<close>. One request is served at a time here; \<open>Research_Safety\<close> lets the critical
  sections of several interleave.
\<close>

section \<open>The configuration file\<close>

text \<open>\<open>load_config\<close> over the built-in values; whether the regular expressions compile is a parameter.\<close>

fun merge_config :: "dict \<Rightarrow> dict \<Rightarrow> dict res" where
  "merge_config cfg [] = Inr cfg"
| "merge_config cfg ((k, v) # user) =
     (case map_of cfg k of
        None \<Rightarrow> Inl (PyError ''ValueError'')
      | Some old \<Rightarrow> (case (old, v) of
            (JObj a, JObj b) \<Rightarrow> merge_config (AList.update k (JObj (foldl (\<lambda>d (k, v). AList.update k v d) a b)) cfg) user
          | _ \<Rightarrow> merge_config (AList.update k v cfg) user))"

definition load_research_config :: "env \<Rightarrow> (json \<Rightarrow> bool) \<Rightarrow> dict \<Rightarrow> json option \<Rightarrow> dict res" where
  "load_research_config E compiles defaults file_value =
     bindE (case file_value of None \<Rightarrow> Inr defaults | Some user \<Rightarrow> bindE (py_items user) (merge_config defaults)) (\<lambda>cfg.
     bindE (urlsplit E (py_str E (dget0 cfg ''searxng_url''))) (\<lambda>su.
     thenE (raise_if (u_scheme su \<notin> {''http'', ''https''} \<or> u_host su = []) (PyError ''ValueError''))
     (bindE (py_iter (dget0 cfg ''blocked_url_regex'')) (\<lambda>patterns.
     thenE (forE patterns (\<lambda>rx. raise_if (\<not> compiles rx) (PyError ''error'')))
     (Inr cfg)))))"

section \<open>The registry of runs\<close>

record service =
  sv_runs :: "(string \<times> run_state) list"
  sv_sent :: "connection list"                       \<comment> \<open>the connections made so far to fetch pages\<close>
  sv_asked :: nat                                    \<comment> \<open>the searches asked for so far: connections to the configured backend\<close>

text \<open>\<open>RUN_ID_RE.match\<close>: its \<open>$\<close> also matches before a final line feed.\<close>

definition run_id_matches :: "string \<Rightarrow> bool" where
  "run_id_matches s = (case drop_final_newline s of
       [] \<Rightarrow> False
     | c # t \<Rightarrow> is_alnum c \<and> length t \<le> 95 \<and> list_all (\<lambda>c. is_alnum c \<or> c \<in> set ''_.-'') t)"

fun merge_limits :: "(string \<times> int) list \<Rightarrow> (string \<times> int) list \<Rightarrow> dict \<Rightarrow> (string \<times> int) list" where
  "merge_limits caps merged [] = merged"
| "merge_limits caps merged ((k, v) # d) =
     (case (map_of caps k, v) of
        (Some cap, JInt n) \<Rightarrow> merge_limits caps (if 0 < n then AList.update k (min n cap) merged else merged) d
      | _ \<Rightarrow> merge_limits caps merged d)"

definition first_seeds :: "json \<Rightarrow> json list res" where  \<comment> \<open>\<open>(seeds or [])[:10]\<close>\<close>
  "first_seeds seeds = (case py_or seeds (JList []) of
       JList l \<Rightarrow> Inr (take 10 l)
     | JStr s \<Rightarrow> Inr (map (\<lambda>c. JStr [c]) (take 10 s))
     | _ \<Rightarrow> Inl (PyError ''TypeError''))"

definition good_seeds :: "net \<Rightarrow> settings \<Rightarrow> json list \<Rightarrow> string list" where
  "good_seeds N cfg js = concat (map (\<lambda>j. case j of
       JStr s \<Rightarrow> if url_problem N cfg j = None then [s] else []
     | _ \<Rightarrow> []) js)"

definition registry_gc :: "rat \<Rightarrow> service \<Rightarrow> service" where
  "registry_gc now sv = sv\<lparr>sv_runs := filter (\<lambda>(k, r). \<not> rs_expires r < now) (sv_runs sv)\<rparr>"

definition register_run :: "net \<Rightarrow> settings \<Rightarrow> rat \<Rightarrow> string \<Rightarrow> json \<Rightarrow> json \<Rightarrow> (service, dict) act" where
  "register_run N cfg now run_id seeds limits =
     bindA (liftA (py_items (py_or limits (JObj [])))) (\<lambda>items.
     bindA (liftA (first_seeds seeds)) (\<lambda>js.
     let merged = merge_limits (c_limit_caps cfg) (c_limits cfg) items; seeds = good_seeds N cfg js in
     thenA (modA (registry_gc now))
     (bindA (liftA (new_run_state N merged (c_run_ttl_seconds cfg) now seeds)) (\<lambda>run.
     thenA (modA (\<lambda>sv. sv\<lparr>sv_runs := AList.update run_id run (sv_runs sv)\<rparr>))
     (retA [(''run_id'', JStr run_id), (''seeds'', JInt (int (length seeds))),
            (''limits'', JObj (map (\<lambda>(k, n). (k, JInt n)) merged))])))))"

definition registry_get :: "rat \<Rightarrow> string \<Rightarrow> (service, run_state) act" where
  "registry_get now run_id =
     thenA (modA (registry_gc now))
     (getsA (\<lambda>sv. case map_of (sv_runs sv) run_id of
        None \<Rightarrow> Inl (GatewayError 403 ''run_not_registered'') | Some run \<Rightarrow> Inr run))"

section \<open>The signatures\<close>

definition canonical :: "string \<Rightarrow> string \<Rightarrow> string \<Rightarrow> string \<Rightarrow> string \<Rightarrow> string \<Rightarrow> string \<Rightarrow> string \<Rightarrow> string" where
  "canonical verb path sha agent route run_id task_id timestamp =
     py_join [newline] [upper_ascii verb, path, sha, agent, route, run_id, task_id, timestamp]"

definition agent_allowed :: "string \<Rightarrow> string \<Rightarrow> settings \<Rightarrow> bool" where
  "agent_allowed agent run_id cfg \<longleftrightarrow> agent \<in> set (c_allowed_agents cfg) \<or>
     (CHR ''@'' \<in> set agent \<and> takeWhile (\<lambda>c. c \<noteq> CHR ''@'') agent \<in> set (c_allowed_agents cfg) \<and>
      drop 1 (dropWhile (\<lambda>c. c \<noteq> CHR ''@'') agent) = run_id)"

text \<open>Within two minutes of now; times in microseconds.\<close>

definition timestamp_fresh :: "env \<Rightarrow> int \<Rightarrow> string \<Rightarrow> bool" where
  "timestamp_fresh E now ts =
     (case e_iso E (concat (map (\<lambda>c. if c = CHR ''Z'' then ''+00:00'' else [c]) ts)) of
        Some (t, Some offset) \<Rightarrow> \<bar>now - (t - offset)\<bar> \<le> 120 * 1000000
      | _ \<Rightarrow> False)"

definition verify_hub_request ::
    "net \<Rightarrow> settings \<Rightarrow> int \<Rightarrow> headers \<Rightarrow> string \<Rightarrow> string \<Rightarrow> (string \<times> string) res" where
  "verify_hub_request N cfg now hs raw path =
     (let E = n_env N; key = e_getenv E (c_backend_hmac_key_env cfg); body_sha = e_sha_bytes E raw;
          agent = header_get hs ''X-ASG-Agent-Id''; route = header_get hs ''X-ASG-Route-Id'';
          run_id = header_get hs ''X-ASG-Run-Id''; task_id = header_get hs ''X-ASG-Task-Id'';
          ts = header_get hs ''X-ASG-Timestamp'' in
      thenE (raise_if (length key < 32) (GatewayError 500 ''service_not_configured''))
      (bindE (compare_digest (header_get hs ''X-ASG-Request-SHA256'') body_sha) (\<lambda>same_body.
      thenE (raise_if (\<not> same_body) (GatewayError 401 ''bad_body_hash''))
      (thenE (raise_if (\<not> agent_allowed agent run_id cfg \<or> map_of (c_route_ids cfg) path \<noteq> Some route \<or> \<not> run_id_matches run_id)
        (GatewayError 403 ''caller_not_allowed''))
      (thenE (raise_if (\<not> timestamp_fresh E now ts) (GatewayError 401 ''bad_timestamp''))
      (bindE (compare_digest (header_get hs ''X-ASG-Signature'')
         (''sha256='' @ e_hmac E key (canonical ''POST'' path body_sha agent route run_id task_id ts))) (\<lambda>signed.
      thenE (raise_if (\<not> signed) (GatewayError 401 ''bad_signature''))
      (Inr (run_id, task_id)))))))))"

definition verify_register :: "net \<Rightarrow> settings \<Rightarrow> int \<Rightarrow> headers \<Rightarrow> string \<Rightarrow> unit res" where
  "verify_register N cfg now hs raw =
     (let E = n_env N; key = e_getenv E (c_register_key_env cfg); ts = header_get hs ''X-Register-Timestamp'' in
      thenE (raise_if (length key < 32) (GatewayError 500 ''service_not_configured''))
      (thenE (raise_if (\<not> timestamp_fresh E now ts) (GatewayError 401 ''bad_timestamp''))
      (bindE (compare_digest (header_get hs ''X-Register-Signature'')
         (''sha256='' @ n_hmac_bytes N key (e_encode E ts @ [newline] @ raw))) (\<lambda>signed.
      raise_if (\<not> signed) (GatewayError 401 ''bad_signature'')))))"

section \<open>The handler\<close>

record research_call =
  rq_target :: string
  rq_headers :: headers
  rq_body :: string                                  \<comment> \<open>the bytes the client sends\<close>
  rq_now :: int
  rq_clock :: rat

definition research_content_length :: "headers \<Rightarrow> int res" where  \<comment> \<open>\<open>int(headers.get("Content-Length", "0"))\<close>\<close>
  "research_content_length hs = (case find (\<lambda>(n, v). py_lower n = ''content-length'') hs of
       None \<Rightarrow> Inr 0 | Some (n, v) \<Rightarrow> int_of_str v)"

definition read_request :: "net \<Rightarrow> research_call \<Rightarrow> (string \<times> dict) res" where
  "read_request N q =
     bindE (research_content_length (rq_headers q)) (\<lambda>len.
     thenE (raise_if (len < 0 \<or> 65536 < len) (GatewayError 413 ''body_too_large''))
     (let raw = take (nat len) (rq_body q) in
      bindE (if raw = [] then Inr (JObj [])
             else case e_utf8 (n_env N) raw of
               None \<Rightarrow> Inl (GatewayError 400 ''bad_json'')
             | Some s \<Rightarrow> (case e_loads (n_env N) s of None \<Rightarrow> Inl (GatewayError 400 ''bad_json'') | Some j \<Rightarrow> Inr j)) (\<lambda>payload.
      case payload of JObj d \<Rightarrow> Inr (raw, d) | _ \<Rightarrow> Inl (GatewayError 400 ''bad_json''))))"

definition handle_register :: "net \<Rightarrow> settings \<Rightarrow> research_call \<Rightarrow> string \<Rightarrow> dict \<Rightarrow> (service, dict) act" where
  "handle_register N cfg q raw payload =
     thenA (liftA (verify_register N cfg (rq_now q) (rq_headers q) raw))
     (case dget0 payload ''run_id'' of
        JStr run_id \<Rightarrow>
          if run_id_matches run_id
          then register_run N cfg (rq_clock q) run_id (dget0 payload ''seed_urls'') (dget0 payload ''limits'')
          else liftA (Inl (GatewayError 400 ''bad_run_id''))
      | _ \<Rightarrow> liftA (Inl (GatewayError 400 ''bad_run_id'')))"

text \<open>The operations change the object of the run in place.\<close>

definition on_search :: "net \<Rightarrow> settings \<Rightarrow> string \<Rightarrow> run_state \<Rightarrow> json \<Rightarrow> (service, dict) act" where
  "on_search N cfg run_id run query sv = (case do_search N cfg (sv_asked sv) query run of
       (r, run) \<Rightarrow> (r, sv\<lparr>sv_runs := AList.update run_id run (sv_runs sv), sv_asked := sv_asked sv + 1\<rparr>))"

definition on_fetch :: "net \<Rightarrow> settings \<Rightarrow> string \<Rightarrow> run_state \<Rightarrow> string \<Rightarrow> (service, dict) act" where
  "on_fetch N cfg run_id run url sv = (case do_fetch N cfg url (run, sv_sent sv) of
       (r, run, sent) \<Rightarrow> (r, sv\<lparr>sv_runs := AList.update run_id run (sv_runs sv), sv_sent := sent\<rparr>))"

definition handle_research :: "net \<Rightarrow> settings \<Rightarrow> research_call \<Rightarrow> string \<Rightarrow> string \<Rightarrow> dict \<Rightarrow> (service, dict) act" where
  "handle_research N cfg q path raw payload =
     bindA (liftA (verify_hub_request N cfg (rq_now q) (rq_headers q) raw path)) (\<lambda>(run_id, task_id).
     bindA (registry_get (rq_clock q) run_id) (\<lambda>run.
     if path = ''/search'' then on_search N cfg run_id run (dget0 payload ''query'')
     else case dget0 payload ''url'' of
       JStr url \<Rightarrow> on_fetch N cfg run_id run url
     | _ \<Rightarrow> liftA (Inl (GatewayError 400 ''bad_url''))))"

definition serve_post :: "net \<Rightarrow> settings \<Rightarrow> research_call \<Rightarrow> (service, dict) act" where
  "serve_post N cfg q =
     bindA (liftA (urlsplit (n_env N) (rq_target q))) (\<lambda>u.
     bindA (liftA (read_request N q)) (\<lambda>(raw, payload).
     if u_path u = ''/register'' then handle_register N cfg q raw payload
     else if map_of (c_route_ids cfg) (u_path u) = None then liftA (Inl (GatewayError 404 ''not_found''))
     else handle_research N cfg q (u_path u) raw payload))"

definition error_answer :: "exn \<Rightarrow> nat \<times> dict" where
  "error_answer e = (case e of
       GatewayError st c \<Rightarrow> (st, [(''error'', JObj [(''code'', JStr c)])])
     | PyError _ \<Rightarrow> (500, [(''error'', JObj [(''code'', JStr ''internal_error'')])]))"

definition research_post :: "net \<Rightarrow> settings \<Rightarrow> research_call \<Rightarrow> service \<Rightarrow> (nat \<times> dict) \<times> service" where
  "research_post N cfg q sv = (case serve_post N cfg q sv of
       (Inl e, sv) \<Rightarrow> (error_answer e, sv) | (Inr d, sv) \<Rightarrow> ((200, d), sv))"

definition research_get :: "string \<Rightarrow> nat \<times> dict" where
  "research_get target = (if target = ''/healthz'' then (200, [(''ok'', JBool True)])
     else (404, [(''error'', JObj [(''code'', JStr ''not_found'')])]))"

section \<open>Inputs the service does not expect\<close>

lemma filter_results_raises: "filter_results N cfg (JObj [(''results'', JInt 5)]) = Inl (PyError ''TypeError'')"
  by (simp add: filter_results_def py_or_def)

lemma run_id_line_feed: "run_id_matches (''r1'' @ [newline])"
  by code_simp

lemma non_ascii_path_raises:
  assumes "urlsplit (n_env N) url = Inr u" and "c \<in> set (u_path u)" and "(128 :: nat) \<le> of_char c"
    and "n_connect N (length sent) (connection_for url u addrs)"
  shows "fst (http_get_pinned N cfg url addrs sent) = Inl (PyError ''UnicodeEncodeError'')"
proof -
  have "\<not> list_all (\<lambda>c. of_char c < (128 :: nat)) (cn_target (connection_for url u addrs))"
    using assms(2,3) by (cases "u_path u") (auto simp: connection_for_def list_all_iff not_less)
  with assms(1,4) show ?thesis by (simp add: http_get_pinned_def Let_def)
qed

end
