(* ===== verification/Research_Safety.thy ===== *)
theory Research_Safety
  imports Research_Service Signed_Headers
begin

text \<open>
  What the research service promises: which connections a fetch makes and how many, what a run may
  use up when its requests interleave, and that the hub's signature is the one it accepts.
\<close>

section \<open>Connections\<close>

definition same_host :: "net \<Rightarrow> string \<Rightarrow> string \<Rightarrow> bool" where
  "same_host N a b \<longleftrightarrow> (\<exists>u v. urlsplit (n_env N) a = Inr u \<and> urlsplit (n_env N) b = Inr v \<and>
     py_lower (u_host u) = py_lower (u_host v))"

text \<open>A URL without a problem that is on the host of an eligible one without a problem.\<close>

definition url_permitted :: "net \<Rightarrow> settings \<Rightarrow> string set \<Rightarrow> string \<Rightarrow> bool" where
  "url_permitted N cfg eligible url \<longleftrightarrow> url_problem_of N cfg url = None \<and>
     (\<exists>e key. url_problem_of N cfg e = None \<and> norm_url N e = Inr key \<and> key \<in> eligible \<and> same_host N e url)"

definition connection_permitted :: "net \<Rightarrow> settings \<Rightarrow> string set \<Rightarrow> connection \<Rightarrow> bool" where
  "connection_permitted N cfg eligible cn \<longleftrightarrow> url_permitted N cfg eligible (cn_url cn) \<and> acceptable_address (cn_address cn) \<and>
     (\<exists>u. urlsplit (n_env N) (cn_url cn) = Inr u \<and> cn_host cn = u_host u)"

lemma collect_addresses_acceptable:
  "collect_addresses acc as = Inr addrs \<Longrightarrow> list_all acceptable_address acc \<Longrightarrow> list_all acceptable_address addrs"
  by (induction acc as rule: collect_addresses.induct) (auto split: if_splits)

lemma public_addresses_acceptable:
  "public_addresses N k host = Inr addrs \<Longrightarrow> addrs \<noteq> [] \<and> list_all acceptable_address addrs"
  by (auto simp: public_addresses_def bindE_Inr collect_addresses_acceptable split: option.splits if_splits)

lemma same_host_trans: "same_host N a b \<Longrightarrow> same_host N b c \<Longrightarrow> same_host N a c"
  by (auto simp: same_host_def)

lemma same_host_refl: "urlsplit (n_env N) a = Inr u \<Longrightarrow> same_host N a a"
  by (auto simp: same_host_def)

lemma norm_url_splits: "norm_url N url = Inr key \<Longrightarrow> \<exists>u. urlsplit (n_env N) url = Inr u"
  by (auto simp: norm_url_def bindE_Inr)

lemma eligible_url_permitted:
  "url_problem_of N cfg url = None \<Longrightarrow> norm_url N url = Inr key \<Longrightarrow> key \<in> eligible \<Longrightarrow> url_permitted N cfg eligible url"
  using norm_url_splits[of N url key] by (auto simp: url_permitted_def same_host_def)

lemma redirect_target_permitted:
  assumes "redirect_target N cfg eligible current hs = Inr nxt" and "url_permitted N cfg eligible current"
  shows "url_permitted N cfg eligible nxt"
proof -
  from assms(1) obtain un uc where
    j: "urlsplit (n_env N) nxt = Inr un" "urlsplit (n_env N) current = Inr uc" "url_problem_of N cfg nxt = None"
    and k: "py_lower (u_host un) = py_lower (u_host uc) \<or> (\<exists>key. norm_url N nxt = Inr key \<and> key \<in> eligible)"
    by (auto simp: redirect_target_def bindE_Inr Let_def split: option.splits if_splits)
  from k show ?thesis
  proof
    assume "py_lower (u_host un) = py_lower (u_host uc)"
    with j have "same_host N current nxt" by (auto simp: same_host_def)
    with assms(2) j(3) show ?thesis unfolding url_permitted_def by (metis same_host_trans)
  next
    assume "\<exists>key. norm_url N nxt = Inr key \<and> key \<in> eligible"
    with j(3) show ?thesis by (auto intro: eligible_url_permitted)
  qed
qed

lemma http_get_pinned_sends:
  "urlsplit (n_env N) url = Inr u \<Longrightarrow> snd (http_get_pinned N cfg url addrs sent) = sent @ [connection_for url u addrs]"
  by (simp add: http_get_pinned_def Let_def split: option.split)

lemma connection_for_permitted:
  "url_permitted N cfg eligible url \<Longrightarrow> urlsplit (n_env N) url = Inr u \<Longrightarrow> addrs \<noteq> [] \<Longrightarrow> list_all acceptable_address addrs \<Longrightarrow>
     connection_permitted N cfg eligible (connection_for url u addrs)"
  by (cases addrs) (auto simp: connection_permitted_def connection_for_def)

lemma fetch_once_sends:
  assumes "fetch_once N cfg current sent = (r, t)" and "url_permitted N cfg eligible current"
  shows "\<exists>new. t = sent @ new \<and> length new \<le> 1 \<and> list_all (connection_permitted N cfg eligible) new"
proof (cases "bindE (urlsplit (n_env N) current) (\<lambda>u. public_addresses N (length sent) (u_host u))")
  case (Inl e)
  then have "t = sent" using assms(1) by (simp add: fetch_once_def)
  then show ?thesis by simp
next
  case (Inr addrs)
  then obtain u where u: "urlsplit (n_env N) current = Inr u" "public_addresses N (length sent) (u_host u) = Inr addrs"
    by (auto simp: bindE_Inr)
  from Inr have "http_get_pinned N cfg current addrs sent = (r, t)" using assms(1) by (simp add: fetch_once_def)
  then have "t = sent @ [connection_for current u addrs]" using http_get_pinned_sends[OF u(1), of cfg addrs sent] by simp
  with public_addresses_acceptable[OF u(2)] assms(2) u(1) show ?thesis by (simp add: connection_for_permitted)
qed

lemma fetch_loop_sends:
  assumes "fetch_loop N cfg eligible current hops sent = (r, t)" and "url_permitted N cfg eligible current"
  shows "\<exists>new. t = sent @ new \<and> length new \<le> nat (c_max_redirects cfg - hops) + 1 \<and>
     list_all (connection_permitted N cfg eligible) new \<and>
     (\<forall>url st hs body. r = Inr (url, st, hs, body) \<longrightarrow> url_permitted N cfg eligible url)"
  using assms
proof (induction N cfg eligible current hops sent arbitrary: r t rule: fetch_loop.induct)
  case (1 N cfg eligible current hops sent)
  obtain x t0 where once: "fetch_once N cfg current sent = (x, t0)" by (cases "fetch_once N cfg current sent")
  from fetch_once_sends[OF once 1(3)] obtain new where
    new: "t0 = sent @ new" "length new \<le> 1" "list_all (connection_permitted N cfg eligible) new" by blast
  note step = 1(2)[unfolded fetch_loop.simps[of N cfg eligible current hops sent] once]
  have stop: ?case if "t = t0" "\<And>url st hs body. r = Inr (url, st, hs, body) \<Longrightarrow> url = current"
    using that new 1(3) by (intro exI[of _ new]) auto
  show ?case
  proof (cases "\<exists>st hs body nxt. x = Inr (st, hs, body) \<and> redirects st hs \<and> hops + 1 \<le> c_max_redirects cfg \<and>
      redirect_target N cfg eligible current hs = Inr nxt")
    case False
    show ?thesis using step False by (intro stop) (auto split: sum.splits prod.splits if_splits)
  next
    case True
    then obtain st hs body nxt where x: "x = Inr (st, hs, body)" "redirects st hs" "hops + 1 \<le> c_max_redirects cfg"
      "redirect_target N cfg eligible current hs = Inr nxt" by blast
    from step x have rec: "fetch_loop N cfg eligible nxt (hops + 1) t0 = (r, t)" by simp
    have "\<exists>more. t = t0 @ more \<and> length more \<le> nat (c_max_redirects cfg - (hops + 1)) + 1 \<and>
        list_all (connection_permitted N cfg eligible) more \<and>
        (\<forall>url st hs body. r = Inr (url, st, hs, body) \<longrightarrow> url_permitted N cfg eligible url)"
      by (rule 1(1)[OF once[symmetric] x(1) refl refl x(2) _ x(4) rec redirect_target_permitted[OF x(4) 1(3)]])
         (use x(3) in simp)
    then obtain rest where "t = t0 @ rest" "length rest \<le> nat (c_max_redirects cfg - (hops + 1)) + 1"
        "list_all (connection_permitted N cfg eligible) rest"
        "\<forall>url st hs body. r = Inr (url, st, hs, body) \<longrightarrow> url_permitted N cfg eligible url" by blast
    with new x(3) show ?thesis by (intro exI[of _ "new @ rest"]) auto
  qed
qed

lemma begin_fetch_Inr:
  assumes "begin_fetch N cfg url run = Inr run'"
  shows "\<exists>fetches bytes key u. map_of (rs_limits run) ''fetches'' = Some fetches \<and> rs_fetches run < fetches \<and>
     map_of (rs_limits run) ''bytes'' = Some bytes \<and> rs_bytes run < bytes \<and>
     url_problem_of N cfg url = None \<and> norm_url N url = Inr key \<and> key \<in> rs_eligible run \<and>
     urlsplit (n_env N) url = Inr u \<and> check_eligible N cfg run url True = Inr (bare_host u) \<and>
     run' = run\<lparr>rs_hosts := insert (bare_host u) (rs_hosts run), rs_fetches := rs_fetches run + 1\<rparr>"
proof -
  from assms obtain fetches bytes host where
    l: "map_of (rs_limits run) ''fetches'' = Some fetches" "rs_fetches run < fetches"
       "map_of (rs_limits run) ''bytes'' = Some bytes" "rs_bytes run < bytes"
    and c: "check_eligible N cfg run url True = Inr host"
    and r: "run' = run\<lparr>rs_hosts := insert host (rs_hosts run), rs_fetches := rs_fetches run + 1\<rparr>"
    by (auto simp: begin_fetch_def limit_of_def res_simps not_le split: option.splits)
  from c obtain key u where "url_problem_of N cfg url = None" "norm_url N url = Inr key" "key \<in> rs_eligible run"
      "urlsplit (n_env N) url = Inr u" "host = bare_host u"
    by (auto simp: check_eligible_def bindE_Inr split: option.splits if_splits)
  with l c r show ?thesis by blast
qed

text \<open>A fetch the service grants: signed by the hub, for a registered run that has not expired, within its quotas.\<close>

definition fetch_granted :: "net \<Rightarrow> settings \<Rightarrow> research_call \<Rightarrow> service \<Rightarrow> run_state \<Rightarrow> string \<Rightarrow> bool" where
  "fetch_granted N cfg q sv run url \<longleftrightarrow> (\<exists>u raw payload run_id task_id run'.
     urlsplit (n_env N) (rq_target q) = Inr u \<and> read_request N q = Inr (raw, payload) \<and>
     verify_hub_request N cfg (rq_now q) (rq_headers q) raw (u_path u) = Inr (run_id, task_id) \<and>
     (run_id, run) \<in> set (sv_runs sv) \<and> \<not> rs_expires run < rq_clock q \<and>
     dget0 payload ''url'' = JStr url \<and> begin_fetch N cfg url run = Inr run')"

definition sends_nothing :: "(service, 'a) act \<Rightarrow> bool" where
  "sends_nothing m \<longleftrightarrow> stable (\<lambda>s t. sv_sent t = sv_sent s) m"

lemma sent_rel: "reflp (\<lambda>s t. sv_sent t = sv_sent s)" "transp (\<lambda>s t. sv_sent t = sv_sent s)"
  by (auto simp: reflp_def transp_def)

lemma sends_nothing_intros [intro]:
  "sends_nothing (retA x)" "sends_nothing (liftA m)" "sends_nothing (getsA f)"
  "(\<And>s. sv_sent (g s) = sv_sent s) \<Longrightarrow> sends_nothing (modA g)"
  "sends_nothing a \<Longrightarrow> (\<And>x. sends_nothing (h x)) \<Longrightarrow> sends_nothing (bindA a h)"
  "sends_nothing a \<Longrightarrow> sends_nothing b \<Longrightarrow> sends_nothing (thenA a b)"
  by (auto simp: sends_nothing_def sent_rel intro: stable_bindA stable_thenA stable_pure) (auto simp: stable_def)

lemma sends_nothingD: "sends_nothing m \<Longrightarrow> m s = (r, t) \<Longrightarrow> sv_sent t = sv_sent s"
  by (auto simp: sends_nothing_def dest: stableD)

lemma registry_gc_sends_nothing [simp]: "sv_sent (registry_gc now sv) = sv_sent sv"
  by (simp add: registry_gc_def)

lemma handle_register_sends_nothing: "sends_nothing (handle_register N cfg q raw payload)"
proof -
  have "sends_nothing (register_run N cfg now run_id seeds limits)" for now run_id seeds limits
    unfolding register_run_def Let_def by (intro sends_nothing_intros) simp_all
  then show ?thesis
    unfolding handle_register_def by (cases "dget0 payload ''run_id''") (auto intro!: sends_nothing_intros)
qed

lemma on_search_sends_nothing: "sends_nothing (on_search N cfg run_id run query)"
  by (auto simp: sends_nothing_def stable_def on_search_def split: prod.split)

lemma registry_get_Inr:
  "registry_get now run_id sv = (Inr run, sv') \<Longrightarrow> (run_id, run) \<in> set (sv_runs sv) \<and> \<not> rs_expires run < now \<and> sv' = registry_gc now sv"
  by (auto simp: registry_get_def thenA_def bindA_def registry_gc_def split: option.splits dest!: map_of_SomeD)

lemma do_fetch_sends:
  assumes "do_fetch N cfg url (run, sent) = (r, run', sent')"
  shows "\<exists>new. sent' = sent @ new \<and> length new \<le> nat (c_max_redirects cfg) + 1 \<and>
     (new \<noteq> [] \<longrightarrow> (\<exists>run1. begin_fetch N cfg url run = Inr run1) \<and> list_all (connection_permitted N cfg (rs_eligible run)) new)"
proof (cases "begin_fetch N cfg url run")
  case (Inl e)
  with assms show ?thesis by (simp add: do_fetch_def)
next
  case (Inr run1)
  from begin_fetch_Inr[OF Inr] obtain key where url: "url_problem_of N cfg url = None" "norm_url N url = Inr key"
      "key \<in> rs_eligible run" and el: "rs_eligible run1 = rs_eligible run" by auto
  obtain x t where loop: "fetch_loop N cfg (rs_eligible run1) url 0 sent = (x, t)"
    by (cases "fetch_loop N cfg (rs_eligible run1) url 0 sent")
  have "sent' = t" using assms Inr loop by (auto simp: do_fetch_def split: sum.splits prod.splits)
  with fetch_loop_sends[OF loop[unfolded el] eligible_url_permitted[OF url]] Inr show ?thesis by auto
qed

definition confined :: "net \<Rightarrow> settings \<Rightarrow> research_call \<Rightarrow> service \<Rightarrow> service \<Rightarrow> bool" where
  "confined N cfg q sv sv' \<longleftrightarrow> (\<exists>new. sv_sent sv' = sv_sent sv @ new \<and> length new \<le> nat (c_max_redirects cfg) + 1 \<and>
     (new \<noteq> [] \<longrightarrow> (\<exists>run url. fetch_granted N cfg q sv run url \<and> list_all (connection_permitted N cfg (rs_eligible run)) new)))"

lemma confined_quiet: "sv_sent sv' = sv_sent sv \<Longrightarrow> confined N cfg q sv sv'"
  by (simp add: confined_def)

lemma handle_research_confined:
  assumes h: "handle_research N cfg q (u_path u) raw payload sv = (r, sv')"
    and q: "urlsplit (n_env N) (rq_target q) = Inr u" "read_request N q = Inr (raw, payload)"
  shows "confined N cfg q sv sv'"
proof (cases "verify_hub_request N cfg (rq_now q) (rq_headers q) raw (u_path u)")
  case (Inl e)
  with h show ?thesis by (auto simp: handle_research_def bindA_def intro: confined_quiet)
next
  case (Inr ids)
  then obtain run_id task_id where v: "verify_hub_request N cfg (rq_now q) (rq_headers q) raw (u_path u) = Inr (run_id, task_id)"
    by (cases ids) auto
  obtain x t where get: "registry_get (rq_clock q) run_id sv = (x, t)" by (cases "registry_get (rq_clock q) run_id sv")
  then have t: "t = registry_gc (rq_clock q) sv"
    by (auto simp: registry_get_def thenA_def bindA_def)
  show ?thesis
  proof (cases x)
    case (Inl e)
    with h v get t show ?thesis by (auto simp: handle_research_def bindA_def intro: confined_quiet)
  next
    case run: (Inr run)
    have rest: "(if u_path u = ''/search'' then on_search N cfg run_id run (dget0 payload ''query'')
       else case dget0 payload ''url'' of JStr url \<Rightarrow> on_fetch N cfg run_id run url
         | _ \<Rightarrow> liftA (Inl (GatewayError 400 ''bad_url''))) t = (r, sv')"
      using h v get run by (simp add: handle_research_def bindA_def)
    show ?thesis
    proof (cases "u_path u \<noteq> ''/search'' \<and> (\<exists>url. dget0 payload ''url'' = JStr url)")
      case False
      with rest have "sv_sent sv' = sv_sent t"
        by (auto dest: sends_nothingD[OF on_search_sends_nothing] split: if_splits json.splits)
      with t show ?thesis by (auto intro: confined_quiet)
    next
      case True
      then obtain url where url: "dget0 payload ''url'' = JStr url" "u_path u \<noteq> ''/search''" by blast
      obtain y run' sent' where f: "do_fetch N cfg url (run, sv_sent sv) = (y, run', sent')"
        by (cases "do_fetch N cfg url (run, sv_sent sv)") auto
      from rest url t f have "sv_sent sv' = sent'" by (auto simp: on_fetch_def)
      with do_fetch_sends[OF f] obtain new where new: "sv_sent sv' = sv_sent sv @ new" "length new \<le> nat (c_max_redirects cfg) + 1"
        "new \<noteq> [] \<longrightarrow> (\<exists>run1. begin_fetch N cfg url run = Inr run1) \<and> list_all (connection_permitted N cfg (rs_eligible run)) new"
        by blast
      moreover have "fetch_granted N cfg q sv run url" if "begin_fetch N cfg url run = Inr run1" for run1
        using registry_get_Inr[OF get[unfolded run]] q v url(1) that unfolding fetch_granted_def by blast
      ultimately show ?thesis unfolding confined_def by blast
    qed
  qed
qed

lemma serve_post_confined:
  assumes "serve_post N cfg q sv = (r, sv')"
  shows "confined N cfg q sv sv'"
proof (cases "urlsplit (n_env N) (rq_target q)")
  case (Inl e)
  with assms show ?thesis by (auto simp: serve_post_def bindA_def intro: confined_quiet)
next
  case u: (Inr u)
  show ?thesis
  proof (cases "read_request N q")
    case (Inl e)
    with assms u show ?thesis by (auto simp: serve_post_def bindA_def intro: confined_quiet)
  next
    case (Inr rp)
    then obtain raw payload where rp: "read_request N q = Inr (raw, payload)" by (cases rp) auto
    have rest: "(if u_path u = ''/register'' then handle_register N cfg q raw payload
        else if map_of (c_route_ids cfg) (u_path u) = None then liftA (Inl (GatewayError 404 ''not_found''))
        else handle_research N cfg q (u_path u) raw payload) sv = (r, sv')"
      using assms u rp by (simp add: serve_post_def bindA_def)
    then consider "handle_register N cfg q raw payload sv = (r, sv')" | "sv' = sv"
      | "handle_research N cfg q (u_path u) raw payload sv = (r, sv')" by (auto split: if_splits)
    then show ?thesis
    proof cases
      case 1 then show ?thesis by (auto dest: sends_nothingD[OF handle_register_sends_nothing] intro: confined_quiet)
    next
      case 2 then show ?thesis by (simp add: confined_quiet)
    next
      case 3 then show ?thesis by (rule handle_research_confined[OF _ u rp])
    qed
  qed
qed

text \<open>C31: Whatever request the research service gets, apart from asking its configured search backend it connects only for a fetch that is
  signed by the hub, names a registered and unexpired run and is within the quotas of that run. It then makes at most one
  connection more than the redirects allowed, each to a public address and for a URL that has no problem
  and is on the host of a URL eligible for the run.
\<close>

theorem research_fetch_confined:
  assumes "research_post N cfg q sv = (answer, sv')"
  shows "\<exists>new. sv_sent sv' = sv_sent sv @ new \<and> length new \<le> nat (c_max_redirects cfg) + 1 \<and>
     (new \<noteq> [] \<longrightarrow> (\<exists>run url. fetch_granted N cfg q sv run url \<and> list_all (connection_permitted N cfg (rs_eligible run)) new))"
  using assms serve_post_confined[of N cfg q sv] unfolding research_post_def confined_def
  by (auto split: prod.splits sum.splits)

section \<open>Fetches end\<close>

lemma fetch_once_length:
  "length (snd (fetch_once N cfg current sent)) \<le> Suc (length sent)"
  "fst (fetch_once N cfg current sent) = Inr x \<Longrightarrow> length (snd (fetch_once N cfg current sent)) = Suc (length sent)"
  "fst (fetch_once N cfg current sent) \<noteq> Inl (GatewayError 502 ''too_many_redirects'')"
proof -
  let ?m = "bindE (urlsplit (n_env N) current) (\<lambda>u. public_addresses N (length sent) (u_host u))"
  have addr: "collect_addresses acc as = Inl e \<Longrightarrow> e = GatewayError 403 ''non_public_address''" for acc as e
    by (induction acc as rule: collect_addresses.induct) (auto split: if_splits)
  have "length (snd (fetch_once N cfg current sent)) \<le> Suc (length sent) \<and>
    (fst (fetch_once N cfg current sent) = Inr x \<longrightarrow> length (snd (fetch_once N cfg current sent)) = Suc (length sent)) \<and>
    fst (fetch_once N cfg current sent) \<noteq> Inl (GatewayError 502 ''too_many_redirects'')"
  proof (cases ?m)
    case (Inl e)
    then have "e \<noteq> GatewayError 502 ''too_many_redirects''"
      by (auto simp: bindE_Inl public_addresses_def urlsplit_def dest!: addr split: option.splits if_splits)
    with Inl show ?thesis by (simp add: fetch_once_def)
  next
    case (Inr addrs)
    then obtain u where u: "urlsplit (n_env N) current = Inr u" by (auto simp: bindE_Inr)
    with Inr show ?thesis
      by (auto simp: fetch_once_def http_get_pinned_def Let_def split: option.split)
  qed
  then show "length (snd (fetch_once N cfg current sent)) \<le> Suc (length sent)"
    "fst (fetch_once N cfg current sent) = Inr x \<Longrightarrow> length (snd (fetch_once N cfg current sent)) = Suc (length sent)"
    "fst (fetch_once N cfg current sent) \<noteq> Inl (GatewayError 502 ''too_many_redirects'')" by blast+
qed

lemma redirect_target_not_too_many:
  "redirect_target N cfg eligible current hs \<noteq> Inl (GatewayError 502 ''too_many_redirects'')"
  by (auto simp: redirect_target_def bindE_Inl urlsplit_def norm_url_def Let_def split: option.splits if_splits)

text \<open>A fetch ends whatever the servers answer: it makes at most one connection more than the redirects
  allowed, and it gives up with \<open>too_many_redirects\<close> only after exactly that many.
\<close>

theorem research_fetch_ends:
  fixes N :: net and cfg :: settings
  defines "most \<equiv> nat (c_max_redirects cfg) + 1"
  shows "length (snd (fetch_loop N cfg eligible url 0 sent)) \<le> length sent + most \<and>
    (fst (fetch_loop N cfg eligible url 0 sent) = Inl (GatewayError 502 ''too_many_redirects'') \<longrightarrow>
       length (snd (fetch_loop N cfg eligible url 0 sent)) = length sent + most)"
proof -
  have "hops \<le> max 0 (c_max_redirects cfg) \<Longrightarrow> length (snd (fetch_loop N cfg eligible url hops sent)) \<le> length sent + nat (c_max_redirects cfg - hops) + 1 \<and>
    (fst (fetch_loop N cfg eligible url hops sent) = Inl (GatewayError 502 ''too_many_redirects'') \<longrightarrow>
       length (snd (fetch_loop N cfg eligible url hops sent)) = length sent + nat (c_max_redirects cfg - hops) + 1)" for hops
  proof (induction N cfg eligible url hops sent rule: fetch_loop.induct)
    case (1 N cfg eligible current hops sent)
    obtain x t where once: "fetch_once N cfg current sent = (x, t)" by (cases "fetch_once N cfg current sent")
    note len = fetch_once_length[of N cfg current sent, unfolded once, simplified]
    show ?case
    proof (cases "\<exists>st hs body nxt. x = Inr (st, hs, body) \<and> redirects st hs \<and> hops + 1 \<le> c_max_redirects cfg \<and>
        redirect_target N cfg eligible current hs = Inr nxt")
      case False
      then show ?thesis using len(1,3) 1(2) redirect_target_not_too_many[of N cfg eligible current] len(2)
        unfolding fetch_loop.simps[of N cfg eligible current hops sent] once
        by (auto split: sum.split)
    next
      case True
      then obtain st hs body nxt where x: "x = Inr (st, hs, body)" "redirects st hs" "hops + 1 \<le> c_max_redirects cfg"
        "redirect_target N cfg eligible current hs = Inr nxt" by blast
      then have rec: "fetch_loop N cfg eligible current hops sent = fetch_loop N cfg eligible nxt (hops + 1) t"
        unfolding fetch_loop.simps[of N cfg eligible current hops sent] once by simp
      have np: "\<not> c_max_redirects cfg < hops + 1" using x(3) by simp
      note ih = 1(1)[OF once[symmetric] x(1) refl refl x(2) np x(4)]
      have "Suc (nat (c_max_redirects cfg - (hops + 1))) = nat (c_max_redirects cfg - hops)" using x(3) by simp
      moreover have "hops + 1 \<le> max 0 (c_max_redirects cfg)" using x(3) by simp
      ultimately show ?thesis using ih len(2)[OF x(1)] unfolding rec by simp
    qed
  qed
  from this[of 0] show ?thesis unfolding most_def by simp
qed

section \<open>Quotas under interleaving\<close>

text \<open>
  The critical sections of fetches and searches, in any order: a request holds the lock of the run
  for one of these steps at a time.
\<close>

inductive run_step :: "net \<Rightarrow> settings \<Rightarrow> run_state \<Rightarrow> run_state \<Rightarrow> bool" for N cfg where
  fetch_begins: "begin_fetch N cfg url run = Inr run' \<Longrightarrow> run_step N cfg run run'"
| body_counted: "run_step N cfg run (count_bytes body run)"
| page_read: "url_problem_of N cfg current = None \<Longrightarrow> norm_url N current = Inr final \<Longrightarrow>
    collect_links N cfg most [] raw_links = Inr links \<Longrightarrow> run_step N cfg run (allow_urls (links @ [final]) run)"
| search_begins: "begin_search run = Inr run' \<Longrightarrow> run_step N cfg run run'"
| results_read: "filter_results N cfg raw = Inr results \<Longrightarrow> run_step N cfg run (allow_urls (map fst results) run)"

abbreviation run_steps :: "net \<Rightarrow> settings \<Rightarrow> run_state \<Rightarrow> run_state \<Rightarrow> bool" where
  "run_steps N cfg \<equiv> (run_step N cfg)\<^sup>*\<^sup>*"

inductive_cases run_step_elim: "run_step N cfg run run'"

text \<open>A key that stands for some URL without a problem.\<close>

definition sound_key :: "net \<Rightarrow> settings \<Rightarrow> string \<Rightarrow> bool" where
  "sound_key N cfg key \<longleftrightarrow> (\<exists>url. url_problem_of N cfg url = None \<and> norm_url N url = Inr key)"

lemma collect_links_sound:
  "collect_links N cfg most links ls = Inr keys \<Longrightarrow> list_all (sound_key N cfg) links \<Longrightarrow> list_all (sound_key N cfg) keys"
proof (induction N cfg most links ls rule: collect_links.induct)
  case (2 N cfg most links l ls)
  show ?case
  proof (cases "url_problem_of N cfg l")
    case None
    with 2(3) obtain key where k: "norm_url N l = Inr key" by (auto simp: bindE_Inr)
    with None have "sound_key N cfg key" by (auto simp: sound_key_def)
    with 2(4) have "list_all (sound_key N cfg) (if key \<in> set links then links else links @ [key])" by simp
    with 2(2)[of _ key, OF _ refl] 2(3) None k show ?thesis by (simp add: Let_def split: if_splits)
  next
    case (Some reason)
    with 2 show ?thesis by simp
  qed
qed simp

lemma filter_loop_sound:
  "filter_loop N cfg out items = Inr results \<Longrightarrow> list_all (sound_key N cfg) (map fst out) \<Longrightarrow>
     list_all (sound_key N cfg) (map fst results)"
proof (induction N cfg out items rule: filter_loop.induct)
  case (2 N cfg out item items)
  show ?case
  proof (cases "\<exists>url key. dget0 item ''url'' = JStr url \<and> url_problem_of N cfg url = None \<and> norm_url N url = Inr key \<and> key \<notin> set (map fst out)")
    case True
    then obtain url key where u: "dget0 item ''url'' = JStr url" "url_problem_of N cfg url = None" "norm_url N url = Inr key"
      "key \<notin> set (map fst out)" by blast
    then have "sound_key N cfg key" by (auto simp: sound_key_def)
    with "2.prems"(2) have "list_all (sound_key N cfg) (map fst (out @ [(key, result_entry N cfg item key)]))" by simp
    with u 2 show ?thesis by (auto simp: Let_def split: if_splits)
  next
    case False
    with 2 show ?thesis by (auto simp: bindE_Inr Let_def split: json.splits if_splits)
  qed
qed auto

lemma filter_results_sound: "filter_results N cfg raw = Inr results \<Longrightarrow> list_all (sound_key N cfg) (map fst results)"
  by (auto simp: filter_results_def bindE_Inr intro: filter_loop_sound)

definition run_invariant :: "net \<Rightarrow> settings \<Rightarrow> (string \<times> int) list \<Rightarrow> nat \<Rightarrow> run_state \<Rightarrow> bool" where
  "run_invariant N cfg limits seeds run \<longleftrightarrow> rs_limits run = limits \<and>
     (\<forall>n. map_of limits ''searches'' = Some n \<longrightarrow> rs_searches run \<le> max 0 n) \<and>
     (\<forall>n. map_of limits ''fetches'' = Some n \<longrightarrow> rs_fetches run \<le> max 0 n) \<and>
     (\<forall>n. map_of limits ''hosts'' = Some n \<longrightarrow> finite (rs_hosts run) \<and> int (card (rs_hosts run)) \<le> max (int seeds) n) \<and>
     (\<forall>key\<in>rs_eligible run. sound_key N cfg key)"

lemma check_eligible_hosts:
  assumes "check_eligible N cfg run url True = Inr host" and "map_of (rs_limits run) ''hosts'' = Some n"
    and "finite (rs_hosts run)" and "int (card (rs_hosts run)) \<le> max m n"
  shows "int (card (insert host (rs_hosts run))) \<le> max m n"
  using assms
  by (auto simp: check_eligible_def bindE_Inr limit_of_def card_insert_if split: option.splits if_splits)

lemma run_step_invariant:
  assumes "run_step N cfg run run'" and "run_invariant N cfg limits seeds run"
  shows "run_invariant N cfg limits seeds run'"
  using assms
proof (induction rule: run_step.induct)
  case (fetch_begins url run run')
  from begin_fetch_Inr[OF fetch_begins(1)] obtain fetches u where
    "map_of (rs_limits run) ''fetches'' = Some fetches" "rs_fetches run < fetches"
    and c: "check_eligible N cfg run url True = Inr (bare_host u)"
    and r: "run' = run\<lparr>rs_hosts := insert (bare_host u) (rs_hosts run), rs_fetches := rs_fetches run + 1\<rparr>" by blast
  with fetch_begins(2) check_eligible_hosts[OF c] show ?case
    unfolding run_invariant_def r by auto
next
  case (page_read current final most raw_links links run)
  have "list_all (sound_key N cfg) links" by (rule collect_links_sound[OF page_read(3)]) simp
  with page_read show ?case by (auto simp: run_invariant_def allow_urls_def sound_key_def list_all_iff)
next
  case (search_begins run run')
  then show ?case by (auto simp: run_invariant_def begin_search_def limit_of_def res_simps split: option.splits)
next
  case (results_read raw results run)
  with filter_results_sound[OF results_read(1)] show ?case
    by (auto simp: run_invariant_def allow_urls_def list_all_iff)
qed (simp add: run_invariant_def count_bytes_def)

lemma run_steps_invariant:
  "run_steps N cfg run run' \<Longrightarrow> run_invariant N cfg limits seeds run \<Longrightarrow> run_invariant N cfg limits seeds run'"
  by (induction rule: rtranclp_induct) (auto intro: run_step_invariant)

lemma good_seeds_sound: "s \<in> set (good_seeds N cfg js) \<Longrightarrow> url_problem_of N cfg s = None"
  by (auto simp: good_seeds_def url_problem_def split: json.splits if_splits)

lemma new_run_invariant:
  assumes "new_run_state N limits ttl now seeds = Inr run" and "\<And>s. s \<in> set seeds \<Longrightarrow> url_problem_of N cfg s = None"
  shows "run_invariant N cfg limits (length seeds) run"
proof -
  from assms(1) obtain keys us where k: "mapE (norm_url N) seeds = Inr keys" and u: "mapE (urlsplit (n_env N)) seeds = Inr us"
    and run: "run = \<lparr>rs_limits = limits, rs_expires = now + ttl, rs_eligible = set keys, rs_hosts = set (map u_host us),
            rs_searches = 0, rs_fetches = 0, rs_bytes = 0\<rparr>"
    by (auto simp: new_run_state_def bindE_Inr)
  have "sound_key N cfg key" if "key \<in> set keys" for key
    using mapE_source[OF k that] assms(2) by (auto simp: sound_key_def)
  moreover have "card (u_host ` set us) \<le> length seeds"
    using u card_length[of "map u_host us"] by (auto simp: mapE_Inr dest!: list_all2_lengthD)
  ultimately show ?thesis by (auto simp: run_invariant_def run)
qed

lemma merge_limits_bounded:
  "map_of (merge_limits caps merged items) k = Some n \<Longrightarrow>
     map_of merged k = Some n \<or> (\<exists>cap. map_of caps k = Some cap \<and> n \<le> cap)"
  by (induction caps merged items rule: merge_limits.induct)
     (fastforce split: option.splits json.splits if_splits)+

text \<open>C32: In every state that the interleaved critical sections of a run's requests reach from its
  registration, the run has started no more searches and fetches than its limits; the hosts it has registered or fetched
  by name are no more than its limit of hosts or, where there were more of them, its seeds (hosts that a redirect leads
  to are not counted); its eligible keys all stand for URLs without a problem, and no limit is above the built-in value
  and its cap.
\<close>

theorem research_quotas_hold:
  assumes "new_run_state N limits ttl now (good_seeds N cfg seeds) = Inr run0"
    and "limits = merge_limits (c_limit_caps cfg) (c_limits cfg) asked"
    and "(run_step N cfg)\<^sup>*\<^sup>* run0 run"
    and "map_of limits ''searches'' = Some searches" and "map_of limits ''fetches'' = Some fetches" and "map_of limits ''hosts'' = Some hosts"
  shows "rs_searches run \<le> max 0 searches \<and> rs_fetches run \<le> max 0 fetches \<and>
    int (card (rs_hosts run)) \<le> max (int (length (good_seeds N cfg seeds))) hosts \<and>
    (\<forall>key\<in>rs_eligible run. \<exists>url. url_problem_of N cfg url = None \<and> norm_url N url = Inr key) \<and>
    (\<forall>k n. map_of limits k = Some n \<longrightarrow> map_of (c_limits cfg) k = Some n \<or> (\<exists>cap. map_of (c_limit_caps cfg) k = Some cap \<and> n \<le> cap))"
proof -
  have "run_invariant N cfg limits (length (good_seeds N cfg seeds)) run"
    by (rule run_steps_invariant[OF assms(3) new_run_invariant[OF assms(1)]]) (rule good_seeds_sound)
  with assms(4-6) merge_limits_bounded[of "c_limit_caps cfg" "c_limits cfg" asked] show ?thesis
    by (auto simp: run_invariant_def sound_key_def assms(2))
qed

section \<open>The operations are sequences of these steps\<close>

lemma finish_fetch_steps:
  assumes "finish_fetch N cfg url (current, st, hs, body) run = (r, run')" and "url_problem_of N cfg current = None"
  shows "run_steps N cfg run run'"
proof -
  let ?counted = "count_bytes body run"
  obtain title body_text raw_links where page: "extract_page N (decode_body N hs body) current (content_type_of hs) = (title, body_text, raw_links)"
    by (cases "extract_page N (decode_body N hs body) current (content_type_of hs)")
  have counted: "run_steps N cfg run ?counted" by (intro r_into_rtranclp body_counted)
  have read: "run_steps N cfg run (allow_urls (links @ [final]) ?counted)"
    if "collect_links N cfg most [] raw_links = Inr links" "norm_url N current = Inr final" for most links final
    using counted page_read[OF assms(2) that(2,1)] by (rule rtranclp.rtrancl_into_rtrancl)
  have "run' = run \<or> run' = ?counted \<or> (\<exists>most links final. collect_links N cfg most [] raw_links = Inr links \<and>
      norm_url N current = Inr final \<and> run' = allow_urls (links @ [final]) ?counted)"
    using assms(1) page
    by (auto simp: finish_fetch_def thenA_def bindA_def bindE_Inr split: sum.splits prod.splits if_splits)
  with counted read show ?thesis by auto
qed

lemma do_fetch_steps:
  assumes "do_fetch N cfg url (run, sent) = (r, run', sent')"
  shows "run_steps N cfg run run'"
proof (cases "begin_fetch N cfg url run")
  case (Inl e)
  with assms show ?thesis by (simp add: do_fetch_def)
next
  case (Inr run1)
  from begin_fetch_Inr[OF Inr] obtain key where url: "url_problem_of N cfg url = None" "norm_url N url = Inr key"
      "key \<in> rs_eligible run" and el: "rs_eligible run1 = rs_eligible run" by auto
  have first: "run_steps N cfg run run1" by (intro r_into_rtranclp fetch_begins[OF Inr])
  obtain x t where loop: "fetch_loop N cfg (rs_eligible run1) url 0 sent = (x, t)"
    by (cases "fetch_loop N cfg (rs_eligible run1) url 0 sent")
  show ?thesis
  proof (cases x)
    case (Inl e)
    with assms Inr loop first show ?thesis by (simp add: do_fetch_def)
  next
    case page: (Inr page)
    obtain current st hs body where p: "page = (current, st, hs, body)" by (cases page) auto
    from fetch_loop_sends[OF loop[unfolded el] eligible_url_permitted[OF url]] page p
    have "url_problem_of N cfg current = None" by (auto simp: url_permitted_def)
    moreover obtain y where "finish_fetch N cfg url (current, st, hs, body) run1 = (y, run')"
      using assms Inr loop page p by (auto simp: do_fetch_def split: prod.splits)
    ultimately show ?thesis using finish_fetch_steps first by (metis rtranclp_trans)
  qed
qed

lemma do_search_steps:
  assumes "do_search N cfg k query run = (r, run')"
  shows "run_steps N cfg run run'"
proof -
  have "run' = run \<or> begin_search run = Inr run' \<or>
     (\<exists>run1 raw results. begin_search run = Inr run1 \<and> filter_results N cfg raw = Inr results \<and> run' = allow_urls (map fst results) run1)"
    using assms by (auto simp: do_search_def Let_def bindE_Inr split: sum.splits if_splits)
  then show ?thesis
  proof (elim disjE exE conjE)
    fix run1 raw results
    assume s: "begin_search run = Inr run1" "filter_results N cfg raw = Inr results" "run' = allow_urls (map fst results) run1"
    have "run_step N cfg run run1" by (rule search_begins) (rule s)
    moreover have "run_step N cfg run1 run'" unfolding s(3) by (rule results_read) (rule s)
    ultimately show ?thesis by simp
  qed (auto intro: search_begins)
qed

section \<open>The hub's signature\<close>



section \<open>A network to evaluate on\<close>

definition demo_split :: "string \<Rightarrow> parsed_url" where
  "demo_split url = (if prefix ''https://'' url
     then \<lparr>u_scheme = ''https'', u_netloc = takeWhile (\<lambda>c. c \<noteq> CHR ''/'') (drop 8 url), u_host = takeWhile (\<lambda>c. c \<noteq> CHR ''/'') (drop 8 url),
           u_path = dropWhile (\<lambda>c. c \<noteq> CHR ''/'') (drop 8 url), u_query = [], u_fragment = [], u_userinfo = False, u_port = Some None\<rparr>
     else \<lparr>u_scheme = [], u_netloc = [], u_host = [], u_path = url, u_query = [], u_fragment = [], u_userinfo = False, u_port = Some None\<rparr>)"

definition demo_research_env :: env where
  "demo_research_env = calc_env\<lparr>e_urlsplit := \<lambda>u. Some (demo_split u), e_urlunsplit := \<lambda>u. u_scheme u @ ''://'' @ u_netloc u @ u_path u,
     e_loads := \<lambda>s. Some (JObj [(''url'', JStr ''https://a.b/'')]), e_getenv := \<lambda>n. replicate 32 CHR ''k'',
     e_sha256 := \<lambda>s. ''d'', e_sha_bytes := \<lambda>s. ''d'', e_hmac := \<lambda>k s. ''m''\<rparr>"

definition demo_address :: address where
  "demo_address = \<lparr>ad_text = ''8.8.8.8'', ad_flags = \<lparr>is_private = False, is_loopback = False, is_link_local = False, is_reserved = False,
     is_multicast = False, is_unspecified = False, is_global = True\<rparr>, ad_mapped = None\<rparr>"

definition demo_net :: net where
  "demo_net = \<lparr>n_env = demo_research_env, n_unescape = id, n_userinfo = (\<lambda>u. False), n_ip_address = (\<lambda>s. None), n_ipv6 = (\<lambda>s. None),
     n_urljoin = (\<lambda>base href. Some href), n_urlencode = (\<lambda>q. []), n_html = (\<lambda>s. []), n_decode = (\<lambda>c s. Some s), n_charset = (\<lambda>s. None),
     n_hmac_bytes = (\<lambda>k s. ''m''), n_resolve = (\<lambda>k h. Some [demo_address]), n_connect = (\<lambda>k c. True),
     n_exchange = (\<lambda>k c. Some (200, [(''Content-Type'', ''text/plain'')], ''hi'')), n_searx = (\<lambda>k p. None)\<rparr>"

definition demo_settings :: settings where
  "demo_settings = default_settings\<lparr>c_max_page_bytes := 8\<rparr>"

definition demo_run :: run_state where
  "demo_run = \<lparr>rs_limits = c_limits default_settings, rs_expires = 4500, rs_eligible = {''https://a.b/''}, rs_hosts = {''a.b''},
     rs_searches = 0, rs_fetches = 0, rs_bytes = 0\<rparr>"


definition demo_fetch_headers :: headers where
  "demo_fetch_headers = [(''Content-Length'', ''2''), (''X-ASG-Agent-Id'', ''fc_worker@r1''), (''X-ASG-Route-Id'', ''fc.fetch''),
     (''X-ASG-Request-SHA256'', ''d''), (''X-ASG-Timestamp'', ''0''), (''X-ASG-Run-Id'', ''r1''), (''X-ASG-Signature'', ''sha256=m'')]"

definition demo_fetch_call :: research_call where
  "demo_fetch_call = \<lparr>rq_target = ''/fetch'', rq_headers = demo_fetch_headers, rq_body = ''{}'', rq_now = 0, rq_clock = 0\<rparr>"

definition demo_service :: service where
  "demo_service = \<lparr>sv_runs = [(''r1'', demo_run)], sv_sent = [], sv_asked = 0\<rparr>"

lemma demo_fetch_sent:
  "map cn_host (sv_sent (snd (research_post demo_net demo_settings demo_fetch_call demo_service))) = [''a.b'']"
  "fst (fst (research_post demo_net demo_settings demo_fetch_call demo_service)) = 200"
  by code_simp+

theorem research_fetch_confined_witness:
  "map cn_host (sv_sent (snd (research_post demo_net demo_settings demo_fetch_call demo_service))) = [''a.b''] \<and>
   (\<exists>run url. fetch_granted demo_net demo_settings demo_fetch_call demo_service run url \<and>
      list_all (connection_permitted demo_net demo_settings (rs_eligible run))
        (sv_sent (snd (research_post demo_net demo_settings demo_fetch_call demo_service))))"
proof -
  obtain answer sv where post: "research_post demo_net demo_settings demo_fetch_call demo_service = (answer, sv)"
    by (cases "research_post demo_net demo_settings demo_fetch_call demo_service")
  from research_fetch_confined[OF post] demo_fetch_sent(1) post show ?thesis
    by (auto simp: demo_service_def)
qed

definition demo_looping_net :: net where
  "demo_looping_net = demo_net\<lparr>n_exchange := \<lambda>k c. Some (302, [(''Location'', ''https://a.b/'')], [])\<rparr>"

theorem research_fetch_ends_witness:
  "length (snd (fetch_loop demo_looping_net demo_settings {''https://a.b/''} ''https://a.b/'' 0 [])) = 4"
proof -
  have "fst (fetch_loop demo_looping_net demo_settings {''https://a.b/''} ''https://a.b/'' 0 []) = Inl (GatewayError 502 ''too_many_redirects'')"
    by code_simp
  with research_fetch_ends[of demo_looping_net demo_settings "{''https://a.b/''}" "''https://a.b/''" "[]"]
  show ?thesis by (simp add: demo_settings_def default_settings_def)
qed

lemma demo_run_new:
  "new_run_state demo_net (c_limits demo_settings) 4500 0 (good_seeds demo_net demo_settings [JStr ''https://a.b/'', JInt 3]) = Inr demo_run"
proof -
  have "good_seeds demo_net demo_settings [JStr ''https://a.b/'', JInt 3] = [''https://a.b/'']" by code_simp
  moreover have "norm_url demo_net ''https://a.b/'' = Inr ''https://a.b/''" by code_simp
  moreover have "u_host (demo_split ''https://a.b/'') = ''a.b''" by code_simp
  ultimately show ?thesis
    by (simp add: new_run_state_def urlsplit_def demo_net_def demo_research_env_def demo_run_def demo_settings_def)
qed

theorem research_quotas_hold_witness:
  "(\<exists>run. begin_fetch demo_net demo_settings ''https://a.b/'' demo_run = Inr run \<and> rs_fetches run = 1 \<and>
      rs_fetches run \<le> 60 \<and> int (card (rs_hosts run)) \<le> 25)"
proof -
  have "rs_fetches (case begin_fetch demo_net demo_settings ''https://a.b/'' demo_run of Inr r \<Rightarrow> r) = 1"
    and "(case begin_fetch demo_net demo_settings ''https://a.b/'' demo_run of Inr r \<Rightarrow> True | Inl e \<Rightarrow> False)"
    by code_simp+
  then obtain run where run: "begin_fetch demo_net demo_settings ''https://a.b/'' demo_run = Inr run" "rs_fetches run = 1"
    by (auto split: sum.splits)
  have "(run_step demo_net demo_settings)\<^sup>*\<^sup>* demo_run run" by (intro r_into_rtranclp fetch_begins[OF run(1)])
  from research_quotas_hold[OF demo_run_new _ this, of "[]" 25 60 25] run
  show ?thesis by (simp add: demo_settings_def default_settings_def good_seeds_def)
qed



end
