(* ===== verification/Receipt_Collector.thy ===== *)
theory Receipt_Collector
  imports Signed_Headers
begin

text \<open>
  The receiver of result receipts and audit anchors (\<open>scripts/result_receipt_collector.py\<close>): its
  configuration from environment variables, the checks of \<open>CollectorHandler\<close> and the two files it
  appends to. Its exception \<open>CollectorError(status, code)\<close> is written with the constructor
  \<^term>\<open>GatewayError\<close>. The anchor it accepts is the one \<open>export_audit_anchor_cli\<close> of gateway.py prints.
  The threads of the server append without a lock; an append of one line is one step here.
\<close>

section \<open>Configuration\<close>

record collector_config =
  cc_bind :: string
  cc_port :: int
  cc_store_path :: string
  cc_anchor_store_path :: string
  cc_token :: string
  cc_max_body_bytes :: int
  cc_hmac_key :: string
  cc_max_age_seconds :: int

text \<open>\<open>os.environ.get(name)\<close>, reading a text file (\<open>None\<close> is \<open>OSError\<close>) and \<open>expanduser\<close>.\<close>

record collector_host =
  ch_getenv :: "string \<Rightarrow> string option"
  ch_read_text :: "string \<Rightarrow> string option"
  ch_expanduser :: "string \<Rightarrow> string"

definition env_value :: "collector_host \<Rightarrow> string \<Rightarrow> string \<Rightarrow> string" where
  "env_value H name dflt = py_strip (case ch_getenv H name of None \<Rightarrow> dflt | Some v \<Rightarrow> v)"

definition invalid_config :: exn where "invalid_config = GatewayError 500 ''invalid_config''"

definition env_int :: "collector_host \<Rightarrow> string \<Rightarrow> int \<Rightarrow> int \<Rightarrow> int \<Rightarrow> int res" where
  "env_int H name dflt minimum maximum = (case int_of_str (env_value H name (int_str dflt)) of
       Inl e \<Rightarrow> Inl invalid_config
     | Inr v \<Rightarrow> if v < minimum \<or> maximum < v then Inl invalid_config else Inr v)"

definition read_token :: "collector_host \<Rightarrow> string res" where
  "read_token H =
     (let token = env_value H ''ASG_RECEIPT_COLLECTOR_TOKEN'' []; token_file = env_value H ''ASG_RECEIPT_COLLECTOR_TOKEN_FILE'' [] in
      if token \<noteq> [] \<and> token_file \<noteq> [] then Inl invalid_config
      else if token \<noteq> [] then Inr token
      else if token_file \<noteq> [] then
        (case ch_read_text H (ch_expanduser H token_file) of None \<Rightarrow> Inl invalid_config | Some t \<Rightarrow> Inr (py_strip t))
      else Inr [])"

definition load_config_from_env :: "collector_host \<Rightarrow> collector_config res" where
  "load_config_from_env H =
     bindE (env_int H ''ASG_RECEIPT_COLLECTOR_PORT'' 8789 1 65535) (\<lambda>port.
     bindE (read_token H) (\<lambda>token.
     bindE (env_int H ''ASG_RECEIPT_COLLECTOR_MAX_BODY_BYTES'' 262144 1 (10 * 1024 * 1024)) (\<lambda>max_body.
     bindE (env_int H ''ASG_RECEIPT_COLLECTOR_SIGNATURE_MAX_AGE_SECONDS'' 300 1 86400) (\<lambda>max_age.
     Inr \<lparr>cc_bind = env_value H ''ASG_RECEIPT_COLLECTOR_BIND'' ''127.0.0.1'', cc_port = port,
          cc_store_path = ch_expanduser H (env_value H ''ASG_RECEIPT_COLLECTOR_STORE'' ''~/.agent-security-gateway/result-receipts.jsonl''),
          cc_anchor_store_path = ch_expanduser H (env_value H ''ASG_RECEIPT_COLLECTOR_ANCHOR_STORE'' ''~/.agent-security-gateway/audit-anchors.jsonl''),
          cc_token = token, cc_max_body_bytes = max_body, cc_hmac_key = env_value H ''ASG_RECEIPT_COLLECTOR_HMAC_KEY'' [],
          cc_max_age_seconds = max_age\<rparr>))))"

section \<open>Requests\<close>

text \<open>The two files, and one request: its path, headers, bytes, the time and a fresh identifier.\<close>

record collector_files =
  cf_receipts :: store
  cf_anchors :: store

record collector_call =
  cl_env :: env
  cl_config :: collector_config
  cl_path :: string
  cl_headers :: headers
  cl_body :: string
  cl_addr :: string
  cl_now :: int                                      \<comment> \<open>microseconds\<close>
  cl_utc_now :: string
  cl_fresh :: string

definition collector_request_id :: "collector_call \<Rightarrow> string" where
  "collector_request_id C = (case header_get (cl_headers C) ''X-Request-ID'' of [] \<Rightarrow> ''collector_'' @ cl_fresh C | i \<Rightarrow> i)"

definition verify_auth :: "collector_call \<Rightarrow> unit res" where
  "verify_auth C = (let token = cc_token (cl_config C) in
     if token = [] then Inr ()
     else raise_if (header_get (cl_headers C) ''Authorization'' \<noteq> ''Bearer '' @ token) (GatewayError 401 ''unauthorized''))"

definition announced_length :: "headers \<Rightarrow> int res" where  \<comment> \<open>\<open>int(headers.get("Content-Length", "0"))\<close>\<close>
  "announced_length hs = (case find (\<lambda>(n, v). py_lower n = ''content-length'') hs of
       None \<Rightarrow> Inr 0
     | Some (n, v) \<Rightarrow> (case int_of_str v of Inl e \<Rightarrow> Inl (GatewayError 400 ''invalid_json'') | Inr k \<Rightarrow> Inr k))"

text \<open>Bytes that are not UTF-8 raise \<open>UnicodeDecodeError\<close>, which is not caught here.\<close>

definition collector_body :: "collector_call \<Rightarrow> (string \<times> dict) res" where
  "collector_body C =
     bindE (announced_length (cl_headers C)) (\<lambda>len.
     thenE (raise_if (len < 0 \<or> cc_max_body_bytes (cl_config C) < len) (GatewayError 413 ''request_too_large''))
     (let raw = take (nat len) (cl_body C) in
      case e_utf8 (cl_env C) raw of
        None \<Rightarrow> Inl (PyError ''UnicodeDecodeError'')
      | Some s \<Rightarrow> (case e_loads (cl_env C) s of
            None \<Rightarrow> Inl (GatewayError 400 ''invalid_json'')
          | Some (JObj d) \<Rightarrow> Inr (raw, d)
          | Some _ \<Rightarrow> Inl (GatewayError 400 ''invalid_json''))))"

definition receipt_canonical ::
    "string \<Rightarrow> string \<Rightarrow> string \<Rightarrow> string \<Rightarrow> string \<Rightarrow> string \<Rightarrow> string \<Rightarrow> string \<Rightarrow> string" where
  "receipt_canonical verb path sha agent route run task timestamp =
     py_join [newline] [upper_ascii verb, if path = [] then ''/'' else path, sha, agent, route, run, task, timestamp]"

definition verify_signature :: "collector_call \<Rightarrow> string \<Rightarrow> unit res" where
  "verify_signature C raw =
     (let E = cl_env C; hs = cl_headers C; key = cc_hmac_key (cl_config C);
          signature = header_get hs ''X-ASG-Signature''; timestamp = header_get hs ''X-ASG-Timestamp'';
          sha = e_sha_bytes E raw in
      if key = [] then Inr ()
      else
        thenE (raise_if (signature = []) (GatewayError 401 ''signature_required''))
        (thenE (raise_if (timestamp = []) (GatewayError 401 ''signature_required''))
        (bindE (compare_digest (header_get hs ''X-ASG-Request-SHA256'') sha) (\<lambda>same_body.
        thenE (raise_if (\<not> same_body) (GatewayError 403 ''signature_invalid''))
        (case parse_datetime E timestamp of
           Inl e \<Rightarrow> Inl (GatewayError 403 ''signature_invalid'')
         | Inr sent \<Rightarrow>
             thenE (raise_if (cc_max_age_seconds (cl_config C) * 1000000 < \<bar>cl_now C - sent\<bar>) (GatewayError 403 ''signature_stale''))
             (bindE (path_of E (cl_path C)) (\<lambda>path.
              bindE (compare_digest signature (''sha256='' @ e_hmac E key (receipt_canonical ''POST'' path sha
                (header_get hs ''X-ASG-Agent-Id'') (header_get hs ''X-ASG-Route-Id'') (header_get hs ''X-ASG-Run-Id'')
                (header_get hs ''X-ASG-Task-Id'') timestamp))) (\<lambda>signed.
              raise_if (\<not> signed) (GatewayError 403 ''signature_invalid'')))))))))"

section \<open>Receipts and anchors\<close>

definition receipt_record :: "collector_call \<Rightarrow> dict \<Rightarrow> json" where
  "receipt_record C payload = JObj [(''received_at'', JStr (cl_utc_now C)), (''request_id'', JStr (collector_request_id C)),
     (''remote_addr'', JStr (cl_addr C)),
     (''headers'', JObj [(''x_asg_agent_id'', JStr (header_get (cl_headers C) ''X-ASG-Agent-Id'')),
        (''x_asg_route_id'', JStr (header_get (cl_headers C) ''X-ASG-Route-Id'')),
        (''x_asg_request_sha256'', JStr (header_get (cl_headers C) ''X-ASG-Request-SHA256'')),
        (''x_asg_timestamp'', JStr (header_get (cl_headers C) ''X-ASG-Timestamp''))]),
     (''receipt'', JObj payload)]"

definition anchor_record :: "collector_call \<Rightarrow> dict \<Rightarrow> json" where
  "anchor_record C payload = JObj [(''received_at'', JStr (cl_utc_now C)), (''request_id'', JStr (collector_request_id C)),
     (''remote_addr'', JStr (cl_addr C)), (''anchor'', JObj payload)]"

definition invalid_anchor :: exn where "invalid_anchor = GatewayError 400 ''invalid_anchor''"

definition hash_field_ok :: "json \<Rightarrow> bool" where
  "hash_field_ok j = (case j of JStr h \<Rightarrow> length h = 64 \<and> list_all is_hex h | _ \<Rightarrow> False)"

definition count_field_ok :: "json \<Rightarrow> bool" where
  "count_field_ok j = (case j of JInt n \<Rightarrow> 0 \<le> n | _ \<Rightarrow> False)"

definition time_field_ok :: "env \<Rightarrow> json \<Rightarrow> bool" where
  "time_field_ok E j = (case j of JStr t \<Rightarrow> py_strip t \<noteq> [] \<and> (case parse_datetime E t of Inl e \<Rightarrow> False | Inr u \<Rightarrow> True)
     | _ \<Rightarrow> False)"

definition validate_audit_anchor :: "env \<Rightarrow> dict \<Rightarrow> unit res" where
  "validate_audit_anchor E payload =
     thenE (raise_if (dget0 payload ''anchor_type'' \<noteq> JStr ''asg_audit_anchor'') invalid_anchor)
     (thenE (raise_if (\<not> hash_field_ok (dget0 payload ''latest_hash'')) invalid_anchor)
     (thenE (raise_if (\<not> count_field_ok (dget0 payload ''line_count'')) invalid_anchor)
     (raise_if (\<not> time_field_ok E (dget0 payload ''timestamp'')) invalid_anchor)))"

definition stored_answer :: "collector_call \<Rightarrow> dict" where
  "stored_answer C = [(''ok'', JBool True), (''stored'', JBool True), (''request_id'', JStr (collector_request_id C))]"

definition handle_result_receipt :: "collector_call \<Rightarrow> (collector_files, dict) act" where
  "handle_result_receipt C =
     thenA (liftA (verify_auth C))
     (bindA (liftA (collector_body C)) (\<lambda>(raw, payload).
     thenA (liftA (verify_signature C raw))
     (thenA (liftA (raise_if (dget0 payload ''receipt_type'' \<noteq> JStr ''asg_result_audit'') (GatewayError 400 ''invalid_receipt'')))
     (thenA (modA (\<lambda>f. f\<lparr>cf_receipts := append_jsonl_record (cl_env C) (receipt_record C payload) (cf_receipts f)\<rparr>))
     (retA (stored_answer C))))))"

definition handle_audit_anchor :: "collector_call \<Rightarrow> (collector_files, dict) act" where
  "handle_audit_anchor C =
     thenA (liftA (verify_auth C))
     (bindA (liftA (collector_body C)) (\<lambda>(raw, payload).
     thenA (liftA (validate_audit_anchor (cl_env C) payload))
     (thenA (modA (\<lambda>f. f\<lparr>cf_anchors := append_jsonl_record (cl_env C) (anchor_record C payload) (cf_anchors f)\<rparr>))
     (retA (stored_answer C)))))"

definition collector_error :: "collector_call \<Rightarrow> string \<Rightarrow> dict" where
  "collector_error C c = [(''error'', JObj [(''code'', JStr c), (''request_id'', JStr (collector_request_id C))])]"

definition collector_post :: "collector_call \<Rightarrow> collector_files \<Rightarrow> (nat \<times> dict) \<times> collector_files" where
  "collector_post C f =
     (case (if cl_path C = ''/asg/result-receipts'' then handle_result_receipt C
            else if cl_path C = ''/asg/audit-anchors'' then handle_audit_anchor C
            else liftA (Inl (GatewayError 404 ''not_found''))) f of
        (Inr d, f) \<Rightarrow> ((200, d), f)
      | (Inl (GatewayError st c), f) \<Rightarrow> ((st, collector_error C c), f)
      | (Inl (PyError _), f) \<Rightarrow> ((500, collector_error C ''internal_error''), f))"

definition collector_get :: "collector_call \<Rightarrow> nat \<times> dict" where
  "collector_get C = (if cl_path C = ''/healthz'' \<or> cl_path C = ''/readyz''
     then (200, [(''ok'', JBool True), (''app'', JStr ''asg-result-receipt-collector''), (''version'', JStr ''0.1.0'')])
     else (404, collector_error C ''not_found''))"

text \<open>\<open>export_audit_anchor_cli\<close> of gateway.py: what it prints for the log at a path.\<close>

definition audit_anchor :: "env \<Rightarrow> string \<Rightarrow> string \<Rightarrow> store \<Rightarrow> dict res" where
  "audit_anchor E path now f = bindE (export_audit_anchor E f) (\<lambda>(latest, events).
     Inr [(''anchor_type'', JStr ''asg_audit_anchor''), (''audit_path'', JStr path), (''latest_hash'', JStr latest),
          (''line_count'', JInt (int events)), (''timestamp'', JStr now)])"

section \<open>What ends up in the files\<close>

definition receipt_signed :: "collector_call \<Rightarrow> string \<Rightarrow> bool" where
  "receipt_signed C raw \<longleftrightarrow> (let E = cl_env C; hs = cl_headers C; sha = e_sha_bytes E raw in
     header_get hs ''X-ASG-Request-SHA256'' = sha \<and>
     (\<exists>sent path. parse_datetime E (header_get hs ''X-ASG-Timestamp'') = Inr sent \<and>
        \<bar>cl_now C - sent\<bar> \<le> cc_max_age_seconds (cl_config C) * 1000000 \<and> path_of E (cl_path C) = Inr path \<and>
        header_get hs ''X-ASG-Signature'' = ''sha256='' @ e_hmac E (cc_hmac_key (cl_config C)) (receipt_canonical ''POST'' path sha
          (header_get hs ''X-ASG-Agent-Id'') (header_get hs ''X-ASG-Route-Id'') (header_get hs ''X-ASG-Run-Id'')
          (header_get hs ''X-ASG-Task-Id'') (header_get hs ''X-ASG-Timestamp''))))"

lemma verify_signature_Inr:
  "verify_signature C raw = Inr u \<Longrightarrow> cc_hmac_key (cl_config C) \<noteq> [] \<Longrightarrow> receipt_signed C raw"
  by (auto simp: verify_signature_def receipt_signed_def Let_def res_simps dest!: compare_digest_Inr split: sum.splits)

lemma verify_auth_Inr:
  "verify_auth C = Inr u \<Longrightarrow> cc_token (cl_config C) \<noteq> [] \<Longrightarrow>
     header_get (cl_headers C) ''Authorization'' = ''Bearer '' @ cc_token (cl_config C)"
  by (auto simp: verify_auth_def Let_def res_simps)

lemma handle_result_receipt_cases:
  assumes "handle_result_receipt C f = (r, f')"
  shows "f' = f \<or> (\<exists>raw payload. verify_auth C = Inr () \<and> collector_body C = Inr (raw, payload) \<and> verify_signature C raw = Inr () \<and>
     dget0 payload ''receipt_type'' = JStr ''asg_result_audit'' \<and>
     f' = f\<lparr>cf_receipts := append_jsonl_record (cl_env C) (receipt_record C payload) (cf_receipts f)\<rparr>)"
  using assms
  by (auto simp: handle_result_receipt_def thenA_def bindA_def raise_if_def split: sum.splits if_splits)

lemma handle_audit_anchor_cases:
  assumes "handle_audit_anchor C f = (r, f')"
  shows "f' = f \<or> (\<exists>raw payload. verify_auth C = Inr () \<and> collector_body C = Inr (raw, payload) \<and>
     validate_audit_anchor (cl_env C) payload = Inr () \<and>
     f' = f\<lparr>cf_anchors := append_jsonl_record (cl_env C) (anchor_record C payload) (cf_anchors f)\<rparr>)"
  using assms
  by (auto simp: handle_audit_anchor_def thenA_def bindA_def split: sum.splits)

text \<open>C35: Whatever is posted to the collector, its files stay as they are or one record is added to one of
  them, for a request that bears the token where one is configured: a receipt, and where a key is configured one with a
  fresh signature over its body and identity; or a valid audit anchor. (Token and key are empty unless configured, and
  then nothing of the kind is asked for.)\<close>

theorem collector_stores_only_verified:
  assumes "collector_post C f = (answer, f')"
  shows "f' = f \<or>
    ((cc_token (cl_config C) \<noteq> [] \<longrightarrow> header_get (cl_headers C) ''Authorization'' = ''Bearer '' @ cc_token (cl_config C)) \<and>
     (\<exists>raw payload. collector_body C = Inr (raw, payload) \<and>
       ((cl_path C = ''/asg/result-receipts'' \<and> (cc_hmac_key (cl_config C) \<noteq> [] \<longrightarrow> receipt_signed C raw) \<and>
         dget0 payload ''receipt_type'' = JStr ''asg_result_audit'' \<and>
         f' = f\<lparr>cf_receipts := append_jsonl_record (cl_env C) (receipt_record C payload) (cf_receipts f)\<rparr>) \<or>
        (cl_path C = ''/asg/audit-anchors'' \<and> validate_audit_anchor (cl_env C) payload = Inr () \<and>
         f' = f\<lparr>cf_anchors := append_jsonl_record (cl_env C) (anchor_record C payload) (cf_anchors f)\<rparr>))))"
proof -
  obtain r where "(if cl_path C = ''/asg/result-receipts'' then handle_result_receipt C
      else if cl_path C = ''/asg/audit-anchors'' then handle_audit_anchor C
      else liftA (Inl (GatewayError 404 ''not_found''))) f = (r, f')"
    using assms by (auto simp: collector_post_def split: prod.splits sum.splits exn.splits)
  then consider "cl_path C = ''/asg/result-receipts''" "handle_result_receipt C f = (r, f')"
    | "cl_path C = ''/asg/audit-anchors''" "handle_audit_anchor C f = (r, f')" | "f' = f"
    by (auto split: if_splits)
  then show ?thesis
  proof cases
    case 1
    then show ?thesis using handle_result_receipt_cases[OF 1(2)] verify_signature_Inr verify_auth_Inr by blast
  next
    case 2
    then show ?thesis using handle_audit_anchor_cases[OF 2(2)] verify_auth_Inr by blast
  qed simp
qed

section \<open>What the gateway sends is accepted\<close>

lemma signed_receipt_accepted:
  assumes sent: "backend_headers (cl_env C) now hub d v body backend path = Inr (cl_headers C)"
    and keys: "secret_named (cl_env C) hub ''backend_hmac_key_env'' = cc_hmac_key (cl_config C)" "cc_hmac_key (cl_config C) \<noteq> []"
    and run: "rd_run_id d = Some run" "run \<noteq> []"
    and clock: "e_isosec (cl_env C) now \<noteq> []" "parse_datetime (cl_env C) (e_isosec (cl_env C) now) = Inr now"
      "\<bar>cl_now C - now\<bar> \<le> cc_max_age_seconds (cl_config C) * 1000000"
    and path: "path_of (cl_env C) (cl_path C) = Inr path"
    and bytes: "e_sha_bytes (cl_env C) raw = e_sha256 (cl_env C) body"
    and digests: "\<forall>s. ascii_text (e_sha256 (cl_env C) s)" "\<forall>k s. ascii_text (e_hmac (cl_env C) k s)"
  shows "verify_signature C raw = Inr ()"
proof -
  note h = signed_header_values[OF sent keys(1,2) run]
  let ?sig = "''sha256='' @ e_hmac (cl_env C) (cc_hmac_key (cl_config C)) (receipt_canonical ''POST'' path (e_sha256 (cl_env C) body)
      (va_agent_id v) (rd_route_id d) run (str_or_empty (rd_task_id d)) (e_isosec (cl_env C) now))"
  have canon: "backend_signature_canonical = receipt_canonical"
    by (intro ext) (simp add: backend_signature_canonical_def receipt_canonical_def)
  have "ascii_text ?sig" using digests(2) by (simp add: ascii_text_def)
  then have "compare_digest ?sig ?sig = Inr True" by (rule compare_digest_same)
  moreover have "compare_digest (e_sha256 (cl_env C) body) (e_sha256 (cl_env C) body) = Inr True"
    using digests(1) by (simp add: compare_digest_same)
  ultimately show ?thesis
    using keys(2) clock path by (simp add: verify_signature_def Let_def h bytes canon)
qed

lemma chain_end_hex:
  assumes "\<forall>s. sha256_hex_ok (e_sha256 E s)"
  shows "hash_field_ok (JStr (chain_end E zero_hash evs))"
proof -
  have "is_hex c" if "is_lower_hex c" for c using that by (auto simp: is_hex_def is_lower_hex_def)
  then have "list_all is_hex s" if "list_all is_lower_hex s" for s using that by (auto simp: list_all_iff)
  moreover have "list_all is_hex zero_hash" "length zero_hash = 64" by code_simp+
  ultimately show ?thesis
    using assms chain_end_digest[of E evs] by (auto simp: hash_field_ok_def sha256_hex_ok_def)
qed

text \<open>C36: The anchor the gateway exports of a log that verifies is accepted by the collector and stored as the last
  anchor, with the hash and the count of the log's events.\<close>

theorem exported_anchor_stored:
  assumes "audit_anchor (cl_env C) path now logfile = Inr d" and "\<forall>s. sha256_hex_ok (e_sha256 (cl_env C) s)"
    and "py_strip now \<noteq> []" and "parse_datetime (cl_env C) now = Inr sent"
    and "cl_path C = ''/asg/audit-anchors''" and "verify_auth C = Inr ()" and "collector_body C = Inr (raw, d)"
    and "jsonl_inv (cf_anchors f)" and "json_line_ok (cl_env C) (anchor_record C d)"
  shows "\<exists>f' n h. collector_post C f = ((200, stored_answer C), f') \<and> cf_receipts f' = cf_receipts f \<and>
    jsonl_records (cl_env C) (cf_anchors f') = jsonl_records (cl_env C) (cf_anchors f) @ [sort_keys (anchor_record C d)] \<and>
    verifies (cl_env C) logfile n h \<and> dget0 d ''latest_hash'' = JStr h \<and> dget0 d ''line_count'' = JInt (int n)"
proof -
  from assms(1) obtain r where r: "verify_audit_log (cl_env C) logfile = Inr r" "ar_ok r"
    and d: "d = [(''anchor_type'', JStr ''asg_audit_anchor''), (''audit_path'', JStr path), (''latest_hash'', JStr (ar_latest r)),
          (''line_count'', JInt (int (ar_events r))), (''timestamp'', JStr now)]"
    by (auto simp: audit_anchor_def export_audit_anchor_def bindE_Inr split: if_splits)
  then have v: "verifies (cl_env C) logfile (ar_events r) (ar_latest r)" by (auto simp: verifies_def)
  then have "hash_field_ok (JStr (ar_latest r))" using chain_end_hex[OF assms(2)] by (auto simp: verifies_iff)
  then have ok: "validate_audit_anchor (cl_env C) d = Inr ()"
    using assms(3,4) by (simp add: validate_audit_anchor_def d count_field_ok_def time_field_ok_def)
  let ?f = "f\<lparr>cf_anchors := append_jsonl_record (cl_env C) (anchor_record C d) (cf_anchors f)\<rparr>"
  have "collector_post C f = ((200, stored_answer C), ?f)"
    using assms(5-7) ok by (simp add: collector_post_def handle_audit_anchor_def thenA_def bindA_def)
  moreover have "jsonl_records (cl_env C) (cf_anchors ?f) = jsonl_records (cl_env C) (cf_anchors f) @ [sort_keys (anchor_record C d)]"
    using jsonl.recs_append[OF assms(8,9)] by simp
  ultimately show ?thesis using v d by (intro exI[of _ ?f]) auto
qed

section \<open>Examples\<close>

definition demo_exported :: dict where
  "demo_exported = [(''anchor_type'', JStr ''asg_audit_anchor''), (''audit_path'', JStr ''a''), (''latest_hash'', JStr zero_hash),
     (''line_count'', JInt 0), (''timestamp'', JStr ''0'')]"

definition demo_collector_env :: env where
  "demo_collector_env = demo_http_env\<lparr>e_sha256 := \<lambda>s. zero_hash, e_sha_bytes := \<lambda>s. ''d'', e_hmac := \<lambda>k s. ''m'', e_render := \<lambda>j. ''r'',
     e_loads := \<lambda>s. Some (if s = ''{}'' then JObj demo_exported
       else if s = ''[]'' then JObj [(''receipt_type'', JStr ''asg_result_audit'')]
       else sort_keys (JObj [(''received_at'', JStr ''0''), (''request_id'', JStr ''collector_f''), (''remote_addr'', JStr ''10.0.0.1''),
         (''anchor'', JObj demo_exported)]))\<rparr>"

definition demo_collector_call :: collector_call where
  "demo_collector_call = \<lparr>cl_env = demo_collector_env,
     cl_config = \<lparr>cc_bind = ''127.0.0.1'', cc_port = 8789, cc_store_path = ''r'', cc_anchor_store_path = ''a'', cc_token = ''t'',
       cc_max_body_bytes = 99, cc_hmac_key = ''k'', cc_max_age_seconds = 300\<rparr>,
     cl_path = ''/asg/result-receipts'',
     cl_headers = [(''Authorization'', ''Bearer t''), (''Content-Length'', ''2''), (''X-ASG-Request-SHA256'', ''d''),
       (''X-ASG-Timestamp'', ''0''), (''X-ASG-Signature'', ''sha256=m'')],
     cl_body = ''[]'', cl_addr = ''10.0.0.1'', cl_now = 0, cl_utc_now = ''0'', cl_fresh = ''f''\<rparr>"

definition demo_anchor_call :: collector_call where
  "demo_anchor_call = demo_collector_call\<lparr>cl_path := ''/asg/audit-anchors'', cl_body := ''{}''\<rparr>"

definition no_files :: collector_files where
  "no_files = \<lparr>cf_receipts = None, cf_anchors = None\<rparr>"

theorem collector_stores_only_verified_witness:
  "cf_receipts (snd (collector_post demo_collector_call no_files)) \<noteq> None \<and> receipt_signed demo_collector_call ''[]''"
proof -
  obtain answer f where post: "collector_post demo_collector_call no_files = (answer, f)" by (cases "collector_post demo_collector_call no_files")
  have "cf_receipts (snd (collector_post demo_collector_call no_files)) = Some (''r'' @ [newline])" by code_simp
  then have "cf_receipts f \<noteq> None" using post by simp
  moreover have "collector_body demo_collector_call = Inr (''[]'', [(''receipt_type'', JStr ''asg_result_audit'')])" by code_simp
  ultimately show ?thesis
    using collector_stores_only_verified[OF post] post by (auto simp: no_files_def demo_collector_call_def)
qed

theorem exported_anchor_stored_witness:
  "\<exists>f. collector_post demo_anchor_call no_files = ((200, stored_answer demo_anchor_call), f) \<and>
     jsonl_records demo_collector_env (cf_anchors f) = [sort_keys (anchor_record demo_anchor_call demo_exported)]"
proof -
  have env: "cl_env demo_anchor_call = demo_collector_env" by (simp add: demo_anchor_call_def demo_collector_call_def)
  have path: "cl_path demo_anchor_call = ''/asg/audit-anchors''" by (simp add: demo_anchor_call_def)
  have exported: "audit_anchor demo_collector_env ''a'' ''0'' None = Inr demo_exported"
    by (simp add: audit_anchor_def export_audit_anchor_def verify_audit_log_def demo_exported_def)
  have auth: "verify_auth demo_anchor_call = Inr ()" by code_simp
  have body: "collector_body demo_anchor_call = Inr (''{}'', demo_exported)" by code_simp
  have time: "parse_datetime demo_collector_env ''0'' = Inr 0"
    and hex: "sha256_hex_ok zero_hash" and blank: "py_strip ''0'' \<noteq> []"
    by code_simp+
  from hex have sha: "\<forall>s. sha256_hex_ok (e_sha256 demo_collector_env s)" by (simp add: demo_collector_env_def)
  have "e_loads demo_collector_env (''r'' @ [newline]) = Some (sort_keys (anchor_record demo_anchor_call demo_exported))"
    "e_loads demo_collector_env ''r'' = Some (sort_keys (anchor_record demo_anchor_call demo_exported))"
    by code_simp+
  moreover have "py_strip (''r'' @ [newline]) = ''r''" by code_simp
  ultimately have line: "json_line_ok demo_collector_env (anchor_record demo_anchor_call demo_exported)"
    by (simp add: json_line_ok_def demo_collector_env_def)
  have "\<exists>f n h. collector_post demo_anchor_call no_files = ((200, stored_answer demo_anchor_call), f) \<and> cf_receipts f = cf_receipts no_files \<and>
      jsonl_records (cl_env demo_anchor_call) (cf_anchors f) = jsonl_records (cl_env demo_anchor_call) (cf_anchors no_files) @
        [sort_keys (anchor_record demo_anchor_call demo_exported)] \<and>
      verifies (cl_env demo_anchor_call) None n h \<and> dget0 demo_exported ''latest_hash'' = JStr h \<and> dget0 demo_exported ''line_count'' = JInt (int n)"
    by (rule exported_anchor_stored[where raw = "''{}''" and path = "''a''" and now = "''0''"])
       (use exported auth body time sha blank line path in \<open>simp_all add: env no_files_def jsonl_inv_def file_text_def\<close>)
  then show ?thesis by (auto simp: env no_files_def)
qed

end
