(* ===== verification/Worker_Loop.thy ===== *)
theory Worker_Loop
  imports Worker_Agent
begin

text \<open>
  The loop of the worker's researcher profile (\<open>research_loop\<close> of
  \<open>setup/firecracker-worker/worker_agent.py\<close>), turn by turn, with its budgets of model calls and tool calls.
\<close>

section \<open>The state of the loop\<close>

record limits =
  li_max_steps :: int
  li_max_llm :: int
  li_max_tokens :: int
  li_max_secs :: int
  li_page_chars :: int

record agent_state =
  ag_notes :: string
  ag_last :: string
  ag_searches :: int
  ag_fetches :: int
  ag_llm_calls :: int
  ag_guard_drops :: int
  ag_warnings :: "dict list"
  ag_models :: "string list"
  ag_answer :: "string option"
  ag_truncated :: bool
  ag_rewrite :: bool
  ag_rewrote :: bool
  ag_condense :: bool
  ag_seen :: "string list"
  ag_pages :: "dict list"

definition research_limits :: "dict \<Rightarrow> limits res" where
  "research_limits opts =
     bindE (py_int (dget opts ''max_steps'' (JInt 24))) (\<lambda>steps. bindE (py_int (dget opts ''max_llm_calls'' (JInt 30))) (\<lambda>llm.
     bindE (py_int (dget opts ''max_tokens'' (JInt 32768))) (\<lambda>tokens. bindE (py_int (dget opts ''max_seconds'' (JInt 1800))) (\<lambda>secs.
     bindE (py_int (dget opts ''page_chars'' (JInt 8000))) (\<lambda>chars.
       Inr \<lparr>li_max_steps = steps, li_max_llm = llm, li_max_tokens = tokens, li_max_secs = secs, li_page_chars = chars\<rparr>)))))"

definition add_once :: "string \<Rightarrow> string list \<Rightarrow> string list" where
  "add_once x xs = (if x \<in> set xs then xs else xs @ [x])"

definition seed_urls :: "dict \<Rightarrow> string list res" where
  "seed_urls a = bindE (first_items 5 (dget a ''urls'' (JList []))) (\<lambda>js.
     Inr (List.map_filter (\<lambda>j. case j of JStr s \<Rightarrow> Some s | _ \<Rightarrow> None) js))"

definition first_agent_state :: "string list \<Rightarrow> agent_state" where
  "first_agent_state seeds = \<lparr>ag_notes = [],
     ag_last = (if seeds \<noteq> [] then ''Requester seed URLs (fetch these first): '' @ py_join '' '' seeds else ''(no tool output yet)''),
     ag_searches = 0, ag_fetches = 0, ag_llm_calls = 0, ag_guard_drops = 0, ag_warnings = [], ag_models = [], ag_answer = None,
     ag_truncated = False, ag_rewrite = False, ag_rewrote = False, ag_condense = False, ag_seen = [], ag_pages = []\<rparr>"

section \<open>What is asked\<close>

definition research_last_turn :: "limits \<Rightarrow> agent_state \<Rightarrow> bool" where
  "research_last_turn L s \<longleftrightarrow> (let reserve = (if \<not> ag_rewrote s \<and> 4 \<le> li_max_llm L then 1 else 0) in
     li_max_steps L \<le> ag_searches s + ag_fetches s \<or> li_max_llm L - 1 - reserve \<le> ag_llm_calls s \<or> ag_condense s)"

definition closing_words :: "guest \<Rightarrow> bool \<Rightarrow> agent_state \<Rightarrow> string" where
  "closing_words G last_turn s = (if ag_condense s then g_words G ''CONDENSE'' else if ag_rewrite s then g_words G ''REWRITE''
     else if last_turn then ''You must now reply with the final action.'' else [])"

definition para :: string where "para = [newline, newline]"

definition research_prompt :: "guest \<Rightarrow> limits \<Rightarrow> string \<Rightarrow> agent_state \<Rightarrow> string" where
  "research_prompt G L task s =
     g_words G ''SYSTEM_R'' @ para @ ''BUDGET: '' @ int_str (max 0 (li_max_steps L - (ag_searches s + ag_fetches s))) @
     '' tool calls and '' @ int_str (li_max_llm L - ag_llm_calls s) @ '' model calls left.'' @ para @ ''TASK:'' @ [newline] @ task @ para @
     ''YOUR NOTES SO FAR:'' @ [newline] @ (if ag_notes s = [] then ''(empty)'' else ag_notes s) @ para @
     ''LAST TOOL OUTPUT (untrusted):'' @ [newline] @ ag_last s @ para @ closing_words G (research_last_turn L s) s"

definition task_of :: "guest \<Rightarrow> dict \<Rightarrow> string res" where
  "task_of G a = (case map_of a ''task'' of None \<Rightarrow> Inl (PyError ''KeyError'') | Some j \<Rightarrow> Inr (py_str (g_env G) j))"

definition llm_body :: "limits \<Rightarrow> string \<Rightarrow> dict" where
  "llm_body L prompt = [(''taint'', JList [JStr ''untrusted_web'']),
     (''messages'', JList [JObj [(''role'', JStr ''user''), (''content'', JStr prompt)]]),
     (''max_tokens'', JInt (li_max_tokens L)), (''temperature'', JFloat (Fin (1 / 5)))]"

definition ask_model :: "guest \<Rightarrow> asg_client \<Rightarrow> limits \<Rightarrow> nat \<Rightarrow> string \<Rightarrow> (guest_state, nat \<times> json) act" where
  "ask_model G A L k prompt = asg_post G A ''/v1/chat/completions'' ''fc.llm.chat'' ''worker_llm'' (llm_body L prompt)
     (llm_timeout (of_int (li_max_secs L) - g_elapsed G k 1))"

section \<open>What the reply means\<close>

definition guard_block_codes :: "string list" where
  "guard_block_codes = [''blocked_by_input_guard'', ''blocked_by_action_guard'', ''manual_review_required'']"

definition reply_code :: "nat \<Rightarrow> json \<Rightarrow> json res" where
  "reply_code st r = (if st \<noteq> 200 then error_code r else Inr (JStr []))"

definition asg_warning :: "string \<Rightarrow> string \<Rightarrow> string \<Rightarrow> dict" where
  "asg_warning source category description =
     [(''source'', JStr source), (''categories'', JList [JStr category]), (''description'', JStr description)]"

text \<open>\<open>(r.get("choices") or [{}])[0]\<close>\<close>

definition first_choice :: "json \<Rightarrow> json res" where
  "first_choice r = bindE (py_get r ''choices'' JNull) (\<lambda>c. case py_or c (JList [JObj []]) of
       JList (x # xs) \<Rightarrow> Inr x
     | JStr (x # xs) \<Rightarrow> Inr (JStr [x])
     | JObj d \<Rightarrow> Inl (PyError ''KeyError'')
     | _ \<Rightarrow> Inl (PyError ''TypeError''))"

text \<open>The content, which has to be a text for the patterns, and whether the reply was cut_short off.\<close>

definition read_reply :: "json \<Rightarrow> (string \<times> bool) res" where
  "read_reply r = bindE (first_choice r) (\<lambda>choice.
     bindE (py_get choice ''message'' JNull) (\<lambda>m.
     bindE (py_get (py_or m (JObj [])) ''content'' JNull) (\<lambda>c.
     bindE (case py_or c (JStr []) of JStr s \<Rightarrow> Inr s | _ \<Rightarrow> Inl (PyError ''TypeError'')) (\<lambda>content.
     bindE (py_get choice ''finish_reason'' JNull) (\<lambda>finish. Inr (content, finish = JStr ''length''))))))"

datatype next_move = Condense | CutOff string | Perform dict

definition next_move_of :: "guest \<Rightarrow> limits \<Rightarrow> string list \<Rightarrow> nat \<Rightarrow> agent_state \<Rightarrow> string \<Rightarrow> bool \<Rightarrow> next_move" where
  "next_move_of G L actions k s content cut_short =
     (if cut_short then (case parse_complete_action G actions content of
          Some d \<Rightarrow> Perform d
        | None \<Rightarrow> if ag_llm_calls s < li_max_llm L \<and> g_elapsed G k 2 < of_int (li_max_secs L) - 20 \<and> \<not> ag_condense s
                  then Condense else CutOff (partial_answer G content))
      else Perform (parse_action G actions content))"

definition cut_reply :: "string \<Rightarrow> agent_state \<Rightarrow> agent_state" where
  "cut_reply partial s = s\<lparr>ag_truncated := True,
     ag_answer := (if py_strip partial \<noteq> [] then Some (py_strip partial @ para @ ''[TRUNCATED: the model reply hit the output token limit]'') else None)\<rparr>"

section \<open>Tools\<close>

definition tool_body :: "string \<Rightarrow> string \<Rightarrow> dict" where
  "tool_body k v = [(''taint'', JList [JStr ''untrusted_web'']), (''message_type'', JStr ''task_instruction''), (k, JStr v)]"

definition failed_code :: "guest \<Rightarrow> nat \<Rightarrow> json \<Rightarrow> string res" where
  "failed_code G st r = tool_code G (if st \<noteq> 200 then r else JObj [])"

definition result_urls :: "guest \<Rightarrow> json list \<Rightarrow> string list" where
  "result_urls G l = List.map_filter (\<lambda>x. case x of
       JObj d \<Rightarrow> if truthy (dget0 d ''url'') then Some (py_str (g_env G) (dget0 d ''url'')) else None
     | _ \<Rightarrow> None) (take 10 l)"

definition search_done :: "guest \<Rightarrow> string \<Rightarrow> nat \<Rightarrow> json \<Rightarrow> agent_state \<Rightarrow> agent_state res" where
  "search_done G q st r s = bindE (if st = 200 then py_get r ''results'' JNull else Inr JNull) (\<lambda>found. case found of
       JList l \<Rightarrow> Inr (s\<lparr>ag_last := format_search G q l, ag_seen := fold add_once (result_urls G l) (ag_seen s)\<rparr>)
     | _ \<Rightarrow> bindE (failed_code G st r) (\<lambda>c. Inr (s\<lparr>ag_last := ''[search failed: '' @ c @ '']''\<rparr>)))"

definition perform_search :: "guest \<Rightarrow> asg_client \<Rightarrow> dict \<Rightarrow> agent_state \<Rightarrow> (guest_state, agent_state) act" where
  "perform_search G A move s =
     (let q = take 300 (py_str (g_env G) (dget move ''query'' (JStr []))) in
      bindA (asg_post G A ''/v1/tasks'' ''fc.search'' ''worker_search'' (tool_body ''query'' q) 60) (\<lambda>(st, r).
      liftA (search_done G q st r (s\<lparr>ag_searches := ag_searches s + 1\<rparr>))))"

text \<open>\<open>"text" in res\<close>\<close>

definition contains_text :: "json \<Rightarrow> bool res" where
  "contains_text r = (case r of
       JObj d \<Rightarrow> Inr (has_key d ''text'')
     | JList l \<Rightarrow> Inr (JStr ''text'' \<in> set l)
     | JStr s \<Rightarrow> Inr (substring ''text'' s)
     | _ \<Rightarrow> Inl (PyError ''TypeError''))"

definition page_urls :: "guest \<Rightarrow> dict \<Rightarrow> string list" where
  "page_urls G d = map (\<lambda>k. py_str (g_env G) (dget0 d k)) (filter (\<lambda>k. truthy (dget0 d k)) [''url'', ''final_url''])"

definition perform_fetch :: "guest \<Rightarrow> asg_client \<Rightarrow> limits \<Rightarrow> dict \<Rightarrow> agent_state \<Rightarrow> (guest_state, agent_state) act" where
  "perform_fetch G A L move s =
     (let url = take 1000 (py_str (g_env G) (dget move ''url'' (JStr []))) in
      bindA (asg_post G A ''/v1/tasks'' ''fc.fetch'' ''worker_fetch'' (tool_body ''url'' url) 60) (\<lambda>(st, r).
      let s = s\<lparr>ag_fetches := ag_fetches s + 1\<rparr> in
      bindA (liftA (if st = 200 then contains_text r else Inr False)) (\<lambda>ok.
      if ok then
        bindA (liftA (py_items r)) (\<lambda>d. bindA (liftA (format_page G d (li_page_chars L))) (\<lambda>page.
          retA (s\<lparr>ag_last := page, ag_seen := fold add_once (page_urls G d) (ag_seen s)\<rparr>)))
      else bindA (liftA (failed_code G st r)) (\<lambda>c. retA (s\<lparr>ag_last := ''[fetch failed: '' @ c @ '']''\<rparr>)))))"

section \<open>Turns\<close>

definition keep_notes :: "dict \<Rightarrow> agent_state \<Rightarrow> agent_state" where
  "keep_notes move s = (case dget0 move ''notes'' of JStr n \<Rightarrow> s\<lparr>ag_notes := take 1500 n\<rparr> | _ \<Rightarrow> s)"

definition finish_answer :: "guest \<Rightarrow> string list \<Rightarrow> dict \<Rightarrow> agent_state \<Rightarrow> agent_state res" where
  "finish_answer G allowed move s = bindE (clean_warnings G (dget0 move ''warnings'') allowed) (\<lambda>ws.
     Inr (s\<lparr>ag_answer := Some (py_strip (py_str (g_env G) (dget move ''answer'' (JStr [])))), ag_warnings := ag_warnings s @ ws\<rparr>))"

text \<open>The flag says whether the loop goes on.\<close>

definition research_move ::
    "guest \<Rightarrow> asg_client \<Rightarrow> limits \<Rightarrow> bool \<Rightarrow> next_move \<Rightarrow> agent_state \<Rightarrow> (guest_state, agent_state \<times> bool) act" where
  "research_move G A L last_turn move s = (case move of
       Condense \<Rightarrow> retA (s\<lparr>ag_condense := True\<rparr>, True)
     | CutOff partial \<Rightarrow> retA (cut_reply partial s, False)
     | Perform d \<Rightarrow> (let s = keep_notes d s in
         if dget0 d ''action'' = JStr ''search'' \<and> \<not> last_turn then bindA (perform_search G A d s) (\<lambda>s. retA (s, True))
         else if dget0 d ''action'' = JStr ''fetch'' \<and> \<not> last_turn then bindA (perform_fetch G A L d s) (\<lambda>s. retA (s, True))
         else bindA (liftA (finish_answer G [] d s)) (\<lambda>s. retA (s, False))))"

definition withheld :: string where
  "withheld = ''[withheld by the gateway guard: the previous tool output was not delivered; continue with other sources]''"

definition drop_output :: "string \<Rightarrow> agent_state \<Rightarrow> agent_state" where
  "drop_output reason s = s\<lparr>ag_guard_drops := ag_guard_drops s + 1, ag_last := withheld,
     ag_warnings := ag_warnings s @ [asg_warning ''(tool output)'' (''asg:'' @ reason)
       ''tool output withheld by the gateway guard before reaching the model; content not used'']\<rparr>"

definition ask_rewrite :: "agent_state \<Rightarrow> agent_state" where
  "ask_rewrite s = s\<lparr>ag_rewrite := True, ag_rewrote := True,
     ag_warnings := ag_warnings s @ [asg_warning ''(model reply)'' ''asg:blocked_by_output_guard''
       ''one model reply was withheld by the output guard and regenerated'']\<rparr>"

definition model_name :: "guest \<Rightarrow> json \<Rightarrow> string res" where
  "model_name G r = bindE (py_get r ''model'' (JStr [])) (\<lambda>m. Inr (take 64 (py_str (g_env G) m)))"

definition count_model_call :: "agent_state \<Rightarrow> agent_state" where
  "count_model_call s = s\<lparr>ag_llm_calls := ag_llm_calls s + 1\<rparr>"

text \<open>What both loops do with an answer that counts as a model call.\<close>

definition judge_answer ::
    "guest \<Rightarrow> limits \<Rightarrow> string list \<Rightarrow> nat \<Rightarrow> nat \<Rightarrow> json \<Rightarrow> json \<Rightarrow>
       (next_move \<Rightarrow> agent_state \<Rightarrow> (guest_state, agent_state \<times> bool) act) \<Rightarrow> agent_state \<Rightarrow> (guest_state, agent_state \<times> bool) act" where
  "judge_answer G L actions k st r c act_on s =
     (let s = count_model_call s in
      if st = 403 \<and> c = JStr ''blocked_by_output_guard'' \<and> \<not> ag_rewrote s \<and> ag_llm_calls s < li_max_llm L
      then retA (ask_rewrite s, True)
      else let s = s\<lparr>ag_rewrite := False\<rparr> in
        if st \<noteq> 200 then retA (s\<lparr>ag_answer := None\<rparr>, False)
        else bindA (liftA (model_name G r)) (\<lambda>m.
          let s = s\<lparr>ag_models := add_once m (ag_models s)\<rparr> in
          bindA (liftA (read_reply r)) (\<lambda>(content, cut_short). act_on (next_move_of G L actions k s content cut_short) s)))"

definition research_turn :: "guest \<Rightarrow> asg_client \<Rightarrow> limits \<Rightarrow> dict \<Rightarrow> nat \<Rightarrow> agent_state \<Rightarrow> (guest_state, agent_state \<times> bool) act" where
  "research_turn G A L a k s =
     (let last_turn = research_last_turn L s in
      bindA (liftA (task_of G a)) (\<lambda>task.
      bindA (ask_model G A L k (research_prompt G L task s)) (\<lambda>(st, r).
      bindA (liftA (reply_code st r)) (\<lambda>c.
      if st = 403 \<and> c \<in> set (map JStr guard_block_codes) \<and> ag_guard_drops s < 8 \<and> \<not> prefix ''[withheld'' (ag_last s)
      then retA (drop_output (py_str (g_env G) c) s, True)
      else judge_answer G L [''search'', ''fetch'', ''final''] k st r c (research_move G A L last_turn) s))))"

section \<open>Every turn uses up budget\<close>

text \<open>One more model call, or one more withheld output.\<close>

definition spends :: "int \<Rightarrow> agent_state \<Rightarrow> agent_state \<Rightarrow> bool" where
  "spends most s t \<longleftrightarrow> ag_llm_calls t = ag_llm_calls s + 1 \<and> ag_guard_drops t = ag_guard_drops s \<or>
     ag_llm_calls t = ag_llm_calls s \<and> ag_guard_drops t = ag_guard_drops s + 1 \<and> ag_guard_drops s < most"

lemma search_done_budget:
  assumes "search_done G q st r s = Inr t"
  shows "ag_llm_calls t = ag_llm_calls s \<and> ag_guard_drops t = ag_guard_drops s \<and>
     ag_searches t = ag_searches s \<and> ag_fetches t = ag_fetches s"
proof -
  from assms obtain found where "(case found of
       JList l \<Rightarrow> Inr (s\<lparr>ag_last := format_search G q l, ag_seen := fold add_once (result_urls G l) (ag_seen s)\<rparr>)
     | _ \<Rightarrow> bindE (failed_code G st r) (\<lambda>c. Inr (s\<lparr>ag_last := ''[search failed: '' @ c @ '']''\<rparr>))) = Inr t"
    unfolding search_done_def bindE_Inr by blast
  then show ?thesis by (cases found) (auto simp: bindE_Inr)
qed

lemma perform_search_budget:
  "perform_search G A d s gs = (Inr t, gs') \<Longrightarrow> ag_llm_calls t = ag_llm_calls s \<and> ag_guard_drops t = ag_guard_drops s \<and>
     ag_searches t = ag_searches s + 1 \<and> ag_fetches t = ag_fetches s"
  by (auto simp: perform_search_def Let_def bindA_Inr dest!: search_done_budget)

lemma perform_fetch_budget:
  "perform_fetch G A L d s gs = (Inr t, gs') \<Longrightarrow> ag_llm_calls t = ag_llm_calls s \<and> ag_guard_drops t = ag_guard_drops s \<and>
     ag_searches t = ag_searches s \<and> ag_fetches t = ag_fetches s + 1"
  by (auto simp: perform_fetch_def Let_def bindA_Inr split: if_splits)

lemma keep_notes_budget [simp]:
  "ag_llm_calls (keep_notes d s) = ag_llm_calls s" "ag_guard_drops (keep_notes d s) = ag_guard_drops s"
  "ag_searches (keep_notes d s) = ag_searches s" "ag_fetches (keep_notes d s) = ag_fetches s"
  by (auto simp: keep_notes_def split: json.split)

lemma finish_answer_budget:
  "finish_answer G allowed d s = Inr t \<Longrightarrow> ag_llm_calls t = ag_llm_calls s \<and> ag_guard_drops t = ag_guard_drops s \<and>
     ag_searches t = ag_searches s \<and> ag_fetches t = ag_fetches s"
  by (auto simp: finish_answer_def bindE_Inr)

text \<open>The tool calls of a turn: at most one, and none on the last turn.\<close>

definition tool_calls :: "agent_state \<Rightarrow> int" where
  "tool_calls s = ag_searches s + ag_fetches s"

lemma research_move_budget:
  assumes "research_move G A L last_turn move s gs = (Inr (t, again), gs')"
  shows "ag_llm_calls t = ag_llm_calls s \<and> ag_guard_drops t = ag_guard_drops s \<and>
    (tool_calls t = tool_calls s \<or> tool_calls t = tool_calls s + 1 \<and> \<not> last_turn)"
  using assms
  by (auto simp: research_move_def cut_reply_def Let_def bindA_Inr tool_calls_def
      dest!: perform_search_budget perform_fetch_budget finish_answer_budget split: next_move.splits if_splits)

lemma judge_answer_budget:
  assumes "judge_answer G L actions k st r c act_on s gs = (Inr (t, again), gs')"
    and act: "\<And>move u v b gs gs'. act_on move u gs = (Inr (v, b), gs') \<Longrightarrow> ag_llm_calls v = ag_llm_calls u \<and>
      ag_guard_drops v = ag_guard_drops u \<and> (tool_calls v = tool_calls u \<or> tool_calls v = tool_calls u + 1 \<and> P)"
  shows "ag_llm_calls t = ag_llm_calls s + 1 \<and> ag_guard_drops t = ag_guard_drops s \<and>
    (tool_calls t = tool_calls s \<or> tool_calls t = tool_calls s + 1 \<and> P)"
  using assms(1)
  by (auto simp: judge_answer_def Let_def bindA_Inr count_model_call_def ask_rewrite_def tool_calls_def
      dest!: act[unfolded tool_calls_def] split: if_splits)

lemma research_turn_budget:
  assumes "research_turn G A L a k s gs = (Inr (t, again), gs')"
  shows "spends 8 s t \<and> (tool_calls t = tool_calls s \<or> tool_calls t = tool_calls s + 1 \<and> tool_calls s < li_max_steps L)"
proof -
  have last: "\<not> research_last_turn L s \<Longrightarrow> tool_calls s < li_max_steps L"
    by (auto simp: research_last_turn_def tool_calls_def Let_def)
  from assms obtain st r c gs1 where
    "drop_output (py_str (g_env G) c) s = t \<and> ag_guard_drops s < 8 \<or>
     judge_answer G L [''search'', ''fetch'', ''final''] k st r c (research_move G A L (research_last_turn L s)) s gs1 = (Inr (t, again), gs')"
    by (auto simp: research_turn_def Let_def bindA_Inr split: if_splits)
  then show ?thesis
  proof
    assume "drop_output (py_str (g_env G) c) s = t \<and> ag_guard_drops s < 8"
    then show ?thesis by (auto simp: drop_output_def spends_def tool_calls_def)
  next
    assume j: "judge_answer G L [''search'', ''fetch'', ''final''] k st r c (research_move G A L (research_last_turn L s)) s gs1 = (Inr (t, again), gs')"
    have "ag_llm_calls t = ag_llm_calls s + 1 \<and> ag_guard_drops t = ag_guard_drops s \<and>
        (tool_calls t = tool_calls s \<or> tool_calls t = tool_calls s + 1 \<and> \<not> research_last_turn L s)"
      by (rule judge_answer_budget[OF j]) (rule research_move_budget)
    with last show ?thesis by (auto simp: spends_def)
  qed
qed

end
