(* ===== verification/Worker_Run.thy ===== *)
theory Worker_Run
  imports Worker_Loop
begin

text \<open>
  The whole run of the worker (\<open>main\<close> of \<open>setup/firecracker-worker/worker_agent.py\<close>): the loop over
  researcher turns, the reader profile with the pages it opens itself, and the submission of the answer.
  Both loops end because every turn uses up budget; the theorem bounds what a run sends.
\<close>

section \<open>The researcher's loop\<close>

definition goes_on :: "guest \<Rightarrow> limits \<Rightarrow> nat \<Rightarrow> agent_state \<Rightarrow> bool" where
  "goes_on G L k s \<longleftrightarrow> ag_llm_calls s < li_max_llm L \<and> g_elapsed G k 0 < of_int (li_max_secs L)"

function research_loop ::
    "guest \<Rightarrow> asg_client \<Rightarrow> limits \<Rightarrow> dict \<Rightarrow> nat \<Rightarrow> agent_state \<Rightarrow> guest_state \<Rightarrow> agent_state res \<times> guest_state" where
  "research_loop G A L a k s gs =
     (if \<not> goes_on G L k s then (Inr s, gs)
      else case research_turn G A L a k s gs of
          (Inl e, gs) \<Rightarrow> (Inl e, gs)
        | (Inr (t, again), gs) \<Rightarrow> if again then research_loop G A L a (Suc k) t gs else (Inr t, gs))"
  by pat_completeness auto
termination
proof (relation "measure (\<lambda>(G, A, L, a, k, s, gs). nat (li_max_llm L - ag_llm_calls s) + nat (8 - ag_guard_drops s))")
  fix G A L a k s gs x gs' y t again
  assume g: "\<not> \<not> goes_on G L k s" and t: "(x, gs') = research_turn G A L a k s gs" "x = Inr y" "(t, again) = y" "again"
  then have "spends 8 s t" using research_turn_budget[of G A L a k s gs t again gs'] by simp
  with g show "((G, A, L, a, Suc k, t, gs'), (G, A, L, a, k, s, gs))
      \<in> measure (\<lambda>(G, A, L, a, k, s, gs). nat (li_max_llm L - ag_llm_calls s) + nat (8 - ag_guard_drops s))"
    by (auto simp: spends_def goes_on_def)
qed simp

declare research_loop.simps [simp del]

section \<open>The reader's pages\<close>

definition url_allowed :: "guest \<Rightarrow> string list \<Rightarrow> string \<Rightarrow> parsed_url \<Rightarrow> bool" where
  "url_allowed G allowed url u \<longleftrightarrow> u_scheme u = ''https'' \<and> u_host u \<in> set allowed \<and> \<not> g_username G url \<and>
     (u_port u = Some None \<or> u_port u = Some (Some 443))"

text \<open>
  The redirects that are followed, each checked before it is requested, and why the chain stopped:
  \<open>RedirectNotAllowed\<close> and the \<open>ValueError\<close> of \<open>urlsplit\<close> both become the error of the page.
\<close>

fun follow :: "guest \<Rightarrow> string list \<Rightarrow> string list \<Rightarrow> string list \<times> string option" where
  "follow G allowed [] = ([], None)"
| "follow G allowed (t # ts) = (case e_urlsplit (g_env G) t of
       None \<Rightarrow> ([], Some ''ValueError'')
     | Some u \<Rightarrow> if url_allowed G allowed t u then (case follow G allowed ts of (us, e) \<Rightarrow> (t # us, e))
                 else ([], Some ''redirect_not_allowed''))"

definition page_text :: "guest \<Rightarrow> string \<Rightarrow> string" where
  "page_text G body = py_strip (join_spaces False (g_unescape G (re_sub (g_env G) ''TAG'' '' '' (re_sub (g_env G) ''SKIPPED_BLOCK'' '' '' body))))"

definition page_error :: "string \<Rightarrow> string \<Rightarrow> dict" where
  "page_error url e = [(''url'', JStr url), (''error'', JStr e)]"

definition page_of :: "guest \<Rightarrow> string list \<Rightarrow> string \<Rightarrow> string \<Rightarrow> int \<Rightarrow> page_answer \<Rightarrow> dict" where
  "page_of G allowed url final max_chars ans = (case ans of
       PageBroken c \<Rightarrow> page_error url c
     | PageFault n \<Rightarrow> page_error url (''http_'' @ int_str (int n))
     | Page n raw \<Rightarrow> (case e_urlsplit (g_env G) final of
         None \<Rightarrow> page_error url ''ValueError''
       | Some u \<Rightarrow> if u_host u \<notin> set allowed then page_error url ''redirect_not_allowed''
         else let body = g_decode G (py_take (1024 * 1024) raw) in
           [(''url'', JStr url), (''status'', JInt (int n)),
            (''title'', JStr (case g_title G body of None \<Rightarrow> [] | Some t \<Rightarrow> take 200 (page_text G t))),
            (''text'', JStr (py_take max_chars (page_text G body)))]))"

definition fetch_page :: "guest \<Rightarrow> string list \<Rightarrow> int \<Rightarrow> string \<Rightarrow> (guest_state, dict) act" where
  "fetch_page G allowed max_chars url =
     bindA (liftA (urlsplit (g_env G) url)) (\<lambda>u gs.
       if \<not> url_allowed G allowed url u
       then (Inr [(''url'', JStr url), (''error'', JStr ''not_allowed''),
           (''host'', JStr (take 80 (filter (\<lambda>c. code_in 97 122 c \<or> is_digit c \<or> c \<in> set ''.-'')
              (py_lower (if u_host u = [] then ''?'' else u_host u)))))], gs)
       else let (targets, ans) = g_open G (length (gs_contacts gs)) url; (followed, e) = follow G allowed targets;
           gs = gs\<lparr>gs_contacts := gs_contacts gs @ [(url, followed)]\<rparr>
         in (case e of
              Some c \<Rightarrow> (Inr (page_error url c), gs)
            | None \<Rightarrow> (Inr (page_of G allowed url (last (url # followed)) max_chars ans), gs)))"

definition open_page :: "guest \<Rightarrow> string list \<Rightarrow> limits \<Rightarrow> string \<Rightarrow> agent_state \<Rightarrow> (guest_state, agent_state) act" where
  "open_page G allowed L url s = bindA (fetch_page G allowed (li_page_chars L) url) (\<lambda>p.
     retA (s\<lparr>ag_pages := ag_pages s @ [p], ag_fetches := ag_fetches s + 1\<rparr>))"

fun open_pages :: "guest \<Rightarrow> string list \<Rightarrow> limits \<Rightarrow> string list \<Rightarrow> agent_state \<Rightarrow> (guest_state, agent_state) act" where
  "open_pages G allowed L [] s = retA s"
| "open_pages G allowed L (u # us) s = bindA (open_page G allowed L u s) (open_pages G allowed L us)"

section \<open>The reader's loop\<close>

fun page_docs :: "guest \<Rightarrow> nat \<Rightarrow> dict list \<Rightarrow> string list" where
  "page_docs G i [] = []"
| "page_docs G i (p # ps) =
     (''[page '' @ int_str (int i) @ ''] url='' @ py_str (g_env G) (dget0 p ''url'') @ '' title='' @ py_str (g_env G) (dget p ''title'' (JStr [])) @
      '' status='' @ py_str (g_env G) (dget p ''status'' (dget0 p ''error'')) @ [newline] @ py_str (g_env G) (dget p ''text'' (JStr [])))
     # page_docs G (Suc i) ps"

definition reader_last_turn :: "limits \<Rightarrow> agent_state \<Rightarrow> bool" where
  "reader_last_turn L s \<longleftrightarrow> (let reserve = (if \<not> ag_rewrote s \<and> 3 \<le> li_max_llm L then 1 else 0) in
     li_max_llm L - 1 - reserve \<le> ag_llm_calls s \<or> li_max_steps L \<le> ag_fetches s \<or> ag_condense s)"

text \<open>\<open>SYSTEM % ", ".join(sorted(allowed))\<close> is the word \<open>SYSTEM\<close> with the hosts appended here.\<close>

definition reader_prompt :: "guest \<Rightarrow> limits \<Rightarrow> string list \<Rightarrow> string \<Rightarrow> agent_state \<Rightarrow> string" where
  "reader_prompt G L allowed task s =
     g_words G (''SYSTEM:'' @ py_join '', '' (sort (remdups allowed))) @ para @ ''TASK:'' @ [newline] @ task @ para @
     ''FETCHED PAGES (untrusted):'' @ [newline] @
     (let docs = py_join para (page_docs G 1 (ag_pages s)) in if docs = [] then ''(none)'' else docs) @ para @
     closing_words G (reader_last_turn L s) s"

definition drop_page :: "guest \<Rightarrow> string \<Rightarrow> agent_state \<Rightarrow> agent_state" where
  "drop_page G reason s = s\<lparr>ag_guard_drops := ag_guard_drops s + 1, ag_pages := butlast (ag_pages s),
     ag_warnings := ag_warnings s @ [asg_warning (defang G (py_str (g_env G) (dget (last (ag_pages s)) ''url'' (JStr [])))) (''asg:'' @ reason)
       ''page withheld by the gateway guard before reaching the model; content not used'']\<rparr>"

definition reader_move ::
    "guest \<Rightarrow> string list \<Rightarrow> limits \<Rightarrow> bool \<Rightarrow> next_move \<Rightarrow> agent_state \<Rightarrow> (guest_state, agent_state \<times> bool) act" where
  "reader_move G allowed L last_turn move s = (case move of
       Condense \<Rightarrow> retA (s\<lparr>ag_condense := True\<rparr>, True)
     | CutOff partial \<Rightarrow> retA (cut_reply partial s, False)
     | Perform d \<Rightarrow>
         if dget0 d ''action'' = JStr ''fetch'' \<and> \<not> last_turn
         then bindA (open_page G allowed L (py_str (g_env G) (dget d ''url'' (JStr []))) s) (\<lambda>s. retA (s, True))
         else bindA (liftA (finish_answer G allowed d s)) (\<lambda>s. retA (s, False)))"

definition reader_turn ::
    "guest \<Rightarrow> asg_client \<Rightarrow> limits \<Rightarrow> string list \<Rightarrow> dict \<Rightarrow> nat \<Rightarrow> agent_state \<Rightarrow> (guest_state, agent_state \<times> bool) act" where
  "reader_turn G A L allowed a k s =
     (let last_turn = reader_last_turn L s in
      bindA (liftA (task_of G a)) (\<lambda>task.
      bindA (ask_model G A L k (reader_prompt G L allowed task s)) (\<lambda>(st, r).
      bindA (liftA (reply_code st r)) (\<lambda>c.
      if st = 403 \<and> c \<in> set (map JStr guard_block_codes) \<and> ag_pages s \<noteq> [] \<and> ag_guard_drops s < 5
      then retA (drop_page G (py_str (g_env G) c) s, True)
      else judge_answer G L [''fetch'', ''final''] k st r c (reader_move G allowed L last_turn) s))))"

lemma open_page_budget:
  "open_page G allowed L u s gs = (Inr t, gs') \<Longrightarrow> ag_llm_calls t = ag_llm_calls s \<and> ag_guard_drops t = ag_guard_drops s \<and>
     tool_calls t = tool_calls s + 1"
  by (auto simp: open_page_def bindA_Inr tool_calls_def)

lemma reader_move_budget:
  assumes "reader_move G allowed L last_turn move s gs = (Inr (t, again), gs')"
  shows "ag_llm_calls t = ag_llm_calls s \<and> ag_guard_drops t = ag_guard_drops s \<and>
    (tool_calls t = tool_calls s \<or> tool_calls t = tool_calls s + 1 \<and> \<not> last_turn)"
  using assms
  by (auto simp: reader_move_def cut_reply_def bindA_Inr tool_calls_def
      dest!: open_page_budget[unfolded tool_calls_def] finish_answer_budget split: next_move.splits if_splits)

lemma reader_turn_budget:
  assumes "reader_turn G A L allowed a k s gs = (Inr (t, again), gs')"
  shows "spends 5 s t"
proof -
  from assms obtain st r c gs1 where
    "drop_page G (py_str (g_env G) c) s = t \<and> ag_guard_drops s < 5 \<or>
     judge_answer G L [''fetch'', ''final''] k st r c (reader_move G allowed L (reader_last_turn L s)) s gs1 = (Inr (t, again), gs')"
    by (auto simp: reader_turn_def Let_def bindA_Inr split: if_splits)
  then show ?thesis
  proof
    assume "drop_page G (py_str (g_env G) c) s = t \<and> ag_guard_drops s < 5"
    then show ?thesis by (auto simp: drop_page_def spends_def)
  next
    assume j: "judge_answer G L [''fetch'', ''final''] k st r c (reader_move G allowed L (reader_last_turn L s)) s gs1 = (Inr (t, again), gs')"
    have "ag_llm_calls t = ag_llm_calls s + 1 \<and> ag_guard_drops t = ag_guard_drops s \<and>
        (tool_calls t = tool_calls s \<or> tool_calls t = tool_calls s + 1 \<and> \<not> reader_last_turn L s)"
      by (rule judge_answer_budget[OF j]) (rule reader_move_budget)
    then show ?thesis by (simp add: spends_def)
  qed
qed

function reader_loop ::
    "guest \<Rightarrow> asg_client \<Rightarrow> limits \<Rightarrow> string list \<Rightarrow> dict \<Rightarrow> nat \<Rightarrow> agent_state \<Rightarrow> guest_state \<Rightarrow> agent_state res \<times> guest_state" where
  "reader_loop G A L allowed a k s gs =
     (if \<not> goes_on G L k s then (Inr s, gs)
      else case reader_turn G A L allowed a k s gs of
          (Inl e, gs) \<Rightarrow> (Inl e, gs)
        | (Inr (t, again), gs) \<Rightarrow> if again then reader_loop G A L allowed a (Suc k) t gs else (Inr t, gs))"
  by pat_completeness auto
termination
proof (relation "measure (\<lambda>(G, A, L, allowed, a, k, s, gs). nat (li_max_llm L - ag_llm_calls s) + nat (5 - ag_guard_drops s))")
  fix G A L allowed a k s gs x gs' y t again
  assume g: "\<not> \<not> goes_on G L k s" and t: "(x, gs') = reader_turn G A L allowed a k s gs" "x = Inr y" "(t, again) = y" "again"
  then have "spends 5 s t" using reader_turn_budget[of G A L allowed a k s gs t again gs'] by simp
  with g show "((G, A, L, allowed, a, Suc k, t, gs'), (G, A, L, allowed, a, k, s, gs))
      \<in> measure (\<lambda>(G, A, L, allowed, a, k, s, gs). nat (li_max_llm L - ag_llm_calls s) + nat (5 - ag_guard_drops s))"
    by (auto simp: spends_def goes_on_def)
qed simp

declare reader_loop.simps [simp del]

text \<open>
  A URL that \<open>urlsplit\<close> refuses ends the whole run, whether the model asks for it or its answer holds it.
\<close>

lemma malformed_url_raises:
  assumes "e_urlsplit (g_env G) url = None"
  shows "fetch_page G allowed n url gs = (Inl (PyError ''ValueError''), gs)" "defang_match G allowed url = Inl (PyError ''ValueError'')"
  using assms by (simp_all add: fetch_page_def defang_match_def urlsplit_def bindA_def)

section \<open>The whole run\<close>

definition reader_limits :: "dict \<Rightarrow> limits res" where
  "reader_limits opts =
     bindE (py_int (dget opts ''max_steps'' (JInt 6))) (\<lambda>steps. bindE (py_int (dget opts ''max_llm_calls'' (JInt 4))) (\<lambda>llm.
     bindE (py_int (dget opts ''max_tokens'' (JInt 32768))) (\<lambda>tokens. bindE (py_int (dget opts ''max_seconds'' (JInt 1200))) (\<lambda>secs.
     bindE (py_int (dget opts ''page_chars'' (JInt 6000))) (\<lambda>chars.
       Inr \<lparr>li_max_steps = steps, li_max_llm = llm, li_max_tokens = tokens, li_max_secs = secs, li_page_chars = chars\<rparr>)))))"

text \<open>A required entry of the run's description, a text.\<close>

definition entry :: "dict \<Rightarrow> string \<Rightarrow> string res" where
  "entry a k = (case map_of a k of None \<Rightarrow> Inl (PyError ''KeyError'') | Some (JStr s) \<Rightarrow> Inr s | Some _ \<Rightarrow> Inl (PyError ''TypeError''))"

definition texts_of :: "json \<Rightarrow> string list res" where  \<comment> \<open>the hosts are texts\<close>
  "texts_of j = bindE (py_iter j) (\<lambda>js. mapE (\<lambda>x. case x of JStr s \<Rightarrow> Inr s | _ \<Rightarrow> Inl (PyError ''TypeError'')) js)"

definition client_of :: "dict \<Rightarrow> asg_client res" where
  "client_of a = bindE (entry a ''credential'') (\<lambda>cred. bindE (entry a ''run_id'') (\<lambda>run. bindE (entry a ''task_id'') (\<lambda>task.
     Inr \<lparr>as_credential = cred, as_run = run, as_task = task\<rparr>)))"

text \<open>Two calls that the gateway has to refuse: a wrong credential, and a run that is not registered.\<close>

definition negative_body :: dict where
  "negative_body = [(''taint'', JList [JStr ''untrusted_web'']),
     (''messages'', JList [JObj [(''role'', JStr ''user''), (''content'', JStr ''hi'')]])]"

definition negative_probes :: "guest \<Rightarrow> asg_client \<Rightarrow> (guest_state, unit) act" where
  "negative_probes G A =
     bindA (asg_post G (A\<lparr>as_credential := replicate 43 CHR ''x''\<rparr>) ''/v1/chat/completions'' ''fc.llm.chat'' ''worker_llm'' negative_body 20) (\<lambda>x.
     bindA (asg_post G (A\<lparr>as_run := ''no-such-run-zz''\<rparr>) ''/v1/chat/completions'' ''fc.llm.chat'' ''worker_llm'' negative_body 20) (\<lambda>(st, r).
     bindA (liftA (error_code r)) (\<lambda>c. retA ())))"

definition seen_hosts :: "guest \<Rightarrow> string list \<Rightarrow> string list res" where
  "seen_hosts G seen = mapE (\<lambda>u. bindE (urlsplit (g_env G) u) (\<lambda>p. Inr (py_lower (u_host p))))
     (filter (\<lambda>u. prefix ''https://'' (py_lower u)) seen)"

text \<open>The state at the end of the loop and the hosts whose links stay readable.\<close>

definition run_researcher :: "guest \<Rightarrow> asg_client \<Rightarrow> dict \<Rightarrow> dict \<Rightarrow> string list \<Rightarrow> (guest_state, agent_state \<times> string list) act" where
  "run_researcher G A a opts allowed =
     bindA (liftA (research_limits opts)) (\<lambda>L. bindA (liftA (seed_urls a)) (\<lambda>seeds.
     bindA (research_loop G A L a 0 (first_agent_state seeds)) (\<lambda>s.
     bindA (liftA (seen_hosts G (ag_seen s))) (\<lambda>hosts. retA (s, allowed @ hosts)))))"

definition run_reader :: "guest \<Rightarrow> asg_client \<Rightarrow> dict \<Rightarrow> limits \<Rightarrow> string list \<Rightarrow> (guest_state, agent_state \<times> string list) act" where
  "run_reader G A a L allowed =
     bindA (liftA (bindE (first_items 5 (dget a ''urls'' (JList []))) (mapE (\<lambda>j. case j of JStr s \<Rightarrow> Inr s | _ \<Rightarrow> Inl (PyError ''TypeError''))))) (\<lambda>urls.
     bindA (open_pages G allowed L urls (first_agent_state [])) (\<lambda>s.
     bindA (reader_loop G A L allowed a 0 s) (\<lambda>s. retA (s, allowed))))"

definition final_content :: "guest \<Rightarrow> string list \<Rightarrow> agent_state \<Rightarrow> string res" where
  "final_content G allowed s =
     (let answer = (case ag_answer s of Some (c # t) \<Rightarrow> c # t | _ \<Rightarrow> ''(no answer: model unavailable or limits reached)'');
          models = py_join '','' (sort (ag_models s)) in
      bindE (defang_text G (take 6000 answer) allowed) (\<lambda>safe.
      Inr (take 9000 (safe @ format_warnings G (ag_warnings s)) @ para @ ''---'' @ [newline] @ ''worker: model(s) via ASG fc.llm.chat='' @
        (if models = [] then ''-'' else models) @ ''; llm_calls='' @ int_str (ag_llm_calls s) @ ''; fetches='' @ int_str (ag_fetches s) @
        ''; searches='' @ int_str (ag_searches s) @ ''; elapsed='' @ g_seconds G @ ''s'' @
        (if ag_truncated s then ''; truncated=1'' else []) @ [newline])))"

definition submit_answer :: "guest \<Rightarrow> asg_client \<Rightarrow> string \<Rightarrow> (guest_state, nat \<times> json) act" where
  "submit_answer G A content = asg_post G A ''/v1/artifacts'' ''fc.artifacts.submit'' ''submit_artifact''
     [(''taint'', JList [JStr ''untrusted_web'']), (''message_type'', JStr ''artifact''), (''artifact_type'', JStr ''agent_answer''),
      (''filename'', JStr ''answer.txt''), (''media_type'', JStr ''text/plain''), (''content_text'', JStr content)] 30"

definition run_worker :: "guest \<Rightarrow> dict \<Rightarrow> (guest_state, nat \<times> json) act" where
  "run_worker G a =
     bindA (liftA (client_of a)) (\<lambda>A.
     bindA (liftA (py_items (dget a ''limits'' (JObj [])))) (\<lambda>opts.
     bindA (liftA (reader_limits opts)) (\<lambda>L.
     bindA (liftA (texts_of (dget a ''allowed_hosts'' (JList [])))) (\<lambda>allowed.
     thenA (negative_probes G A)
     (bindA (if dget a ''profile'' (JStr ''reader'') = JStr ''researcher'' then run_researcher G A a opts allowed
             else run_reader G A a L allowed) (\<lambda>(s, hosts).
     bindA (liftA (final_content G hosts s)) (\<lambda>content. submit_answer G A content)))))))"

end
