(* ===== verification/Worker_Bounds.thy ===== *)
theory Worker_Bounds
  imports Worker_Run
begin

text \<open>
  What a run of the worker sends, whatever the model, the pages and the gateway answer: how many requests
  of which kind, and which URLs it opens itself.
\<close>

section \<open>Counting\<close>

definition page_ok :: "guest \<Rightarrow> string list \<Rightarrow> string \<Rightarrow> bool" where
  "page_ok G allowed url \<longleftrightarrow> (\<exists>u. e_urlsplit (g_env G) url = Some u \<and> url_allowed G allowed url u)"

definition model_posts :: "asg_request list \<Rightarrow> nat" where
  "model_posts qs = length (filter (\<lambda>q. pr_route q = ''fc.llm.chat'') qs)"

definition tool_posts :: "asg_request list \<Rightarrow> nat" where
  "tool_posts qs = length (filter (\<lambda>q. pr_route q = ''fc.search'' \<or> pr_route q = ''fc.fetch'') qs)"

definition loop_route :: "asg_request \<Rightarrow> bool" where
  "loop_route q \<longleftrightarrow> pr_route q = ''fc.llm.chat'' \<or> pr_route q = ''fc.search'' \<or> pr_route q = ''fc.fetch''"

text \<open>At most \<open>m\<close> model calls and \<open>n\<close> tool calls were added, no other request, and at most \<open>p\<close> pages were opened,
  which are allowed, as are the redirects followed from them.\<close>

definition opening_ok :: "guest \<Rightarrow> string list \<Rightarrow> string \<times> string list \<Rightarrow> bool" where
  "opening_ok G allowed = (\<lambda>(url, followed). list_all (page_ok G allowed) (url # followed))"

definition guest_sends :: "guest \<Rightarrow> string list \<Rightarrow> nat \<Rightarrow> nat \<Rightarrow> nat \<Rightarrow> guest_state \<Rightarrow> guest_state \<Rightarrow> bool" where
  "guest_sends G allowed m n p gs gs' \<longleftrightarrow> (\<exists>qs pages. gs_posts gs' = gs_posts gs @ qs \<and> gs_contacts gs' = gs_contacts gs @ pages \<and>
     model_posts qs \<le> m \<and> tool_posts qs \<le> n \<and> length pages \<le> p \<and>
     list_all loop_route qs \<and> list_all (opening_ok G allowed) pages)"

lemma sends_refl [simp]: "guest_sends G allowed m n p gs gs"
  by (auto simp: guest_sends_def model_posts_def tool_posts_def)

lemma sends_trans:
  assumes "guest_sends G allowed m n p gs gs1" and "guest_sends G allowed m' n' p' gs1 gs'"
  shows "guest_sends G allowed (m + m') (n + n') (p + p') gs gs'"
proof -
  from assms(1) obtain qs pages where a:
    "gs_posts gs1 = gs_posts gs @ qs" "gs_contacts gs1 = gs_contacts gs @ pages" "model_posts qs \<le> m" "tool_posts qs \<le> n"
    "length pages \<le> p" "list_all loop_route qs" "list_all (opening_ok G allowed) pages" unfolding guest_sends_def by blast
  from assms(2) obtain qs' pages' where b:
    "gs_posts gs' = gs_posts gs1 @ qs'" "gs_contacts gs' = gs_contacts gs1 @ pages'" "model_posts qs' \<le> m'" "tool_posts qs' \<le> n'"
    "length pages' \<le> p'" "list_all loop_route qs'" "list_all (opening_ok G allowed) pages'" unfolding guest_sends_def by blast
  have "model_posts (qs @ qs') \<le> m + m'" "tool_posts (qs @ qs') \<le> n + n'"
    using a(3,4) b(3,4) by (simp_all add: model_posts_def tool_posts_def)
  with a b show ?thesis unfolding guest_sends_def
    by (intro exI[of _ "qs @ qs'"] exI[of _ "pages @ pages'"]) simp
qed

lemma sends_mono:
  "guest_sends G allowed m n p gs gs' \<Longrightarrow> m \<le> m' \<Longrightarrow> n \<le> n' \<Longrightarrow> p \<le> p' \<Longrightarrow> guest_sends G allowed m' n' p' gs gs'"
  unfolding guest_sends_def by (metis order.trans)

lemma asg_post_sends:
  assumes "asg_post G A path route cap body timeout gs = (r, gs')"
  shows "route = ''fc.llm.chat'' \<Longrightarrow> guest_sends G allowed 1 0 0 gs gs'"
    and "route = ''fc.search'' \<or> route = ''fc.fetch'' \<Longrightarrow> guest_sends G allowed 0 1 0 gs gs'"
proof -
  define q where "q = asg_request_for A path route cap body timeout"
  have gs': "gs' = gs\<lparr>gs_posts := gs_posts gs @ [q]\<rparr>"
    using assms by (auto simp: asg_post_def Let_def q_def split: asg_outcome.splits)
  have route: "pr_route q = route" by (simp add: asg_request_for_def q_def)
  show "guest_sends G allowed 1 0 0 gs gs'" if "route = ''fc.llm.chat''"
    unfolding guest_sends_def gs' using route that
    by (intro exI[of _ "[q]"] exI[of _ "[]"]) (simp add: model_posts_def tool_posts_def loop_route_def)
  show "guest_sends G allowed 0 1 0 gs gs'" if "route = ''fc.search'' \<or> route = ''fc.fetch''"
    unfolding guest_sends_def gs' using route that
    by (intro exI[of _ "[q]"] exI[of _ "[]"]) (auto simp: model_posts_def tool_posts_def loop_route_def)
qed

lemma perform_search_sends:
  assumes "perform_search G A d s gs = (r, gs')"
  shows "guest_sends G allowed 0 1 0 gs gs'"
proof -
  obtain r0 gs1 body where "asg_post G A ''/v1/tasks'' ''fc.search'' ''worker_search'' body 60 gs = (r0, gs1)" and "gs' = gs1"
    using assms unfolding perform_search_def Let_def
    by (auto simp: bindA_def split: prod.splits sum.splits)
  from asg_post_sends(2)[OF this(1)] this(2) show ?thesis by simp
qed

lemma perform_fetch_sends:
  assumes "perform_fetch G A L d s gs = (r, gs')"
  shows "guest_sends G allowed 0 1 0 gs gs'"
proof -
  obtain r0 gs1 body where "asg_post G A ''/v1/tasks'' ''fc.fetch'' ''worker_fetch'' body 60 gs = (r0, gs1)" and "gs' = gs1"
    using assms unfolding perform_fetch_def Let_def
    by (auto simp: bindA_def split: prod.splits sum.splits if_splits)
  from asg_post_sends(2)[OF this(1)] this(2) show ?thesis by simp
qed

lemma tool_then_again:
  assumes "bindA m (\<lambda>t. retA (t, True)) gs = (r, gs')" and "\<And>x. m gs = (x, gs') \<Longrightarrow> guest_sends G allowed 0 1 0 gs gs'"
    and "\<And>t. m gs = (Inr t, gs') \<Longrightarrow> tool_calls t = tool_calls s + 1"
  shows "case r of Inl e \<Rightarrow> guest_sends G allowed 0 1 0 gs gs'
     | Inr (t, again) \<Rightarrow> guest_sends G allowed 0 (nat (tool_calls t - tool_calls s)) 0 gs gs'"
  using assms by (auto simp: bindA_def split: prod.splits sum.splits)

lemma research_move_sends:
  assumes "research_move G A L last_turn move s gs = (r, gs')"
  shows "case r of Inl e \<Rightarrow> guest_sends G allowed 0 (if last_turn then 0 else 1) 0 gs gs'
     | Inr (t, again) \<Rightarrow> guest_sends G allowed 0 (nat (tool_calls t - tool_calls s)) 0 gs gs'"
proof (cases "\<exists>d. move = Perform d \<and> (dget0 d ''action'' = JStr ''search'' \<or> dget0 d ''action'' = JStr ''fetch'') \<and> \<not> last_turn")
  case False
  then have "gs' = gs"
    using assms by (auto simp: research_move_def Let_def bindA_def split: next_move.splits sum.splits if_splits)
  then show ?thesis by (simp split: sum.splits)
next
  case True
  then obtain d where d: "move = Perform d" "dget0 d ''action'' = JStr ''search'' \<or> dget0 d ''action'' = JStr ''fetch''" "\<not> last_turn" by blast
  show ?thesis
  proof (cases "dget0 d ''action'' = JStr ''search''")
    case True
    with assms d have run: "bindA (perform_search G A d (keep_notes d s)) (\<lambda>s. retA (s, True)) gs = (r, gs')"
      by (simp add: research_move_def Let_def)
    have "tool_calls t = tool_calls s + 1" if "perform_search G A d (keep_notes d s) gs = (Inr t, gs')" for t
      using perform_search_budget[OF that] by (simp add: tool_calls_def)
    with d(3) show ?thesis using tool_then_again[OF run perform_search_sends] by auto
  next
    case False
    with assms d have run: "bindA (perform_fetch G A L d (keep_notes d s)) (\<lambda>s. retA (s, True)) gs = (r, gs')"
      by (simp add: research_move_def Let_def)
    have "tool_calls t = tool_calls s + 1" if "perform_fetch G A L d (keep_notes d s) gs = (Inr t, gs')" for t
      using perform_fetch_budget[OF that] by (simp add: tool_calls_def)
    with d(3) show ?thesis using tool_then_again[OF run perform_fetch_sends] by auto
  qed
qed

lemma tool_calls_update [simp]:
  "tool_calls (s\<lparr>ag_llm_calls := n\<rparr>) = tool_calls s" "tool_calls (s\<lparr>ag_rewrite := b\<rparr>) = tool_calls s"
  "tool_calls (s\<lparr>ag_models := ms\<rparr>) = tool_calls s"
  by (simp_all add: tool_calls_def)

lemma judge_answer_cases:
  assumes "judge_answer G L actions k st r c act_on s gs = (x, gs')"
  shows "gs' = gs \<and> (\<forall>t again. x = Inr (t, again) \<longrightarrow> tool_calls t = tool_calls s \<and> ag_fetches t = ag_fetches s) \<or>
    (\<exists>move u. act_on move u gs = (x, gs') \<and> tool_calls u = tool_calls s \<and> ag_fetches u = ag_fetches s)"
proof (cases "st = 403 \<and> c = JStr ''blocked_by_output_guard'' \<and> \<not> ag_rewrote s \<and> ag_llm_calls s + 1 < li_max_llm L \<or> st \<noteq> 200")
  case True
  with assms show ?thesis
    by (auto simp: judge_answer_def Let_def count_model_call_def ask_rewrite_def tool_calls_def split: if_splits)
next
  case False
  with assms have "bindA (liftA (model_name G r)) (\<lambda>m.
      let s = (count_model_call s)\<lparr>ag_rewrite := False, ag_models := add_once m (ag_models s)\<rparr> in
      bindA (liftA (read_reply r)) (\<lambda>(content, cut_short). act_on (next_move_of G L actions k s content cut_short) s)) gs = (x, gs')"
    by (auto simp: judge_answer_def Let_def count_model_call_def split: if_splits)
  then have "gs' = gs \<and> (\<exists>e. x = Inl e) \<or> (\<exists>m content cut_short. let u = (count_model_call s)\<lparr>ag_rewrite := False, ag_models := add_once m (ag_models s)\<rparr> in
      act_on (next_move_of G L actions k u content cut_short) u gs = (x, gs'))"
    by (auto simp: bindA_def Let_def split: sum.splits prod.splits)
  moreover have "tool_calls ((count_model_call s)\<lparr>ag_rewrite := False, ag_models := add_once m (ag_models s)\<rparr>) = tool_calls s"
    "ag_fetches ((count_model_call s)\<lparr>ag_rewrite := False, ag_models := add_once m (ag_models s)\<rparr>) = ag_fetches s" for m
    by (simp_all add: count_model_call_def)
  ultimately show ?thesis unfolding Let_def by blast
qed

lemma research_turn_sends:
  assumes "research_turn G A L a k s gs = (r, gs')"
  shows "case r of Inl e \<Rightarrow> guest_sends G allowed 1 (if tool_calls s < li_max_steps L then 1 else 0) 0 gs gs'
     | Inr (t, again) \<Rightarrow> guest_sends G allowed 1 (nat (tool_calls t - tool_calls s)) 0 gs gs'"
proof -
  have last: "\<not> research_last_turn L s \<Longrightarrow> tool_calls s < li_max_steps L"
    by (auto simp: research_last_turn_def tool_calls_def Let_def)
  show ?thesis
  proof (cases "task_of G a")
    case (Inl e)
    with assms show ?thesis by (auto simp: research_turn_def Let_def bindA_def)
  next
    case (Inr task)
    obtain x gs1 where ask: "ask_model G A L k (research_prompt G L task s) gs = (x, gs1)"
      by (cases "ask_model G A L k (research_prompt G L task s) gs")
    have one: "guest_sends G allowed 1 0 0 gs gs1" using asg_post_sends(1)[OF ask[unfolded ask_model_def]] by simp
    have rest: "case r of Inl e \<Rightarrow> guest_sends G allowed 0 (if tool_calls s < li_max_steps L then 1 else 0) 0 gs1 gs'
        | Inr (t, again) \<Rightarrow> guest_sends G allowed 0 (nat (tool_calls t - tool_calls s)) 0 gs1 gs'"
    proof (cases "\<exists>st j c. x = Inr (st, j) \<and> reply_code st j = Inr c \<and>
        judge_answer G L [''search'', ''fetch'', ''final''] k st j c (research_move G A L (research_last_turn L s)) s gs1 = (r, gs')")
      case True
      then obtain st j c where "judge_answer G L [''search'', ''fetch'', ''final''] k st j c
          (research_move G A L (research_last_turn L s)) s gs1 = (r, gs')" by blast
      from judge_answer_cases[OF this] show ?thesis
      proof
        assume "\<exists>move u. research_move G A L (research_last_turn L s) move u gs1 = (r, gs') \<and> tool_calls u = tool_calls s \<and> ag_fetches u = ag_fetches s"
        then obtain move u where "research_move G A L (research_last_turn L s) move u gs1 = (r, gs')" "tool_calls u = tool_calls s" by blast
        with research_move_sends[OF this(1), of allowed] last show ?thesis
          by (auto split: sum.splits if_splits intro: sends_mono)
      qed (auto split: sum.splits)
    next
      case False
      then have "gs' = gs1" "\<And>t again. r = Inr (t, again) \<Longrightarrow> tool_calls t = tool_calls s"
        using assms Inr ask
        by (auto simp: research_turn_def Let_def bindA_def drop_output_def tool_calls_def split: sum.splits prod.splits if_splits)
      then show ?thesis by (auto split: sum.splits)
    qed
    show ?thesis using sends_trans[OF one] rest by (auto split: sum.splits)
  qed
qed

lemma research_loop_sends:
  "research_loop G A L a k s gs = (r, gs') \<Longrightarrow> tool_calls s \<le> max 0 (li_max_steps L) \<Longrightarrow>
     guest_sends G allowed (nat (li_max_llm L - ag_llm_calls s) + nat (8 - ag_guard_drops s)) (nat (li_max_steps L - tool_calls s)) 0 gs gs'"
proof (induction G A L a k s gs arbitrary: r gs' rule: research_loop.induct)
  case (1 G A L a k s gs)
  obtain x gs1 where turn: "research_turn G A L a k s gs = (x, gs1)" by (cases "research_turn G A L a k s gs")
  note step = 1(2)[unfolded research_loop.simps[of G A L a k s gs] turn]
  note sent = research_turn_sends[OF turn, of allowed]
  show ?case
  proof (cases "goes_on G L k s")
    case False
    with step show ?thesis by simp
  next
    case True
    then have llm: "ag_llm_calls s < li_max_llm L" by (simp add: goes_on_def)
    show ?thesis
    proof (cases x)
      case (Inl e)
      with step True sent have "guest_sends G allowed 1 (if tool_calls s < li_max_steps L then 1 else 0) 0 gs gs'" by simp
      then show ?thesis by (rule sends_mono) (use llm in auto)
    next
      case (Inr ta)
      obtain t again where x: "x = Inr (t, again)" using Inr by (cases ta) auto
      note budget = research_turn_budget[OF turn[unfolded x]]
      have s1: "guest_sends G allowed 1 (nat (tool_calls t - tool_calls s)) 0 gs gs1" using sent x by simp
      show ?thesis
      proof (cases again)
        case False
        with step True x have "gs' = gs1" by simp
        with s1 show ?thesis using budget llm by (auto intro: sends_mono)
      next
        case again: True
        with step True x have rec: "research_loop G A L a (Suc k) t gs1 = (r, gs')" by simp
        have tc: "tool_calls t \<le> max 0 (li_max_steps L)" using budget 1(3) by auto
        have "guest_sends G allowed (nat (li_max_llm L - ag_llm_calls t) + nat (8 - ag_guard_drops t)) (nat (li_max_steps L - tool_calls t)) 0 gs1 gs'"
          by (rule 1(1)[OF _ turn[symmetric] x refl again rec tc]) (use True in simp)
        from sends_trans[OF s1 this] show ?thesis
          by (rule sends_mono) (use budget llm in \<open>auto simp: spends_def\<close>)
      qed
    qed
  qed
qed

section \<open>The reader\<close>

lemma follow_ok: "follow G allowed targets = (followed, e) \<Longrightarrow> list_all (page_ok G allowed) followed"
  by (induction targets arbitrary: followed e) (auto simp: page_ok_def split: option.splits if_splits prod.splits)

lemma fetch_page_sends:
  assumes "fetch_page G allowed n url gs = (r, gs')"
  shows "guest_sends G allowed 0 0 1 gs gs'"
proof (cases "e_urlsplit (g_env G) url")
  case None
  with assms show ?thesis by (simp add: fetch_page_def urlsplit_def bindA_def)
next
  case (Some u)
  obtain targets ans where o: "g_open G (length (gs_contacts gs)) url = (targets, ans)" by (cases "g_open G (length (gs_contacts gs)) url")
  obtain followed e where f: "follow G allowed targets = (followed, e)" by (cases "follow G allowed targets")
  show ?thesis
  proof (cases "url_allowed G allowed url u")
    case False
    with assms Some show ?thesis by (simp add: fetch_page_def urlsplit_def bindA_def)
  next
    case True
    have "gs' = gs\<lparr>gs_contacts := gs_contacts gs @ [(url, followed)]\<rparr>"
      using assms Some True o f by (auto simp: fetch_page_def urlsplit_def bindA_def Let_def split: option.splits)
    moreover have "page_ok G allowed url" using Some True by (auto simp: page_ok_def)
    ultimately show ?thesis using follow_ok[OF f] unfolding guest_sends_def
      by (intro exI[of _ "[]"] exI[of _ "[(url, followed)]"]) (simp add: model_posts_def tool_posts_def opening_ok_def)
  qed
qed

lemma open_page_sends:
  assumes "open_page G allowed L url s gs = (r, gs')"
  shows "guest_sends G allowed 0 0 1 gs gs'" "r = Inr t \<Longrightarrow> ag_fetches t = ag_fetches s + 1"
  using assms by (auto simp: open_page_def bindA_def dest!: fetch_page_sends split: prod.splits sum.splits)

lemma open_pages_sends:
  "open_pages G allowed L us s gs = (r, gs') \<Longrightarrow> guest_sends G allowed 0 0 (length us) gs gs' \<and>
     (\<forall>t. r = Inr t \<longrightarrow> ag_fetches t = ag_fetches s + int (length us))"
proof (induction us arbitrary: s gs)
  case (Cons u us)
  obtain x gs1 where p: "open_page G allowed L u s gs = (x, gs1)" by (cases "open_page G allowed L u s gs")
  note one = open_page_sends[OF p]
  show ?case
  proof (cases x)
    case (Inl e)
    with Cons p one(1) show ?thesis by (auto simp: bindA_def intro: sends_mono)
  next
    case (Inr t)
    with Cons.prems p have "open_pages G allowed L us t gs1 = (r, gs')" by (simp add: bindA_def)
    from Cons.IH[OF this] sends_trans[OF one(1)] one(2)[OF Inr] show ?thesis by fastforce
  qed
qed auto

text \<open>A step of the reader opens at most one page, and counts it unless it raises.\<close>

definition opens_within :: "guest \<Rightarrow> string list \<Rightarrow> nat \<Rightarrow> int \<Rightarrow> (agent_state \<times> bool) res \<Rightarrow> agent_state \<Rightarrow> guest_state \<Rightarrow> guest_state \<Rightarrow> bool" where
  "opens_within G allowed m most r s gs gs' \<longleftrightarrow> (case r of
       Inl e \<Rightarrow> guest_sends G allowed m 0 (if ag_fetches s < most then 1 else 0) gs gs'
     | Inr (t, again) \<Rightarrow> guest_sends G allowed m 0 (nat (ag_fetches t - ag_fetches s)) gs gs' \<and>
         (ag_fetches t = ag_fetches s \<or> ag_fetches t = ag_fetches s + 1 \<and> ag_fetches s < most))"

lemma opens_nothing: "(\<And>t again. r = Inr (t, again) \<Longrightarrow> ag_fetches t = ag_fetches s) \<Longrightarrow> opens_within G allowed m most r s gs gs"
  by (auto simp: opens_within_def split: sum.split)

lemma opens_same: "ag_fetches u = ag_fetches s \<Longrightarrow> opens_within G allowed m most r u gs gs' = opens_within G allowed m most r s gs gs'"
  unfolding opens_within_def by presburger

lemma reader_move_sends:
  assumes "reader_move G allowed L last_turn move s gs = (r, gs')" and "\<not> last_turn \<Longrightarrow> ag_fetches s < most"
  shows "opens_within G allowed 0 most r s gs gs'"
proof (cases "\<exists>d. move = Perform d \<and> dget0 d ''action'' = JStr ''fetch'' \<and> \<not> last_turn")
  case False
  then have "gs' = gs" "\<And>t again. r = Inr (t, again) \<Longrightarrow> ag_fetches t = ag_fetches s"
    using assms(1) by (auto simp: reader_move_def bindA_def cut_reply_def dest: finish_answer_budget split: next_move.splits sum.splits if_splits)
  then show ?thesis by (simp add: opens_nothing)
next
  case True
  then obtain d where d: "move = Perform d" "dget0 d ''action'' = JStr ''fetch''" "\<not> last_turn" by blast
  obtain x gs1 where o: "open_page G allowed L (py_str (g_env G) (dget d ''url'' (JStr []))) s gs = (x, gs1)"
    by (cases "open_page G allowed L (py_str (g_env G) (dget d ''url'' (JStr []))) s gs")
  have "gs' = gs1 \<and> r = (case x of Inl e \<Rightarrow> Inl e | Inr t \<Rightarrow> Inr (t, True))"
    using assms(1) d o by (auto simp: reader_move_def bindA_def split: sum.splits)
  then show ?thesis
    using open_page_sends[OF o] assms(2) d(3) by (cases x) (auto simp: opens_within_def)
qed

lemma reader_turn_sends:
  assumes "reader_turn G A L allowed a k s gs = (r, gs')"
  shows "opens_within G allowed 1 (li_max_steps L) r s gs gs'"
proof (cases "task_of G a")
  case (Inl e)
  with assms show ?thesis by (auto simp: reader_turn_def Let_def bindA_def intro: opens_nothing)
next
  case (Inr task)
  obtain x gs1 where ask: "ask_model G A L k (reader_prompt G L allowed task s) gs = (x, gs1)"
    by (cases "ask_model G A L k (reader_prompt G L allowed task s) gs")
  have one: "guest_sends G allowed 1 0 0 gs gs1" using asg_post_sends(1)[OF ask[unfolded ask_model_def]] by simp
  have last: "\<not> reader_last_turn L s \<Longrightarrow> ag_fetches s < li_max_steps L" by (auto simp: reader_last_turn_def Let_def)
  have rest: "opens_within G allowed 0 (li_max_steps L) r s gs1 gs'"
  proof (cases "\<exists>st j c. x = Inr (st, j) \<and> reply_code st j = Inr c \<and>
      judge_answer G L [''fetch'', ''final''] k st j c (reader_move G allowed L (reader_last_turn L s)) s gs1 = (r, gs')")
    case True
    then obtain st j c where
      "judge_answer G L [''fetch'', ''final''] k st j c (reader_move G allowed L (reader_last_turn L s)) s gs1 = (r, gs')" by blast
    from judge_answer_cases[OF this] show ?thesis
    proof
      assume "\<exists>move u. reader_move G allowed L (reader_last_turn L s) move u gs1 = (r, gs') \<and> tool_calls u = tool_calls s \<and> ag_fetches u = ag_fetches s"
      then obtain move u where "reader_move G allowed L (reader_last_turn L s) move u gs1 = (r, gs')" "ag_fetches u = ag_fetches s" by blast
      with reader_move_sends[OF this(1), of "li_max_steps L"] last show ?thesis by (simp add: opens_same[of u s])
    qed (auto intro: opens_nothing)
  next
    case False
    then have "gs' = gs1" "\<And>t again. r = Inr (t, again) \<Longrightarrow> ag_fetches t = ag_fetches s"
      using assms Inr ask
      by (auto simp: reader_turn_def Let_def bindA_def drop_page_def split: sum.splits prod.splits if_splits)
    then show ?thesis by (simp add: opens_nothing)
  qed
  show ?thesis
  proof (cases r)
    case (Inl e)
    then show ?thesis using rest sends_trans[OF one] by (auto simp: opens_within_def split: if_splits)
  next
    case (Inr tb)
    then show ?thesis using rest sends_trans[OF one] by (cases tb) (auto simp: opens_within_def)
  qed
qed

lemma reader_loop_sends:
  "reader_loop G A L allowed a k s gs = (r, gs') \<Longrightarrow>
     guest_sends G allowed (nat (li_max_llm L - ag_llm_calls s) + nat (5 - ag_guard_drops s)) 0 (nat (li_max_steps L - ag_fetches s)) gs gs'"
proof (induction G A L allowed a k s gs arbitrary: r gs' rule: reader_loop.induct)
  case (1 G A L allowed a k s gs)
  obtain x gs1 where turn: "reader_turn G A L allowed a k s gs = (x, gs1)" by (cases "reader_turn G A L allowed a k s gs")
  note step = 1(2)[unfolded reader_loop.simps[of G A L allowed a k s gs] turn]
  note sent = reader_turn_sends[OF turn]
  show ?case
  proof (cases "goes_on G L k s")
    case False
    with step show ?thesis by simp
  next
    case True
    then have llm: "ag_llm_calls s < li_max_llm L" by (simp add: goes_on_def)
    show ?thesis
    proof (cases x)
      case (Inl e)
      with step True sent have "guest_sends G allowed 1 0 (if ag_fetches s < li_max_steps L then 1 else 0) gs gs'"
        by (simp add: opens_within_def)
      then show ?thesis by (rule sends_mono) (use llm in auto)
    next
      case (Inr ta)
      obtain t again where x: "x = Inr (t, again)" using Inr by (cases ta) auto
      have s1: "guest_sends G allowed 1 0 (nat (ag_fetches t - ag_fetches s)) gs gs1"
        "ag_fetches t = ag_fetches s \<or> ag_fetches t = ag_fetches s + 1 \<and> ag_fetches s < li_max_steps L"
        using sent x by (simp_all add: opens_within_def)
      show ?thesis
      proof (cases again)
        case False
        with step True x have "gs' = gs1" by simp
        with s1 show ?thesis using llm by (auto intro: sends_mono)
      next
        case again: True
        with step True x have rec: "reader_loop G A L allowed a (Suc k) t gs1 = (r, gs')" by simp
        have "guest_sends G allowed (nat (li_max_llm L - ag_llm_calls t) + nat (5 - ag_guard_drops t)) 0 (nat (li_max_steps L - ag_fetches t)) gs1 gs'"
          by (rule 1(1)[OF _ turn[symmetric] x refl again rec]) (use True in simp)
        from sends_trans[OF s1(1) this] show ?thesis
          by (rule sends_mono) (use reader_turn_budget[OF turn[unfolded x]] s1(2) llm in \<open>auto simp: spends_def\<close>)
      qed
    qed
  qed
qed

section \<open>The whole run\<close>

lemma sends_bindA:
  assumes "bindA m f gs = (r, gs')" and "\<And>x gs1. m gs = (x, gs1) \<Longrightarrow> guest_sends G allowed m1 n1 p1 gs gs1"
    and "\<And>x gs1. m gs = (Inr x, gs1) \<Longrightarrow> f x gs1 = (r, gs') \<Longrightarrow> guest_sends G allowed m2 n2 p2 gs1 gs'"
  shows "guest_sends G allowed (m1 + m2) (n1 + n2) (p1 + p2) gs gs'"
proof -
  obtain x gs1 where m: "m gs = (x, gs1)" by (cases "m gs")
  show ?thesis
  proof (cases x)
    case (Inl e)
    with assms(1) m have "gs' = gs1" by (simp add: bindA_def)
    with assms(2)[OF m] show ?thesis by (auto intro: sends_mono)
  next
    case (Inr y)
    with assms(1) m have "f y gs1 = (r, gs')" by (simp add: bindA_def)
    with assms(3) m Inr have "guest_sends G allowed m2 n2 p2 gs1 gs'" by simp
    with assms(2)[OF m] show ?thesis by (rule sends_trans)
  qed
qed

lemma negative_probes_sends: "negative_probes G A gs = (r, gs') \<Longrightarrow> guest_sends G allowed 2 0 0 gs gs'"
proof -
  assume "negative_probes G A gs = (r, gs')"
  then have "guest_sends G allowed (1 + 1) (0 + 0) (0 + 0) gs gs'"
    unfolding negative_probes_def
  proof (rule sends_bindA)
    fix x gs1
    assume "asg_post G (A\<lparr>as_credential := replicate 43 CHR ''x''\<rparr>) ''/v1/chat/completions'' ''fc.llm.chat'' ''worker_llm'' negative_body 20 gs = (x, gs1)"
    then show "guest_sends G allowed 1 0 0 gs gs1" by (rule asg_post_sends(1)) simp
  next
    fix x gs1
    assume "bindA (asg_post G (A\<lparr>as_run := ''no-such-run-zz''\<rparr>) ''/v1/chat/completions'' ''fc.llm.chat'' ''worker_llm'' negative_body 20)
      (\<lambda>(st, r). bindA (liftA (error_code r)) (\<lambda>c. retA ())) gs1 = (r, gs')"
    then have "\<exists>y. asg_post G (A\<lparr>as_run := ''no-such-run-zz''\<rparr>) ''/v1/chat/completions'' ''fc.llm.chat'' ''worker_llm'' negative_body 20 gs1 = (y, gs')"
      by (auto simp: bindA_def split: prod.splits sum.splits)
    then show "guest_sends G allowed 1 0 0 gs1 gs'" using asg_post_sends(1) by blast
  qed
  then show ?thesis by (simp add: numeral_2_eq_2)
qed

lemma run_researcher_sends:
  assumes "run_researcher G A a opts hosts gs = (r, gs')" and "research_limits opts = Inr L"
  shows "guest_sends G allowed (nat (li_max_llm L) + 8) (nat (li_max_steps L)) 0 gs gs'"
proof (cases "seed_urls a")
  case (Inl e)
  with assms show ?thesis by (simp add: run_researcher_def bindA_def)
next
  case (Inr seeds)
  obtain x gs1 where l: "research_loop G A L a 0 (first_agent_state seeds) gs = (x, gs1)"
    by (cases "research_loop G A L a 0 (first_agent_state seeds) gs")
  then have "gs' = gs1" using assms Inr by (auto simp: run_researcher_def bindA_def split: sum.splits)
  with research_loop_sends[OF l, of allowed] show ?thesis by (simp add: first_agent_state_def tool_calls_def)
qed

lemma open_pages_budget:
  "open_pages G allowed L us s gs = (Inr t, gs') \<Longrightarrow> ag_llm_calls t = ag_llm_calls s \<and> ag_guard_drops t = ag_guard_drops s"
  by (induction us arbitrary: s gs) (fastforce simp: bindA_Inr dest: open_page_budget)+

lemma first_items_length: "first_items n j = Inr l \<Longrightarrow> length l \<le> n"
  by (auto simp: first_items_def split: json.splits if_splits)

lemma run_reader_sends:
  assumes "run_reader G A a L allowed gs = (r, gs')"
  shows "guest_sends G allowed (nat (li_max_llm L) + 5) 0 (max 5 (nat (li_max_steps L))) gs gs'"
proof (cases "bindE (first_items 5 (dget a ''urls'' (JList []))) (mapE (\<lambda>j. case j of JStr s \<Rightarrow> Inr s | _ \<Rightarrow> Inl (PyError ''TypeError'')))")
  case (Inl e)
  with assms show ?thesis by (simp add: run_reader_def bindA_def)
next
  case (Inr urls)
  then have few: "length urls \<le> 5" by (auto simp: bindE_Inr mapE_Inr dest!: first_items_length list_all2_lengthD)
  obtain x gs1 where o: "open_pages G allowed L urls (first_agent_state []) gs = (x, gs1)"
    by (cases "open_pages G allowed L urls (first_agent_state []) gs")
  note opened = open_pages_sends[OF o]
  show ?thesis
  proof (cases x)
    case (Inl e)
    with assms Inr o have "gs' = gs1" by (simp add: run_reader_def bindA_def)
    then show ?thesis using opened few by (auto intro: sends_mono)
  next
    case (Inr s)
    have z: "ag_llm_calls s = 0" "ag_guard_drops s = 0" "ag_fetches s = int (length urls)"
      using open_pages_budget[OF o[unfolded Inr]] opened Inr by (simp_all add: first_agent_state_def)
    obtain y gs2 where l: "reader_loop G A L allowed a 0 s gs1 = (y, gs2)" by (cases "reader_loop G A L allowed a 0 s gs1")
    have "gs' = gs2"
      using assms \<open>bindE _ _ = Inr urls\<close> o Inr l by (auto simp: run_reader_def bindA_def split: sum.splits)
    moreover have "guest_sends G allowed (0 + (nat (li_max_llm L) + 5)) (0 + 0) (length urls + nat (li_max_steps L - int (length urls))) gs gs2"
      using sends_trans[OF conjunct1[OF opened] reader_loop_sends[OF l]] z by simp
    ultimately show ?thesis by (auto intro: sends_mono split: if_splits) (use few in \<open>auto elim: sends_mono\<close>)
  qed
qed

definition run_limits :: "dict \<Rightarrow> limits res" where
  "run_limits a = bindE (py_items (dget a ''limits'' (JObj []))) (\<lambda>opts.
     if dget a ''profile'' (JStr ''reader'') = JStr ''researcher'' then research_limits opts else reader_limits opts)"

definition guest_start :: guest_state where
  "guest_start = \<lparr>gs_posts = [], gs_contacts = []\<rparr>"

text \<open>The pages a run may open itself: the researcher none.\<close>

definition page_limit :: "dict \<Rightarrow> limits \<Rightarrow> nat" where
  "page_limit a L = (if dget a ''profile'' (JStr ''reader'') = JStr ''researcher'' then 0 else max 5 (nat (li_max_steps L)))"

text \<open>C34: Whatever the model, the pages and the gateway answer, a run of the worker ends; by then it has made
  at most ten model calls more than its limit (two probes, eight outputs withheld by the guard) and at most the
  allowed number of tool calls; a researcher has opened no page itself, a reader at most as many as its limit of steps or
  five, whichever is more, each of them of an allowed host, as is every redirect followed. It has sent nothing else but, at
  the end, at most one artifact with its answer, and exactly one unless an exception stopped it.\<close>

theorem worker_run_bounded:
  assumes "run_worker G a guest_start = (r, gs)" and "run_limits a = Inr L"
    and "texts_of (dget a ''allowed_hosts'' (JList [])) = Inr allowed"
  shows "\<exists>qs submission. gs_posts gs = qs @ submission \<and> model_posts qs \<le> nat (li_max_llm L) + 10 \<and>
    tool_posts qs \<le> nat (li_max_steps L) \<and> list_all loop_route qs \<and> list_all (opening_ok G allowed) (gs_contacts gs) \<and>
    length (gs_contacts gs) \<le> page_limit a L \<and>
    length submission \<le> 1 \<and> list_all (\<lambda>q. pr_path q = ''/v1/artifacts'') submission \<and> (okE r \<longrightarrow> submission \<noteq> [])"
proof -
  let ?goal = "\<lambda>gs r. \<exists>qs submission. gs_posts gs = qs @ submission \<and> model_posts qs \<le> nat (li_max_llm L) + 10 \<and>
    tool_posts qs \<le> nat (li_max_steps L) \<and> list_all loop_route qs \<and> list_all (opening_ok G allowed) (gs_contacts gs) \<and>
    length (gs_contacts gs) \<le> page_limit a L \<and>
    length submission \<le> 1 \<and> list_all (\<lambda>q. pr_path q = ''/v1/artifacts'') submission \<and> (okE r \<longrightarrow> submission \<noteq> [])"
  have early: "?goal gs' r'" if "guest_sends G allowed (nat (li_max_llm L) + 10) (nat (li_max_steps L)) (page_limit a L) guest_start gs'" "\<not> okE r'" for gs' and r' :: "(nat \<times> json) res"
    using that by (intro exI[of _ "gs_posts gs'"] exI[of _ "[]"]) (auto simp: guest_sends_def guest_start_def)
  show ?thesis
  proof (cases "\<exists>A opts L1. client_of a = Inr A \<and> py_items (dget a ''limits'' (JObj [])) = Inr opts \<and> reader_limits opts = Inr L1")
    case False
    then have "gs = guest_start" "\<not> okE r" using assms(1,3)
      by (auto simp: run_worker_def bindA_def okE_def split: sum.splits)
    then show ?thesis using early by simp
  next
    case True
    then obtain A opts L1 where A: "client_of a = Inr A" "py_items (dget a ''limits'' (JObj [])) = Inr opts" "reader_limits opts = Inr L1" by blast
    obtain p gs1 where p: "negative_probes G A guest_start = (p, gs1)" by (cases "negative_probes G A guest_start")
    note sent1 = negative_probes_sends[OF p, of allowed]
    define body where "body = (if dget a ''profile'' (JStr ''reader'') = JStr ''researcher'' then run_researcher G A a opts allowed
             else run_reader G A a L1 allowed)"
    obtain x gs2 where x: "body gs1 = (x, gs2)" by (cases "body gs1")
    have sent2: "guest_sends G allowed (nat (li_max_llm L) + 8) (nat (li_max_steps L)) (page_limit a L) gs1 gs2"
    proof (cases "dget a ''profile'' (JStr ''reader'') = JStr ''researcher''")
      case True
      with x A assms(2) show ?thesis using run_researcher_sends by (auto simp: body_def run_limits_def page_limit_def)
    next
      case False
      with x A assms(2) have "run_reader G A a L allowed gs1 = (x, gs2)" by (auto simp: body_def run_limits_def)
      from run_reader_sends[OF this] show ?thesis by (rule sends_mono) (use False in \<open>auto simp: page_limit_def\<close>)
    qed
    have both: "guest_sends G allowed (nat (li_max_llm L) + 10) (nat (li_max_steps L)) (page_limit a L) guest_start gs2"
      using sends_trans[OF sent1 sent2] by (rule sends_mono) auto
    have run: "thenA (negative_probes G A) (bindA body (\<lambda>(s, hosts).
        bindA (liftA (final_content G hosts s)) (\<lambda>content. submit_answer G A content))) guest_start = (r, gs)"
      using assms(1,3) A by (simp add: run_worker_def bindA_def body_def cong: if_cong)
    show ?thesis
    proof (cases "\<exists>s hosts content. p = Inr () \<and> x = Inr (s, hosts) \<and> final_content G hosts s = Inr content")
      case False
      then have "(gs = gs1 \<or> gs = gs2) \<and> \<not> okE r"
        using run p x by (auto simp: thenA_def bindA_def okE_def split: sum.splits)
      moreover have "guest_sends G allowed (nat (li_max_llm L) + 10) (nat (li_max_steps L)) (page_limit a L) guest_start gs1"
        using sent1 by (rule sends_mono) auto
      ultimately show ?thesis using early both by auto
    next
      case True
      then obtain s hosts content where "p = Inr ()" "x = Inr (s, hosts)" "final_content G hosts s = Inr content" by blast
      with run p x have "submit_answer G A content gs2 = (r, gs)" by (simp add: thenA_def bindA_def)
      then obtain q where "gs = gs2\<lparr>gs_posts := gs_posts gs2 @ [q]\<rparr>" "pr_path q = ''/v1/artifacts''"
        by (auto simp: submit_answer_def asg_post_def asg_request_for_def Let_def split: asg_outcome.splits)
      with both show ?thesis 
        by (intro exI[of _ "gs_posts gs2"] exI[of _ "[q]"]) (auto simp: guest_sends_def guest_start_def)
    qed
  qed
qed

section \<open>An example\<close>

definition demo_guest :: guest where
  "demo_guest = \<lparr>g_env = demo_http_env\<lparr>e_loads := \<lambda>s. Some (JObj [(''choices'', JList [JObj [(''message'', JObj [(''content'', JStr ''done'')])]])])\<rparr>,
     g_username = (\<lambda>u. False), g_unescape = id, g_decode = id, g_title = (\<lambda>s. None), g_seconds = ''1.0'', g_repr = id,
     g_words = (\<lambda>n. []), g_asg = (\<lambda>k q. HttpFault 403 []), g_open = (\<lambda>k u. ([], PageFault 404)), g_elapsed = (\<lambda>k i. 0)\<rparr>"

definition demo_run_entry :: dict where
  "demo_run_entry = [(''credential'', JStr ''c''), (''run_id'', JStr ''r1''), (''task_id'', JStr ''t1''), (''task'', JStr ''read''),
     (''allowed_hosts'', JList [JStr ''a.b''])]"

lemma demo_run_sent:
  "map pr_path (gs_posts (snd (run_worker demo_guest demo_run_entry guest_start))) =
     [''/v1/chat/completions'', ''/v1/chat/completions'', ''/v1/chat/completions'', ''/v1/artifacts'']"
  by code_simp

theorem worker_run_bounded_witness:
  "\<exists>qs submission. gs_posts (snd (run_worker demo_guest demo_run_entry guest_start)) = qs @ submission \<and> model_posts qs \<le> 14 \<and>
     length submission \<le> 1 \<and> length (qs @ submission) = 4"
proof -
  obtain r gs where run: "run_worker demo_guest demo_run_entry guest_start = (r, gs)" by (cases "run_worker demo_guest demo_run_entry guest_start")
  obtain L where L: "run_limits demo_run_entry = Inr L" "li_max_llm L = 4"
    by (simp add: run_limits_def reader_limits_def demo_run_entry_def)
  have "texts_of (dget demo_run_entry ''allowed_hosts'' (JList [])) = Inr [''a.b'']" by code_simp
  from worker_run_bounded[OF run L(1) this] L(2) run obtain qs submission where
    "gs_posts gs = qs @ submission" "model_posts qs \<le> 14" "length submission \<le> 1" by auto
  moreover have "length (gs_posts (snd (run_worker demo_guest demo_run_entry guest_start))) = 4"
    using arg_cong[OF demo_run_sent, of length] by simp
  ultimately show ?thesis using run by (intro exI[of _ qs] exI[of _ submission]) simp
qed

end
