(* ===== verification/Spec2Isabelle.thy ===== *)
theory Spec2Isabelle
  imports Prelude Pyvalue Jsonl Audit_Log Rate_Limiter Decision Model_Quota Run_Store Canary World Auth Route_Policy
    Text_Scan Snippet_Check Input_Policy Action_Guard Output_Guard Run_Modes Backend Artifact_Store Artifact_Check
    Config_Check Proxy_Policy Proxy_Handler Structured_Extract Request Routed_Request Endpoints Endpoint_Effects
    Research_Fetch Signed_Headers Research_Service Research_Safety Receipt_Collector Worker_Agent Worker_Loop Worker_Run Worker_Bounds
begin

text \<open>
  Agent Security Gateway: a model of its core and the theorems that make it correct.

  \<^bold>\<open>The program.\<close> The gateway (\<open>src/gateway.py\<close>) is the single point through which agents reach
  backends. A request passes, in this order: kill switch, authentication and admission, reading of
  its body with the canary check, choice of a route, rate limit, route policy, model quota, input
  policy, input guard, action guard; then it is forwarded under the gateway's own credential, the
  answer passes the output guard, and the outcome is written to a hash-chained audit log. Beside that it registers runs and approvals,
  stores, reviews and serves artifacts, and runs commands of command routes. The scanner, the
  limiter and the audit log come from \<open>src/proxy.py\<close>, which is also a standalone proxy in front of
  one backend; canary tokens and revocations come from \<open>src/canary.py\<close>.

  \<^bold>\<open>Foundations.\<close> \<open>Prelude\<close>: exceptions as values, the exception monad \<open>res\<close> of pure checks, the
  state and exception monad \<open>act\<close> of handlers, the collections of lemmas, text functions.
  \<open>Pyvalue\<close>: JSON values as Python holds them (\<open>json\<close>, with ordered association lists for
  dictionaries) with the operations the source applies to them. \<open>Jsonl\<close>: append-only JSON-lines
  files; its locale \<open>append_log\<close> says what a reader finds after appends; its instances are the files
  the gateway appends to (approvals, runs) and the revocation file of \<open>src/canary.py\<close>. \<open>Decision\<close>: the records \<open>VerifiedAgent\<close> and
  \<open>RouteDecision\<close>. \<open>World\<close>: the state of one process with its files.

  \<^bold>\<open>State and files.\<close> \<open>Audit_Log\<close> (\<open>AuditLogger\<close>, \<open>verify_audit_log\<close>): every log written verifies, and
  a log that verifies against an anchor holds the written events unless the hash collides.
  \<open>Rate_Limiter\<close> (\<open>RateLimiter\<close>): no window holds more admissions than the limit, for any interleaving of
  threads that take the lock in the order of their clock readings, and otherwise for windows shorter by twice
  the longest wait for the lock; a live bucket is never evicted. \<open>Model_Quota\<close> (\<open>run_model_quota_settings\<close>,
  \<open>enforce_run_model_quota\<close>, \<open>record_run_model_call\<close>): check, count and uncounted notice as separate steps of an
  \<open>inductive\<close> relation over requests in flight, with the bound on the overshoot. \<open>Run_Store\<close>
  (\<open>normalize_dynamic_run_record\<close>, \<open>get_run\<close>, \<open>gc_runs\<close>): the latest record counts, and garbage
  collection preserves it, except for texts that \<open>str.splitlines\<close> cuts. \<open>Canary\<close> (\<open>src/canary.py\<close>):
  a registered value is found within the limits, and the last operation decides a revocation.

  \<^bold>\<open>Who and where.\<close> \<open>Auth\<close> (\<open>verify_agent\<close>, \<open>verify_run_scoped_agent\<close>) and \<open>Route_Policy\<close>
  (\<open>resolve_route_decision\<close>, \<open>enforce_route_policy\<close>): what an accepted caller presented, and exactly
  which requests pass the policy of a route.

  \<^bold>\<open>Guards.\<close> \<open>Text_Scan\<close> (\<open>scan_text\<close> and its extraction of text), \<open>Snippet_Check\<close>
  (\<open>apply_snippet_check\<close>, \<open>apply_llm_inspector\<close>, \<open>scan_inbound_payload\<close>), \<open>Input_Policy\<close>
  (\<open>enforce_input_policy\<close> at any depth), \<open>Action_Guard\<close> (\<open>enforce_action_guard\<close>, approvals),
  \<open>Output_Guard\<close> (\<open>enforce_output_guard\<close> with the steps that relax findings; its locale \<open>scan_step\<close>
  is the contract of such a step and has the four steps of the code as instances),
  \<open>Structured_Extract\<close> (\<open>build_structured_extract\<close>). The lemmas say which findings a step may touch,
  and that whatever no step may touch blocks.

  \<^bold>\<open>Operations.\<close> \<open>Run_Modes\<close> (\<open>build_run_registration_record\<close>, test mode, quarantined read), \<open>Backend\<close>
  (headers, signature, chat body, receipts, errors of \<open>forward\<close>), \<open>Artifact_Store\<close> and
  \<open>Artifact_Check\<close> (paths, manifests, blobs, \<open>gc_artifacts\<close>; inspection, access and review).

  \<^bold>\<open>Configuration and proxy.\<close> \<open>Config_Check\<close> (\<open>load_config\<close>, \<open>validate_config\<close>), \<open>Proxy_Policy\<close>
  (capability policies of \<open>src/proxy.py\<close>), \<open>Proxy_Handler\<close> (\<open>ProxyHandler\<close>).

  \<^bold>\<open>Handlers.\<close> \<open>Request\<close> (what the handlers of \<open>GatewayHandler\<close> share), \<open>Routed_Request\<close>
  (\<open>handle_routed_request\<close>), \<open>Endpoints\<close> (the other handlers and the dispatch of \<open>do_GET\<close> and
  \<open>do_POST\<close>), \<open>Endpoint_Effects\<close> (which store changes at which endpoint; the locale \<open>kept_part\<close> has
  the two stores as instances). These theories compose all the others as the code does, so their
  theorems speak of whole requests: only an authorised request that every check admits reaches a backend, a request is
  answered unless the deadline cut it or its error message cannot be encoded, the kill switch stops everything but
  the health checks.

  \<^bold>\<open>Research service.\<close> \<open>src/setup/research-service/research_service.py\<close> stands behind two routes of
  the gateway and is the only part that talks to the internet. \<open>Research_Fetch\<close> (\<open>url_problem\<close>,
  \<open>public_addresses\<close>, \<open>LinkParser\<close>, \<open>do_fetch\<close>, \<open>do_search\<close>), \<open>Research_Service\<close> (\<open>Registry\<close>, the two
  signatures, \<open>do_POST\<close>) and \<open>Research_Safety\<close>: which connections a request can cause and how many, the
  quotas under interleaved critical sections (an \<open>inductive\<close> relation that \<open>do_fetch\<close> and \<open>do_search\<close>
  refine), and that it accepts what the gateway signs.

  \<^bold>\<open>Receipt collector.\<close> \<open>src/scripts/result_receipt_collector.py\<close> receives the receipts and audit anchors the
  gateway sends. \<open>Signed_Headers\<close> (what the gateway's signed headers hold, shared with the research service) and
  \<open>Receipt_Collector\<close> (configuration, token and signature checks, anchors, the two files): what it stores, and
  that an exported anchor of a verified log is stored.

  \<^bold>\<open>Worker.\<close> \<open>src/setup/firecracker-worker/worker_agent.py\<close> runs in a disposable guest and reaches everything but
  the pages of the reader profile through the gateway. \<open>Worker_Agent\<close> (replies, warnings, requests),
  \<open>Worker_Loop\<close> (the researcher's turns), \<open>Worker_Run\<close> (the reader, the run of \<open>main\<close>) and
  \<open>Worker_Bounds\<close>: a run ends, with bounded numbers of model calls, tool calls, opened pages and submissions.

  \<^bold>\<open>Parameters.\<close> A record of functions stands for what the code calls outside \<open>src/\<close> or what HOL has
  no reading of: regular expressions, SHA-256 and HMAC, JSON printing and parsing, base64, URL
  splitting, address tests, Unicode tables, reading a number or a time from text, the answers of
  models and backends. The laws a theorem needs of them are its named hypotheses, and a witness
  instantiates each on concrete functions.

  \<^bold>\<open>Simplifications.\<close> Characters are those below code point 256; whether a text can be written as UTF-8 is a
  parameter (\<open>c_encodes\<close>), since a lone surrogate is no such character. Floats and times are rationals; times whose
  conversion to UTC overflows are left out. The clock is read once per request, and one random identifier stands
  for those a request draws. The text of an error message is modelled where the source has one for its code
  (\<open>fixed_messages\<close>), and is the parameter \<open>c_message\<close> otherwise; a complaint about a configuration is kept as the
  name of the setting. A critical section under a lock is one atomic step, and so are the garbage collection of
  artifacts and the appends of the receipt collector, for which the source takes no lock. Agents are those of a
  configuration that \<open>validate_config\<close> accepted. A stored manifest whose bytes are no UTF-8 is left out, and so is the
  connection to the search backend of the research service, whose address is configured. A socket write does not
  fail. A list that Python shares between two objects is a value that is passed along.

  \<^bold>\<open>Bounds and termination.\<close> No fuel is used: every recursion is structural or has a measure,
  so that every function is total;
  the loop over redirects has the redirects left as its measure.

  \<^bold>\<open>Not modelled.\<close> Sockets, the deadline timer, the threads of the servers and file modes; the calls to the
  models of the guards (their answers are parameters); command lines. Of the tools around the gateway: the
  operator's and orchestrator's clients \<open>scripts/asgctl.py\<close>, \<open>scripts/asgctl_ops.py\<close> and \<open>scripts/asg_mcp.py\<close>, the
  shim \<open>scripts/openai_asg_shim.py\<close>, the spawning of guests (\<open>setup/firecracker-worker\<close> but for the agent inside),
  the example \<open>examples/disposable-search-agent\<close>, the evaluation, smoke test and setup scripts, and \<open>presets\<close>.
\<close>

end
